(* ===== verification/Prelude.thy ===== *)
theory Prelude
  imports Main "HOL-Library.Char_ord" "HOL-Library.List_Lexorder"
begin

text \<open>
  Shared ground of the development: the result types every component returns
  (\<open>'e + 'a\<close> with \<open>Inl\<close> for a Go error), the calls on a world state that the
  ports of \<^verbatim>\<open>internal/ports\<close> are (\<open>'w \<Rightarrow> 'w \<times> (go_error + 'a)\<close>),
  the two combinators that translate the \<^verbatim>\<open>if err != nil\<close> chains of the source, and
  the automation over them.  The collections are:
  \<^item> \<open>run_iff\<close>: when a chain of calls returns a value (inversion of each combinator);
  \<^item> \<open>frame\<close>: facts that a call leaves a part of the state alone;
  \<^item> \<open>code_checks\<close>: characterisations of the constructors and validators.
\<close>

named_theorems run_iff "inversion of chains of calls"
named_theorems frame "what a call leaves unchanged"
named_theorems code_checks "when a constructor or validator accepts"

subsection \<open>Calls that read and write a world state\<close>

type_synonym ('w, 'e, 'a) call = "'w \<Rightarrow> 'w \<times> ('e + 'a)"

definition ret :: "'a \<Rightarrow> ('w, 'e, 'a) call" where
  "ret a = (\<lambda>w. (w, Inr a))"

definition fail :: "'e \<Rightarrow> ('w, 'e, 'a) call" where
  "fail e = (\<lambda>w. (w, Inl e))"

definition lift :: "'e + 'a \<Rightarrow> ('w, 'e, 'a) call" where
  "lift r = (\<lambda>w. (w, r))"

text \<open>
  \<open>attempt m h k\<close> is the Go fragment
  \<^verbatim>\<open>x, err := m(); if err != nil { h(err) }; k(x)\<close>, where the error branch returns.
\<close>

definition attempt ::
  "('w, 'e, 'a) call \<Rightarrow> ('e \<Rightarrow> ('w, 'f, 'b) call) \<Rightarrow> ('a \<Rightarrow> ('w, 'f, 'b) call) \<Rightarrow> ('w, 'f, 'b) call" where
  "attempt m h k = (\<lambda>w. case m w of (w', Inl e) \<Rightarrow> h e w' | (w', Inr a) \<Rightarrow> k a w')"

text \<open>
  \<open>orFail m f k\<close> is the common case in which the error branch only returns the error,
  wrapped by \<open>f\<close>.
\<close>

definition orFail ::
  "('w, 'e, 'a) call \<Rightarrow> ('e \<Rightarrow> 'f) \<Rightarrow> ('a \<Rightarrow> ('w, 'f, 'b) call) \<Rightarrow> ('w, 'f, 'b) call" where
  "orFail m f k = attempt m (\<lambda>e. fail (f e)) k"

text \<open>\<open>reads\<close> is a call that cannot fail, such as a reading of the clock.\<close>

definition reads :: "('w \<Rightarrow> 'w \<times> 'a) \<Rightarrow> ('a \<Rightarrow> ('w, 'e, 'b) call) \<Rightarrow> ('w, 'e, 'b) call" where
  "reads m k = (\<lambda>w. case m w of (w', a) \<Rightarrow> k a w')"

text \<open>\<open>deferring c m\<close> is \<^verbatim>\<open>defer c(); return m()\<close>, where the result of \<open>c\<close> is dropped.\<close>

definition deferring :: "('w, 'f, 'b) call \<Rightarrow> ('w, 'e, 'a) call \<Rightarrow> ('w, 'e, 'a) call" where
  "deferring c m = (\<lambda>w. case m w of (w', r) \<Rightarrow> (fst (c w'), r))"

lemma ret_run [simp]: "ret a w = (w, Inr a)"
  by (simp add: ret_def)

lemma fail_run [simp]: "fail e w = (w, Inl e)"
  by (simp add: fail_def)

lemma lift_run [simp]: "lift r w = (w, r)"
  by (simp add: lift_def)

lemma attempt_Inl [simp]: "m w = (w', Inl e) \<Longrightarrow> attempt m h k w = h e w'"
  by (simp add: attempt_def)

lemma attempt_Inr [simp]: "m w = (w', Inr a) \<Longrightarrow> attempt m h k w = k a w'"
  by (simp add: attempt_def)

lemma orFail_Inl [simp]: "m w = (w', Inl e) \<Longrightarrow> orFail m f k w = (w', Inl (f e))"
  by (simp add: orFail_def)

lemma orFail_Inr [simp]: "m w = (w', Inr a) \<Longrightarrow> orFail m f k w = k a w'"
  by (simp add: orFail_def)

lemma reads_run [simp]: "m w = (w', a) \<Longrightarrow> reads m k w = k a w'"
  by (simp add: reads_def)

lemma attempt_iff:
  "attempt m h k w = r \<longleftrightarrow>
     (\<exists>w' e. m w = (w', Inl e) \<and> h e w' = r) \<or> (\<exists>w' a. m w = (w', Inr a) \<and> k a w' = r)"
  by (auto simp: attempt_def split: prod.splits sum.splits)

lemma orFail_iff:
  "orFail m f k w = r \<longleftrightarrow>
     (\<exists>w' e. m w = (w', Inl e) \<and> r = (w', Inl (f e))) \<or> (\<exists>w' a. m w = (w', Inr a) \<and> k a w' = r)"
  by (auto simp: orFail_def attempt_iff)

lemma reads_iff: "reads m k w = r \<longleftrightarrow> (\<exists>w' a. m w = (w', a) \<and> k a w' = r)"
  by (auto simp: reads_def split: prod.splits)

lemma orFail_ok [run_iff]:
  "orFail m f k w = (v, Inr b) \<longleftrightarrow> (\<exists>w' a. m w = (w', Inr a) \<and> k a w' = (v, Inr b))"
  by (auto simp: orFail_iff)

lemma reads_ok [run_iff]:
  "reads m k w = (v, Inr b) \<longleftrightarrow> (\<exists>w' a. m w = (w', a) \<and> k a w' = (v, Inr b))"
  by (auto simp: reads_iff)

lemma lift_ok [run_iff]: "lift r w = (v, Inr b) \<longleftrightarrow> v = w \<and> r = Inr b"
  by auto

lemma ret_ok [run_iff]: "ret a w = (v, Inr b) \<longleftrightarrow> v = w \<and> a = b"
  by auto

lemma fail_ok [run_iff]: "fail e w = (v, Inr b) \<longleftrightarrow> False"
  by simp

text \<open>Evaluation runs a call only when it has its world.\<close>

lemma call_codes [code]:
  "ret a w = (w, Inr a)"
  "fail e w = (w, Inl e)"
  "lift r w = (w, r)"
  "attempt m h k w = (case m w of (w', r) \<Rightarrow> case r of Inl e \<Rightarrow> h e w' | Inr a \<Rightarrow> k a w')"
  "orFail m f k w = (case m w of (w', r) \<Rightarrow> case r of Inl e \<Rightarrow> (w', Inl (f e)) | Inr a \<Rightarrow> k a w')"
  "reads n l w = (case n w of (w', b) \<Rightarrow> l b w')"
  "deferring c m w = (case m w of (w', r) \<Rightarrow> (fst (c w'), r))"
  by (auto simp: orFail_def attempt_def reads_def deferring_def split: prod.splits sum.splits)

text \<open>A guard chooses the call before the call is run.\<close>

lemma if_call [simp]: "(if c then m else k) w = (if c then m w else k w)"
  by simp

lemma if_fail_ok [run_iff]:
  "(if c then fail e else k) w = (v, Inr b) \<longleftrightarrow> \<not> c \<and> k w = (v, Inr b)"
  by simp

text \<open>\<open>keeps g m\<close>: the call \<open>m\<close> leaves what \<open>g\<close> observes alone.\<close>

definition keeps :: "('w \<Rightarrow> 'x) \<Rightarrow> ('w \<Rightarrow> 'w \<times> 'a) \<Rightarrow> bool" where
  "keeps g m \<longleftrightarrow> (\<forall>w. g (fst (m w)) = g w)"

lemma keepsD: "keeps g m \<Longrightarrow> m w = (w', r) \<Longrightarrow> g w' = g w"
  by (metis keeps_def fst_conv)

lemma keepsI: "(\<And>w w' r. m w = (w', r) \<Longrightarrow> g w' = g w) \<Longrightarrow> keeps g m"
  by (metis keeps_def prod.collapse)

lemma keeps_ret [frame]: "keeps g (ret a)"
  and keeps_fail [frame]: "keeps g (fail e)"
  and keeps_lift [frame]: "keeps g (lift r)"
  by (simp_all add: keeps_def)

lemma keeps_attempt [frame]:
  "keeps g m \<Longrightarrow> (\<And>e. keeps g (h e)) \<Longrightarrow> (\<And>a. keeps g (k a)) \<Longrightarrow> keeps g (attempt m h k)"
  by (auto simp: keeps_def attempt_def split: prod.splits sum.splits) (metis fst_conv)+

lemma keeps_orFail [frame]:
  "keeps g m \<Longrightarrow> (\<And>a. keeps g (k a)) \<Longrightarrow> keeps g (orFail m f k)"
  by (auto simp: orFail_def intro: frame)

lemma keeps_reads [frame]: "keeps g m \<Longrightarrow> (\<And>a. keeps g (k a)) \<Longrightarrow> keeps g (reads m k)"
  by (auto simp: keeps_def reads_def split: prod.splits) (metis fst_conv)

lemma keeps_deferring [frame]: "keeps g c \<Longrightarrow> keeps g m \<Longrightarrow> keeps g (deferring c m)"
  by (auto simp: keeps_def deferring_def split: prod.splits) (metis fst_conv)

text \<open>\<open>follows R m\<close>: every run of the call \<open>m\<close> is a step of the reflexive, transitive \<open>R\<close>.\<close>

definition follows :: "('w \<Rightarrow> 'w \<Rightarrow> bool) \<Rightarrow> ('w \<Rightarrow> 'w \<times> 'a) \<Rightarrow> bool" where
  "follows R m \<longleftrightarrow> (\<forall>w. R w (fst (m w)))"

lemma followsD: "follows R m \<Longrightarrow> m w = (w', r) \<Longrightarrow> R w w'"
  by (metis follows_def fst_conv)

lemma followsI: "(\<And>w w' r. m w = (w', r) \<Longrightarrow> R w w') \<Longrightarrow> follows R m"
  by (metis follows_def prod.collapse)

lemma follows_mono: "follows R m \<Longrightarrow> (\<And>w w'. R w w' \<Longrightarrow> S w w') \<Longrightarrow> follows S m"
  by (simp add: follows_def)

lemma follows_attempt:
  "transp R \<Longrightarrow> follows R m \<Longrightarrow> (\<And>e. follows R (h e)) \<Longrightarrow> (\<And>a. follows R (k a)) \<Longrightarrow>
   follows R (attempt m h k)"
  by (auto simp: follows_def attempt_def split: prod.splits sum.splits) (metis fst_conv transpE)+

lemma follows_orFail:
  "reflp R \<Longrightarrow> transp R \<Longrightarrow> follows R m \<Longrightarrow> (\<And>a. follows R (k a)) \<Longrightarrow> follows R (orFail m f k)"
  unfolding orFail_def by (rule follows_attempt) (simp_all add: follows_def reflpD)

lemma follows_reads:
  "transp R \<Longrightarrow> follows R m \<Longrightarrow> (\<And>a. follows R (k a)) \<Longrightarrow> follows R (reads m k)"
  by (auto simp: follows_def reads_def split: prod.splits) (metis fst_conv transpE)

lemma follows_deferring: "transp R \<Longrightarrow> follows R c \<Longrightarrow> follows R m \<Longrightarrow> follows R (deferring c m)"
  by (auto simp: follows_def deferring_def split: prod.splits) (metis fst_conv transpE)

lemma deferring_iff:
  "deferring c m w = (v, r) \<longleftrightarrow> (\<exists>w'. m w = (w', r) \<and> v = fst (c w'))"
  by (auto simp: deferring_def split: prod.splits)

lemma follows_pure: "reflp R \<Longrightarrow> follows R (ret a)" "reflp R \<Longrightarrow> follows R (fail e)"
    "reflp R \<Longrightarrow> follows R (lift r)"
  by (simp_all add: follows_def reflpD)

subsection \<open>Results without a state\<close>

text \<open>\<open>require c e k\<close> is the guard \<^verbatim>\<open>if !c { return e }\<close>.\<close>

definition require :: "bool \<Rightarrow> 'e \<Rightarrow> 'e + 'a \<Rightarrow> 'e + 'a" where
  "require c e k = (if c then k else Inl e)"

definition andThen :: "'e + 'a \<Rightarrow> ('e \<Rightarrow> 'f) \<Rightarrow> ('a \<Rightarrow> 'f + 'b) \<Rightarrow> 'f + 'b" where
  "andThen r f k = (case r of Inl e \<Rightarrow> Inl (f e) | Inr a \<Rightarrow> k a)"

definition isOk :: "'e + 'a \<Rightarrow> bool" where
  "isOk r = (case r of Inl _ \<Rightarrow> False | Inr _ \<Rightarrow> True)"

lemma require_iff [run_iff]: "require c e k = Inr a \<longleftrightarrow> c \<and> k = Inr a"
  by (simp add: require_def)

lemma require_simps [simp]: "require True e k = k" "require False e k = Inl e"
  by (simp_all add: require_def)

lemma andThen_simps [simp]: "andThen (Inl e) f k = Inl (f e)" "andThen (Inr a) f k = k a"
  by (simp_all add: andThen_def)

lemma andThen_iff [run_iff]: "andThen r f k = Inr b \<longleftrightarrow> (\<exists>a. r = Inr a \<and> k a = Inr b)"
  by (cases r) auto

lemma isOk_simps [simp]: "isOk (Inr a)" "\<not> isOk (Inl e)"
  by (simp_all add: isOk_def)

lemma isOk_iff: "isOk r \<longleftrightarrow> (\<exists>a. r = Inr a)"
  by (cases r) auto

lemma sum_is_Inr: "(\<forall>e. r \<noteq> Inl e) \<longleftrightarrow> (\<exists>a. r = Inr a)"
  by (cases r) auto

lemma run_ok: "isOk (snd run) \<Longrightarrow> \<exists>w' a. run = (w', Inr a)"
  by (cases run) (auto simp: isOk_iff)

subsection \<open>Lists in a total order, cut at a limit\<close>

text \<open>
  Pages are prefixes of a list sorted by an injective key: the elements of a prefix come
  before every element of the rest.
\<close>

lemma sorted_wrt_take_drop:
  assumes "sorted_wrt R xs" "x \<in> set (take n xs)" "y \<in> set (drop n xs)"
  shows "R x y"
proof -
  have "sorted_wrt R (take n xs @ drop n xs)" using assms(1) by simp
  then show ?thesis using assms(2,3) by (simp only: sorted_wrt_append)
qed

lemma last_take_in: "0 < n \<Longrightarrow> xs \<noteq> [] \<Longrightarrow> last (take n xs) \<in> set (take n xs)"
  by (intro last_in_set) auto

lemma take_Suc_length: "length (take (Suc n) xs) \<le> n \<Longrightarrow> take (Suc n) xs = xs"
  by (simp add: min_def split: if_splits)

end
