(* ===== verification/GoLib.thy ===== *)
theory GoLib
  imports Prelude "HOL-Library.Word"
begin

text \<open>
  What the program uses of the Go language and its standard library: errors and their wrapping
  (\<^verbatim>\<open>errors.New\<close>, \<^verbatim>\<open>fmt.Errorf\<close> with \<^verbatim>\<open>%w\<close>, \<^verbatim>\<open>errors.Is\<close>), the sentinel errors of every
  package, strings as byte sequences with \<^verbatim>\<open>strings.TrimSpace\<close>, \<^verbatim>\<open>ToUpper\<close>, \<^verbatim>\<open>ToLower\<close>
  and the UTF-8 functions, 64-bit integers, and \<^verbatim>\<open>time.Time\<close>.
  A Go string is the \<open>char list\<close> of its bytes.
\<close>

section \<open>Errors\<close>

text \<open>The sentinel errors, one datatype per package that declares them.\<close>

datatype chat_error =
    Chat_ErrInvalidSequence | Chat_ErrInvalidID | Chat_ErrInvalidParticipant
  | Chat_ErrSameParticipant | Chat_ErrInvalidCreatedAt | Chat_ErrInvalidUpdatedAt
  | Chat_ErrInvalidSummarySortAt | Chat_ErrUserNotParticipant

datatype session_error =
    Session_ErrInvalidID | Session_ErrInvalidUserID | Session_ErrInvalidTokenDigest
  | Session_ErrInvalidPeriod | Session_ErrExpired | Session_ErrRevoked
  | Session_ErrRefreshTokenMismatch

datatype timeline_error =
    Timeline_ErrInvalidID | Timeline_ErrInvalidChatID | Timeline_ErrInvalidKind
  | Timeline_ErrInvalidCreatedAt | Timeline_ErrInvalidUpdatedAt | Timeline_ErrInvalidSenderID
  | Timeline_ErrInvalidClientMessageID | Timeline_ErrInvalidSequence
  | Timeline_ErrInvalidContentType | Timeline_ErrInvalidContent

datatype user_error =
    User_ErrInvalidID | User_ErrInvalidEmail | User_ErrInvalidPassword
  | User_ErrInvalidPasswordHash | User_ErrInvalidCreatedAt

datatype ports_error =
    ErrInvalidTimelinePagination | ErrUserNotFound | ErrEmailAlreadyExists | ErrSessionNotFound
  | ErrSessionConflict | ErrInvalidToken | ErrExpiredToken | ErrChatNotFound
  | ErrMessageIdempotencyConflict | ErrImageNotFound | ErrImageUnavailable
  | ErrImageUploadConflict | ErrImageUploadBusy | ErrImageExpired
  | ErrInvalidMessageCreatedEvent | ErrInvalidOutboxEvent

datatype auth_error =
    Auth_ErrNilDependency | Auth_ErrEmailAlreadyRegistred | Auth_ErrInvalidCredentials
  | Auth_ErrInvalidRefreshToken | Auth_ErrInvalidConfiguration | Auth_ErrUnauthenticated

datatype messages_error =
    Messages_ErrNilDependency | Messages_ErrInvalidCurrentUserID | Messages_ErrInvalidChatID
  | Messages_ErrInvalidClientMessageID | Messages_ErrInvalidContentType
  | Messages_ErrInvalidContent | Messages_ErrContentTooLong | Messages_ErrChatNotFound
  | Messages_ErrIdempotencyConflict

datatype chats_error =
    Chats_ErrNilDependency | Chats_ErrInvalidCurrentUserID | Chats_ErrInvalidRelatedUserID
  | Chats_ErrSelfDirectChat | Chats_ErrRelatedUserNotFound | Chats_ErrInvalidPage
  | Chats_ErrInvalidPageSize | Chats_ErrInvalidCursor | Chats_ErrInconsistentPagination

datatype timeline_list_error =
    TimelineList_ErrNilDependency | TimelineList_ErrInvalidCurrentUserID
  | TimelineList_ErrInvalidChatID | TimelineList_ErrInvalidPageSize
  | TimelineList_ErrInvalidCursor | TimelineList_ErrChatNotFound

datatype users_error =
    Users_ErrNilDependency | Users_ErrInvalidPage | Users_ErrInvalidPageSize
  | Users_ErrInvalidCursor | Users_ErrInconsistentPagination

datatype store_error =
    Store_ErrNilCollection | Store_ErrNilSession | Store_ErrInvalidExpectDigest
  | Store_ErrInvalidRotationTime | Store_ErrInvalidDocument | Store_ErrInvalidCreateParams
  | Store_ErrInvalidStoredDocument | Store_ErrInvalidListChat | Store_ErrInvalidListLimit
  | Store_ErrInvalidListCursor | Store_ErrInvalidListParticipant | Store_ErrInvalidChatID
  | Store_ErrNilChat | Store_ErrNilUser | Store_ErrUninitializedClient
  | Store_ErrNilTransactionOperation

datatype images_error = Images_ErrInvalidUpload

datatype request_error =
    Request_ErrInvalidBodyLimit | Request_ErrUnsupportedMediaType | Request_ErrEmptyBody
  | Request_ErrBodyTooLarge | Request_ErrMalformedJSON | Request_ErrMultipleJSONValues

datatype cookie_error =
    Cookie_ErrInvalidConfig | Cookie_ErrEmptyToken | Cookie_ErrInvalidExpiration
  | Cookie_ErrCookieNotFound | Cookie_ErrDuplicateCookie

datatype sentinel =
    ChatE chat_error | SessionE session_error | TimelineE timeline_error | UserE user_error
  | PortsE ports_error | AuthE auth_error | MessagesE messages_error | ChatsE chats_error
  | TimelineListE timeline_list_error | UsersE users_error | StoreE store_error | ImagesE images_error
  | RequestE request_error | CookieE cookie_error
  | ContextCanceled | DeadlineExceeded

text \<open>
  An error is a sentinel, a fresh \<^verbatim>\<open>errors.New\<close>, an error of a driver (a duplicate key with the
  name of the index, or any other), or a wrapping \<^verbatim>\<open>fmt.Errorf("...: %w", err)\<close>.
  \<open>Panic\<close> is the outcome of a run-time panic, such as the use of a nil pointer.
  \<^verbatim>\<open>fmt.Errorf("%w: %v", ErrX, err)\<close> wraps only \<^verbatim>\<open>ErrX\<close>; the text of \<open>err\<close> is dropped.
\<close>

datatype go_error =
    Sentinel sentinel
  | NewError string
  | DuplicateKey string
  | DriverError string
  | Wrap string go_error
  | Panic string

fun errors_is :: "go_error \<Rightarrow> sentinel \<Rightarrow> bool" where
  "errors_is (Sentinel t) s \<longleftrightarrow> t = s"
| "errors_is (Wrap _ e) s \<longleftrightarrow> errors_is e s"
| "errors_is _ _ \<longleftrightarrow> False"

text \<open>\<^verbatim>\<open>mongo.IsDuplicateKeyError\<close> follows the wrapping chain (\<^verbatim>\<open>errors.As\<close>).\<close>

fun is_duplicate_key :: "go_error \<Rightarrow> bool" where
  "is_duplicate_key (DuplicateKey _) \<longleftrightarrow> True"
| "is_duplicate_key (Wrap _ e) \<longleftrightarrow> is_duplicate_key e"
| "is_duplicate_key _ \<longleftrightarrow> False"

fun duplicate_index :: "go_error \<Rightarrow> string option" where
  "duplicate_index (DuplicateKey i) = Some i"
| "duplicate_index (Wrap _ e) = duplicate_index e"
| "duplicate_index _ = None"

lemma errors_is_Wrap_Sentinel [simp]: "errors_is (Wrap m (Sentinel t)) s \<longleftrightarrow> t = s"
  by simp

lemma duplicate_not_sentinel: "is_duplicate_key e \<Longrightarrow> \<not> errors_is e s"
  by (induction e) auto

lemma errors_is_unique: "errors_is e s \<Longrightarrow> errors_is e t \<Longrightarrow> s = t"
  by (induction e) auto

abbreviation storeErr :: "store_error \<Rightarrow> go_error" where
  "storeErr e \<equiv> Sentinel (StoreE e)"

abbreviation portsErr :: "ports_error \<Rightarrow> go_error" where
  "portsErr e \<equiv> Sentinel (PortsE e)"

text \<open>A \<^verbatim>\<open>context.Context\<close> is what its \<^verbatim>\<open>Err\<close> method answers.\<close>

type_synonym 'w go_context = "('w, go_error, unit) call"

section \<open>Integers\<close>

text \<open>
  \<^verbatim>\<open>int64\<close> and \<^verbatim>\<open>int\<close> values are \<open>int\<close>; where an operation of the source can
  overflow, its result is wrapped by \<open>wrap64\<close>.  Go's division truncates towards zero.
\<close>

definition wrap64 :: "int \<Rightarrow> int" where
  "wrap64 x = (x + 2 ^ 63) mod 2 ^ 64 - 2 ^ 63"

definition is_int64 :: "int \<Rightarrow> bool" where
  "is_int64 x \<longleftrightarrow> - (2 ^ 63) \<le> x \<and> x < 2 ^ 63"

definition go_div :: "int \<Rightarrow> int \<Rightarrow> int" where
  "go_div a b = sgn a * sgn b * (\<bar>a\<bar> div \<bar>b\<bar>)"

lemma wrap64_id [simp]: "is_int64 x \<Longrightarrow> wrap64 x = x"
  by (simp add: wrap64_def is_int64_def)

lemma wrap64_range: "is_int64 (wrap64 x)"
proof -
  have "0 \<le> (x + 2 ^ 63) mod 2 ^ 64" and "(x + 2 ^ 63) mod 2 ^ 64 < (2 :: int) ^ 64"
    by simp_all
  then show ?thesis unfolding wrap64_def is_int64_def by simp
qed

lemma go_div_nonneg: "0 \<le> a \<Longrightarrow> 0 < b \<Longrightarrow> go_div a b = a div b"
  by (cases "a = 0") (auto simp: go_div_def)

section \<open>Time\<close>

text \<open>
  A \<^verbatim>\<open>time.Time\<close> is the number of nanoseconds since January 1, year 1, 00:00 UTC, so that the
  zero value is 0.  The location of a time only changes how it prints, so \<^verbatim>\<open>UTC()\<close> is the
  identity; \<^verbatim>\<open>Before\<close>, \<^verbatim>\<open>After\<close> and \<^verbatim>\<open>Add\<close> are \<open><\<close>, \<open>>\<close> and \<open>+\<close>.
  A \<^verbatim>\<open>time.Duration\<close> is its number of nanoseconds.
\<close>

type_synonym time = int
type_synonym duration = int

definition IsZero :: "time \<Rightarrow> bool" where
  "IsZero t \<longleftrightarrow> t = 0"

abbreviation (input) UTC :: "time \<Rightarrow> time" where
  "UTC t \<equiv> t"

abbreviation millisecond :: duration where "millisecond \<equiv> 1000000"
abbreviation second :: duration where "second \<equiv> 1000000000"
abbreviation minute :: duration where "minute \<equiv> 60000000000"
abbreviation hour :: duration where "hour \<equiv> 3600000000000"

text \<open>\<^verbatim>\<open>Time.Sub\<close> saturates at the largest and smallest duration.\<close>

definition time_Sub :: "time \<Rightarrow> time \<Rightarrow> duration" where
  "time_Sub t u = max (- (2 ^ 63)) (min (2 ^ 63 - 1) (t - u))"

text \<open>The ports \<^verbatim>\<open>ports.IDGenerator\<close> and \<^verbatim>\<open>ports.Clock\<close>.\<close>

type_synonym 'w id_generator = "('w, go_error, string) call"
type_synonym 'w clock = "'w \<Rightarrow> 'w \<times> time"

section \<open>Strings\<close>

text \<open>
  \<^verbatim>\<open>strings.TrimSpace\<close> removes the encodings of \<^verbatim>\<open>unicode.IsSpace\<close> runes at both ends: the
  six ASCII ones and the UTF-8 encodings of U+0085, U+00A0, U+1680, U+2000 to U+200A, U+2028,
  U+2029, U+202F, U+205F and U+3000.  None is a prefix or a suffix of another one.
\<close>

definition bytes :: "nat list \<Rightarrow> string" where
  "bytes ns = map char_of ns"

definition space_encodings :: "string list" where
  "space_encodings = map bytes
     ([[9], [10], [11], [12], [13], [32], [0xC2, 0x85], [0xC2, 0xA0], [0xE1, 0x9A, 0x80]]
      @ map (\<lambda>n. [0xE2, 0x80, 0x80 + n]) [0..<11]
      @ [[0xE2, 0x80, 0xA8], [0xE2, 0x80, 0xA9], [0xE2, 0x80, 0xAF], [0xE2, 0x81, 0x9F],
         [0xE3, 0x80, 0x80]])"

lemma space_encodings_code [code]: "space_encodings = [[CHR 0x09], [CHR 0x0A], [CHR 0x0B], [CHR 0x0C], [CHR 0x0D], [CHR 0x20],
  [CHR 0xC2, CHR 0x85], [CHR 0xC2, CHR 0xA0], [CHR 0xE1, CHR 0x9A, CHR 0x80],
  [CHR 0xE2, CHR 0x80, CHR 0x80], [CHR 0xE2, CHR 0x80, CHR 0x81], [CHR 0xE2, CHR 0x80, CHR 0x82],
  [CHR 0xE2, CHR 0x80, CHR 0x83], [CHR 0xE2, CHR 0x80, CHR 0x84], [CHR 0xE2, CHR 0x80, CHR 0x85],
  [CHR 0xE2, CHR 0x80, CHR 0x86], [CHR 0xE2, CHR 0x80, CHR 0x87], [CHR 0xE2, CHR 0x80, CHR 0x88],
  [CHR 0xE2, CHR 0x80, CHR 0x89], [CHR 0xE2, CHR 0x80, CHR 0x8A], [CHR 0xE2, CHR 0x80, CHR 0xA8],
  [CHR 0xE2, CHR 0x80, CHR 0xA9], [CHR 0xE2, CHR 0x80, CHR 0xAF], [CHR 0xE2, CHR 0x81, CHR 0x9F],
  [CHR 0xE3, CHR 0x80, CHR 0x80]]" by code_simp

fun strip_prefix :: "string list \<Rightarrow> string \<Rightarrow> string option" where
  "strip_prefix [] s = None"
| "strip_prefix (p # ps) s =
     (if p \<noteq> [] \<and> take (length p) s = p then Some (drop (length p) s) else strip_prefix ps s)"

lemma strip_prefix_shorter: "strip_prefix ps s = Some t \<Longrightarrow> length t < length s"
proof (induction ps)
  case (Cons p ps)
  show ?case
  proof (cases "p \<noteq> [] \<and> take (length p) s = p")
    case True
    then have "0 < length p" and "length p \<le> length s"
      by (auto, metis length_take min.cobounded1)
    moreover have "length t = length s - length p" using True Cons.prems by auto
    ultimately show ?thesis by linarith
  next
    case False
    with Cons show ?thesis by auto
  qed
qed simp

function trim_with :: "string list \<Rightarrow> string \<Rightarrow> string" where
  "trim_with ps s = (case strip_prefix ps s of None \<Rightarrow> s | Some t \<Rightarrow> trim_with ps t)"
  by pat_completeness auto
termination
  by (relation "measure (\<lambda>(ps, s). length s)") (auto dest: strip_prefix_shorter)

declare trim_with.simps [simp del]

definition trim_left :: "string \<Rightarrow> string" where
  "trim_left s = trim_with space_encodings s"

definition trim_right :: "string \<Rightarrow> string" where
  "trim_right s = rev (trim_with (map rev space_encodings) (rev s))"

definition TrimSpace :: "string \<Rightarrow> string" where
  "TrimSpace s = trim_right (trim_left s)"

text \<open>A string is trimmed when it neither starts nor ends with a space.\<close>

lemma trim_with_stop [simp]: "strip_prefix ps s = None \<Longrightarrow> trim_with ps s = s"
  by (subst trim_with.simps) simp

lemma trim_with_done: "strip_prefix ps (trim_with ps s) = None"
proof (induction ps s rule: trim_with.induct)
  case (1 ps s)
  then show ?case by (subst trim_with.simps) (auto split: option.splits)
qed

lemma trim_with_idem [simp]: "trim_with ps (trim_with ps s) = trim_with ps s"
  by (simp add: trim_with_done)

lemma strip_prefix_suffix: "strip_prefix ps s = Some t \<Longrightarrow> \<exists>u. s = u @ t"
proof (induction ps)
  case (Cons p ps)
  then show ?case by (auto split: if_splits) (metis append_take_drop_id)
qed simp

lemma trim_with_suffix: "\<exists>u. s = u @ trim_with ps s"
proof (induction ps s rule: trim_with.induct)
  case (1 ps s)
  show ?case
  proof (cases "strip_prefix ps s")
    case None
    then show ?thesis by simp
  next
    case (Some t)
    then obtain u where "s = u @ t" using strip_prefix_suffix by blast
    moreover obtain v where "t = v @ trim_with ps t" using "1.IH" [OF Some] by blast
    moreover have "trim_with ps s = trim_with ps t" using Some by (subst trim_with.simps) simp
    ultimately show ?thesis by (metis append.assoc)
  qed
qed

text \<open>Removing bytes at the end leaves no space prefix where there was none.\<close>

lemma strip_prefix_None_iff:
  "strip_prefix ps s = None \<longleftrightarrow> (\<forall>p \<in> set ps. p = [] \<or> take (length p) s \<noteq> p)"
  by (induction ps) auto

lemma take_eq_prefix: "take (length p) s = p \<longleftrightarrow> (\<exists>t. s = p @ t)"
  by (metis append_eq_conv_conj append_take_drop_id)

lemma strip_prefix_None_append: "strip_prefix ps (s @ t) = None \<Longrightarrow> strip_prefix ps s = None"
  unfolding strip_prefix_None_iff take_eq_prefix by auto

lemma trim_left_trimmed: "strip_prefix space_encodings (TrimSpace s) = None"
proof -
  obtain u where "rev (trim_left s) = u @ trim_with (map rev space_encodings) (rev (trim_left s))"
    using trim_with_suffix by blast
  then have "trim_left s = trim_right (trim_left s) @ rev u"
    unfolding trim_right_def by (metis rev_append rev_rev_ident)
  moreover have "strip_prefix space_encodings (trim_left s) = None"
    by (simp add: trim_left_def trim_with_done)
  ultimately show ?thesis unfolding TrimSpace_def by (metis strip_prefix_None_append)
qed

lemma TrimSpace_idem [simp]: "TrimSpace (TrimSpace s) = TrimSpace s"
proof -
  have "trim_left (TrimSpace s) = TrimSpace s"
    using trim_left_trimmed by (simp add: trim_left_def)
  moreover have "trim_right (TrimSpace s) = TrimSpace s"
    by (simp add: TrimSpace_def trim_right_def)
  ultimately show ?thesis by (simp add: TrimSpace_def)
qed

lemma TrimSpace_Nil [simp]: "TrimSpace [] = []"
proof -
  have "strip_prefix ps [] = None" for ps by (auto simp: strip_prefix_None_iff)
  then show ?thesis by (simp add: TrimSpace_def trim_left_def trim_right_def)
qed

lemma TrimSpace_nonempty: "TrimSpace s \<noteq> [] \<Longrightarrow> s \<noteq> []"
  by auto

text \<open>A string of graphic ASCII characters is trimmed.\<close>

definition graphic :: "char \<Rightarrow> bool" where
  "graphic c \<longleftrightarrow> 33 \<le> (of_char c :: nat) \<and> (of_char c :: nat) < 127"

lemma space_encoding_hd_last:
  "p \<in> set space_encodings \<Longrightarrow> p \<noteq> [] \<and> \<not> graphic (hd p) \<and> \<not> graphic (last p)"
proof -
  have "list_all (\<lambda>p. p \<noteq> [] \<and> \<not> graphic (hd p) \<and> \<not> graphic (last p)) space_encodings"
    by code_simp
  then show "p \<in> set space_encodings \<Longrightarrow> ?thesis" by (simp add: list_all_iff)
qed

lemma TrimSpace_id: 
  assumes "list_all graphic s"
  shows "TrimSpace s = s"
proof -
  have pre: "take (length p) s \<noteq> p" if "p \<in> set space_encodings" for p
    using space_encoding_hd_last [OF that] assms
    by (metis append_take_drop_id hd_append2 hd_in_set list_all_iff append_is_Nil_conv)
  have post: "take (length p) (rev s) \<noteq> p" if p: "p \<in> rev ` set space_encodings" for p
  proof -
    obtain q where q: "q \<in> set space_encodings" "p = rev q" using p by blast
    then have "p \<noteq> []" "\<not> graphic (hd p)"
      using space_encoding_hd_last by (auto simp: hd_rev)
    then show ?thesis using assms
      by (metis append_take_drop_id hd_append2 hd_in_set list_all_iff append_is_Nil_conv set_rev)
  qed
  have "trim_left s = s"
    unfolding trim_left_def using pre by (intro trim_with_stop) (auto simp: strip_prefix_None_iff)
  moreover have "trim_with (map rev space_encodings) (rev s) = rev s"
    using post by (intro trim_with_stop) (auto simp: strip_prefix_None_iff)
  ultimately show ?thesis by (simp add: TrimSpace_def trim_right_def)
qed

text \<open>A string that starts with a graphic character is not blank.\<close>

lemma trim_with_keeps_last:
  assumes "\<And>p. p \<in> set ps \<Longrightarrow> p = [] \<or> last p \<noteq> c"
  shows "\<exists>r'. trim_with ps (r @ [c]) = r' @ [c]"
proof (induction "length r" arbitrary: r rule: less_induct)
  case less
  show ?case
  proof (cases "strip_prefix ps (r @ [c])")
    case None
    then show ?thesis by auto
  next
    case (Some t)
    have t: "\<exists>t'. t = t' @ [c]" using Some assms
    proof (induction ps)
      case (Cons p ps)
      show ?case
      proof (cases "p \<noteq> [] \<and> take (length p) (r @ [c]) = p")
        case True
        with Cons.prems(1) have d: "t = drop (length p) (r @ [c])" by simp
        show ?thesis
        proof (cases "length p \<le> length r")
          case True
          then show ?thesis using d by auto
        next
          case False
          then have "p = r @ [c]" using True by auto
          then show ?thesis using Cons.prems(2) [of p] by auto
        qed
      next
        case False
        with Cons show ?thesis by auto
      qed
    qed simp
    then obtain t' where t': "t = t' @ [c]" ..
    have "length t' < length r" using strip_prefix_shorter [OF Some] t' by simp
    from less [OF this] Some t' show ?thesis by (subst trim_with.simps) simp
  qed
qed

lemma TrimSpace_graphic_hd: "graphic c \<Longrightarrow> TrimSpace (c # s) \<noteq> []"
proof -
  assume c: "graphic c"
  have "strip_prefix space_encodings (c # s) = None"
    unfolding strip_prefix_None_iff take_eq_prefix
    using space_encoding_hd_last c by (auto simp: Cons_eq_append_conv) (metis list.sel(1))
  then have l: "trim_left (c # s) = c # s" by (simp add: trim_left_def)
  have "p = [] \<or> last p \<noteq> c" if "p \<in> set (map rev space_encodings)" for p
  proof -
    from that obtain q where q: "q \<in> set space_encodings" "p = rev q" by (metis image_iff set_map)
    from space_encoding_hd_last [OF q(1)] c have "q \<noteq> []" "hd q \<noteq> c" by blast+
    then show ?thesis using q(2) by (simp add: last_rev)
  qed
  from trim_with_keeps_last [OF this, where r = "rev s"] obtain r'
    where "trim_with (map rev space_encodings) (rev s @ [c]) = r' @ [c]" by blast
  then have "trim_right (c # s) = rev (r' @ [c])" by (simp only: trim_right_def rev.simps)
  then show ?thesis by (simp add: TrimSpace_def l)
qed

text \<open>\<open>blank s\<close> is the test \<^verbatim>\<open>strings.TrimSpace(s) == ""\<close>.\<close>

abbreviation blank :: "string \<Rightarrow> bool" where
  "blank s \<equiv> TrimSpace s = []"

subsection \<open>Case mapping\<close>

text \<open>
  \<^verbatim>\<open>strings.ToLower\<close> where the result is only compared with ASCII text: every upper-case ASCII
  letter is mapped, and a non-ASCII rune never maps to one of the characters \<^verbatim>\<open>0-9\<close>,
  \<^verbatim>\<open>a-f\<close> and \<^verbatim>\<open>-\<close> that the comparison accepts, so it is left alone here.
\<close>

definition lower_char :: "char \<Rightarrow> char" where
  "lower_char c = (if CHR ''A'' \<le> c \<and> c \<le> CHR ''Z'' then char_of (of_char c + 32 :: nat) else c)"

definition ascii_ToLower :: "string \<Rightarrow> string" where
  "ascii_ToLower s = map lower_char s"

text \<open>
  \<^verbatim>\<open>strings.ToUpper\<close> where the result is only compared with ASCII text.  Two non-ASCII runes
  have an ASCII upper case: U+0131 (bytes C4 B1) gives \<^verbatim>\<open>I\<close> and U+017F (C5 BF) gives
  \<^verbatim>\<open>S\<close>.  Every other non-ASCII rune stays non-ASCII and is left alone.
\<close>

definition upper_char :: "char \<Rightarrow> char" where
  "upper_char c = (if CHR ''a'' \<le> c \<and> c \<le> CHR ''z'' then char_of (of_char c - 32 :: nat) else c)"

fun ToUpper :: "string \<Rightarrow> string" where
  "ToUpper (c # d # s) =
     (if of_char c = (0xC4 :: nat) \<and> of_char d = (0xB1 :: nat) then CHR ''I'' # ToUpper s
      else if of_char c = (0xC5 :: nat) \<and> of_char d = (0xBF :: nat) then CHR ''S'' # ToUpper s
      else upper_char c # ToUpper (d # s))"
| "ToUpper [c] = [upper_char c]"
| "ToUpper [] = []"

subsection \<open>UTF-8\<close>

text \<open>
  The well-formed encoding at the front of a byte sequence (Unicode table 3-7, as
  \<^verbatim>\<open>unicode/utf8\<close> decodes it): its length, or \<open>None\<close>, where Go reads one byte as
  U+FFFD.
\<close>

definition cont :: "nat \<Rightarrow> nat \<Rightarrow> nat list \<Rightarrow> nat \<Rightarrow> bool" where
  "cont lo hi bs n \<longleftrightarrow>
     n \<le> length bs \<and> 0 < n \<and> lo \<le> bs ! 0 \<and> bs ! 0 \<le> hi \<and>
     list_all (\<lambda>b. 0x80 \<le> b \<and> b \<le> 0xBF) (take (n - 1) (drop 1 bs))"

fun utf8_width :: "nat list \<Rightarrow> nat option" where
  "utf8_width [] = None"
| "utf8_width (b # bs) =
     (if b < 0x80 then Some 1
      else if 0xC2 \<le> b \<and> b \<le> 0xDF \<and> cont 0x80 0xBF bs 1 then Some 2
      else if b = 0xE0 \<and> cont 0xA0 0xBF bs 2 then Some 3
      else if 0xE1 \<le> b \<and> b \<le> 0xEF \<and> b \<noteq> 0xED \<and> cont 0x80 0xBF bs 2 then Some 3
      else if b = 0xED \<and> cont 0x80 0x9F bs 2 then Some 3
      else if b = 0xF0 \<and> cont 0x90 0xBF bs 3 then Some 4
      else if 0xF1 \<le> b \<and> b \<le> 0xF3 \<and> cont 0x80 0xBF bs 3 then Some 4
      else if b = 0xF4 \<and> cont 0x80 0x8F bs 3 then Some 4
      else None)"

lemma utf8_width_pos: "utf8_width bs = Some n \<Longrightarrow> 0 < n"
  by (cases bs) (auto split: if_splits)

text \<open>The widths of the runes of a byte sequence; \<open>None\<close> is an invalid byte.\<close>

function rune_widths :: "nat list \<Rightarrow> nat option list" where
  "rune_widths bs =
     (if bs = [] then [] else
      case utf8_width bs of
        None \<Rightarrow> None # rune_widths (drop 1 bs)
      | Some n \<Rightarrow> Some n # rune_widths (drop n bs))"
  by pat_completeness auto
termination
  by (relation "measure length") (auto dest: utf8_width_pos)

declare rune_widths.simps [simp del]

definition RuneCountInString :: "string \<Rightarrow> nat" where
  "RuneCountInString s = length (rune_widths (map of_char s))"

definition ValidString :: "string \<Rightarrow> bool" where
  "ValidString s \<longleftrightarrow> list_all (\<lambda>w. w \<noteq> None) (rune_widths (map of_char s))"

lemma rune_widths_length: "length (rune_widths bs) \<le> length bs"
proof (induction bs rule: rune_widths.induct)
  case (1 bs)
  show ?case
  proof (cases "bs = []")
    case True
    then show ?thesis by (simp add: rune_widths.simps)
  next
    case False
    show ?thesis
    proof (cases "utf8_width bs")
      case None
      with False "1.IH"(1) have "length (rune_widths (drop 1 bs)) \<le> length (drop 1 bs)" by blast
      moreover have "rune_widths bs = None # rune_widths (drop 1 bs)"
        using None False by (subst rune_widths.simps) simp
      ultimately show ?thesis using False by (cases bs) auto
    next
      case (Some n)
      with False "1.IH"(2) have "length (rune_widths (drop n bs)) \<le> length (drop n bs)" by blast
      moreover have "rune_widths bs = Some n # rune_widths (drop n bs)"
        using Some False by (subst rune_widths.simps) simp
      ultimately show ?thesis using utf8_width_pos [OF Some] False
        by (cases bs) auto
    qed
  qed
qed

lemma RuneCountInString_le: "RuneCountInString s \<le> length s"
  using rune_widths_length [of "map of_char s"] by (simp add: RuneCountInString_def)

end
