(* ===== verification/DomainUser.thy ===== *)
theory DomainUser
  imports GoLib
begin

text \<open>
  The package \<^verbatim>\<open>internal/domain/user\<close>: identifiers, e-mail addresses, passwords and the
  account itself.  An identifier is a struct with one private string; it is the string here, and
  the zero value \<^verbatim>\<open>ID{}\<close> is the empty string.  The RFC 5322 parser of \<^verbatim>\<open>net/mail\<close> and the
  Unicode lower-case table are arguments (\<open>mail_ParseAddress\<close>, \<open>strings_ToLower\<close>).
\<close>

type_synonym user_ID = string
type_synonym email = string
type_synonym password_hash = string

abbreviation userErr :: "user_error \<Rightarrow> go_error + 'a" where
  "userErr e \<equiv> Inl (Sentinel (UserE e))"

definition user_ParseID :: "string \<Rightarrow> go_error + user_ID" where
  "user_ParseID rawID =
     (let normalizedID = TrimSpace rawID
      in if normalizedID = [] then userErr User_ErrInvalidID else Inr normalizedID)"

definition maxEmailLenght :: nat where "maxEmailLenght = 254"

definition ParseEmail ::
  "(string \<Rightarrow> string) \<Rightarrow> (string \<Rightarrow> string option) \<Rightarrow> string \<Rightarrow> go_error + email" where
  "ParseEmail strings_ToLower mail_ParseAddress rawEmail =
     (let normalizedEmail = strings_ToLower (TrimSpace rawEmail)
      in if normalizedEmail = [] \<or> length normalizedEmail > maxEmailLenght
         then userErr User_ErrInvalidEmail
         else case mail_ParseAddress normalizedEmail of
                None \<Rightarrow> userErr User_ErrInvalidEmail
              | Some address \<Rightarrow>
                  if address \<noteq> normalizedEmail then userErr User_ErrInvalidEmail
                  else Inr normalizedEmail)"

definition minPasswordLenght :: nat where "minPasswordLenght = 12"
definition maxPasswordLenght :: nat where "maxPasswordLenght = 128"

definition ValidatePlainPassword :: "string \<Rightarrow> go_error + unit" where
  "ValidatePlainPassword password =
     (let lenght = RuneCountInString password
      in if lenght < minPasswordLenght \<or> lenght > maxPasswordLenght
         then userErr User_ErrInvalidPassword else Inr ())"

definition NewPasswordHash :: "string \<Rightarrow> go_error + password_hash" where
  "NewPasswordHash encodeHash =
     (if blank encodeHash then userErr User_ErrInvalidPasswordHash else Inr encodeHash)"

record user =
  usr_id :: user_ID
  usr_email :: email
  usr_passwordHash :: password_hash
  usr_createdAt :: time

definition user_New :: "user_ID \<Rightarrow> email \<Rightarrow> password_hash \<Rightarrow> time \<Rightarrow> go_error + user" where
  "user_New ident email passwordHash createdAt =
     (if IsZero createdAt then userErr User_ErrInvalidCreatedAt
      else Inr \<lparr>usr_id = ident, usr_email = email, usr_passwordHash = passwordHash,
                usr_createdAt = UTC createdAt\<rparr>)"

text \<open>An identifier is accepted exactly when it is not blank, and is stored trimmed.\<close>

lemma user_ParseID_ok [code_checks, run_iff]:
  "user_ParseID raw = Inr ident \<longleftrightarrow> ident = TrimSpace raw \<and> ident \<noteq> []"
  by (auto simp: user_ParseID_def Let_def)

lemma user_ParseID_err: "user_ParseID raw = Inl e \<longleftrightarrow> blank raw \<and> e = Sentinel (UserE User_ErrInvalidID)"
  by (auto simp: user_ParseID_def Let_def)

lemma user_ParseID_idem: "user_ParseID raw = Inr ident \<Longrightarrow> user_ParseID ident = Inr ident"
  by (auto simp: code_checks)

lemma ParseEmail_ok [code_checks]:
  "ParseEmail low parse raw = Inr email \<longleftrightarrow>
     email = low (TrimSpace raw) \<and> email \<noteq> [] \<and> length email \<le> maxEmailLenght \<and> parse email = Some email"
  by (auto simp: ParseEmail_def Let_def split: option.splits if_splits)

lemma NewPasswordHash_ok [code_checks]: "NewPasswordHash h = Inr p \<longleftrightarrow> p = h \<and> \<not> blank h"
  by (auto simp: NewPasswordHash_def)

lemma user_New_ok [code_checks]:
  "user_New ident email h t = Inr u \<longleftrightarrow>
     t \<noteq> 0 \<and> u = \<lparr>usr_id = ident, usr_email = email, usr_passwordHash = h, usr_createdAt = t\<rparr>"
  by (auto simp: user_New_def IsZero_def)

end
