(* ===== verification/DomainSession.thy ===== *)
theory DomainSession
  imports DomainUser
begin

text \<open>
  The package \<^verbatim>\<open>internal/domain/session\<close>: a session holds the digest of its current refresh
  token, its expiry and, once revoked, the time of the revocation.  The methods that mutate the
  receiver (\<^verbatim>\<open>RotateRefreshToken\<close>, \<^verbatim>\<open>Revoke\<close>) return the changed session with their result.
\<close>

type_synonym session_ID = string

abbreviation sessionErr :: "session_error \<Rightarrow> go_error + 'a" where
  "sessionErr e \<equiv> Inl (Sentinel (SessionE e))"

definition session_ParseID :: "string \<Rightarrow> go_error + session_ID" where
  "session_ParseID rawID =
     (let normalizedID = TrimSpace rawID
      in if normalizedID = [] then sessionErr Session_ErrInvalidID else Inr normalizedID)"

record session =
  ses_id :: session_ID
  ses_userID :: user_ID
  ses_refreshTokenDigest :: string
  ses_createdAt :: time
  ses_expiresAt :: time
  ses_revokedAt :: "time option"

definition session_New ::
  "session_ID \<Rightarrow> user_ID \<Rightarrow> string \<Rightarrow> time \<Rightarrow> time \<Rightarrow> go_error + session" where
  "session_New sid userID refreshTokenDigest createdAt expiresAt =
     (if sid = [] then sessionErr Session_ErrInvalidID
      else if userID = [] then sessionErr Session_ErrInvalidUserID
      else if blank refreshTokenDigest then sessionErr Session_ErrInvalidTokenDigest
      else if IsZero createdAt \<or> IsZero expiresAt \<or> \<not> expiresAt > createdAt
        then sessionErr Session_ErrInvalidPeriod
      else Inr \<lparr>ses_id = sid, ses_userID = userID, ses_refreshTokenDigest = refreshTokenDigest,
                ses_createdAt = UTC createdAt, ses_expiresAt = UTC expiresAt,
                ses_revokedAt = None\<rparr>)"

definition session_Restore ::
  "session_ID \<Rightarrow> user_ID \<Rightarrow> string \<Rightarrow> time \<Rightarrow> time \<Rightarrow> time option \<Rightarrow> go_error + session" where
  "session_Restore sid userID refreshTokenDigest createdAt expiresAt revokedAt =
     (case session_New sid userID refreshTokenDigest createdAt expiresAt of
        Inl e \<Rightarrow> Inl e
      | Inr restoredSession \<Rightarrow>
          (case revokedAt of
             None \<Rightarrow> Inr restoredSession
           | Some normalizedRevokedAt \<Rightarrow>
               if normalizedRevokedAt < ses_createdAt restoredSession
               then sessionErr Session_ErrInvalidPeriod
               else Inr (restoredSession\<lparr>ses_revokedAt := Some normalizedRevokedAt\<rparr>)))"

definition IsExpired :: "session \<Rightarrow> time \<Rightarrow> bool" where
  "IsExpired s at \<longleftrightarrow> \<not> UTC at < ses_expiresAt s"

definition IsRevoked :: "session \<Rightarrow> bool" where
  "IsRevoked s \<longleftrightarrow> ses_revokedAt s \<noteq> None"

definition EnsureActive :: "session \<Rightarrow> time \<Rightarrow> go_error + unit" where
  "EnsureActive s at =
     (if IsRevoked s then sessionErr Session_ErrRevoked
      else if IsExpired s at then sessionErr Session_ErrExpired
      else Inr ())"

text \<open>\<^verbatim>\<open>subtle.ConstantTimeCompare\<close> is 1 exactly for equal byte slices.\<close>

definition ValidateRefreshTokenDigest :: "session \<Rightarrow> string \<Rightarrow> go_error + unit" where
  "ValidateRefreshTokenDigest s presentedDigest =
     (if blank presentedDigest then sessionErr Session_ErrInvalidTokenDigest
      else if ses_refreshTokenDigest s \<noteq> presentedDigest
        then sessionErr Session_ErrRefreshTokenMismatch
      else Inr ())"

definition RotateRefreshToken ::
  "session \<Rightarrow> string \<Rightarrow> time \<Rightarrow> time \<Rightarrow> session \<times> (go_error + unit)" where
  "RotateRefreshToken s newDigest newExpiresAt rotatedAt =
     (case EnsureActive s rotatedAt of
        Inl e \<Rightarrow> (s, Inl e)
      | Inr _ \<Rightarrow>
          if blank newDigest then (s, sessionErr Session_ErrInvalidTokenDigest)
          else if IsZero newExpiresAt \<or> \<not> newExpiresAt > rotatedAt
            then (s, sessionErr Session_ErrInvalidPeriod)
          else (s\<lparr>ses_refreshTokenDigest := newDigest, ses_expiresAt := UTC newExpiresAt\<rparr>, Inr ()))"

definition session_Revoke :: "session \<Rightarrow> time \<Rightarrow> session \<times> (go_error + unit)" where
  "session_Revoke s revokedAt =
     (if IsRevoked s then (s, Inr ())
      else if IsZero revokedAt \<or> revokedAt < ses_createdAt s
        then (s, sessionErr Session_ErrInvalidPeriod)
      else (s\<lparr>ses_revokedAt := Some (UTC revokedAt)\<rparr>, Inr ()))"

section \<open>What every session satisfies\<close>

definition session_wf :: "session \<Rightarrow> bool" where
  "session_wf s \<longleftrightarrow>
     ses_id s \<noteq> [] \<and> ses_userID s \<noteq> [] \<and> \<not> blank (ses_refreshTokenDigest s) \<and>
     ses_createdAt s \<noteq> 0 \<and> ses_expiresAt s \<noteq> 0 \<and> ses_createdAt s < ses_expiresAt s \<and>
     (\<forall>r. ses_revokedAt s = Some r \<longrightarrow> ses_createdAt s \<le> r)"

lemma session_ParseID_ok [code_checks, run_iff]:
  "session_ParseID raw = Inr sid \<longleftrightarrow> sid = TrimSpace raw \<and> sid \<noteq> []"
  by (auto simp: session_ParseID_def Let_def)

lemma session_New_ok [code_checks]:
  "session_New sid u d t x = Inr s \<longleftrightarrow>
     sid \<noteq> [] \<and> u \<noteq> [] \<and> \<not> blank d \<and> t \<noteq> 0 \<and> x \<noteq> 0 \<and> t < x \<and>
     s = \<lparr>ses_id = sid, ses_userID = u, ses_refreshTokenDigest = d, ses_createdAt = t,
          ses_expiresAt = x, ses_revokedAt = None\<rparr>"
  by (auto simp: session_New_def IsZero_def)

lemma session_Restore_ok [code_checks]:
  "session_Restore sid u d t x r = Inr s \<longleftrightarrow>
     sid \<noteq> [] \<and> u \<noteq> [] \<and> \<not> blank d \<and> t \<noteq> 0 \<and> x \<noteq> 0 \<and> t < x \<and>
     (\<forall>v. r = Some v \<longrightarrow> t \<le> v) \<and>
     s = \<lparr>ses_id = sid, ses_userID = u, ses_refreshTokenDigest = d, ses_createdAt = t,
          ses_expiresAt = x, ses_revokedAt = r\<rparr>"
  by (auto simp: session_Restore_def session_New_def IsZero_def split: option.splits if_splits)

lemma session_Restore_wf: "session_Restore sid u d t x r = Inr s \<Longrightarrow> session_wf s"
  by (auto simp: code_checks session_wf_def)

lemma session_New_wf: "session_New sid u d t x = Inr s \<Longrightarrow> session_wf s"
  by (auto simp: code_checks session_wf_def)

text \<open>A session that satisfies the invariant is what restoring its own fields gives.\<close>

lemma session_Restore_fields:
  "session_wf s \<Longrightarrow>
   session_Restore (ses_id s) (ses_userID s) (ses_refreshTokenDigest s) (ses_createdAt s)
     (ses_expiresAt s) (ses_revokedAt s) = Inr s"
  by (auto simp: code_checks session_wf_def)

lemma EnsureActive_ok [code_checks]:
  "EnsureActive s at = Inr u \<longleftrightarrow> ses_revokedAt s = None \<and> at < ses_expiresAt s"
  by (auto simp: EnsureActive_def IsRevoked_def IsExpired_def)

lemma EnsureActive_err:
  "EnsureActive s at = Inl e \<longleftrightarrow>
     (ses_revokedAt s \<noteq> None \<and> e = Sentinel (SessionE Session_ErrRevoked)) \<or>
     (ses_revokedAt s = None \<and> ses_expiresAt s \<le> at \<and> e = Sentinel (SessionE Session_ErrExpired))"
  by (auto simp: EnsureActive_def IsRevoked_def IsExpired_def)

text \<open>Activity is lost for good: a session inactive at a time is inactive at every later one.\<close>

lemma EnsureActive_antimono:
  "isOk (EnsureActive s later) \<Longrightarrow> earlier \<le> later \<Longrightarrow> isOk (EnsureActive s earlier)"
  by (auto simp: EnsureActive_def IsExpired_def split: if_splits)

lemma ValidateRefreshTokenDigest_ok [code_checks]:
  "ValidateRefreshTokenDigest s d = Inr u \<longleftrightarrow> ses_refreshTokenDigest s = d \<and> \<not> blank d"
  by (auto simp: ValidateRefreshTokenDigest_def)

lemma RotateRefreshToken_ok [code_checks]:
  "RotateRefreshToken s d x at = (s', Inr u) \<longleftrightarrow>
     ses_revokedAt s = None \<and> at < ses_expiresAt s \<and> \<not> blank d \<and> x \<noteq> 0 \<and> at < x \<and>
     s' = s\<lparr>ses_refreshTokenDigest := d, ses_expiresAt := x\<rparr>"
  by (auto simp: RotateRefreshToken_def EnsureActive_def IsRevoked_def IsExpired_def IsZero_def)

lemma RotateRefreshToken_err: "RotateRefreshToken s d x at = (s', Inl e) \<Longrightarrow> s' = s"
  by (auto simp: RotateRefreshToken_def split: sum.splits if_splits)

lemma RotateRefreshToken_wf:
  "session_wf s \<Longrightarrow> ses_createdAt s \<le> at \<Longrightarrow> RotateRefreshToken s d x at = (s', r) \<Longrightarrow> session_wf s'"
  by (cases r) (auto simp: code_checks session_wf_def dest: RotateRefreshToken_err)

lemma session_Revoke_wf:
  "session_wf s \<Longrightarrow> session_Revoke s at = (s', r) \<Longrightarrow> session_wf s'"
  by (auto simp: session_Revoke_def session_wf_def IsZero_def IsRevoked_def split: if_splits)

lemma session_Revoke_ok: "session_Revoke s at = (s', Inr u) \<Longrightarrow> IsRevoked s'"
  by (auto simp: session_Revoke_def IsRevoked_def split: if_splits)

end
