(* ===== verification/Mongo.thy ===== *)
theory Mongo
  imports GoLib "HOL-Library.Multiset"
begin

text \<open>
  The interface of the MongoDB driver.  The driver and the server are not part of the
  repository, so a collection is a record of calls on an abstract server state \<open>'s\<close>, an argument
  of every definition that uses it; the locale \<open>collection\<close> states what its documentation
  promises and the program relies on.  A filter document of the source is translated into a
  predicate on documents, an update document into a function on documents, a sort document into
  an order.

  \<^item> Every call is atomic on one collection; a call that fails may have taken effect or not (the
    request or the reply can be lost).
  \<^item> \<open>docs\<close> observes the stored documents by their \<^verbatim>\<open>_id\<close>; only the laws mention it.
  \<^item> \<open>DateTime\<close> is what BSON keeps of a time: its dates count milliseconds, so a time is rounded
    down.  Every time that goes into a document, a filter or an update passes through it.
  \<^item> \<open>clash x y\<close> says that a unique index forbids to store \<open>x\<close> and \<open>y\<close> together.

  The last section gives an in-memory collection with injected faults that satisfies the laws;
  the witnesses run on it.
\<close>

type_synonym 'd documents = "string \<rightharpoonup> 'd"

record ('s, 'd) collection =
  docs :: "'s \<Rightarrow> 'd documents"
  DateTime :: "time \<Rightarrow> time"
  InsertOne :: "'d \<Rightarrow> ('s, go_error, unit) call"
  FindOne :: "('d \<Rightarrow> bool) \<Rightarrow> ('d \<Rightarrow> 'd \<Rightarrow> bool) \<Rightarrow> ('s, go_error, 'd option) call"
  Find :: "('d \<Rightarrow> bool) \<Rightarrow> ('d \<Rightarrow> 'd \<Rightarrow> bool) \<Rightarrow> nat option \<Rightarrow> ('s, go_error, 'd list) call"
  CountDocuments :: "('d \<Rightarrow> bool) \<Rightarrow> ('s, go_error, nat) call"
  UpdateOne :: "('d \<Rightarrow> bool) \<Rightarrow> ('d \<Rightarrow> 'd) \<Rightarrow> ('s, go_error, nat \<times> nat) call"
  FindOneAndUpdate ::
    "('d \<Rightarrow> bool) \<Rightarrow> ('d \<Rightarrow> 'd) \<Rightarrow> ('d \<Rightarrow> 'd \<Rightarrow> bool) \<Rightarrow> ('s, go_error, 'd option) call"
  FindOneAndUpsert :: "('d \<Rightarrow> bool) \<Rightarrow> 'd \<Rightarrow> ('s, go_error, 'd option) call"
  BulkWrite :: "(('d \<Rightarrow> bool) \<times> ('d \<Rightarrow> 'd)) list \<Rightarrow> ('s, go_error, nat) call"

text \<open>No sort document: any order.\<close>

abbreviation unsorted :: "'d \<Rightarrow> 'd \<Rightarrow> bool" where
  "unsorted \<equiv> (\<lambda>_ _. True)"

definition linear :: "('d \<Rightarrow> 'd \<Rightarrow> bool) \<Rightarrow> bool" where
  "linear le \<longleftrightarrow> (\<forall>x y. le x y \<or> le y x) \<and> (\<forall>x y z. le x y \<longrightarrow> le y z \<longrightarrow> le x z)"

definition matching :: "('d \<Rightarrow> bool) \<Rightarrow> 'd documents \<Rightarrow> 'd set" where
  "matching f m = {d \<in> ran m. f d}"

text \<open>\<open>listing f le m ds\<close>: \<open>ds\<close> lists the matching documents in the order \<open>le\<close>.\<close>

definition listing :: "('d \<Rightarrow> bool) \<Rightarrow> ('d \<Rightarrow> 'd \<Rightarrow> bool) \<Rightarrow> 'd documents \<Rightarrow> 'd list \<Rightarrow> bool" where
  "listing f le m ds \<longleftrightarrow> distinct ds \<and> set ds = matching f m \<and> sorted_wrt le ds"

definition limited :: "nat option \<Rightarrow> 'd list \<Rightarrow> 'd list" where
  "limited lim ds = (case lim of None \<Rightarrow> ds | Some n \<Rightarrow> take n ds)"

fun first :: "'d list \<Rightarrow> 'd option" where
  "first [] = None"
| "first (d # _) = Some d"

text \<open>\<open>updated f u m m' d\<close>: the document \<open>d\<close> matched and was replaced by \<open>u d\<close>.\<close>

definition updated ::
  "('d \<Rightarrow> string) \<Rightarrow> ('d \<Rightarrow> bool) \<Rightarrow> ('d \<Rightarrow> 'd) \<Rightarrow> 'd documents \<Rightarrow> 'd documents \<Rightarrow> 'd \<Rightarrow> bool" where
  "updated key f u m m' d \<longleftrightarrow>
     d \<in> matching f m \<and> key (u d) = key d \<and> m' = m(key d \<mapsto> u d)"

text \<open>An unordered bulk write applies its updates one after the other, in some order.\<close>

inductive writes ::
  "('d \<Rightarrow> string) \<Rightarrow> (('d \<Rightarrow> bool) \<times> ('d \<Rightarrow> 'd)) list \<Rightarrow> 'd documents \<Rightarrow> 'd documents \<Rightarrow> nat \<Rightarrow> bool"
  for key where
  finished: "writes key [] m m 0"
| miss: "matching f m = {} \<Longrightarrow> writes key ws m m' n \<Longrightarrow> writes key ((f, u) # ws) m m' n"
| hit: "updated key f u m m1 d \<Longrightarrow> writes key ws m1 m' n \<Longrightarrow>
    writes key ((f, u) # ws) m m' (n + (if u d = d then 0 else 1))"

text \<open>
  The loop \<^verbatim>\<open>for cursor.Next(ctx) { ... decode(document) ... append }\<close>: the first document that
  does not decode ends it with its error.
\<close>

fun decode_all :: "('d \<Rightarrow> go_error + 'a) \<Rightarrow> 'd list \<Rightarrow> go_error + 'a list" where
  "decode_all decode [] = Inr []"
| "decode_all decode (document # rest) =
     andThen (decode document) (\<lambda>e. e) (\<lambda>decoded.
     andThen (decode_all decode rest) (\<lambda>e. e) (\<lambda>result. Inr (decoded # result)))"

lemma decode_all_ok [code_checks]:
  "decode_all decode ds = Inr xs \<longleftrightarrow> list_all2 (\<lambda>d x. decode d = Inr x) ds xs"
  by (induction ds arbitrary: xs) (auto simp: run_iff list_all2_Cons1)

lemma decode_all_err: "decode_all decode ds = Inl e \<Longrightarrow> \<exists>d \<in> set ds. decode d = Inl e"
  by (induction ds) (auto simp: andThen_def split: sum.splits)

text \<open>A collection without a unique index but the one on \<^verbatim>\<open>_id\<close>.\<close>

definition no_clash :: "'d \<Rightarrow> 'd \<Rightarrow> bool" where
  "no_clash x y = False"

definition driver_error :: "go_error \<Rightarrow> bool" where
  "driver_error e \<longleftrightarrow> (\<forall>s. errors_is e s \<longrightarrow> s = ContextCanceled \<or> s = DeadlineExceeded)"

lemma linear_unsorted [simp]: "linear unsorted"
  by (simp add: linear_def)

lemma first_None [simp]: "first ds = None \<longleftrightarrow> ds = []"
  by (cases ds) auto

lemma first_in: "first ds = Some d \<Longrightarrow> d \<in> set ds"
  by (cases ds) auto

lemma listing_first:
  "listing f le m ds \<Longrightarrow> first ds = None \<longleftrightarrow> matching f m = {}"
  "listing f le m ds \<Longrightarrow> first ds = Some d \<Longrightarrow> d \<in> matching f m"
  by (auto simp: listing_def dest: first_in)

lemma driver_error_ports [simp]: "driver_error e \<Longrightarrow> \<not> errors_is e (PortsE p)"
  by (auto simp: driver_error_def)

subsection \<open>Pages\<close>

text \<open>
  A listing in an antisymmetric order is unique, and what comes strictly after its \<open>n\<close>-th element
  is the rest: a reader that asks for the documents beyond the last one of its page goes on
  exactly where the page ended.
\<close>

lemma sorted_distinct_unique:
  assumes "sorted_wrt le xs" "sorted_wrt le ys" "distinct xs" "distinct ys" "set xs = set ys"
    and "\<forall>x \<in> set xs. \<forall>y \<in> set xs. le x y \<longrightarrow> le y x \<longrightarrow> x = y"
  shows "xs = ys"
  using assms
proof (induction xs arbitrary: ys)
  case (Cons x xs)
  then obtain y ys' where ys: "ys = y # ys'" by (cases ys) auto
  have "x = y"
  proof (rule ccontr)
    assume "x \<noteq> y"
    then have "x \<in> set ys'" "y \<in> set xs" using Cons.prems(5) ys by auto
    then have "le x y" "le y x" using Cons.prems(1,2) ys by auto
    with \<open>x \<noteq> y\<close> \<open>y \<in> set xs\<close> Cons.prems(6) show False by auto
  qed
  moreover have "set xs = set ys'" using Cons.prems(3-5) ys \<open>x = y\<close> by auto
  ultimately show ?case using Cons.IH [of ys'] Cons.prems ys by auto
qed simp

lemma listing_unique:
  assumes "listing f le m ds" "listing f le m ds'"
    and "\<And>x y. x \<in> matching f m \<Longrightarrow> y \<in> matching f m \<Longrightarrow> le x y \<Longrightarrow> le y x \<Longrightarrow> x = y"
  shows "ds = ds'"
  using assms unfolding listing_def by (intro sorted_distinct_unique [where le = le]) auto

lemma listing_after:
  assumes ds: "listing f le m ds" and lin: "linear le" and n: "0 < n" "n \<le> length ds"
    and anti: "\<And>x y. x \<in> matching f m \<Longrightarrow> y \<in> matching f m \<Longrightarrow> le x y \<Longrightarrow> le y x \<Longrightarrow> x = y"
  shows "listing (\<lambda>d. f d \<and> \<not> le d (ds ! (n - 1))) le m (drop n ds)"
proof -
  let ?c = "ds ! (n - 1)"
  have parts: "distinct (take n ds @ drop n ds)" "sorted_wrt le (take n ds @ drop n ds)"
    "set (take n ds @ drop n ds) = matching f m"
    using ds by (simp_all add: listing_def)
  have c: "?c \<in> set (take n ds)" using n by (auto simp: set_conv_nth intro!: exI [of _ "n - 1"])
  have take: "le d ?c" if d: "d \<in> set (take n ds)" for d
  proof -
    obtain i where i: "i < n" "d = ds ! i" using d n by (auto simp: set_conv_nth)
    show ?thesis
    proof (cases "i = n - 1")
      case True then show ?thesis using i lin by (auto simp: linear_def)
    next
      case False
      then have "i < n - 1" "n - 1 < length ds" using i n by auto
      then show ?thesis using i ds by (auto simp: listing_def sorted_wrt_iff_nth_less)
    qed
  qed
  have drop: "\<not> le d ?c" if "d \<in> set (drop n ds)" for d
  proof
    assume "le d ?c"
    moreover have "le ?c d" using parts(2) c that unfolding sorted_wrt_append by blast
    moreover have "d \<in> matching f m" "?c \<in> matching f m"
      using c that unfolding parts(3) [symmetric] set_append by blast+
    ultimately have "d = ?c" using anti by blast
    then show False using parts(1) c that unfolding distinct_append by blast
  qed
  have "matching (\<lambda>d. f d \<and> \<not> le d ?c) m = set (drop n ds)"
  proof (rule set_eqI)
    fix d
    have "d \<in> matching f m \<longleftrightarrow> d \<in> set (take n ds) \<or> d \<in> set (drop n ds)"
      unfolding parts(3) [symmetric] set_append by (rule Un_iff)
    moreover have "d \<in> matching (\<lambda>d. f d \<and> \<not> le d ?c) m \<longleftrightarrow> d \<in> matching f m \<and> \<not> le d ?c"
      by (simp add: matching_def conj_ac)
    ultimately show "d \<in> matching (\<lambda>d. f d \<and> \<not> le d ?c) m \<longleftrightarrow> d \<in> set (drop n ds)"
      using take [of d] drop [of d] by blast
  qed
  then show ?thesis
    using parts unfolding listing_def distinct_append sorted_wrt_append by simp
qed

section \<open>The documented behaviour\<close>

locale collection =
  fixes C :: "('s, 'd) collection"
    and key :: "'d \<Rightarrow> string"
    and clash :: "'d \<Rightarrow> 'd \<Rightarrow> bool"
  assumes keyed: "docs C s k = Some d \<Longrightarrow> key d = k"
    and DateTime_le: "DateTime C t \<le> t"
    and DateTime_close: "t < DateTime C t + millisecond"
    and DateTime_idem: "DateTime C (DateTime C t) = DateTime C t"
    and DateTime_mono: "t \<le> t2 \<Longrightarrow> DateTime C t \<le> DateTime C t2"
    and InsertOne_ok: "InsertOne C d s = (s', Inr ()) \<Longrightarrow>
      docs C s (key d) = None \<and> (\<forall>x \<in> ran (docs C s). \<not> clash x d) \<and>
      docs C s' = (docs C s)(key d \<mapsto> d)"
    and InsertOne_err: "InsertOne C d s = (s', Inl e) \<Longrightarrow>
      driver_error e \<and>
      (docs C s' = docs C s \<or>
       \<not> is_duplicate_key e \<and> docs C s (key d) = None \<and> (\<forall>x \<in> ran (docs C s). \<not> clash x d) \<and>
       docs C s' = (docs C s)(key d \<mapsto> d))"
    and FindOne_ok: "linear le \<Longrightarrow> FindOne C f le s = (s', Inr od) \<Longrightarrow>
      docs C s' = docs C s \<and> (\<exists>ds. listing f le (docs C s) ds \<and> od = first ds)"
    and FindOne_err: "FindOne C f le s = (s', Inl e) \<Longrightarrow>
      driver_error e \<and> \<not> is_duplicate_key e \<and> docs C s' = docs C s"
    and Find_ok: "linear le \<Longrightarrow> Find C f le lim s = (s', Inr found) \<Longrightarrow>
      docs C s' = docs C s \<and> (\<exists>ds. listing f le (docs C s) ds \<and> found = limited lim ds)"
    and Find_err: "Find C f le lim s = (s', Inl e) \<Longrightarrow> driver_error e \<and> docs C s' = docs C s"
    and CountDocuments_ok: "CountDocuments C f s = (s', Inr n) \<Longrightarrow>
      docs C s' = docs C s \<and> n = card (matching f (docs C s))"
    and CountDocuments_err: "CountDocuments C f s = (s', Inl e) \<Longrightarrow>
      driver_error e \<and> docs C s' = docs C s"
    and UpdateOne_ok: "UpdateOne C f u s = (s', Inr (matched, modified)) \<Longrightarrow>
      matching f (docs C s) = {} \<and> matched = 0 \<and> modified = 0 \<and> docs C s' = docs C s \<or>
      (\<exists>d. updated key f u (docs C s) (docs C s') d \<and> matched = 1 \<and>
           modified = (if u d = d then 0 else 1))"
    and UpdateOne_err: "UpdateOne C f u s = (s', Inl e) \<Longrightarrow>
      driver_error e \<and>
      (docs C s' = docs C s \<or> (\<exists>d. updated key f u (docs C s) (docs C s') d))"
    and FindOneAndUpdate_ok: "linear le \<Longrightarrow> FindOneAndUpdate C f u le s = (s', Inr od) \<Longrightarrow>
      \<exists>ds. listing f le (docs C s) ds \<and> od = map_option u (first ds) \<and>
        (case first ds of None \<Rightarrow> docs C s' = docs C s
         | Some d \<Rightarrow> updated key f u (docs C s) (docs C s') d)"
    and FindOneAndUpdate_err: "linear le \<Longrightarrow> FindOneAndUpdate C f u le s = (s', Inl e) \<Longrightarrow>
      driver_error e \<and>
      (docs C s' = docs C s \<or> (\<exists>d. updated key f u (docs C s) (docs C s') d))"
    and FindOneAndUpsert_ok: "FindOneAndUpsert C f d s = (s', Inr od) \<Longrightarrow>
      (\<exists>x. od = Some x \<and> x \<in> matching f (docs C s) \<and> docs C s' = docs C s) \<or>
      od = None \<and> matching f (docs C s) = {} \<and> docs C s (key d) = None \<and>
        (\<forall>x \<in> ran (docs C s). \<not> clash x d) \<and> docs C s' = (docs C s)(key d \<mapsto> d)"
    and FindOneAndUpsert_err: "FindOneAndUpsert C f d s = (s', Inl e) \<Longrightarrow>
      driver_error e \<and>
      (docs C s' = docs C s \<or>
       \<not> is_duplicate_key e \<and> matching f (docs C s) = {} \<and> docs C s (key d) = None \<and>
         (\<forall>x \<in> ran (docs C s). \<not> clash x d) \<and> docs C s' = (docs C s)(key d \<mapsto> d))"
    and BulkWrite_ok: "BulkWrite C ws s = (s', Inr n) \<Longrightarrow>
      \<exists>vs. mset vs = mset ws \<and> writes key vs (docs C s) (docs C s') n"
    and BulkWrite_err: "BulkWrite C ws s = (s', Inl e) \<Longrightarrow>
      driver_error e \<and> (\<exists>vs n. mset vs \<subseteq># mset ws \<and> writes key vs (docs C s) (docs C s') n)"
begin

lemma DateTime_0_mono: "0 \<le> DateTime C t \<Longrightarrow> 0 \<le> t"
  using DateTime_le [of t] by linarith

lemma matching_docs: "d \<in> matching f (docs C s) \<longleftrightarrow> docs C s (key d) = Some d \<and> f d"
  using keyed by (fastforce simp: matching_def ran_def)

lemma matching_key: "matching (\<lambda>d. key d = k \<and> f d) (docs C s) =
    (case docs C s k of None \<Rightarrow> {} | Some d \<Rightarrow> if f d then {d} else {})"
proof (cases "docs C s k")
  case None
  then show ?thesis by (auto simp: matching_docs)
next
  case (Some d)
  then have "key d = k" by (rule keyed)
  with Some show ?thesis by (auto simp: matching_docs)
qed

text \<open>The reading calls.\<close>

lemma readers:
  shows "linear le \<Longrightarrow> keeps (docs C) (FindOne C f le)"
    and "linear le \<Longrightarrow> keeps (docs C) (Find C f le lim)"
    and "keeps (docs C) (CountDocuments C f)"
proof -
  show "linear le \<Longrightarrow> keeps (docs C) (FindOne C f le)"
    by (rule keepsI, rename_tac r, case_tac r) (auto dest: FindOne_ok FindOne_err)
  show "linear le \<Longrightarrow> keeps (docs C) (Find C f le lim)"
    by (rule keepsI, rename_tac r, case_tac r) (auto dest: Find_ok Find_err)
  show "keeps (docs C) (CountDocuments C f)"
    by (rule keepsI, rename_tac r, case_tac r) (auto dest: CountDocuments_ok CountDocuments_err)
qed

text \<open>
  The writing calls: whatever is answered, either nothing happened or the one intended write.
\<close>

abbreviation edits :: "('d \<Rightarrow> bool) \<Rightarrow> ('d \<Rightarrow> 'd) \<Rightarrow> 's \<Rightarrow> 's \<Rightarrow> bool" where
  "edits f u s s' \<equiv> docs C s' = docs C s \<or> (\<exists>d. updated key f u (docs C s) (docs C s') d)"

lemma writers:
  shows "follows (edits f u) (UpdateOne C f u)"
    and "linear le \<Longrightarrow> follows (edits f u) (FindOneAndUpdate C f u le)"
    and "follows (\<lambda>s s'. docs C s' = docs C s \<or>
           docs C s (key d) = None \<and> (\<forall>x \<in> ran (docs C s). \<not> clash x d) \<and>
           docs C s' = (docs C s)(key d \<mapsto> d)) (InsertOne C d)"
proof -
  show "follows (edits f u) (UpdateOne C f u)"
    by (rule followsI, rename_tac r, case_tac r) (auto dest: UpdateOne_ok UpdateOne_err)
  show "follows (edits f u) (FindOneAndUpdate C f u le)" if "linear le"
    by (rule followsI, rename_tac r, case_tac r)
      (auto dest!: FindOneAndUpdate_ok [OF that] FindOneAndUpdate_err [OF that] split: option.splits)
  show "follows (\<lambda>s s'. docs C s' = docs C s \<or>
           docs C s (key d) = None \<and> (\<forall>x \<in> ran (docs C s). \<not> clash x d) \<and>
           docs C s' = (docs C s)(key d \<mapsto> d)) (InsertOne C d)"
    by (rule followsI, rename_tac r, case_tac r) (auto dest: InsertOne_ok InsertOne_err)
qed

text \<open>What a conditional update found, when no order is asked for.\<close>

lemma FindOneAndUpdate_unsorted:
  assumes "FindOneAndUpdate C f u unsorted s = (s', Inr r)"
  shows "(case r of
      None \<Rightarrow> matching f (docs C s) = {} \<and> docs C s' = docs C s
    | Some d' \<Rightarrow> \<exists>d. updated key f u (docs C s) (docs C s') d \<and> d' = u d)"
proof -
  obtain ds where ds: "listing f unsorted (docs C s) ds" "r = map_option u (first ds)"
    "case first ds of None \<Rightarrow> docs C s' = docs C s
     | Some d \<Rightarrow> updated key f u (docs C s) (docs C s') d"
    using FindOneAndUpdate_ok [OF linear_unsorted assms] by blast
  then show ?thesis using listing_first(1) [OF ds(1)] by (cases "first ds") auto
qed

text \<open>Looking for one \<^verbatim>\<open>_id\<close>.\<close>

lemma FindOne_key:
  assumes "FindOne C (\<lambda>d. key d = k) unsorted s = (s', Inr r)"
  shows "docs C s' = docs C s \<and> r = docs C s k"
proof -
  obtain ds where s': "docs C s' = docs C s" and ds: "listing (\<lambda>d. key d = k) unsorted (docs C s) ds"
    and r: "r = first ds"
    using FindOne_ok [OF linear_unsorted assms] by blast
  have m: "matching (\<lambda>d. key d = k) (docs C s) = set_option (docs C s k)"
    using matching_key [of k "\<lambda>_. True"] by (auto split: option.splits)
  show ?thesis
  proof (cases r)
    case None
    then have "set_option (docs C s k) = {}" using listing_first(1) [OF ds] r m by simp
    then show ?thesis using s' None by simp
  next
    case (Some d)
    then have "d \<in> set_option (docs C s k)" using listing_first(2) [OF ds] r m by simp
    then show ?thesis using s' Some by simp
  qed
qed

end

end
