(* ===== verification/MongoMemory.thy ===== *)
theory MongoMemory
  imports Mongo
begin

text \<open>
  An in-memory collection that satisfies the laws of \<open>collection\<close>, on any server state that
  gives access to a list of documents and to a schedule of faults: a call is executed, lost before
  it reaches the server, or executed with its reply lost.  Every operation computes, so the
  witnesses of the development run the translated code on it.
\<close>

datatype fault = NoFault | LostRequest | LostReply

definition faulty ::
  "('s \<Rightarrow> 's \<times> fault) \<Rightarrow> ('s, go_error, 'a) call \<Rightarrow> ('s, go_error, 'a) call" where
  "faulty pop eff s =
     (case pop s of
        (s1, NoFault) \<Rightarrow> eff s1
      | (s1, LostRequest) \<Rightarrow> (s1, Inl (DriverError ''request lost''))
      | (s1, LostReply) \<Rightarrow> (fst (eff s1), Inl (DriverError ''reply lost'')))"

fun norm_docs :: "('d \<Rightarrow> string) \<Rightarrow> 'd list \<Rightarrow> 'd list" where
  "norm_docs key [] = []"
| "norm_docs key (d # ds) = d # filter (\<lambda>x. key x \<noteq> key d) (norm_docs key ds)"

definition as_map :: "('d \<Rightarrow> string) \<Rightarrow> 'd list \<Rightarrow> 'd documents" where
  "as_map key ds = map_of (map (\<lambda>d. (key d, d)) ds)"

definition put_doc :: "('d \<Rightarrow> string) \<Rightarrow> 'd \<Rightarrow> 'd \<Rightarrow> 'd list \<Rightarrow> 'd list" where
  "put_doc key d d' ds = map (\<lambda>x. if key x = key d then d' else x) ds"

fun insort_by :: "('d \<Rightarrow> 'd \<Rightarrow> bool) \<Rightarrow> 'd \<Rightarrow> 'd list \<Rightarrow> 'd list" where
  "insort_by le x [] = [x]"
| "insort_by le x (y # ys) = (if le x y then x # y # ys else y # insort_by le x ys)"

fun sort_by :: "('d \<Rightarrow> 'd \<Rightarrow> bool) \<Rightarrow> 'd list \<Rightarrow> 'd list" where
  "sort_by le [] = []"
| "sort_by le (x # xs) = insort_by le x (sort_by le xs)"

definition select :: "('d \<Rightarrow> bool) \<Rightarrow> ('d \<Rightarrow> 'd \<Rightarrow> bool) \<Rightarrow> 'd list \<Rightarrow> 'd list" where
  "select f le ds = sort_by le (filter f ds)"

text \<open>The effects of the calls on a list of documents with distinct keys.\<close>

definition insert_docs ::
  "('d \<Rightarrow> string) \<Rightarrow> ('d \<Rightarrow> 'd \<Rightarrow> bool) \<Rightarrow> 'd \<Rightarrow> 'd list \<Rightarrow> 'd list \<times> (go_error + unit)" where
  "insert_docs key clash d ds =
     (if list_ex (\<lambda>x. key x = key d) ds then (ds, Inl (DuplicateKey ''_id_''))
      else if list_ex (\<lambda>x. clash x d) ds then (ds, Inl (DuplicateKey ''unique_index''))
      else (ds @ [d], Inr ()))"

definition update_docs ::
  "('d \<Rightarrow> string) \<Rightarrow> ('d \<Rightarrow> bool) \<Rightarrow> ('d \<Rightarrow> 'd) \<Rightarrow> ('d \<Rightarrow> 'd \<Rightarrow> bool) \<Rightarrow> 'd list
     \<Rightarrow> 'd list \<times> (go_error + 'd option)" where
  "update_docs key f u le ds =
     (case first (select f le ds) of
        None \<Rightarrow> (ds, Inr None)
      | Some d \<Rightarrow>
          if key (u d) \<noteq> key d then (ds, Inl (DriverError ''immutable _id''))
          else (put_doc key d (u d) ds, Inr (Some d)))"

definition update_one_docs ::
  "('d \<Rightarrow> string) \<Rightarrow> ('d \<Rightarrow> bool) \<Rightarrow> ('d \<Rightarrow> 'd) \<Rightarrow> 'd list \<Rightarrow> 'd list \<times> (go_error + nat \<times> nat)" where
  "update_one_docs key f u ds =
     (case update_docs key f u unsorted ds of
        (ds', Inl e) \<Rightarrow> (ds', Inl e)
      | (ds', Inr None) \<Rightarrow> (ds', Inr (0, 0))
      | (ds', Inr (Some d)) \<Rightarrow> (ds', Inr (1, if u d = d then 0 else 1)))"

definition find_update_docs ::
  "('d \<Rightarrow> string) \<Rightarrow> ('d \<Rightarrow> bool) \<Rightarrow> ('d \<Rightarrow> 'd) \<Rightarrow> ('d \<Rightarrow> 'd \<Rightarrow> bool) \<Rightarrow> 'd list
     \<Rightarrow> 'd list \<times> (go_error + 'd option)" where
  "find_update_docs key f u le ds =
     (case update_docs key f u le ds of
        (ds', Inl e) \<Rightarrow> (ds', Inl e)
      | (ds', Inr od) \<Rightarrow> (ds', Inr (map_option u od)))"

fun bulk_docs ::
  "('d \<Rightarrow> string) \<Rightarrow> (('d \<Rightarrow> bool) \<times> ('d \<Rightarrow> 'd)) list \<Rightarrow> 'd list \<Rightarrow> 'd list \<times> (go_error + nat)" where
  "bulk_docs key [] ds = (ds, Inr 0)"
| "bulk_docs key ((f, u) # ws) ds =
     (case update_docs key f u unsorted ds of
        (ds1, Inl e) \<Rightarrow> (ds1, Inl e)
      | (ds1, Inr None) \<Rightarrow> bulk_docs key ws ds1
      | (ds1, Inr (Some d)) \<Rightarrow>
          (case bulk_docs key ws ds1 of
             (ds2, Inl e) \<Rightarrow> (ds2, Inl e)
           | (ds2, Inr n) \<Rightarrow> (ds2, Inr (n + (if u d = d then 0 else 1)))))"

definition upsert_docs ::
  "('d \<Rightarrow> string) \<Rightarrow> ('d \<Rightarrow> 'd \<Rightarrow> bool) \<Rightarrow> ('d \<Rightarrow> bool) \<Rightarrow> 'd \<Rightarrow> 'd list
     \<Rightarrow> 'd list \<times> (go_error + 'd option)" where
  "upsert_docs key clash f d ds =
     (case first (filter f ds) of
        Some x \<Rightarrow> (ds, Inr (Some x))
      | None \<Rightarrow> (case insert_docs key clash d ds of
          (ds', Inl e) \<Rightarrow> (ds', Inl e)
        | (ds', Inr _) \<Rightarrow> (ds', Inr None)))"

text \<open>Lifting an effect to the server state.\<close>

definition on_docs ::
  "('s \<Rightarrow> 'd list) \<Rightarrow> ('d list \<Rightarrow> 's \<Rightarrow> 's) \<Rightarrow> ('s \<Rightarrow> 's \<times> fault) \<Rightarrow> ('d \<Rightarrow> string)
     \<Rightarrow> ('d list \<Rightarrow> 'd list \<times> (go_error + 'a)) \<Rightarrow> ('s, go_error, 'a) call" where
  "on_docs get put pop key eff =
     faulty pop (\<lambda>s. case eff (norm_docs key (get s)) of (ds, r) \<Rightarrow> (put ds s, r))"

lemma on_docs_code [code]:
  "on_docs get put pop key eff s =
     faulty pop (\<lambda>s. case eff (norm_docs key (get s)) of (ds, r) \<Rightarrow> (put ds s, r)) s"
  by (simp add: on_docs_def)

definition floor_ms :: "time \<Rightarrow> time" where
  "floor_ms t = t div millisecond * millisecond"

definition mem_collection ::
  "('s \<Rightarrow> 'd list) \<Rightarrow> ('d list \<Rightarrow> 's \<Rightarrow> 's) \<Rightarrow> ('s \<Rightarrow> 's \<times> fault) \<Rightarrow> ('d \<Rightarrow> string)
     \<Rightarrow> ('d \<Rightarrow> 'd \<Rightarrow> bool) \<Rightarrow> ('s, 'd) collection" where
  "mem_collection get put pop key clash =
     \<lparr>docs = (\<lambda>s. as_map key (norm_docs key (get s))),
      DateTime = floor_ms,
      InsertOne = (\<lambda>d. on_docs get put pop key (insert_docs key clash d)),
      FindOne = (\<lambda>f le. on_docs get put pop key (\<lambda>ds. (ds, Inr (first (select f le ds))))),
      Find = (\<lambda>f le lim. on_docs get put pop key (\<lambda>ds. (ds, Inr (limited lim (select f le ds))))),
      CountDocuments = (\<lambda>f. on_docs get put pop key (\<lambda>ds. (ds, Inr (length (filter f ds))))),
      UpdateOne = (\<lambda>f u. on_docs get put pop key (update_one_docs key f u)),
      FindOneAndUpdate = (\<lambda>f u le. on_docs get put pop key (find_update_docs key f u le)),
      FindOneAndUpsert = (\<lambda>f d. on_docs get put pop key (upsert_docs key clash f d)),
      BulkWrite = (\<lambda>ws. on_docs get put pop key (bulk_docs key ws))\<rparr>"

section \<open>It satisfies the laws\<close>

lemma norm_docs_distinct: "distinct (map key (norm_docs key ds))"
  by (induction ds) (auto simp: distinct_map_filter)

lemma norm_docs_id [simp]: "distinct (map key ds) \<Longrightarrow> norm_docs key ds = ds"
proof (induction ds)
  case (Cons d ds)
  then have "\<forall>x \<in> set ds. key x \<noteq> key d" by (auto simp: rev_image_eqI)
  then have "filter (\<lambda>x. key x \<noteq> key d) ds = ds" by (simp add: filter_id_conv)
  with Cons show ?case by simp
qed simp

lemma as_map_Some: "distinct (map key ds) \<Longrightarrow> as_map key ds k = Some d \<longleftrightarrow> d \<in> set ds \<and> key d = k"
proof -
  assume "distinct (map key ds)"
  then have "distinct (map fst (map (\<lambda>d. (key d, d)) ds))" by (simp add: comp_def)
  then show ?thesis unfolding as_map_def by (subst map_of_eq_Some_iff) auto
qed

lemma ran_as_map: "distinct (map key ds) \<Longrightarrow> ran (as_map key ds) = set ds"
  by (auto simp: ran_def as_map_Some)

lemma matching_as_map: "distinct (map key ds) \<Longrightarrow> matching f (as_map key ds) = set (filter f ds)"
  by (auto simp: matching_def ran_as_map)

lemma as_map_None: "as_map key ds k = None \<longleftrightarrow> k \<notin> key ` set ds"
  by (auto simp: as_map_def map_of_eq_None_iff image_iff)

lemma as_map_append: "key d \<notin> key ` set ds \<Longrightarrow> as_map key (ds @ [d]) = (as_map key ds)(key d \<mapsto> d)"
  by (induction ds) (auto simp: as_map_def fun_upd_twist)

lemma map_key_put_doc [simp]: "key d' = key d \<Longrightarrow> map key (put_doc key d d' ds) = map key ds"
  by (simp add: put_doc_def comp_def)

lemma as_map_put_doc:
  assumes "d \<in> set ds" "key d' = key d"
  shows "as_map key (put_doc key d d' ds) = (as_map key ds)(key d \<mapsto> d')"
proof -
  have "as_map key (put_doc key d d' ds) k =
      (if k = key d \<and> k \<in> key ` set ds then Some d' else as_map key ds k)" for k
    using assms(2) unfolding as_map_def put_doc_def by (induction ds) auto
  then show ?thesis using assms(1) by (auto simp: fun_eq_iff)
qed

lemma set_insort_by: "set (insort_by le x xs) = insert x (set xs)"
  by (induction xs) auto

lemma set_sort_by: "set (sort_by le xs) = set xs"
  by (induction xs) (auto simp: set_insort_by)

lemma distinct_insort_by: "distinct (insort_by le x xs) \<longleftrightarrow> x \<notin> set xs \<and> distinct xs"
  by (induction xs) (auto simp: set_insort_by)

lemma distinct_sort_by: "distinct (sort_by le xs) = distinct xs"
  by (induction xs) (auto simp: distinct_insort_by set_sort_by)

lemma sorted_insort_by: "linear le \<Longrightarrow> sorted_wrt le xs \<Longrightarrow> sorted_wrt le (insort_by le x xs)"
proof (induction xs)
  case (Cons y ys)
  have total: "\<And>x y. le x y \<or> le y x" and trans: "\<And>x y z. le x y \<Longrightarrow> le y z \<Longrightarrow> le x z"
    using Cons.prems(1) unfolding linear_def by blast+
  show ?case
  proof (cases "le x y")
    case True
    with Cons.prems trans show ?thesis by auto
  next
    case False
    with total have "le y x" by blast
    with Cons False show ?thesis by (auto simp: set_insort_by)
  qed
qed simp

lemma sorted_sort_by: "linear le \<Longrightarrow> sorted_wrt le (sort_by le xs)"
  by (induction xs) (auto intro: sorted_insort_by)

lemma listing_select:
  "linear le \<Longrightarrow> distinct (map key ds) \<Longrightarrow> listing f le (as_map key ds) (select f le ds)"
  by (auto simp: listing_def select_def distinct_sort_by set_sort_by sorted_sort_by
      matching_as_map distinct_map)

lemma driver_error_simps [simp]: "driver_error (DriverError m)" "driver_error (DuplicateKey i)"
  by (simp_all add: driver_error_def)

lemma update_docs_cases:
  assumes "distinct (map key ds)" "linear le" "update_docs key f u le ds = (ds', r)"
  shows "distinct (map key ds') \<and>
    (case r of Inl e \<Rightarrow> driver_error e \<and> ds' = ds
     | Inr od \<Rightarrow> od = first (select f le ds) \<and>
        (case od of None \<Rightarrow> ds' = ds \<and> matching f (as_map key ds) = {}
         | Some d \<Rightarrow> updated key f u (as_map key ds) (as_map key ds') d))"
proof (cases "first (select f le ds)")
  case None
  then have "matching f (as_map key ds) = {}"
    using listing_first(1) [OF listing_select [OF assms(2,1)]] by metis
  with None assms show ?thesis by (auto simp: update_docs_def)
next
  case (Some d)
  then have d: "d \<in> matching f (as_map key ds)"
    using listing_first(2) [OF listing_select [OF assms(2,1)]] by metis
  with assms(1) have "d \<in> set ds" by (simp add: matching_as_map)
  with Some d assms show ?thesis
    by (auto simp: update_docs_def updated_def as_map_put_doc split: if_splits)
qed

lemma update_one_docs_cases:
  assumes "distinct (map key ds)" "update_one_docs key f u ds = (ds', r)"
  shows "distinct (map key ds') \<and>
    (case r of
       Inl e \<Rightarrow> driver_error e \<and> ds' = ds
     | Inr (matched, modified) \<Rightarrow>
         matching f (as_map key ds) = {} \<and> matched = 0 \<and> modified = 0 \<and>
           as_map key ds' = as_map key ds \<or>
         (\<exists>d. updated key f u (as_map key ds) (as_map key ds') d \<and> matched = 1 \<and>
              modified = (if u d = d then 0 else 1)))"
proof -
  obtain ds1 r1 where u: "update_docs key f u unsorted ds = (ds1, r1)" by fastforce
  show ?thesis
    using update_docs_cases [OF assms(1) linear_unsorted u] assms(2)
    by (cases r1) (auto simp: update_one_docs_def u split: option.splits)
qed

lemma find_update_docs_cases:
  assumes "distinct (map key ds)" "linear le" "find_update_docs key f u le ds = (ds', r)"
  shows "distinct (map key ds') \<and>
    (case r of
       Inl e \<Rightarrow> driver_error e \<and> ds' = ds
     | Inr od \<Rightarrow> od = map_option u (first (select f le ds)) \<and>
         (case first (select f le ds) of
            None \<Rightarrow> as_map key ds' = as_map key ds
          | Some d \<Rightarrow> updated key f u (as_map key ds) (as_map key ds') d))"
proof -
  obtain ds1 r1 where u: "update_docs key f u le ds = (ds1, r1)" by fastforce
  show ?thesis
    using update_docs_cases [OF assms(1,2) u] assms(3)
    by (cases r1) (auto simp: find_update_docs_def u split: option.splits)
qed

lemma bulk_docs_writes:
  "distinct (map key ds) \<Longrightarrow> bulk_docs key ws ds = (ds', r) \<Longrightarrow>
   distinct (map key ds') \<and>
   (case r of Inr n \<Rightarrow> writes key ws (as_map key ds) (as_map key ds') n
    | Inl e \<Rightarrow> driver_error e \<and>
        (\<exists>vs n. mset vs \<subseteq># mset ws \<and> writes key vs (as_map key ds) (as_map key ds') n))"
proof (induction key ws ds arbitrary: ds' r rule: bulk_docs.induct)
  case (1 key ds)
  then show ?case by (auto intro: writes.finished)
next
  case (2 key f u ws ds)
  obtain ds1 r1 where u: "update_docs key f u unsorted ds = (ds1, r1)" by fastforce
  note uc = update_docs_cases [OF "2.prems"(1) linear_unsorted u]
  show ?case
  proof (cases r1)
    case (Inl e)
    have "writes key [] (as_map key ds) (as_map key ds) 0" by (rule writes.finished)
    then have "\<exists>vs n. mset vs \<subseteq># mset ((f, u) # ws) \<and> writes key vs (as_map key ds) (as_map key ds) n"
      by (intro exI [of _ "[]"] exI [of _ 0]) simp
    moreover have "ds' = ds" "r = Inl e" "driver_error e" using Inl u uc "2.prems" by auto
    ultimately show ?thesis using "2.prems"(1) by (simp del: mset.simps)
  next
    case (Inr od)
    obtain ds2 r2 where b: "bulk_docs key ws ds1 = (ds2, r2)" by fastforce
    have IH: "distinct (map key ds2) \<and>
       (case r2 of Inr n \<Rightarrow> writes key ws (as_map key ds1) (as_map key ds2) n
        | Inl e \<Rightarrow> driver_error e \<and>
          (\<exists>vs n. mset vs \<subseteq># mset ws \<and> writes key vs (as_map key ds1) (as_map key ds2) n))"
      using "2.IH" u uc b Inr by (cases od) auto
    show ?thesis
    proof (cases od)
      case None
      then have eqs: "ds1 = ds" "ds' = ds2" "r = r2" and m: "matching f (as_map key ds) = {}"
        using uc Inr u b "2.prems" by auto
      show ?thesis
      proof (cases r2)
        case (Inl e)
        then obtain vs n where "mset vs \<subseteq># mset ws" "writes key vs (as_map key ds) (as_map key ds2) n"
          using IH eqs by auto
        moreover from this have "mset vs \<subseteq># mset ((f, u) # ws)"
          by (metis add_mset_add_single mset.simps(2) mset_subset_eq_add_left subset_mset.order_trans)
        ultimately show ?thesis using IH eqs Inl by auto
      next
        case (Inr n)
        then show ?thesis using IH eqs m by (auto intro: writes.miss)
      qed
    next
      case (Some d)
      then have d: "updated key f u (as_map key ds) (as_map key ds1) d" using uc Inr by simp
      show ?thesis
      proof (cases r2)
        case (Inl e)
        then obtain vs n where "mset vs \<subseteq># mset ws" "writes key vs (as_map key ds1) (as_map key ds2) n"
          using IH by auto
        then have "mset ((f, u) # vs) \<subseteq># mset ((f, u) # ws)"
          "writes key ((f, u) # vs) (as_map key ds) (as_map key ds2) (n + (if u d = d then 0 else 1))"
          using writes.hit [OF d] by auto
        then have "\<exists>vs n. mset vs \<subseteq># mset ((f, u) # ws) \<and> writes key vs (as_map key ds) (as_map key ds2) n"
          by blast
        moreover have "r = Inl e" "ds' = ds2" "driver_error e" "distinct (map key ds2)"
          using Some Inl Inr u b "2.prems" IH by auto
        ultimately show ?thesis by simp
      next
        case (Inr n)
        then show ?thesis using Some \<open>r1 = Inr od\<close> u b "2.prems" IH writes.hit [OF d]
          by (auto split: if_splits)
      qed
    qed
  qed
qed

lemma floor_ms_laws:
  "floor_ms t \<le> t" "t < floor_ms t + millisecond" "floor_ms (floor_ms t) = floor_ms t"
  "t \<le> t2 \<Longrightarrow> floor_ms t \<le> floor_ms t2"
proof -
  have "t = floor_ms t + t mod millisecond" by (simp add: floor_ms_def div_mult_mod_eq)
  moreover have "0 \<le> t mod millisecond" "t mod millisecond < millisecond" by simp_all
  ultimately show "floor_ms t \<le> t" "t < floor_ms t + millisecond" by linarith+
  show "floor_ms (floor_ms t) = floor_ms t" by (simp add: floor_ms_def)
  show "t \<le> t2 \<Longrightarrow> floor_ms t \<le> floor_ms t2"
    by (simp add: floor_ms_def zdiv_mono1)
qed

text \<open>Inversion of a lifted effect.\<close>

lemma on_docs_Inr:
  assumes lens: "\<And>ds s. get (put ds s) = ds" "\<And>s. get (fst (pop s)) = get s"
    and run: "on_docs get put pop key eff s = (s', Inr r)"
  shows "eff (norm_docs key (get s)) = (get s', Inr r)"
proof -
  obtain s1 ft where p: "pop s = (s1, ft)" by fastforce
  with lens(2) [of s] have "get s1 = get s" by simp
  with p run show ?thesis
    by (cases ft) (auto simp: on_docs_def faulty_def lens(1) split: prod.splits)
qed

lemma on_docs_Inl:
  assumes lens: "\<And>ds s. get (put ds s) = ds" "\<And>s. get (fst (pop s)) = get s"
    and run: "on_docs get put pop key eff s = (s', Inl e)"
  shows "eff (norm_docs key (get s)) = (get s', Inl e) \<or>
    driver_error e \<and> \<not> is_duplicate_key e \<and>
      (get s' = get s \<or> get s' = fst (eff (norm_docs key (get s))))"
proof -
  obtain s1 ft where p: "pop s = (s1, ft)" by fastforce
  with lens(2) [of s] have g: "get s1 = get s" by simp
  show ?thesis
  proof (cases ft)
    case NoFault
    with p g run show ?thesis by (auto simp: on_docs_def faulty_def lens(1) split: prod.splits)
  next
    case LostRequest
    with p g run show ?thesis by (auto simp: on_docs_def faulty_def)
  next
    case LostReply
    with p g run show ?thesis
      by (auto simp: on_docs_def faulty_def lens(1) split: prod.splits)
  qed
qed

lemma insert_docs_cases:
  assumes "distinct (map key ds)" "insert_docs key clash d ds = (ds', r)"
  shows "distinct (map key ds') \<and>
    (case r of
       Inl e \<Rightarrow> is_duplicate_key e \<and> driver_error e \<and> ds' = ds
     | Inr _ \<Rightarrow> as_map key ds (key d) = None \<and> (\<forall>x \<in> set ds. \<not> clash x d) \<and>
         as_map key ds' = (as_map key ds)(key d \<mapsto> d))"
proof (cases "list_ex (\<lambda>x. key x = key d) ds \<or> list_ex (\<lambda>x. clash x d) ds")
  case True
  with assms show ?thesis by (auto simp: insert_docs_def split: if_splits)
next
  case False
  then have "key d \<notin> key ` set ds" "\<forall>x \<in> set ds. \<not> clash x d" by (auto simp: list_ex_iff)
  with False assms show ?thesis
    by (auto simp: insert_docs_def as_map_append as_map_None)
qed

lemma upsert_docs_cases:
  assumes "distinct (map key ds)" "upsert_docs key clash f d ds = (ds', r)"
  shows "distinct (map key ds') \<and>
    (case r of
       Inl e \<Rightarrow> driver_error e \<and> ds' = ds
     | Inr (Some x) \<Rightarrow> x \<in> matching f (as_map key ds) \<and> ds' = ds
     | Inr None \<Rightarrow> matching f (as_map key ds) = {} \<and> as_map key ds (key d) = None \<and>
         (\<forall>x \<in> set ds. \<not> clash x d) \<and> as_map key ds' = (as_map key ds)(key d \<mapsto> d))"
proof (cases "first (filter f ds)")
  case None
  obtain ds1 r1 where i: "insert_docs key clash d ds = (ds1, r1)" by fastforce
  from None have "filter f ds = []" by simp
  with None i assms insert_docs_cases [OF assms(1) i] show ?thesis
    by (cases r1) (auto simp: upsert_docs_def matching_as_map)
next
  case (Some x)
  then have "x \<in> set (filter f ds)" by (rule first_in)
  with Some assms show ?thesis by (auto simp: upsert_docs_def matching_as_map)
qed

lemma on_docs_Inl_docs:
  assumes lens: "\<And>ds s. get (put ds s) = ds" "\<And>s. get (fst (pop s)) = get s"
    and run: "on_docs get put pop key eff s = (s', Inl e)"
    and eff: "eff (norm_docs key (get s)) = (ds', r)" "distinct (map key ds')"
  shows "r = Inl e \<and> as_map key (norm_docs key (get s')) = as_map key ds' \<or>
    driver_error e \<and> \<not> is_duplicate_key e \<and>
      (as_map key (norm_docs key (get s')) = as_map key (norm_docs key (get s)) \<or>
       as_map key (norm_docs key (get s')) = as_map key ds')"
  using on_docs_Inl [where get = get and put = put and pop = pop, OF lens run] eff by auto

theorem mem_collection_laws:
  assumes lens: "\<And>ds s. get (put ds s) = ds" "\<And>s. get (fst (pop s)) = get s"
  shows "collection (mem_collection get put pop key clash) key clash"
proof -
  let ?C = "mem_collection get put pop key clash"
  let ?n = "\<lambda>s. norm_docs key (get s)"
  have d: "docs ?C s = as_map key (?n s)" for s by (simp add: mem_collection_def)
  have nd: "distinct (map key (?n s))" for s by (rule norm_docs_distinct)
  have ds: "?n s' = ds" if "get s' = ds" "distinct (map key ds)" for s' ds using that by simp
  note okI = on_docs_Inr [where get = get and put = put and pop = pop, OF lens]
  note errI = on_docs_Inl [where get = get and put = put and pop = pop, OF lens]
  note readers = mem_collection_def d matching_as_map [OF nd] ran_as_map [OF nd]
  show ?thesis
  proof (unfold_locales, goal_cases)
    case (1 s k d)
    then show ?case by (simp add: readers as_map_Some [OF nd])
  next
    case (6 d s s')
    then have "insert_docs key clash d (?n s) = (get s', Inr ())"
      using okI by (fastforce simp: mem_collection_def)
    from insert_docs_cases [OF nd this] show ?case by (simp add: readers)
  next
    case (7 d s s' e)
    then have "on_docs get put pop key (insert_docs key clash d) s = (s', Inl e)"
      by (simp add: mem_collection_def)
    from errI [OF this] insert_docs_cases [OF nd, of clash d s]
    show ?case by (cases "insert_docs key clash d (?n s)") (auto simp: readers split: sum.splits)
  next
    case (8 le f s s' od)
    then have "on_docs get put pop key (\<lambda>ds. (ds, Inr (first (select f le ds)))) s = (s', Inr od)"
      by (simp add: mem_collection_def)
    from okI [OF this] have "od = first (select f le (?n s))" "get s' = ?n s" by auto
    then show ?case using listing_select [OF 8(1) nd] nd by (auto simp: d)
  next
    case (9 f le s s' e)
    then have "on_docs get put pop key (\<lambda>ds. (ds, Inr (first (select f le ds)))) s = (s', Inl e)"
      by (simp add: mem_collection_def)
    from errI [OF this] show ?case using nd by (auto simp: d)
  next
    case (10 le f lim s s' found)
    then have "on_docs get put pop key (\<lambda>ds. (ds, Inr (limited lim (select f le ds)))) s = (s', Inr found)"
      by (simp add: mem_collection_def)
    from okI [OF this] have "found = limited lim (select f le (?n s))" "get s' = ?n s" by auto
    then show ?case using listing_select [OF 10(1) nd] nd by (auto simp: d)
  next
    case (11 f le lim s s' e)
    then have "on_docs get put pop key (\<lambda>ds. (ds, Inr (limited lim (select f le ds)))) s = (s', Inl e)"
      by (simp add: mem_collection_def)
    from errI [OF this] show ?case using nd by (auto simp: d)
  next
    case (12 f s s' n)
    then have "on_docs get put pop key (\<lambda>ds. (ds, Inr (length (filter f ds)))) s = (s', Inr n)"
      by (simp add: mem_collection_def)
    from okI [OF this] have "n = length (filter f (?n s))" "get s' = ?n s" by auto
    moreover have "distinct (filter f (?n s))" using nd [of s] by (simp add: distinct_map)
    ultimately show ?case using nd by (auto simp: readers distinct_card simp del: set_filter)
  next
    case (13 f s s' e)
    then have "on_docs get put pop key (\<lambda>ds. (ds, Inr (length (filter f ds)))) s = (s', Inl e)"
      by (simp add: mem_collection_def)
    from errI [OF this] show ?case using nd by (auto simp: d)
  next
    case (14 f u s s' matched modified)
    then have "update_one_docs key f u (?n s) = (get s', Inr (matched, modified))"
      using okI by (fastforce simp: mem_collection_def)
    from update_one_docs_cases [OF nd this] show ?case by (simp add: d)
  next
    case (15 f u s s' e)
    then have run: "on_docs get put pop key (update_one_docs key f u) s = (s', Inl e)"
      by (simp add: mem_collection_def)
    obtain ds' r where eff: "update_one_docs key f u (?n s) = (ds', r)" by fastforce
    note cases = update_one_docs_cases [OF nd eff]
    from on_docs_Inl_docs [where get = get and put = put and pop = pop, OF lens run eff]
    show ?case using cases
      by (fastforce simp: d split: sum.splits)
  next
    case (16 le f u s s' od)
    then have "find_update_docs key f u le (?n s) = (get s', Inr od)"
      using okI by (fastforce simp: mem_collection_def)
    from find_update_docs_cases [OF nd 16(1) this] show ?case
      using listing_select [OF 16(1) nd]
      by (intro exI [of _ "select f le (?n s)"]) (auto simp: d split: option.splits)
  next
    case (17 le f u s s' e)
    then have run: "on_docs get put pop key (find_update_docs key f u le) s = (s', Inl e)"
      by (simp add: mem_collection_def)
    obtain ds' r where eff: "find_update_docs key f u le (?n s) = (ds', r)" by fastforce
    note cases = find_update_docs_cases [OF nd 17(1) eff]
    from on_docs_Inl_docs [where get = get and put = put and pop = pop, OF lens run eff]
    show ?case using cases
      by (cases r) (fastforce simp: d split: option.splits)+
  next
    case (18 f d s s' od)
    then have "upsert_docs key clash f d (?n s) = (get s', Inr od)"
      using okI by (fastforce simp: mem_collection_def)
    from upsert_docs_cases [OF nd this] show ?case by (auto simp: readers split: option.splits)
  next
    case (19 f d s s' e)
    then have run: "on_docs get put pop key (upsert_docs key clash f d) s = (s', Inl e)"
      by (simp add: mem_collection_def)
    obtain ds' r where eff: "upsert_docs key clash f d (?n s) = (ds', r)" by fastforce
    note cases = upsert_docs_cases [OF nd eff]
    from on_docs_Inl_docs [where get = get and put = put and pop = pop, OF lens run eff]
    show ?case using cases
      by (cases r) (auto simp: readers split: option.splits)
  next
    case (20 ws s s' n)
    then have "bulk_docs key ws (?n s) = (get s', Inr n)"
      using okI by (fastforce simp: mem_collection_def)
    from bulk_docs_writes [OF nd this] show ?case by (auto simp: d)
  next
    case (21 ws s s' e)
    then have run: "on_docs get put pop key (bulk_docs key ws) s = (s', Inl e)"
      by (simp add: mem_collection_def)
    obtain ds' r where eff: "bulk_docs key ws (?n s) = (ds', r)" by fastforce
    have cases: "distinct (map key ds') \<and>
       (case r of Inr n \<Rightarrow> writes key ws (as_map key (?n s)) (as_map key ds') n
        | Inl e \<Rightarrow> driver_error e \<and>
          (\<exists>vs n. mset vs \<subseteq># mset ws \<and> writes key vs (as_map key (?n s)) (as_map key ds') n))"
      by (rule bulk_docs_writes [OF nd eff])
    then have some: "\<exists>vs n. mset vs \<subseteq># mset ws \<and> writes key vs (as_map key (?n s)) (as_map key ds') n"
      by (cases r) auto
    have none: "mset [] \<subseteq># mset ws \<and> writes key [] (as_map key (?n s)) (as_map key (?n s)) 0"
      by (simp add: writes.finished)
    have "driver_error e \<and> (as_map key (?n s') = as_map key (?n s) \<or> as_map key (?n s') = as_map key ds')"
      using on_docs_Inl_docs [where get = get and put = put and pop = pop, OF lens run eff] cases
      by (cases r) auto
    then show ?case unfolding d using some none by metis
  qed (simp_all add: mem_collection_def floor_ms_laws)
qed

text \<open>What the list of documents and the faults do not determine stays as it is.\<close>

lemma on_docs_keeps:
  "(\<And>ds s. g (put ds s) = g s) \<Longrightarrow> (\<And>s. g (fst (pop s)) = g s) \<Longrightarrow> keeps g (on_docs get put pop key eff)"
  unfolding keeps_def on_docs_def faulty_def
  by (simp split: prod.splits fault.splits) (metis fst_conv)

lemma mem_collection_keeps:
  assumes "\<And>ds s. g (put ds s) = g s" "\<And>s. g (fst (pop s)) = g s"
  shows "keeps g (InsertOne (mem_collection get put pop key clash) d)"
    and "keeps g (FindOne (mem_collection get put pop key clash) f le)"
    and "keeps g (Find (mem_collection get put pop key clash) f le lim)"
    and "keeps g (CountDocuments (mem_collection get put pop key clash) f)"
    and "keeps g (UpdateOne (mem_collection get put pop key clash) f u)"
    and "keeps g (FindOneAndUpdate (mem_collection get put pop key clash) f u le)"
    and "keeps g (FindOneAndUpsert (mem_collection get put pop key clash) f d)"
    and "keeps g (BulkWrite (mem_collection get put pop key clash) ws)"
  using assms by (simp_all add: mem_collection_def on_docs_keeps)

end
