(* ===== verification/SessionStore.thy ===== *)
theory SessionStore
  imports DomainSession MongoMemory
begin

text \<open>
  The session repository: the port \<^verbatim>\<open>ports.SessionRepository\<close> as a record of calls, its contract as
  the locale \<open>session_store\<close>, and the MongoDB adapter
  (\<^verbatim>\<open>internal/resources/mongodb/session_repository\<close>), which provides it.  A nil
  \<^verbatim>\<open>*session.Session\<close> is \<open>None\<close>.
\<close>

record 'w session_repository =
  SessionCreate :: "session option \<Rightarrow> ('w, go_error, unit) call"
  SessionFindByID :: "session_ID \<Rightarrow> ('w, go_error, session option) call"
  SessionRotate :: "session option \<Rightarrow> string \<Rightarrow> time \<Rightarrow> ('w, go_error, unit) call"
  SessionRevoke :: "session_ID \<Rightarrow> time \<Rightarrow> ('w, go_error, unit) call"

section \<open>The MongoDB adapter\<close>

record session_document =
  sd_ID :: string
  sd_UserID :: string
  sd_RefreshTokenDigest :: string
  sd_CreatedAt :: time
  sd_ExpiresAt :: time
  sd_RevokedAt :: "time option"

definition newSessionDocument :: "session option \<Rightarrow> go_error + session_document" where
  "newSessionDocument authSession =
     (case authSession of
        None \<Rightarrow> Inl (storeErr Store_ErrNilSession)
      | Some s \<Rightarrow> Inr
          \<lparr>sd_ID = ses_id s, sd_UserID = ses_userID s,
           sd_RefreshTokenDigest = ses_refreshTokenDigest s,
           sd_CreatedAt = UTC (ses_createdAt s), sd_ExpiresAt = UTC (ses_expiresAt s),
           sd_RevokedAt = ses_revokedAt s\<rparr>)"

definition session_toDomain :: "session_document \<Rightarrow> go_error + session" where
  "session_toDomain document =
     andThen (session_ParseID (sd_ID document))
       (\<lambda>_. Wrap ''parse session id'' (storeErr Store_ErrNilSession)) (\<lambda>sessionID.
     andThen (user_ParseID (sd_UserID document))
       (\<lambda>_. Wrap ''parse session user id'' (storeErr Store_ErrInvalidDocument)) (\<lambda>userID.
     andThen (session_Restore sessionID userID (sd_RefreshTokenDigest document)
                (sd_CreatedAt document) (sd_ExpiresAt document) (sd_RevokedAt document))
       (\<lambda>_. Wrap ''restore session'' (storeErr Store_ErrInvalidDocument)) (\<lambda>authSession.
     Inr authSession)))"

text \<open>What BSON keeps of a document: its dates in milliseconds.\<close>

definition bson_session :: "(time \<Rightarrow> time) \<Rightarrow> session_document \<Rightarrow> session_document" where
  "bson_session dt d = d\<lparr>sd_CreatedAt := dt (sd_CreatedAt d), sd_ExpiresAt := dt (sd_ExpiresAt d),
     sd_RevokedAt := map_option dt (sd_RevokedAt d)\<rparr>"

type_synonym 's sessions_collection = "('s, session_document) collection"

definition sessions_Create ::
  "'s sessions_collection \<Rightarrow> session option \<Rightarrow> ('s, go_error, unit) call" where
  "sessions_Create C authSession =
     orFail (lift (newSessionDocument authSession)) (\<lambda>e. e) (\<lambda>document.
     orFail (InsertOne C (bson_session (DateTime C) document)) (Wrap ''insert session document'')
       (\<lambda>_. ret ()))"

definition sessions_FindByID ::
  "'s sessions_collection \<Rightarrow> session_ID \<Rightarrow> ('s, go_error, session option) call" where
  "sessions_FindByID C sid =
     (if sid = [] then fail (Sentinel (SessionE Session_ErrInvalidID))
      else orFail (FindOne C (\<lambda>d. sd_ID d = sid) unsorted)
             (Wrap ''find session document by id'') (\<lambda>found.
        case found of
          None \<Rightarrow> fail (portsErr ErrSessionNotFound)
        | Some document \<Rightarrow>
            orFail (lift (session_toDomain document)) (Wrap ''convert session document to domain'')
              (\<lambda>authSession. ret (Some authSession))))"

definition rotate_filter :: "(time \<Rightarrow> time) \<Rightarrow> session \<Rightarrow> string \<Rightarrow> time \<Rightarrow> session_document \<Rightarrow> bool" where
  "rotate_filter dt authSession expectedDigest rotatedAt d \<longleftrightarrow>
     sd_ID d = ses_id authSession \<and> sd_RefreshTokenDigest d = expectedDigest \<and>
     sd_RevokedAt d = None \<and> sd_ExpiresAt d > dt (UTC rotatedAt)"

definition rotate_update :: "(time \<Rightarrow> time) \<Rightarrow> session \<Rightarrow> session_document \<Rightarrow> session_document" where
  "rotate_update dt authSession d =
     d\<lparr>sd_RefreshTokenDigest := ses_refreshTokenDigest authSession,
       sd_ExpiresAt := dt (UTC (ses_expiresAt authSession))\<rparr>"

definition sessions_Rotate ::
  "'s sessions_collection \<Rightarrow> session option \<Rightarrow> string \<Rightarrow> time \<Rightarrow> ('s, go_error, unit) call" where
  "sessions_Rotate C authSession expectedDigest rotatedAt =
     (case authSession of
        None \<Rightarrow> fail (storeErr Store_ErrNilSession)
      | Some s \<Rightarrow>
          if blank expectedDigest then fail (storeErr Store_ErrInvalidExpectDigest)
          else if IsZero rotatedAt then fail (storeErr Store_ErrInvalidRotationTime)
          else orFail (UpdateOne C (rotate_filter (DateTime C) s expectedDigest rotatedAt)
                        (rotate_update (DateTime C) s)) (Wrap ''rotate session document'')
            (\<lambda>(matchedCount, modifiedCount).
               if matchedCount = 0 then fail (portsErr ErrSessionConflict) else ret ()))"

definition sessions_existsByID ::
  "'s sessions_collection \<Rightarrow> session_ID \<Rightarrow> ('s, go_error, bool) call" where
  "sessions_existsByID C sid =
     orFail (FindOne C (\<lambda>d. sd_ID d = sid) unsorted) (Wrap ''check session existence'')
       (\<lambda>found. ret (found \<noteq> None))"

definition sessions_Revoke ::
  "'s sessions_collection \<Rightarrow> session_ID \<Rightarrow> time \<Rightarrow> ('s, go_error, unit) call" where
  "sessions_Revoke C sid revokedAt =
     (if sid = [] then fail (Sentinel (SessionE Session_ErrInvalidID))
      else if IsZero revokedAt then fail (storeErr Store_ErrInvalidRotationTime)
      else orFail (UpdateOne C (\<lambda>d. sd_ID d = sid \<and> sd_RevokedAt d = None)
                    (\<lambda>d. d\<lparr>sd_RevokedAt := Some (DateTime C (UTC revokedAt))\<rparr>))
             (Wrap ''revoke session document'') (\<lambda>(matchedCount, modifiedCount).
        if matchedCount > 0 then ret ()
        else orFail (sessions_existsByID C sid) (\<lambda>e. e) (\<lambda>exists.
          if \<not> exists then fail (portsErr ErrSessionNotFound) else ret ())))"

text \<open>The batch reader of the WebSocket gateway: every document of the cursor, in any order.\<close>

definition sessions_FindByIDs ::
  "'s sessions_collection \<Rightarrow> session_ID list \<Rightarrow> ('s, go_error, session list) call" where
  "sessions_FindByIDs C ids =
     (if ids = [] then ret []
      else if list_ex (\<lambda>i. i = []) ids then fail (Sentinel (SessionE Session_ErrInvalidID))
      else orFail (Find C (\<lambda>d. sd_ID d \<in> set ids) unsorted None) (\<lambda>e. e) (\<lambda>documents.
        lift (decode_all session_toDomain documents)))"

definition mongo_session_repository :: "'s sessions_collection \<Rightarrow> 's session_repository" where
  "mongo_session_repository C =
     \<lparr>SessionCreate = sessions_Create C, SessionFindByID = sessions_FindByID C,
      SessionRotate = sessions_Rotate C, SessionRevoke = sessions_Revoke C\<rparr>"

section \<open>The contract\<close>

text \<open>
  \<open>sessions w\<close> observes the stored sessions by identifier, \<open>prec\<close> is the precision with which the
  store keeps times.  A failed write may have taken effect, unless the store reports a conflict.
\<close>

definition rotated :: "(time \<Rightarrow> time) \<Rightarrow> session \<Rightarrow> session \<Rightarrow> session" where
  "rotated prec s x =
     x\<lparr>ses_refreshTokenDigest := ses_refreshTokenDigest s, ses_expiresAt := prec (ses_expiresAt s)\<rparr>"

definition revoked :: "(time \<Rightarrow> time) \<Rightarrow> time \<Rightarrow> session \<Rightarrow> session" where
  "revoked prec at x =
     (if ses_revokedAt x = None then x\<lparr>ses_revokedAt := Some (prec at)\<rparr> else x)"

definition rotates ::
  "(time \<Rightarrow> time) \<Rightarrow> session \<Rightarrow> string \<Rightarrow> time \<Rightarrow> (session_ID \<rightharpoonup> session) \<Rightarrow> (session_ID \<rightharpoonup> session) \<Rightarrow> bool" where
  "rotates prec s expected at m m' \<longleftrightarrow>
     (\<exists>x. m (ses_id s) = Some x \<and> ses_refreshTokenDigest x = expected \<and> ses_revokedAt x = None \<and>
          prec at < ses_expiresAt x \<and> m' = m(ses_id s \<mapsto> rotated prec s x))"

definition revokes ::
  "(time \<Rightarrow> time) \<Rightarrow> session_ID \<Rightarrow> time \<Rightarrow> (session_ID \<rightharpoonup> session) \<Rightarrow> (session_ID \<rightharpoonup> session) \<Rightarrow> bool" where
  "revokes prec i at m m' \<longleftrightarrow> (\<exists>x. m i = Some x \<and> m' = m(i \<mapsto> revoked prec at x))"

definition with_precision :: "(time \<Rightarrow> time) \<Rightarrow> session \<Rightarrow> session" where
  "with_precision prec s = s\<lparr>ses_createdAt := prec (ses_createdAt s),
     ses_expiresAt := prec (ses_expiresAt s), ses_revokedAt := map_option prec (ses_revokedAt s)\<rparr>"

locale session_store =
  fixes R :: "'w session_repository"
    and sessions :: "'w \<Rightarrow> session_ID \<rightharpoonup> session"
    and prec :: "time \<Rightarrow> time"
  assumes prec_le: "prec t \<le> t"
    and Create_ok: "SessionCreate R (Some x) w = (w', Inr ()) \<Longrightarrow>
      sessions w (ses_id x) = None \<and> sessions w' = (sessions w)(ses_id x \<mapsto> with_precision prec x)"
    and Create_err: "SessionCreate R (Some x) w = (w', Inl e) \<Longrightarrow>
      sessions w' = sessions w \<or>
      sessions w (ses_id x) = None \<and> sessions w' = (sessions w)(ses_id x \<mapsto> with_precision prec x)"
    and FindByID_ok: "SessionFindByID R i w = (w', Inr found) \<Longrightarrow>
      sessions w' = sessions w \<and>
      (\<exists>y. sessions w i = Some y \<and> session_wf (the found) \<and>
        found = Some (y\<lparr>ses_id := TrimSpace i, ses_userID := TrimSpace (ses_userID y)\<rparr>))"
    and FindByID_err: "SessionFindByID R i w = (w', Inl e) \<Longrightarrow>
      sessions w' = sessions w \<and>
      (errors_is e (PortsE ErrSessionNotFound) \<longrightarrow> sessions w i = None)"
    and Rotate_ok: "SessionRotate R (Some x) expected at w = (w', Inr ()) \<Longrightarrow>
      rotates prec x expected at (sessions w) (sessions w')"
    and Rotate_err: "SessionRotate R (Some x) expected at w = (w', Inl e) \<Longrightarrow>
      sessions w' = sessions w \<or>
      \<not> errors_is e (PortsE ErrSessionConflict) \<and> rotates prec x expected at (sessions w) (sessions w')"
    and Revoke_ok: "SessionRevoke R i at w = (w', Inr ()) \<Longrightarrow>
      revokes prec i at (sessions w) (sessions w')"
    and Revoke_err: "SessionRevoke R i at w = (w', Inl e) \<Longrightarrow>
      (sessions w' = sessions w \<or> revokes prec i at (sessions w) (sessions w')) \<and>
      (errors_is e (PortsE ErrSessionNotFound) \<longrightarrow> sessions w i = None)"

text \<open>
  What any interleaving of the writes does to the stored sessions: the steps of all clients.
  A revocation is never undone, and the owner and creation time never change.
\<close>

inductive session_step :: "(time \<Rightarrow> time) \<Rightarrow> (session_ID \<rightharpoonup> session) \<Rightarrow> (session_ID \<rightharpoonup> session) \<Rightarrow> bool"
  for prec where
  idle: "session_step prec m m"
| create: "m (ses_id x) = None \<Longrightarrow> session_step prec m (m(ses_id x \<mapsto> with_precision prec x))"
| rotate: "rotates prec x expected at m m' \<Longrightarrow> session_step prec m m'"
| revoke: "revokes prec i at m m' \<Longrightarrow> session_step prec m m'"

abbreviation session_steps ::
  "(time \<Rightarrow> time) \<Rightarrow> (session_ID \<rightharpoonup> session) \<Rightarrow> (session_ID \<rightharpoonup> session) \<Rightarrow> bool" where
  "session_steps prec \<equiv> (session_step prec)\<^sup>*\<^sup>*"

lemma session_step_keeps:
  "session_step prec m m' \<Longrightarrow> m i = Some y \<Longrightarrow>
   \<exists>y'. m' i = Some y' \<and> ses_userID y' = ses_userID y \<and> ses_createdAt y' = ses_createdAt y \<and>
        (ses_revokedAt y \<noteq> None \<longrightarrow> y' = y)"
  by (induction rule: session_step.induct)
    (auto simp: rotates_def revokes_def rotated_def revoked_def)

lemma session_steps_keep:
  "session_steps prec m m' \<Longrightarrow> m i = Some y \<Longrightarrow>
   \<exists>y'. m' i = Some y' \<and> ses_userID y' = ses_userID y \<and> ses_createdAt y' = ses_createdAt y \<and>
        (ses_revokedAt y \<noteq> None \<longrightarrow> y' = y)"
proof (induction rule: rtranclp_induct)
  case base
  then show ?case by simp
next
  case (step m1 m2)
  then obtain y1 where y1: "m1 i = Some y1" "ses_userID y1 = ses_userID y"
    "ses_createdAt y1 = ses_createdAt y" "ses_revokedAt y \<noteq> None \<longrightarrow> y1 = y" by blast
  from session_step_keeps [OF step.hyps(2) y1(1)] y1(2-) show ?case by auto
qed

lemma revoked_is_final:
  "session_steps prec m m' \<Longrightarrow> m i = Some y \<Longrightarrow> ses_revokedAt y \<noteq> None \<Longrightarrow> m' i = Some y"
  using session_steps_keep by blast

text \<open>
  A rotation is a compare-and-swap on the digest: of the rotations that expect the same digest,
  only the first goes through, whatever happens in between, as long as nobody writes that digest
  again.
\<close>

inductive session_steps_avoiding ::
  "(time \<Rightarrow> time) \<Rightarrow> session_ID \<Rightarrow> string \<Rightarrow> (session_ID \<rightharpoonup> session) \<Rightarrow> (session_ID \<rightharpoonup> session) \<Rightarrow> bool"
  for prec i digest where
  none: "session_steps_avoiding prec i digest m m"
| more: "session_steps_avoiding prec i digest m m1 \<Longrightarrow> session_step prec m1 m2 \<Longrightarrow>
    (\<forall>y. m2 i = Some y \<longrightarrow> m1 i \<noteq> None \<longrightarrow> ses_refreshTokenDigest y = digest \<longrightarrow>
       map_option ses_refreshTokenDigest (m1 i) = Some digest) \<Longrightarrow>
    session_steps_avoiding prec i digest m m2"

lemma digest_gone:
  "session_steps_avoiding prec i digest m m' \<Longrightarrow> m i = Some y \<Longrightarrow> ses_refreshTokenDigest y \<noteq> digest \<Longrightarrow>
   \<exists>y'. m' i = Some y' \<and> ses_refreshTokenDigest y' \<noteq> digest"
proof (induction rule: session_steps_avoiding.induct)
  case (more m m1 m2)
  then obtain y1 where y1: "m1 i = Some y1" "ses_refreshTokenDigest y1 \<noteq> digest" by blast
  from session_step_keeps [OF more.hyps(2) y1(1)] obtain y2 where "m2 i = Some y2" by blast
  with more.hyps(3) y1 show ?case by auto
qed auto

section \<open>The adapter keeps the contract\<close>

text \<open>A stored document is read as the session with the same fields.\<close>

definition stored_session :: "session_document \<Rightarrow> session" where
  "stored_session d = \<lparr>ses_id = sd_ID d, ses_userID = sd_UserID d,
     ses_refreshTokenDigest = sd_RefreshTokenDigest d, ses_createdAt = sd_CreatedAt d,
     ses_expiresAt = sd_ExpiresAt d, ses_revokedAt = sd_RevokedAt d\<rparr>"

definition stored_sessions :: "'s sessions_collection \<Rightarrow> 's \<Rightarrow> session_ID \<rightharpoonup> session" where
  "stored_sessions C s = map_option stored_session \<circ> docs C s"

lemma session_toDomain_ok [code_checks]:
  "session_toDomain d = Inr s \<longleftrightarrow>
     s = (stored_session d)\<lparr>ses_id := TrimSpace (sd_ID d), ses_userID := TrimSpace (sd_UserID d)\<rparr> \<and>
     session_wf s"
  by (auto simp: session_toDomain_def run_iff session_Restore_ok stored_session_def session_wf_def)

text \<open>Writing a session and reading it back loses only what BSON does not keep.\<close>

lemma session_document_roundtrip:
  assumes "session_wf s" "TrimSpace (ses_id s) = ses_id s" "TrimSpace (ses_userID s) = ses_userID s"
  shows "\<exists>d. newSessionDocument (Some s) = Inr d \<and> session_toDomain d = Inr s"
  using assms by (auto simp: newSessionDocument_def code_checks stored_session_def)

lemma session_document_bson_roundtrip:
  assumes "newSessionDocument (Some s) = Inr d"
  shows "stored_session (bson_session dt d) = with_precision dt s"
  using assms by (auto simp: newSessionDocument_def stored_session_def bson_session_def with_precision_def)

locale session_collection =
  collection C sd_ID no_clash for C :: "('s, session_document) collection"
begin

lemma docs_id: "docs C s i = Some d \<Longrightarrow> sd_ID d = i"
  using keyed by blast

lemma stored_upd: "docs C s' = (docs C s)(i \<mapsto> d) \<Longrightarrow>
    stored_sessions C s' = (stored_sessions C s)(i \<mapsto> stored_session d)"
  by (auto simp: stored_sessions_def)

lemma rotate_updated:
  assumes "updated sd_ID (rotate_filter (DateTime C) x expected at) (rotate_update (DateTime C) x)
             (docs C s) (docs C s') d"
  shows "rotates (DateTime C) x expected at (stored_sessions C s) (stored_sessions C s')"
proof -
  from assms have d: "docs C s (sd_ID d) = Some d" "rotate_filter (DateTime C) x expected at d"
    and s': "docs C s' = (docs C s)(sd_ID d \<mapsto> rotate_update (DateTime C) x d)"
    by (auto simp: updated_def matching_docs)
  from d(2) have i: "sd_ID d = ses_id x" by (simp add: rotate_filter_def)
  have "stored_session (rotate_update (DateTime C) x d) = rotated (DateTime C) x (stored_session d)"
    by (simp add: rotate_update_def stored_session_def rotated_def)
  then show ?thesis
    using stored_upd [OF s'] d i
    by (auto simp: rotates_def rotate_filter_def stored_sessions_def stored_session_def)
qed

lemma revoke_updated:
  assumes "updated sd_ID (\<lambda>d. sd_ID d = i \<and> sd_RevokedAt d = None)
             (\<lambda>d. d\<lparr>sd_RevokedAt := Some (DateTime C at)\<rparr>) (docs C s) (docs C s') d"
  shows "revokes (DateTime C) i at (stored_sessions C s) (stored_sessions C s')"
proof -
  from assms have d: "docs C s (sd_ID d) = Some d" "sd_ID d = i" "sd_RevokedAt d = None"
    and s': "docs C s' = (docs C s)(sd_ID d \<mapsto> d\<lparr>sd_RevokedAt := Some (DateTime C at)\<rparr>)"
    by (auto simp: updated_def matching_docs)
  then show ?thesis
    using stored_upd [OF s'] by (auto simp: revokes_def revoked_def stored_sessions_def stored_session_def)
qed

lemma existsByID_ok: "sessions_existsByID C i s = (s', Inr b) \<Longrightarrow>
    docs C s' = docs C s \<and> b = (docs C s i \<noteq> None)"
  unfolding sessions_existsByID_def run_iff using FindOne_key by fastforce

lemma existsByID_err: "sessions_existsByID C i s = (s', Inl e) \<Longrightarrow>
    docs C s' = docs C s \<and> \<not> errors_is e (PortsE p)"
  unfolding sessions_existsByID_def orFail_iff using FindOne_err by fastforce

lemma revoke_missed: "matching (\<lambda>d. sd_ID d = i \<and> sd_RevokedAt d = None) (docs C s) = {} \<Longrightarrow>
    docs C s i = Some d \<Longrightarrow> sd_RevokedAt d \<noteq> None"
  using matching_key [of i "\<lambda>d. sd_RevokedAt d = None" s] by (auto split: if_splits)

lemma revoke_already:
  assumes "docs C s i = Some d" "sd_RevokedAt d \<noteq> None"
  shows "revokes (DateTime C) i at (stored_sessions C s) (stored_sessions C s)"
  using assms by (auto simp: revokes_def stored_sessions_def stored_session_def revoked_def fun_eq_iff)

lemma stored_cong: "docs C s' = docs C s \<Longrightarrow> stored_sessions C s' = stored_sessions C s"
  by (simp add: stored_sessions_def)

text \<open>Every law of the contract.\<close>

lemma insert_stored:
  assumes "newSessionDocument (Some x) = Inr d"
    "docs C s (sd_ID (bson_session (DateTime C) d)) = None"
    "docs C s' = (docs C s)(sd_ID (bson_session (DateTime C) d) \<mapsto> bson_session (DateTime C) d)"
  shows "stored_sessions C s (ses_id x) = None \<and>
    stored_sessions C s' = (stored_sessions C s)(ses_id x \<mapsto> with_precision (DateTime C) x)"
proof -
  have "sd_ID (bson_session (DateTime C) d) = ses_id x"
    using assms(1) by (auto simp: newSessionDocument_def bson_session_def)
  then show ?thesis
    using assms(2) stored_upd [OF assms(3)] session_document_bson_roundtrip [OF assms(1)]
    by (simp add: stored_sessions_def)
qed

lemma Create_cases:
  assumes "sessions_Create C (Some x) s = (s', r)"
  shows "let stored = (stored_sessions C s (ses_id x) = None \<and>
      stored_sessions C s' = (stored_sessions C s)(ses_id x \<mapsto> with_precision (DateTime C) x))
    in case r of Inr _ \<Rightarrow> stored | Inl _ \<Rightarrow> stored_sessions C s' = stored_sessions C s \<or> stored"
proof -
  obtain d where d: "newSessionDocument (Some x) = Inr d" by (simp add: newSessionDocument_def)
  let ?d = "bson_session (DateTime C) d"
  obtain s1 q where ins: "InsertOne C ?d s = (s1, q)" by fastforce
  show ?thesis
  proof (cases q)
    case (Inl e)
    then have "s' = s1" "\<exists>e. r = Inl e" using assms ins d by (auto simp: sessions_Create_def orFail_iff)
    then show ?thesis
      using InsertOne_err [OF ins [unfolded Inl]] insert_stored [OF d, of s s1] stored_cong [of s1 s]
      by auto
  next
    case (Inr u)
    then have "s' = s1" "r = Inr ()" using assms ins d by (auto simp: sessions_Create_def orFail_iff)
    then show ?thesis using InsertOne_ok [of ?d s s1] ins Inr insert_stored [OF d, of s s1] by auto
  qed
qed

lemma FindByID_stored:
  assumes "sessions_FindByID C i s = (s', Inr found)"
  shows "stored_sessions C s' = stored_sessions C s \<and>
    (\<exists>y. stored_sessions C s i = Some y \<and> session_wf (the found) \<and>
      found = Some (y\<lparr>ses_id := TrimSpace i, ses_userID := TrimSpace (ses_userID y)\<rparr>))"
proof -
  from assms obtain d x s1 where f: "FindOne C (\<lambda>d. sd_ID d = i) unsorted s = (s1, Inr (Some d))"
    and x: "session_toDomain d = Inr x" "found = Some x" "s' = s1"
    by (auto simp: sessions_FindByID_def run_iff split: if_splits option.splits)
  from FindOne_key [OF f] have "docs C s1 = docs C s" "docs C s i = Some d" by simp_all
  moreover from this have "sd_ID d = i" by (blast intro: docs_id)
  ultimately show ?thesis
    using x stored_cong [of s1 s] by (auto simp: session_toDomain_ok stored_sessions_def stored_session_def)
qed

lemma FindByID_failed:
  assumes "sessions_FindByID C i s = (s', Inl e)"
  shows "stored_sessions C s' = stored_sessions C s \<and>
    (errors_is e (PortsE ErrSessionNotFound) \<longrightarrow> stored_sessions C s i = None)"
proof (cases "i = []")
  case True
  with assms show ?thesis by (auto simp: sessions_FindByID_def)
next
  case False
  obtain s1 q where f: "FindOne C (\<lambda>d. sd_ID d = i) unsorted s = (s1, q)" by fastforce
  show ?thesis
  proof (cases q)
    case (Inl e')
    with False assms f have "s' = s1" "e = Wrap ''find session document by id'' e'"
      by (auto simp: sessions_FindByID_def orFail_iff)
    with FindOne_err [OF f [unfolded Inl]] stored_cong [of s1 s] show ?thesis by auto
  next
    case (Inr found)
    with FindOne_key f have same: "docs C s1 = docs C s" and found: "found = docs C s i" by blast+
    show ?thesis
    proof (cases found)
      case None
      with False assms f Inr same found stored_cong [of s1 s] show ?thesis
        by (auto simp: sessions_FindByID_def stored_sessions_def)
    next
      case (Some d)
      with False assms f Inr obtain e' where "session_toDomain d = Inl e'" "s' = s1"
        "e = Wrap ''convert session document to domain'' e'"
        by (auto simp: sessions_FindByID_def orFail_iff)
      moreover from this have "\<not> errors_is e' (PortsE ErrSessionNotFound)"
        by (auto simp: session_toDomain_def andThen_def split: sum.splits)
      ultimately show ?thesis using same stored_cong [of s1 s] by simp
    qed
  qed
qed

lemma Rotate_cases:
  assumes "sessions_Rotate C (Some x) expected at s = (s', r)"
  shows "let eff = rotates (DateTime C) x expected at (stored_sessions C s) (stored_sessions C s')
    in case r of Inr _ \<Rightarrow> eff
       | Inl e \<Rightarrow> stored_sessions C s' = stored_sessions C s \<or>
           \<not> errors_is e (PortsE ErrSessionConflict) \<and> eff"
proof (cases "blank expected \<or> IsZero at")
  case True
  with assms show ?thesis by (auto simp: sessions_Rotate_def split: if_splits)
next
  case False
  obtain s1 q where upd: "UpdateOne C (rotate_filter (DateTime C) x expected at)
      (rotate_update (DateTime C) x) s = (s1, q)" by fastforce
  show ?thesis
  proof (cases q)
    case (Inl e)
    with False assms upd have "s' = s1" "r = Inl (Wrap ''rotate session document'' e)"
      by (auto simp: sessions_Rotate_def orFail_iff)
    with UpdateOne_err [OF upd [unfolded Inl]] stored_cong [of s1 s] rotate_updated [of x expected at s s1]
    show ?thesis by auto
  next
    case (Inr n)
    obtain matched modified where n: "n = (matched, modified)" by fastforce
    with Inr False assms upd have "s' = s1"
      "r = (if matched = 0 then Inl (portsErr ErrSessionConflict) else Inr ())"
      by (auto simp: sessions_Rotate_def orFail_iff split: if_splits)
    with UpdateOne_ok [OF upd [unfolded Inr n]] stored_cong [of s1 s] rotate_updated [of x expected at s s1]
    show ?thesis by auto
  qed
qed

lemma Revoke_cases:
  assumes "sessions_Revoke C i at s = (s', r)"
  shows "let eff = revokes (DateTime C) i at (stored_sessions C s) (stored_sessions C s')
    in case r of Inr _ \<Rightarrow> eff
       | Inl e \<Rightarrow> (stored_sessions C s' = stored_sessions C s \<or> eff) \<and>
           (errors_is e (PortsE ErrSessionNotFound) \<longrightarrow> stored_sessions C s i = None)"
proof (cases "i = [] \<or> IsZero at")
  case True
  with assms show ?thesis by (auto simp: sessions_Revoke_def split: if_splits)
next
  case False
  let ?f = "\<lambda>d. sd_ID d = i \<and> sd_RevokedAt d = None"
  let ?u = "\<lambda>d. d\<lparr>sd_RevokedAt := Some (DateTime C at)\<rparr>"
  obtain s1 q where upd: "UpdateOne C ?f ?u s = (s1, q)" by fastforce
  show ?thesis
  proof (cases q)
    case (Inl e)
    with False assms upd have "s' = s1" "r = Inl (Wrap ''revoke session document'' e)"
      by (auto simp: sessions_Revoke_def orFail_iff)
    with UpdateOne_err [OF upd [unfolded Inl]] stored_cong [of s1 s] revoke_updated [of i at s s1]
    show ?thesis by auto
  next
    case (Inr n)
    obtain matched modified where n: "n = (matched, modified)" by fastforce
    from UpdateOne_ok [OF upd [unfolded Inr n]] show ?thesis
    proof (elim disjE exE conjE)
      assume miss: "matching ?f (docs C s) = {}" and m: "matched = 0" and same: "docs C s1 = docs C s"
      obtain b where e: "sessions_existsByID C i s1 = (s', b)"
        using assms False upd Inr n m
        by (cases "sessions_existsByID C i s1") (auto simp: sessions_Revoke_def orFail_iff split: if_splits)
      then have same': "docs C s' = docs C s"
        using same existsByID_ok [of i s1 s'] existsByID_err [of i s1 s'] by (cases b) auto
      moreover have "r = Inr () \<Longrightarrow> docs C s i \<noteq> None"
        using assms False upd Inr n m e same existsByID_ok [of i s1 s']
        by (cases b) (auto simp: sessions_Revoke_def split: if_splits)
      moreover have "docs C s i = None" if "r = Inl e'" "errors_is e' (PortsE ErrSessionNotFound)" for e'
        using assms False upd Inr n m e same that existsByID_ok [of i s1 s'] existsByID_err [of i s1 s']
        by (cases b) (auto simp: sessions_Revoke_def split: if_splits)
      ultimately show ?thesis
        using revoke_missed [OF miss] revoke_already [of s i] stored_cong [OF same']
        by (cases r) (auto simp: stored_sessions_def)
    next
      fix d assume u: "updated sd_ID ?f ?u (docs C s) (docs C s1) d" and "matched = 1"
      with assms False upd Inr n have "s' = s1" "r = Inr ()"
        by (auto simp: sessions_Revoke_def)
      then show ?thesis using revoke_updated [OF u] by simp
    qed
  qed
qed

sublocale session_store "mongo_session_repository C" "stored_sessions C" "DateTime C"
proof (unfold_locales, unfold mongo_session_repository_def session_repository.simps, goal_cases)
  case 1 show ?case by (rule DateTime_le)
next
  case 2 then show ?case using Create_cases by fastforce
next
  case 3 then show ?case using Create_cases by fastforce
next
  case 4 then show ?case by (rule FindByID_stored)
next
  case 5 then show ?case by (rule FindByID_failed)
next
  case 6 then show ?case using Rotate_cases by fastforce
next
  case 7 then show ?case using Rotate_cases by fastforce
next
  case 8 then show ?case using Revoke_cases by fastforce
next
  case 9 then show ?case using Revoke_cases by fastforce
qed

lemma repository_contract: "session_store (mongo_session_repository C) (stored_sessions C) (DateTime C)"
  by (rule session_store_axioms)

end

end
