(* ===== verification/UserStore.thy ===== *)
theory UserStore
  imports DomainUser MongoMemory
begin

text \<open>
  The user repository: the port \<^verbatim>\<open>ports.UserRepository\<close> as a record of calls, the MongoDB
  adapter \<^verbatim>\<open>internal/resources/mongodb/user_repository\<close>, and the contract \<open>user_store\<close> the
  use cases rely on, which the adapter provides.  E-mail addresses are unique by an index.
\<close>

record user_cursor =
  uc_ID :: user_ID
  uc_CreatedAt :: time

record users_page =
  up_Users :: "user list"
  up_HasNext :: bool
  up_NextCursor :: "user_cursor option"
  up_TotalItems :: int

record 'w user_repository =
  UserCreate :: "user option \<Rightarrow> ('w, go_error, unit) call"
  UserFindByEmail :: "email \<Rightarrow> ('w, go_error, user option) call"
  UserFindByID :: "user_ID \<Rightarrow> ('w, go_error, user option) call"
  UserFindByIDs :: "user_ID list \<Rightarrow> ('w, go_error, user list) call"
  UserList :: "int \<Rightarrow> user_cursor option \<Rightarrow> ('w, go_error, users_page) call"

section \<open>The MongoDB adapter\<close>

record user_document =
  ud_ID :: string
  ud_Email :: string
  ud_PasswordHash :: string
  ud_CreatedAt :: time

definition newUserDocument :: "user option \<Rightarrow> go_error + user_document" where
  "newUserDocument account =
     (case account of
        None \<Rightarrow> Inl (Sentinel (StoreE Store_ErrNilUser))
      | Some u \<Rightarrow> Inr \<lparr>ud_ID = usr_id u, ud_Email = usr_email u,
                       ud_PasswordHash = usr_passwordHash u, ud_CreatedAt = UTC (usr_createdAt u)\<rparr>)"

definition user_toDomain ::
  "(string \<Rightarrow> string) \<Rightarrow> (string \<Rightarrow> string option) \<Rightarrow> user_document \<Rightarrow> go_error + user" where
  "user_toDomain low parse document =
     andThen (user_ParseID (ud_ID document))
       (\<lambda>_. Wrap ''parse user id'' (Sentinel (StoreE Store_ErrInvalidDocument))) (\<lambda>userID.
     andThen (ParseEmail low parse (ud_Email document))
       (\<lambda>_. Wrap ''parse email'' (Sentinel (StoreE Store_ErrInvalidDocument))) (\<lambda>email.
     andThen (NewPasswordHash (ud_PasswordHash document))
       (\<lambda>_. Wrap ''parse password hash'' (Sentinel (StoreE Store_ErrInvalidDocument))) (\<lambda>passwordHash.
     andThen (user_New userID email passwordHash (ud_CreatedAt document))
       (\<lambda>_. Wrap ''restore user'' (Sentinel (StoreE Store_ErrInvalidDocument))) (\<lambda>account.
     Inr account))))"

definition bson_user :: "(time \<Rightarrow> time) \<Rightarrow> user_document \<Rightarrow> user_document" where
  "bson_user dt d = d\<lparr>ud_CreatedAt := dt (ud_CreatedAt d)\<rparr>"

definition userEmailUniqueIndexName :: string where
  "userEmailUniqueIndexName = ''users_email_unique''"

text \<open>The unique index that \<^verbatim>\<open>EnsureIndexes\<close> creates.\<close>

definition email_clash :: "user_document \<Rightarrow> user_document \<Rightarrow> bool" where
  "email_clash x y \<longleftrightarrow> ud_Email x = ud_Email y"

definition isEmailDuplicateError :: "go_error \<Rightarrow> bool" where
  "isEmailDuplicateError e \<longleftrightarrow> duplicate_index e = Some userEmailUniqueIndexName"

type_synonym 's users_collection = "('s, user_document) collection"

definition users_Create :: "'s users_collection \<Rightarrow> user option \<Rightarrow> ('s, go_error, unit) call" where
  "users_Create C account =
     orFail (lift (newUserDocument account)) (\<lambda>e. e) (\<lambda>document.
     orFail (InsertOne C (bson_user (DateTime C) document))
       (\<lambda>e. if isEmailDuplicateError e then Sentinel (PortsE ErrEmailAlreadyExists)
            else Wrap ''insert user document'' e)
       (\<lambda>_. ret ()))"

definition users_findOne ::
  "(string \<Rightarrow> string) \<Rightarrow> (string \<Rightarrow> string option) \<Rightarrow> 's users_collection
     \<Rightarrow> (user_document \<Rightarrow> bool) \<Rightarrow> string \<Rightarrow> ('s, go_error, user option) call" where
  "users_findOne low parse C f what =
     orFail (FindOne C f unsorted) (Wrap what) (\<lambda>found.
       case found of
         None \<Rightarrow> fail (Sentinel (PortsE ErrUserNotFound))
       | Some document \<Rightarrow>
           orFail (lift (user_toDomain low parse document)) (Wrap ''convert user document to domain'')
             (\<lambda>account. ret (Some account)))"

definition users_FindByEmail ::
  "(string \<Rightarrow> string) \<Rightarrow> (string \<Rightarrow> string option) \<Rightarrow> 's users_collection
     \<Rightarrow> email \<Rightarrow> ('s, go_error, user option) call" where
  "users_FindByEmail low parse C email =
     (if email = [] then fail (Sentinel (UserE User_ErrInvalidEmail))
      else users_findOne low parse C (\<lambda>d. ud_Email d = email) ''find user document by email'')"

definition users_FindByID ::
  "(string \<Rightarrow> string) \<Rightarrow> (string \<Rightarrow> string option) \<Rightarrow> 's users_collection
     \<Rightarrow> user_ID \<Rightarrow> ('s, go_error, user option) call" where
  "users_FindByID low parse C uid =
     (if uid = [] then fail (Sentinel (UserE User_ErrInvalidID))
      else users_findOne low parse C (\<lambda>d. ud_ID d = uid) ''find user document by id'')"

definition users_FindByIDs ::
  "(string \<Rightarrow> string) \<Rightarrow> (string \<Rightarrow> string option) \<Rightarrow> 's users_collection
     \<Rightarrow> user_ID list \<Rightarrow> ('s, go_error, user list) call" where
  "users_FindByIDs low parse C ids =
     (if ids = [] then ret []
      else if list_ex (\<lambda>i. i = []) ids then fail (Sentinel (UserE User_ErrInvalidID))
      else orFail (Find C (\<lambda>d. ud_ID d \<in> set ids) unsorted None) (Wrap ''find user documents by ids'')
        (\<lambda>documents. orFail (lift (decode_all (user_toDomain low parse) documents))
          (Wrap ''convert user document to domain'') ret))"

definition users_after :: "(time \<Rightarrow> time) \<Rightarrow> user_cursor option \<Rightarrow> user_document \<Rightarrow> bool" where
  "users_after dt after d =
     (case after of
        None \<Rightarrow> True
      | Some c \<Rightarrow> ud_CreatedAt d > dt (uc_CreatedAt c) \<or>
                  ud_CreatedAt d = dt (uc_CreatedAt c) \<and> uc_ID c < ud_ID d)"

definition users_order :: "user_document \<Rightarrow> user_document \<Rightarrow> bool" where
  "users_order x y \<longleftrightarrow>
     ud_CreatedAt x < ud_CreatedAt y \<or> ud_CreatedAt x = ud_CreatedAt y \<and> ud_ID x \<le> ud_ID y"

definition users_List ::
  "(string \<Rightarrow> string) \<Rightarrow> (string \<Rightarrow> string option) \<Rightarrow> 's users_collection
     \<Rightarrow> int \<Rightarrow> user_cursor option \<Rightarrow> ('s, go_error, users_page) call" where
  "users_List low parse C limit after =
     (if limit < 1 \<or> limit > 100 then fail (NewError ''invalid user list limit'')
      else if (case after of None \<Rightarrow> False | Some c \<Rightarrow> uc_ID c = [] \<or> IsZero (uc_CreatedAt c))
        then fail (NewError ''invalid user list cursor'')
      else
        orFail (CountDocuments C (\<lambda>_. True)) (Wrap ''count user documents'') (\<lambda>totalItems.
        orFail (Find C (users_after (DateTime C) after) users_order (Some (nat (limit + 1))))
          (Wrap ''find user page'') (\<lambda>documents.
        orFail (lift (decode_all (user_toDomain low parse) documents)) (Wrap ''convert user page'')
          (\<lambda>accounts.
            let hasNext = int (length accounts) > limit;
                page = (if hasNext then take (nat limit) accounts else accounts)
            in ret \<lparr>up_Users = page, up_HasNext = hasNext,
                    up_NextCursor =
                      (if hasNext then Some \<lparr>uc_ID = usr_id (last page),
                                             uc_CreatedAt = usr_createdAt (last page)\<rparr> else None),
                    up_TotalItems = int totalItems\<rparr>))))"

definition mongo_user_repository ::
  "(string \<Rightarrow> string) \<Rightarrow> (string \<Rightarrow> string option) \<Rightarrow> 's users_collection \<Rightarrow> 's user_repository" where
  "mongo_user_repository low parse C =
     \<lparr>UserCreate = users_Create C, UserFindByEmail = users_FindByEmail low parse C,
      UserFindByID = users_FindByID low parse C, UserFindByIDs = users_FindByIDs low parse C,
      UserList = users_List low parse C\<rparr>"

text \<open>The repository touches nothing but its collection.\<close>

lemma mongo_user_repository_keeps:
  assumes "\<And>d. keeps g (InsertOne C d)" "\<And>f le. keeps g (FindOne C f le)"
  shows "keeps g (UserCreate (mongo_user_repository low parse C) a)"
    and "keeps g (UserFindByEmail (mongo_user_repository low parse C) email)"
    and "keeps g (UserFindByID (mongo_user_repository low parse C) uid)"
  using assms
  by (auto simp: mongo_user_repository_def users_Create_def users_FindByEmail_def users_FindByID_def
      users_findOne_def intro!: frame split: option.splits)

section \<open>The contract\<close>

definition stored_user :: "user_document \<Rightarrow> user" where
  "stored_user d = \<lparr>usr_id = ud_ID d, usr_email = ud_Email d,
     usr_passwordHash = ud_PasswordHash d, usr_createdAt = ud_CreatedAt d\<rparr>"

definition stored_users :: "'s users_collection \<Rightarrow> 's \<Rightarrow> user_ID \<rightharpoonup> user" where
  "stored_users C s = map_option stored_user \<circ> docs C s"

definition user_added :: "(time \<Rightarrow> time) \<Rightarrow> user \<Rightarrow> (user_ID \<rightharpoonup> user) \<Rightarrow> (user_ID \<rightharpoonup> user) \<Rightarrow> bool" where
  "user_added prec x m m' \<longleftrightarrow>
     m (usr_id x) = None \<and> (\<forall>y \<in> ran m. usr_email y \<noteq> usr_email x) \<and>
     m' = m(usr_id x \<mapsto> x\<lparr>usr_createdAt := prec (usr_createdAt x)\<rparr>)"

text \<open>What a reader gets for a stored account: its identifier and address are parsed again.\<close>

definition user_restored :: "(string \<Rightarrow> string) \<Rightarrow> user \<Rightarrow> user" where
  "user_restored low y = y\<lparr>usr_id := TrimSpace (usr_id y), usr_email := low (TrimSpace (usr_email y))\<rparr>"

locale user_store =
  fixes U :: "'w user_repository"
    and users :: "'w \<Rightarrow> user_ID \<rightharpoonup> user"
    and prec :: "time \<Rightarrow> time"
    and low :: "string \<Rightarrow> string"
  assumes UserCreate_ok: "UserCreate U (Some x) w = (w', Inr ()) \<Longrightarrow> user_added prec x (users w) (users w')"
    and UserCreate_err: "UserCreate U (Some x) w = (w', Inl e) \<Longrightarrow>
      users w' = users w \<or>
      \<not> errors_is e (PortsE ErrEmailAlreadyExists) \<and> user_added prec x (users w) (users w')"
    and FindByEmail_ok: "UserFindByEmail U email w = (w', Inr found) \<Longrightarrow>
      users w' = users w \<and> (\<exists>i y. users w i = Some y \<and> usr_id y = i \<and> usr_email y = email \<and>
        found = Some (user_restored low y))"
    and FindByEmail_err: "UserFindByEmail U email w = (w', Inl e) \<Longrightarrow>
      users w' = users w \<and>
      (errors_is e (PortsE ErrUserNotFound) \<longrightarrow> (\<forall>y \<in> ran (users w). usr_email y \<noteq> email))"
    and UserFindByID_ok: "UserFindByID U i w = (w', Inr found) \<Longrightarrow>
      users w' = users w \<and> (\<exists>y. users w i = Some y \<and> usr_id y = i \<and> found = Some (user_restored low y))"
    and UserFindByID_err: "UserFindByID U i w = (w', Inl e) \<Longrightarrow>
      users w' = users w \<and> (errors_is e (PortsE ErrUserNotFound) \<longrightarrow> users w i = None)"

section \<open>The adapter keeps the contract\<close>

lemma user_toDomain_ok [code_checks]:
  "user_toDomain low parse d = Inr u \<longleftrightarrow>
     u = user_restored low (stored_user d) \<and> usr_id u \<noteq> [] \<and> usr_email u \<noteq> [] \<and>
     length (usr_email u) \<le> maxEmailLenght \<and> parse (usr_email u) = Some (usr_email u) \<and>
     \<not> blank (ud_PasswordHash d) \<and> ud_CreatedAt d \<noteq> 0"
  by (auto simp: user_toDomain_def run_iff ParseEmail_ok NewPasswordHash_ok user_New_ok stored_user_def
        user_restored_def)

lemma user_toDomain_err: "user_toDomain low parse d = Inl e \<Longrightarrow> \<not> errors_is e (PortsE p)"
  by (auto simp: user_toDomain_def andThen_def split: sum.splits)

locale user_collection =
  collection C ud_ID email_clash for C :: "('s, user_document) collection" +
  fixes low :: "string \<Rightarrow> string" and parse :: "string \<Rightarrow> string option"
begin

lemma users_same: "docs C s' = docs C s \<Longrightarrow> stored_users C s' = stored_users C s"
  by (simp add: stored_users_def)

lemma added:
  assumes "newUserDocument (Some x) = Inr d0" "d = bson_user (DateTime C) d0"
    "docs C s (ud_ID d) = None" "\<forall>y \<in> ran (docs C s). \<not> email_clash y d"
    "docs C s' = (docs C s)(ud_ID d \<mapsto> d)"
  shows "user_added (DateTime C) x (stored_users C s) (stored_users C s')"
proof -
  have d: "ud_ID d = usr_id x" "ud_Email d = usr_email x"
    "stored_user d = x\<lparr>usr_createdAt := DateTime C (usr_createdAt x)\<rparr>"
    using assms(1,2) by (auto simp: newUserDocument_def bson_user_def stored_user_def)
  have "usr_email y \<noteq> usr_email x" if y: "y \<in> ran (stored_users C s)" for y
    using y assms(4) d(2)
    by (fastforce simp: stored_users_def ran_def email_clash_def stored_user_def)
  then show ?thesis using assms(3,5) d by (auto simp: user_added_def stored_users_def fun_eq_iff)
qed

lemma Create_cases:
  assumes "users_Create C (Some x) s = (s', r)"
  shows "let eff = user_added (DateTime C) x (stored_users C s) (stored_users C s')
    in case r of Inr _ \<Rightarrow> eff
       | Inl e \<Rightarrow> stored_users C s' = stored_users C s \<or>
           \<not> errors_is e (PortsE ErrEmailAlreadyExists) \<and> eff"
proof -
  obtain d where d: "newUserDocument (Some x) = Inr d" by (simp add: newUserDocument_def)
  let ?d = "bson_user (DateTime C) d"
  obtain s1 q where ins: "InsertOne C ?d s = (s1, q)" by fastforce
  show ?thesis
  proof (cases q)
    case (Inl e)
    then have r: "s' = s1" "r = Inl (if isEmailDuplicateError e then Sentinel (PortsE ErrEmailAlreadyExists)
        else Wrap ''insert user document'' e)"
      using assms ins d by (auto simp: users_Create_def orFail_iff)
    have "\<not> is_duplicate_key e \<Longrightarrow> \<not> isEmailDuplicateError e"
      by (induction e) (auto simp: isEmailDuplicateError_def)
    then show ?thesis
      using r InsertOne_err [OF ins [unfolded Inl]] added [OF d refl, of s s1] users_same [of s1 s]
      by auto
  next
    case (Inr u)
    then have "s' = s1" "r = Inr ()" using assms ins d by (auto simp: users_Create_def orFail_iff)
    then show ?thesis using InsertOne_ok [of ?d s s1] ins Inr added [OF d refl, of s s1] by auto
  qed
qed

lemma findOne_cases:
  assumes "users_findOne low parse C f what s = (s', r)"
  shows "stored_users C s' = stored_users C s \<and>
    (case r of Inr found \<Rightarrow> \<exists>d. docs C s (ud_ID d) = Some d \<and> f d \<and>
                 found = Some (user_restored low (stored_user d))
     | Inl e \<Rightarrow> errors_is e (PortsE ErrUserNotFound) \<longrightarrow> matching f (docs C s) = {})"
proof -
  obtain s1 q where f: "FindOne C f unsorted s = (s1, q)" by fastforce
  show ?thesis
  proof (cases q)
    case (Inl e)
    then show ?thesis using assms f FindOne_err [OF f [unfolded Inl]] users_same [of s1 s]
      by (auto simp: users_findOne_def)
  next
    case (Inr found)
    from FindOne_ok [OF linear_unsorted f [unfolded Inr]] obtain ds
      where same: "docs C s1 = docs C s" and ds: "listing f unsorted (docs C s) ds" "found = first ds"
      by blast
    show ?thesis
    proof (cases found)
      case None
      then show ?thesis using assms f Inr same ds listing_first(1) [OF ds(1)] users_same [of s1 s]
        by (auto simp: users_findOne_def)
    next
      case (Some d)
      with ds have "d \<in> matching f (docs C s)" using listing_first(2) by metis
      then have d: "docs C s (ud_ID d) = Some d" "f d" by (auto simp: matching_docs)
      then show ?thesis using assms f Inr same Some users_same [of s1 s]
        by (cases "user_toDomain low parse d")
          (auto simp: users_findOne_def user_toDomain_ok dest: user_toDomain_err)
    qed
  qed
qed

lemma stored_user_of: "docs C s i = Some d \<Longrightarrow> stored_users C s i = Some (stored_user d)"
  by (simp add: stored_users_def)

lemma stored_user_ran: "y \<in> ran (stored_users C s) \<Longrightarrow> \<exists>d. docs C s (ud_ID d) = Some d \<and> y = stored_user d"
  using keyed by (fastforce simp: stored_users_def ran_def)

lemma FindByEmail_cases:
  assumes "users_FindByEmail low parse C email s = (s', r)"
  shows "stored_users C s' = stored_users C s \<and>
    (case r of Inr found \<Rightarrow> \<exists>i y. stored_users C s i = Some y \<and> usr_id y = i \<and> usr_email y = email \<and>
                 found = Some (user_restored low y)
     | Inl e \<Rightarrow> errors_is e (PortsE ErrUserNotFound) \<longrightarrow>
                 (\<forall>y \<in> ran (stored_users C s). usr_email y \<noteq> email))"
proof (cases "email = []")
  case True
  then show ?thesis using assms by (auto simp: users_FindByEmail_def)
next
  case False
  then have run: "users_findOne low parse C (\<lambda>d. ud_Email d = email) ''find user document by email'' s = (s', r)"
    using assms by (simp add: users_FindByEmail_def)
  have none: "usr_email y \<noteq> email" if "matching (\<lambda>d. ud_Email d = email) (docs C s) = {}"
    "y \<in> ran (stored_users C s)" for y
    using that stored_user_ran [of y s] by (auto simp: matching_docs stored_user_def)
  have some: "\<exists>i y. stored_users C s i = Some y \<and> usr_id y = i \<and> usr_email y = ud_Email d \<and>
      found = Some (user_restored low y)"
    if "docs C s (ud_ID d) = Some d" "found = Some (user_restored low (stored_user d))" for d found
    using stored_user_of [OF that(1)] that(2)
    by (intro exI [of _ "ud_ID d"] exI [of _ "stored_user d"]) (simp add: stored_user_def)
  show ?thesis
  proof (cases r)
    case (Inl e)
    then show ?thesis using findOne_cases [OF run] none by auto
  next
    case (Inr found)
    with findOne_cases [OF run] obtain d where "stored_users C s' = stored_users C s"
      "docs C s (ud_ID d) = Some d" "ud_Email d = email" "found = Some (user_restored low (stored_user d))"
      by auto
    with some [of d found] Inr show ?thesis by simp
  qed
qed

lemma FindByID_cases:
  assumes "users_FindByID low parse C i s = (s', r)"
  shows "stored_users C s' = stored_users C s \<and>
    (case r of Inr found \<Rightarrow> \<exists>y. stored_users C s i = Some y \<and> usr_id y = i \<and> found = Some (user_restored low y)
     | Inl e \<Rightarrow> errors_is e (PortsE ErrUserNotFound) \<longrightarrow> stored_users C s i = None)"
proof (cases "i = []")
  case True
  then show ?thesis using assms by (auto simp: users_FindByID_def)
next
  case False
  then have run: "users_findOne low parse C (\<lambda>d. ud_ID d = i) ''find user document by id'' s = (s', r)"
    using assms by (simp add: users_FindByID_def)
  have "stored_users C s i = None" if "matching (\<lambda>d. ud_ID d = i) (docs C s) = {}"
    using that matching_key [of i "\<lambda>_. True" s] by (auto simp: stored_users_def split: option.splits)
  moreover have "\<exists>y. stored_users C s (ud_ID d) = Some y \<and> usr_id y = ud_ID d \<and>
      found = Some (user_restored low y)"
    if "docs C s (ud_ID d) = Some d" "found = Some (user_restored low (stored_user d))" for d found
    using stored_user_of [OF that(1)] that(2) by (simp add: stored_user_def)
  ultimately show ?thesis using findOne_cases [OF run] by (cases r) auto
qed

sublocale user_store "mongo_user_repository low parse C" "stored_users C" "DateTime C" low
proof (unfold_locales, unfold mongo_user_repository_def user_repository.simps, goal_cases)
  case 1 then show ?case using Create_cases by fastforce
next
  case 2 then show ?case using Create_cases by fastforce
next
  case 3 then show ?case using FindByEmail_cases by fastforce
next
  case 4 then show ?case using FindByEmail_cases by fastforce
next
  case 5 then show ?case using FindByID_cases by fastforce
next
  case 6 then show ?case using FindByID_cases by fastforce
qed

lemma repository_contract: "user_store (mongo_user_repository low parse C) (stored_users C) (DateTime C) low"
  by (rule user_store_axioms)

end

end
