(* ===== verification/Authentication.thy ===== *)
theory Authentication
  imports SessionStore UserStore
begin

text \<open>
  The use cases of \<^verbatim>\<open>internal/application/auth\<close>: sign-up, sign-in, refresh, authenticate, logout
  and the session view.  Their dependencies (the ports) are one record of calls on a world
  \<open>'w\<close>; each use case takes the ports it has in the source.  A \<^verbatim>\<open>context.Context\<close> is not
  modelled: a cancelled one is a call that fails.
\<close>

section \<open>The ports\<close>

record token_claims =
  tcl_TokenID :: string
  tcl_UserID :: user_ID
  tcl_SessionID :: session_ID
  tcl_IssuedAt :: time
  tcl_ExpiresAt :: time

record 'w token_manager =
  SignAccessToken :: "token_claims \<Rightarrow> ('w, go_error, string) call"
  SignRefreshToken :: "token_claims \<Rightarrow> ('w, go_error, string) call"
  VerifyAccessToken :: "string \<Rightarrow> ('w, go_error, token_claims) call"
  VerifyRefreshToken :: "string \<Rightarrow> ('w, go_error, token_claims) call"

record 'w password_hasher =
  Hash :: "string \<Rightarrow> ('w, go_error, password_hash) call"
  Matches :: "string \<Rightarrow> password_hash \<Rightarrow> ('w, go_error, bool) call"

type_synonym 'w token_digester = "string \<Rightarrow> ('w, go_error, string) call"

record 'w auth_dependencies =
  UserRepository :: "'w user_repository"
  SessionRepository :: "'w session_repository"
  PasswordHasher :: "'w password_hasher"
  TokenManager :: "'w token_manager"
  TokenDigester :: "'w token_digester"
  IDGenerator :: "'w id_generator"
  Clock :: "'w clock"

abbreviation authErr :: "auth_error \<Rightarrow> go_error" where
  "authErr e \<equiv> Sentinel (AuthE e)"

definition is_invalid_token :: "go_error \<Rightarrow> bool" where
  "is_invalid_token e \<longleftrightarrow> errors_is e (PortsE ErrInvalidToken) \<or> errors_is e (PortsE ErrExpiredToken)"

definition claims_incomplete :: "token_claims \<Rightarrow> bool" where
  "claims_incomplete claims \<longleftrightarrow> tcl_UserID claims = [] \<or> tcl_SessionID claims = []"

section \<open>Authenticate\<close>

record authenticate_output =
  ao_UserID :: string
  ao_SessionID :: string
  ao_AccessExpiresAt :: time
  ao_SessionExpiresAt :: time

definition Authenticate ::
  "'w auth_dependencies \<Rightarrow> string \<Rightarrow> ('w, go_error, authenticate_output) call" where
  "Authenticate D accessToken =
     (if blank accessToken then fail (authErr Auth_ErrUnauthenticated)
      else
        orFail (VerifyAccessToken (TokenManager D) accessToken)
          (\<lambda>e. if is_invalid_token e then authErr Auth_ErrUnauthenticated
               else Wrap ''verify access token'' e) (\<lambda>claims.
        if claims_incomplete claims then fail (authErr Auth_ErrUnauthenticated)
        else
          orFail (SessionFindByID (SessionRepository D) (tcl_SessionID claims))
            (\<lambda>e. if errors_is e (PortsE ErrSessionNotFound) then authErr Auth_ErrUnauthenticated
                 else Wrap ''find authentication session'' e) (\<lambda>found.
          case found of
            None \<Rightarrow> fail (authErr Auth_ErrUnauthenticated)
          | Some authSession \<Rightarrow>
              if ses_userID authSession \<noteq> tcl_UserID claims
              then fail (authErr Auth_ErrUnauthenticated)
              else reads (Clock D) (\<lambda>now.
                if \<not> tcl_ExpiresAt claims > UTC now then fail (authErr Auth_ErrUnauthenticated)
                else reads (Clock D) (\<lambda>now.
                  orFail (lift (EnsureActive authSession (UTC now)))
                    (\<lambda>e. if errors_is e (SessionE Session_ErrExpired) \<or>
                           errors_is e (SessionE Session_ErrRevoked)
                         then authErr Auth_ErrUnauthenticated
                         else Wrap ''validate authentication session'' e) (\<lambda>_.
                  ret \<lparr>ao_UserID = tcl_UserID claims, ao_SessionID = tcl_SessionID claims,
                       ao_AccessExpiresAt = UTC (tcl_ExpiresAt claims),
                       ao_SessionExpiresAt = UTC (ses_expiresAt authSession)\<rparr>))))))"

section \<open>Logout\<close>

definition Logout :: "'w auth_dependencies \<Rightarrow> string \<Rightarrow> ('w, go_error, unit) call" where
  "Logout D refreshToken =
     (if refreshToken = [] then ret ()
      else
        attempt (VerifyRefreshToken (TokenManager D) refreshToken)
          (\<lambda>e. if is_invalid_token e then ret () else fail (Wrap ''verify logout refresh token'' e))
          (\<lambda>claims.
        if claims_incomplete claims then ret ()
        else
          attempt (SessionFindByID (SessionRepository D) (tcl_SessionID claims))
            (\<lambda>e. if errors_is e (PortsE ErrSessionNotFound) then ret ()
                 else fail (Wrap ''find logout session'' e)) (\<lambda>found.
          case found of
            None \<Rightarrow> fail (Panic ''nil pointer'')
          | Some authSession \<Rightarrow>
              if ses_userID authSession \<noteq> tcl_UserID claims then ret ()
              else reads (Clock D) (\<lambda>now.
                attempt (SessionRevoke (SessionRepository D) (ses_id authSession) (UTC now))
                  (\<lambda>e. if errors_is e (PortsE ErrSessionNotFound) then ret ()
                       else fail (Wrap ''revoke logout session'' e)) ret))))"

section \<open>Refresh\<close>

record session_config =
  AccessTokenTTL :: duration
  RefreshTokenTTL :: duration

text \<open>The configuration check shared by \<^verbatim>\<open>NewRefreshUseCase\<close> and \<^verbatim>\<open>NewSigninUseCase\<close>.\<close>

definition validateSessionConfig :: "session_config \<Rightarrow> go_error + session_config" where
  "validateSessionConfig config =
     (if AccessTokenTTL config \<le> 0
      then Inl (Wrap ''access token TTL must be positive'' (authErr Auth_ErrInvalidConfiguration))
      else if RefreshTokenTTL config \<le> AccessTokenTTL config
      then Inl (Wrap ''refresh token TTL must be greater than access token TTL''
                  (authErr Auth_ErrInvalidConfiguration))
      else Inr config)"

record refresh_output =
  ro_AccessToken :: string
  ro_AccessTokenExpiresAt :: time
  ro_RefreshToken :: string
  ro_RefreshTokenExpiresAt :: time

definition rejectReusedToken ::
  "'w auth_dependencies \<Rightarrow> session_ID \<Rightarrow> time \<Rightarrow> ('w, go_error, 'a) call" where
  "rejectReusedToken D sessionID revokedAt =
     orFail (SessionRevoke (SessionRepository D) sessionID revokedAt)
       (Wrap ''revoke session after refresh token reuse'')
       (\<lambda>_. fail (authErr Auth_ErrInvalidRefreshToken))"

text \<open>
  From the accepted token to the end of \<^verbatim>\<open>Execute\<close>: two new tokens are signed, the session
  object is rotated in memory and then stored by compare-and-swap on the digest that was read.
\<close>

definition issueRotation ::
  "'w auth_dependencies \<Rightarrow> session_config \<Rightarrow> session \<Rightarrow> time \<Rightarrow> ('w, go_error, refresh_output) call" where
  "issueRotation D config authSession now =
     orFail (IDGenerator D) (Wrap ''generate refreshed access token id'') (\<lambda>accessTokenID.
     orFail (IDGenerator D) (Wrap ''generate refreshed refresh token id'') (\<lambda>refreshTokenID.
     let expectedDigest = ses_refreshTokenDigest authSession;
         accessTokenExpiresAt = now + AccessTokenTTL config;
         refreshTokenExpiresAt = now + RefreshTokenTTL config
     in
     orFail (SignAccessToken (TokenManager D)
               \<lparr>tcl_TokenID = accessTokenID, tcl_UserID = ses_userID authSession,
                tcl_SessionID = ses_id authSession, tcl_IssuedAt = now,
                tcl_ExpiresAt = accessTokenExpiresAt\<rparr>)
       (Wrap ''sign refreshed access token'') (\<lambda>accessToken.
     orFail (SignRefreshToken (TokenManager D)
               \<lparr>tcl_TokenID = refreshTokenID, tcl_UserID = ses_userID authSession,
                tcl_SessionID = ses_id authSession, tcl_IssuedAt = now,
                tcl_ExpiresAt = refreshTokenExpiresAt\<rparr>)
       (Wrap ''sign refreshed refresh token'') (\<lambda>refreshToken.
     orFail (TokenDigester D refreshToken) (Wrap ''digest new refresh token'') (\<lambda>newRefreshTokenDigest.
     case RotateRefreshToken authSession newRefreshTokenDigest refreshTokenExpiresAt now of
       (rotatedSession, result) \<Rightarrow>
         orFail (lift result) (Wrap ''rotate refresh session entity'') (\<lambda>_.
         attempt (SessionRotate (SessionRepository D) (Some rotatedSession) expectedDigest now)
           (\<lambda>e. if errors_is e (PortsE ErrSessionConflict)
                then rejectReusedToken D (ses_id rotatedSession) now
                else fail (Wrap ''persist refresh token rotation'' e)) (\<lambda>_.
         ret \<lparr>ro_AccessToken = accessToken, ro_AccessTokenExpiresAt = accessTokenExpiresAt,
              ro_RefreshToken = refreshToken, ro_RefreshTokenExpiresAt = refreshTokenExpiresAt\<rparr>)))))))"

definition Refresh ::
  "'w auth_dependencies \<Rightarrow> session_config \<Rightarrow> string \<Rightarrow> ('w, go_error, refresh_output) call" where
  "Refresh D config refreshToken =
     (if refreshToken = [] then fail (authErr Auth_ErrInvalidRefreshToken)
      else
        orFail (VerifyRefreshToken (TokenManager D) refreshToken)
          (\<lambda>e. if is_invalid_token e then authErr Auth_ErrInvalidRefreshToken
               else Wrap ''verify refresh token'' e) (\<lambda>claims.
        if claims_incomplete claims then fail (authErr Auth_ErrInvalidRefreshToken)
        else
          orFail (SessionFindByID (SessionRepository D) (tcl_SessionID claims))
            (\<lambda>e. if errors_is e (PortsE ErrSessionNotFound) then authErr Auth_ErrInvalidRefreshToken
                 else Wrap ''find refresh session'' e) (\<lambda>found.
          case found of
            None \<Rightarrow> fail (Panic ''nil pointer'')
          | Some authSession \<Rightarrow>
              if ses_userID authSession \<noteq> tcl_UserID claims
              then fail (authErr Auth_ErrInvalidRefreshToken)
              else reads (Clock D) (\<lambda>now.
                orFail (lift (EnsureActive authSession now))
                  (\<lambda>_. authErr Auth_ErrInvalidRefreshToken) (\<lambda>_.
                orFail (TokenDigester D refreshToken) (Wrap ''digest presented refresh token'')
                  (\<lambda>presentedDigest.
                attempt (lift (ValidateRefreshTokenDigest authSession presentedDigest))
                  (\<lambda>e. if errors_is e (SessionE Session_ErrRefreshTokenMismatch)
                       then rejectReusedToken D (ses_id authSession) now
                       else fail (Wrap ''validate refresh token digest'' e))
                  (\<lambda>_. issueRotation D config authSession now)))))))"

section \<open>Sign-in\<close>

record signin_output =
  so_UserID :: string
  so_Email :: string
  so_AccessToken :: string
  so_AccessTokenExpiresAt :: time
  so_RefreshToken :: string
  so_RefreshTokenExpiresAt :: time

definition consumePasswordHashCost :: "'w auth_dependencies \<Rightarrow> string \<Rightarrow> ('w, go_error, unit) call" where
  "consumePasswordHashCost D password = orFail (Hash (PasswordHasher D) password) (\<lambda>e. e) (\<lambda>_. ret ())"

definition generateSessionID :: "'w auth_dependencies \<Rightarrow> ('w, go_error, session_ID) call" where
  "generateSessionID D =
     orFail (IDGenerator D) (Wrap ''generate session id'') (\<lambda>rawSessionID.
     orFail (lift (session_ParseID rawSessionID)) (Wrap ''parse generated session id'') ret)"

definition openSession ::
  "'w auth_dependencies \<Rightarrow> session_config \<Rightarrow> user \<Rightarrow> ('w, go_error, signin_output) call" where
  "openSession D config account =
     orFail (generateSessionID D) (\<lambda>e. e) (\<lambda>sessionID.
     orFail (IDGenerator D) (Wrap ''generate access token id'') (\<lambda>accessTokenID.
     orFail (IDGenerator D) (Wrap ''generate refresh token id'') (\<lambda>refreshTokenID.
     reads (Clock D) (\<lambda>now.
     let accessTokenExpiresAt = now + AccessTokenTTL config;
         refreshTokenExpiresAt = now + RefreshTokenTTL config
     in
     orFail (SignAccessToken (TokenManager D)
               \<lparr>tcl_TokenID = accessTokenID, tcl_UserID = usr_id account,
                tcl_SessionID = sessionID, tcl_IssuedAt = now,
                tcl_ExpiresAt = accessTokenExpiresAt\<rparr>)
       (Wrap ''sign access token'') (\<lambda>accessToken.
     orFail (SignRefreshToken (TokenManager D)
               \<lparr>tcl_TokenID = refreshTokenID, tcl_UserID = usr_id account,
                tcl_SessionID = sessionID, tcl_IssuedAt = now,
                tcl_ExpiresAt = refreshTokenExpiresAt\<rparr>)
       (Wrap ''sign refresh token'') (\<lambda>refreshToken.
     orFail (TokenDigester D refreshToken) (Wrap ''digest refresh token'') (\<lambda>refreshTokenDigest.
     orFail (lift (session_New sessionID (usr_id account) refreshTokenDigest now refreshTokenExpiresAt))
       (Wrap ''create signin session'') (\<lambda>authSession.
     orFail (SessionCreate (SessionRepository D) (Some authSession))
       (Wrap ''persist signin session'') (\<lambda>_.
     ret \<lparr>so_UserID = usr_id account, so_Email = usr_email account, so_AccessToken = accessToken,
          so_AccessTokenExpiresAt = accessTokenExpiresAt, so_RefreshToken = refreshToken,
          so_RefreshTokenExpiresAt = refreshTokenExpiresAt\<rparr>)))))))))"

definition Signin ::
  "(string \<Rightarrow> string) \<Rightarrow> (string \<Rightarrow> string option) \<Rightarrow> 'w auth_dependencies \<Rightarrow> session_config
     \<Rightarrow> string \<Rightarrow> string \<Rightarrow> ('w, go_error, signin_output) call" where
  "Signin low parse D config rawEmail password =
     orFail (lift (ParseEmail low parse rawEmail)) (\<lambda>_. authErr Auth_ErrInvalidCredentials) (\<lambda>email.
     orFail (lift (ValidatePlainPassword password)) (\<lambda>_. authErr Auth_ErrInvalidCredentials) (\<lambda>_.
     attempt (UserFindByEmail (UserRepository D) email)
       (\<lambda>e. if errors_is e (PortsE ErrUserNotFound)
            then orFail (consumePasswordHashCost D password) (Wrap ''consume password hashing cost'')
                   (\<lambda>_. fail (authErr Auth_ErrInvalidCredentials))
            else fail (Wrap ''find signin user'' e)) (\<lambda>found.
     case found of
       None \<Rightarrow> fail (Panic ''nil pointer'')
     | Some account \<Rightarrow>
         orFail (Matches (PasswordHasher D) password (usr_passwordHash account))
           (Wrap ''compare signin password'') (\<lambda>passwordMatches.
         if \<not> passwordMatches then fail (authErr Auth_ErrInvalidCredentials)
         else openSession D config account))))"

section \<open>Sign-up\<close>

record signup_output =
  su_UserID :: string
  su_Email :: string
  su_CreatedAt :: time

definition Signup ::
  "(string \<Rightarrow> string) \<Rightarrow> (string \<Rightarrow> string option) \<Rightarrow> 'w auth_dependencies
     \<Rightarrow> string \<Rightarrow> string \<Rightarrow> ('w, go_error, signup_output) call" where
  "Signup low parse D rawEmail password =
     orFail (lift (ParseEmail low parse rawEmail)) (Wrap ''parse signup email'') (\<lambda>email.
     orFail (lift (ValidatePlainPassword password)) (Wrap ''validate signup password'') (\<lambda>_.
     orFail (Hash (PasswordHasher D) password) (Wrap ''hash signup password'') (\<lambda>passwordHash.
     orFail (IDGenerator D) (Wrap ''generate user id'') (\<lambda>rawUserID.
     orFail (lift (user_ParseID rawUserID)) (Wrap ''parse generated user id'') (\<lambda>userID.
     reads (Clock D) (\<lambda>createdAt.
     orFail (lift (user_New userID email passwordHash (UTC createdAt))) (Wrap ''create user entity'')
       (\<lambda>account.
     orFail (UserCreate (UserRepository D) (Some account))
       (\<lambda>e. if errors_is e (PortsE ErrEmailAlreadyExists) then authErr Auth_ErrEmailAlreadyRegistred
            else Wrap ''persist signup user'' e) (\<lambda>_.
     ret \<lparr>su_UserID = usr_id account, su_Email = usr_email account,
          su_CreatedAt = usr_createdAt account\<rparr>))))))))"

section \<open>The session view\<close>

record session_output =
  sv_UserID :: string
  sv_Email :: string
  sv_AccessExpiresAt :: time

definition SessionView ::
  "'w auth_dependencies \<Rightarrow> string \<Rightarrow> time \<Rightarrow> ('w, go_error, session_output) call" where
  "SessionView D userID accessExpiresAt =
     orFail (lift (user_ParseID userID)) (\<lambda>_. authErr Auth_ErrUnauthenticated) (\<lambda>uid.
     reads (Clock D) (\<lambda>now.
     if \<not> accessExpiresAt > UTC now then fail (authErr Auth_ErrUnauthenticated)
     else
       orFail (UserFindByID (UserRepository D) uid)
         (\<lambda>e. if errors_is e (PortsE ErrUserNotFound) then authErr Auth_ErrUnauthenticated
              else Wrap ''read session account'' e) (\<lambda>found.
       case found of
         None \<Rightarrow> fail (authErr Auth_ErrUnauthenticated)
       | Some account \<Rightarrow>
           ret \<lparr>sv_UserID = usr_id account, sv_Email = usr_email account,
                sv_AccessExpiresAt = UTC accessExpiresAt\<rparr>)))"

end
