(* ===== verification/AuthSafety.thy ===== *)
theory AuthSafety
  imports Authentication
begin

text \<open>
  What the authentication use cases guarantee, for any dependencies that keep the contracts:
  \<open>auth_ports\<close> is the session store together with a token manager, a digester, an identifier
  generator and a clock that leave the stored sessions alone; \<open>account_ports\<close> adds the user store.
\<close>

locale auth_ports =
  session_store "SessionRepository D" sessions prec
  for D :: "'w auth_dependencies" and sessions :: "'w \<Rightarrow> session_ID \<rightharpoonup> session"
    and prec :: "time \<Rightarrow> time" +
  fixes digest :: "string \<Rightarrow> string"
    and access_claims refresh_claims :: "string \<Rightarrow> token_claims"
  assumes tokens_quiet:
      "keeps sessions (SignAccessToken (TokenManager D) c)"
      "keeps sessions (SignRefreshToken (TokenManager D) c)"
      "keeps sessions (VerifyAccessToken (TokenManager D) t)"
      "keeps sessions (VerifyRefreshToken (TokenManager D) t)"
    and digest_quiet: "keeps sessions (TokenDigester D t)"
    and ids_quiet: "keeps sessions (IDGenerator D)"
    and clock_quiet: "keeps sessions (Clock D)"
    and access_verified:
      "VerifyAccessToken (TokenManager D) t w = (w', Inr claims) \<Longrightarrow>
         claims = access_claims t \<and> TrimSpace (tcl_SessionID claims) = tcl_SessionID claims"
    and refresh_verified:
      "VerifyRefreshToken (TokenManager D) t w = (w', Inr claims) \<Longrightarrow>
         claims = refresh_claims t \<and> TrimSpace (tcl_SessionID claims) = tcl_SessionID claims"
    and digested: "TokenDigester D t w = (w', Inr d) \<Longrightarrow> d = digest t"
begin

abbreviation steps :: "'w \<Rightarrow> 'w \<Rightarrow> bool" where
  "steps w w' \<equiv> session_steps prec (sessions w) (sessions w')"

lemma steps_preorder: "reflp steps" "transp steps"
  by (auto intro!: reflpI transpI)

lemma steps_quiet: "keeps sessions m \<Longrightarrow> follows steps m"
  by (simp add: follows_def keeps_def)

lemma find_quiet: "keeps sessions (SessionFindByID (SessionRepository D) i)"
proof (rule keepsI)
  fix w w' r assume "SessionFindByID (SessionRepository D) i w = (w', r)"
  then show "sessions w' = sessions w" using FindByID_ok FindByID_err by (cases r) blast+
qed

lemmas quiet = tokens_quiet digest_quiet ids_quiet clock_quiet find_quiet

lemma create_steps: "follows steps (SessionCreate (SessionRepository D) (Some x))"
proof (rule followsI)
  fix w w' r assume run: "SessionCreate (SessionRepository D) (Some x) w = (w', r)"
  have "sessions w' = sessions w \<or>
      sessions w (ses_id x) = None \<and> sessions w' = (sessions w)(ses_id x \<mapsto> with_precision prec x)"
    using run Create_ok [of x w w'] Create_err [of x w w'] by (cases r) auto
  then show "steps w w'" using session_step.create [of "sessions w" x prec] by auto
qed

lemma rotate_steps: "follows steps (SessionRotate (SessionRepository D) (Some x) expected at)"
proof (rule followsI)
  fix w w' r assume run: "SessionRotate (SessionRepository D) (Some x) expected at w = (w', r)"
  have "sessions w' = sessions w \<or> rotates prec x expected at (sessions w) (sessions w')"
    using run Rotate_ok [of x expected at w w'] Rotate_err [of x expected at w w'] by (cases r) auto
  then show "steps w w'" using session_step.rotate by auto
qed

lemma revoke_steps: "follows steps (SessionRevoke (SessionRepository D) i at)"
proof (rule followsI)
  fix w w' r assume run: "SessionRevoke (SessionRepository D) i at w = (w', r)"
  have "sessions w' = sessions w \<or> revokes prec i at (sessions w) (sessions w')"
    using run Revoke_ok [of i at w w'] Revoke_err [of i at w w'] by (cases r) auto
  then show "steps w w'" using session_step.revoke by auto
qed

lemmas follow_rules =
  follows_attempt [of steps] follows_orFail [of steps] follows_reads [of steps]
  follows_pure [of steps] create_steps rotate_steps revoke_steps
  quiet [THEN steps_quiet]

lemma reject_steps: "follows steps (rejectReusedToken D i at)"
  unfolding rejectReusedToken_def by (intro follow_rules steps_preorder)

lemma issue_steps: "follows steps (issueRotation D config s now)"
  unfolding issueRotation_def Let_def
  by (intro follow_rules steps_preorder)
    (auto split: prod.splits intro!: follow_rules steps_preorder reject_steps)

lemma Refresh_steps: "follows steps (Refresh D config t)"
  unfolding Refresh_def
  by (auto split: option.splits intro!: follow_rules steps_preorder reject_steps issue_steps)

lemma Logout_steps: "follows steps (Logout D t)"
  unfolding Logout_def by (auto split: option.splits intro!: follow_rules steps_preorder)

lemma Authenticate_quiet: "keeps sessions (Authenticate D t)"
  unfolding Authenticate_def by (auto split: option.splits intro!: frame quiet)

text \<open>The session a verified token names, as the use cases see it.\<close>

lemma found_session:
  assumes "SessionFindByID (SessionRepository D) i w = (w', Inr (Some s))" "TrimSpace i = i"
  obtains y where "sessions w i = Some y" "s = y\<lparr>ses_id := i, ses_userID := TrimSpace (ses_userID y)\<rparr>"
    "session_wf s" "sessions w' = sessions w"
  using FindByID_ok [OF assms(1)] assms(2) by auto

lemma Authenticate_granted:
  assumes "Authenticate D t w = (w', Inr out)"
  shows "\<exists>y. sessions w (tcl_SessionID (access_claims t)) = Some y \<and> ses_revokedAt y = None \<and>
      TrimSpace (ses_userID y) = tcl_UserID (access_claims t) \<and>
      (\<exists>v v' now. Clock D v = (v', now) \<and> now < tcl_ExpiresAt (access_claims t)) \<and>
      (\<exists>v v' now. Clock D v = (v', now) \<and> now < ses_expiresAt y) \<and>
      out = \<lparr>ao_UserID = tcl_UserID (access_claims t), ao_SessionID = tcl_SessionID (access_claims t),
             ao_AccessExpiresAt = tcl_ExpiresAt (access_claims t),
             ao_SessionExpiresAt = ses_expiresAt y\<rparr>"
proof -
  from assms obtain w1 claims w2 s w3 n w4 n' where
    v: "VerifyAccessToken (TokenManager D) t w = (w1, Inr claims)"
    and f: "SessionFindByID (SessionRepository D) (tcl_SessionID claims) w1 = (w2, Inr (Some s))"
    and u: "ses_userID s = tcl_UserID claims"
    and c: "Clock D w2 = (w3, n)" "n < tcl_ExpiresAt claims" "Clock D w3 = (w4, n')"
    and a: "EnsureActive s n' = Inr ()"
    and out: "out = \<lparr>ao_UserID = tcl_UserID claims, ao_SessionID = tcl_SessionID claims,
             ao_AccessExpiresAt = tcl_ExpiresAt claims, ao_SessionExpiresAt = ses_expiresAt s\<rparr>"
    by (auto simp: Authenticate_def run_iff split: option.splits if_splits)
  from access_verified [OF v] have claims: "claims = access_claims t"
    "TrimSpace (tcl_SessionID claims) = tcl_SessionID claims" by blast+
  from found_session [OF f claims(2)] obtain y where "sessions w1 (tcl_SessionID claims) = Some y"
    "s = y\<lparr>ses_id := tcl_SessionID claims, ses_userID := TrimSpace (ses_userID y)\<rparr>" by metis
  moreover have "sessions w1 = sessions w" using keepsD [OF tokens_quiet(3) v] .
  ultimately show ?thesis using u c a out claims(1) by (auto simp: EnsureActive_ok)
qed

lemma Authenticate_revoked:
  assumes "sessions w (tcl_SessionID (access_claims t)) = Some y" "ses_revokedAt y \<noteq> None"
  shows "\<exists>e. snd (Authenticate D t w) = Inl e"
  using Authenticate_granted [of t w] assms by (cases "Authenticate D t w", cases "snd (Authenticate D t w)") auto

subsection \<open>Logout\<close>

lemma Logout_revokes:
  assumes run: "Logout D t w = (w', Inr ())" and t: "t \<noteq> []"
    and v: "VerifyRefreshToken (TokenManager D) t w = (w1, Inr claims)" and c: "\<not> claims_incomplete claims"
    and y: "sessions w (tcl_SessionID claims) = Some y" "TrimSpace (ses_userID y) = tcl_UserID claims"
  shows "\<exists>y'. sessions w' (tcl_SessionID claims) = Some y' \<and> ses_revokedAt y' \<noteq> None"
proof -
  have sid: "TrimSpace (tcl_SessionID claims) = tcl_SessionID claims" using refresh_verified [OF v] by blast
  have y1: "sessions w1 (tcl_SessionID claims) = Some y" using keepsD [OF tokens_quiet(4) v] y by simp
  obtain w2 r where f: "SessionFindByID (SessionRepository D) (tcl_SessionID claims) w1 = (w2, r)" by fastforce
  show ?thesis
  proof (cases r)
    case (Inl e)
    with run t v c f have "errors_is e (PortsE ErrSessionNotFound)"
      by (auto simp: Logout_def split: if_splits)
    then show ?thesis using FindByID_err [OF f [unfolded Inl]] y1 by simp
  next
    case (Inr found)
    with run t v c f obtain s where s: "found = Some s"
      by (cases found) (auto simp: Logout_def split: if_splits)
    with found_session [OF _ sid] f Inr y1 have s': "s = y\<lparr>ses_id := tcl_SessionID claims,
        ses_userID := TrimSpace (ses_userID y)\<rparr>" and w2: "sessions w2 = sessions w1"
      by (metis option.inject)+
    obtain w3 n where n: "Clock D w2 = (w3, n)" by fastforce
    with w2 y1 have y3: "sessions w3 (tcl_SessionID claims) = Some y"
      using keepsD [OF clock_quiet n] by simp
    obtain w4 q where rev: "SessionRevoke (SessionRepository D) (tcl_SessionID claims) n w3 = (w4, q)"
      by fastforce
    have w': "(\<exists>u. q = Inr u) \<or> (\<exists>e. q = Inl e \<and> errors_is e (PortsE ErrSessionNotFound))" "w' = w4"
      using run t v c f Inr s s' n rev y(2)
      by (cases q; force simp: Logout_def attempt_iff reads_iff split: if_splits)+
    then show ?thesis
      using Revoke_ok [of "tcl_SessionID claims" n w3 w4] Revoke_err [of "tcl_SessionID claims" n w3 w4] rev y3
      by (auto simp: revokes_def revoked_def)
  qed
qed

lemma Logout_is_final:
  assumes "Logout D t w = (w', Inr ())" "t \<noteq> []"
    "VerifyRefreshToken (TokenManager D) t w = (w1, Inr claims)" "\<not> claims_incomplete claims"
    "sessions w (tcl_SessionID claims) = Some y" "TrimSpace (ses_userID y) = tcl_UserID claims"
    and later: "steps w' w2" and sid: "tcl_SessionID (access_claims t2) = tcl_SessionID claims"
  shows "\<exists>e. snd (Authenticate D t2 w2) = Inl e"
proof -
  from Logout_revokes [OF assms(1-6)] obtain y' where
    "sessions w' (tcl_SessionID claims) = Some y'" "ses_revokedAt y' \<noteq> None" by blast
  then show ?thesis using Authenticate_revoked [of w2 t2 y'] revoked_is_final [OF later] sid by simp
qed

subsection \<open>Refresh\<close>

lemma issueRotation_ok:
  assumes "issueRotation D config s now w = (w', Inr out)"
  shows "rotates prec (s\<lparr>ses_refreshTokenDigest := digest (ro_RefreshToken out),
             ses_expiresAt := now + RefreshTokenTTL config\<rparr>) (ses_refreshTokenDigest s) now
           (sessions w) (sessions w') \<and>
         ro_AccessTokenExpiresAt out = now + AccessTokenTTL config \<and>
         ro_RefreshTokenExpiresAt out = now + RefreshTokenTTL config"
proof -
  from assms obtain w1 ia w2 ir w3 ta w4 tr w5 d u where
    calls: "IDGenerator D w = (w1, Inr ia)" "IDGenerator D w1 = (w2, Inr ir)"
      "SignAccessToken (TokenManager D)
         \<lparr>tcl_TokenID = ia, tcl_UserID = ses_userID s, tcl_SessionID = ses_id s, tcl_IssuedAt = now,
          tcl_ExpiresAt = now + AccessTokenTTL config\<rparr> w2 = (w3, Inr ta)"
      "SignRefreshToken (TokenManager D)
         \<lparr>tcl_TokenID = ir, tcl_UserID = ses_userID s, tcl_SessionID = ses_id s, tcl_IssuedAt = now,
          tcl_ExpiresAt = now + RefreshTokenTTL config\<rparr> w3 = (w4, Inr tr)"
      "TokenDigester D tr w4 = (w5, Inr d)"
    and rot: "snd (RotateRefreshToken s d (now + RefreshTokenTTL config) now) = Inr u"
    and st: "SessionRotate (SessionRepository D)
        (Some (fst (RotateRefreshToken s d (now + RefreshTokenTTL config) now)))
        (ses_refreshTokenDigest s) now w5 = (w', Inr ())"
    and out: "out = \<lparr>ro_AccessToken = ta, ro_AccessTokenExpiresAt = now + AccessTokenTTL config,
       ro_RefreshToken = tr, ro_RefreshTokenExpiresAt = now + RefreshTokenTTL config\<rparr>"
    by (auto simp: issueRotation_def Let_def run_iff rejectReusedToken_def attempt_iff case_prod_beta
        split: if_splits)
  let ?rs = "fst (RotateRefreshToken s d (now + RefreshTokenTTL config) now)"
  have "RotateRefreshToken s d (now + RefreshTokenTTL config) now = (?rs, Inr u)"
    using rot by (metis prod.collapse)
  then have "?rs = s\<lparr>ses_refreshTokenDigest := d, ses_expiresAt := now + RefreshTokenTTL config\<rparr>"
    by (simp add: RotateRefreshToken_ok)
  moreover have "sessions w5 = sessions w"
    using calls quiet by (metis keepsD)
  ultimately show ?thesis using Rotate_ok [OF st] out digested [OF calls(5)] by simp
qed

lemma Refresh_parts:
  assumes "Refresh D config t w = (w', r)" and t: "t \<noteq> []"
    and v: "VerifyRefreshToken (TokenManager D) t w = (w1, Inr claims)" and c: "\<not> claims_incomplete claims"
    and y: "sessions w (tcl_SessionID claims) = Some y" "TrimSpace (ses_userID y) = tcl_UserID claims"
  defines "s \<equiv> y\<lparr>ses_id := tcl_SessionID claims, ses_userID := TrimSpace (ses_userID y)\<rparr>"
  shows "(\<exists>e. r = Inl e \<and> e \<noteq> authErr Auth_ErrInvalidRefreshToken \<and> sessions w' = sessions w) \<or>
    (\<exists>v v' now. Clock D v = (v', now) \<and> \<not> isOk (EnsureActive y now) \<and>
        r = Inl (authErr Auth_ErrInvalidRefreshToken) \<and> sessions w' = sessions w) \<or>
    (\<exists>v now. sessions v = sessions w \<and> isOk (EnsureActive y now) \<and>
        (if blank (digest t)
         then \<exists>e. r = Inl e \<and> e \<noteq> authErr Auth_ErrInvalidRefreshToken \<and> sessions w' = sessions w
         else if digest t \<noteq> ses_refreshTokenDigest y
         then rejectReusedToken D (tcl_SessionID claims) now v = (w', r)
         else issueRotation D config s now v = (w', r)))"
proof -
  have sid: "TrimSpace (tcl_SessionID claims) = tcl_SessionID claims" using refresh_verified [OF v] by blast
  have y1: "sessions w1 (tcl_SessionID claims) = Some y" and same1: "sessions w1 = sessions w"
    using keepsD [OF tokens_quiet(4) v] y by simp_all
  obtain w2 q where f: "SessionFindByID (SessionRepository D) (tcl_SessionID claims) w1 = (w2, q)" by fastforce
  then have same2: "sessions w2 = sessions w" using keepsD [OF find_quiet f] same1 by simp
  show ?thesis
  proof (cases q)
    case (Inl e)
    moreover from this have "\<not> errors_is e (PortsE ErrSessionNotFound)"
      using FindByID_err [OF f [unfolded Inl]] y1 by simp
    ultimately show ?thesis using assms(1) t v c f same2 by (auto simp: Refresh_def)
  next
    case (Inr found)
    obtain found' where found: "found = Some found'" using FindByID_ok [OF f [unfolded Inr]] by blast
    with found_session [OF _ sid] f Inr y1 have s': "found' = s" unfolding s_def by (metis option.inject)
    obtain w3 now where n: "Clock D w2 = (w3, now)" by fastforce
    then have same3: "sessions w3 = sessions w" using keepsD [OF clock_quiet n] same2 by simp
    have ea: "EnsureActive s now = EnsureActive y now"
      by (simp add: s_def EnsureActive_def IsRevoked_def IsExpired_def)
    have user: "ses_userID s = tcl_UserID claims" and sid': "ses_id s = tcl_SessionID claims"
      and dig: "ses_refreshTokenDigest s = ses_refreshTokenDigest y"
      using y by (simp_all add: s_def)
    note run = assms(1) [unfolded Refresh_def]
    show ?thesis
    proof (cases "EnsureActive y now")
      case (Inl e)
      then have "r = Inl (authErr Auth_ErrInvalidRefreshToken) \<and> w' = w3"
        using run t v c f Inr found s' n user ea by simp
      then show ?thesis using n Inl same3 by (metis isOk_simps(2))
    next
      case act: (Inr u)
      obtain w4 g where d: "TokenDigester D t w3 = (w4, g)" by fastforce
      then have same4: "sessions w4 = sessions w" using keepsD [OF digest_quiet d] same3 by simp
      show ?thesis
      proof (cases g)
        case (Inl e)
        then have "r = Inl (Wrap ''digest presented refresh token'' e) \<and> w' = w4"
          using run t v c f Inr found s' n user ea act d by simp
        then show ?thesis using same4 by auto
      next
        case dg: (Inr dt)
        then have "dt = digest t" using digested d by simp
        then have "attempt (lift (ValidateRefreshTokenDigest s (digest t)))
            (\<lambda>e. if errors_is e (SessionE Session_ErrRefreshTokenMismatch)
                 then rejectReusedToken D (ses_id s) now
                 else fail (Wrap ''validate refresh token digest'' e))
            (\<lambda>_. issueRotation D config s now) w4 = (w', r)"
          using run t v c f Inr found s' n user ea act d dg by simp
        then show ?thesis using same4 act sid' dig
          by (intro disjI2 exI [of _ w4] exI [of _ now])
            (auto simp: ValidateRefreshTokenDigest_def split: if_splits)
      qed
    qed
  qed
qed

lemma Refresh_presented:
  assumes "Refresh D config t w = (w', Inr out)"
  obtains w1 y where "t \<noteq> []" "VerifyRefreshToken (TokenManager D) t w = (w1, Inr (refresh_claims t))"
    "\<not> claims_incomplete (refresh_claims t)" "sessions w (tcl_SessionID (refresh_claims t)) = Some y"
    "TrimSpace (ses_userID y) = tcl_UserID (refresh_claims t)"
proof -
  from assms obtain w1 claims w2 s where t: "t \<noteq> []"
    and v: "VerifyRefreshToken (TokenManager D) t w = (w1, Inr claims)" and c: "\<not> claims_incomplete claims"
    and f: "SessionFindByID (SessionRepository D) (tcl_SessionID claims) w1 = (w2, Inr (Some s))"
    and u: "ses_userID s = tcl_UserID claims"
    by (auto simp: Refresh_def run_iff split: option.splits if_splits)
  from refresh_verified [OF v] have claims: "claims = refresh_claims t"
    "TrimSpace (tcl_SessionID claims) = tcl_SessionID claims" by blast+
  from found_session [OF f claims(2)] obtain y where "sessions w1 (tcl_SessionID claims) = Some y"
    "s = y\<lparr>ses_id := tcl_SessionID claims, ses_userID := TrimSpace (ses_userID y)\<rparr>" by metis
  moreover have "sessions w1 = sessions w" using keepsD [OF tokens_quiet(4) v] .
  ultimately show thesis using that t v c claims(1) u by auto
qed

lemma reject_result:
  assumes "rejectReusedToken D i now v = (w', r)"
  shows "(\<exists>e. r = Inl e) \<and>
    (r = Inl (authErr Auth_ErrInvalidRefreshToken) \<longrightarrow> revokes prec i now (sessions v) (sessions w'))"
  using assms Revoke_ok [of i now v w'] by (auto simp: rejectReusedToken_def orFail_iff)

lemma Refresh_granted:
  assumes run: "Refresh D config t w = (w', Inr out)"
  shows "\<exists>y now. sessions w (tcl_SessionID (refresh_claims t)) = Some y \<and>
      TrimSpace (ses_userID y) = tcl_UserID (refresh_claims t) \<and> ses_revokedAt y = None \<and>
      ses_refreshTokenDigest y = digest t \<and> now < ses_expiresAt y \<and>
      ro_AccessTokenExpiresAt out = now + AccessTokenTTL config \<and>
      ro_RefreshTokenExpiresAt out = now + RefreshTokenTTL config \<and>
      sessions w' = (sessions w)(tcl_SessionID (refresh_claims t) \<mapsto>
        y\<lparr>ses_refreshTokenDigest := digest (ro_RefreshToken out),
          ses_expiresAt := prec (ro_RefreshTokenExpiresAt out)\<rparr>)"
proof -
  from Refresh_presented [OF run] obtain w1 y where p: "t \<noteq> []"
    "VerifyRefreshToken (TokenManager D) t w = (w1, Inr (refresh_claims t))"
    "\<not> claims_incomplete (refresh_claims t)" "sessions w (tcl_SessionID (refresh_claims t)) = Some y"
    "TrimSpace (ses_userID y) = tcl_UserID (refresh_claims t)" by metis
  from Refresh_parts [OF run p] obtain v now where v: "sessions v = sessions w"
    and a: "EnsureActive y now = Inr ()"
    and i: "(if blank (digest t)
         then \<exists>e. Inr out = Inl e \<and> e \<noteq> authErr Auth_ErrInvalidRefreshToken \<and> sessions w' = sessions w
         else if digest t \<noteq> ses_refreshTokenDigest y
         then rejectReusedToken D (tcl_SessionID (refresh_claims t)) now v = (w', Inr out)
         else issueRotation D config (y\<lparr>ses_id := tcl_SessionID (refresh_claims t),
                ses_userID := TrimSpace (ses_userID y)\<rparr>) now v = (w', Inr out))"
    by (auto simp: isOk_iff)
  from i have d: "digest t = ses_refreshTokenDigest y"
    and iss: "issueRotation D config (y\<lparr>ses_id := tcl_SessionID (refresh_claims t),
                ses_userID := TrimSpace (ses_userID y)\<rparr>) now v = (w', Inr out)"
    using reject_result [of _ now v w' "Inr out"] by (auto split: if_splits)
  from issueRotation_ok [OF iss] v p(4,5) a d show ?thesis
    by (intro exI [of _ y] exI [of _ now]) (auto simp: rotates_def rotated_def EnsureActive_ok)
qed

lemma Refresh_reuse:
  assumes run: "Refresh D config t w = (w', r)" and t: "t \<noteq> []"
    and v: "VerifyRefreshToken (TokenManager D) t w = (w1, Inr claims)" and c: "\<not> claims_incomplete claims"
    and y: "sessions w (tcl_SessionID claims) = Some y" "TrimSpace (ses_userID y) = tcl_UserID claims"
    and stale: "ses_refreshTokenDigest y \<noteq> digest t"
  shows "(\<exists>e. r = Inl e) \<and>
    (r = Inl (authErr Auth_ErrInvalidRefreshToken) \<longrightarrow>
       (\<exists>u u' now. Clock D u = (u', now) \<and> ses_expiresAt y \<le> now) \<or>
       (\<exists>y'. sessions w' (tcl_SessionID claims) = Some y' \<and> ses_revokedAt y' \<noteq> None))"
  using Refresh_parts [OF run t v c y]
proof (elim disjE exE conjE)
  fix u u' now assume "Clock D u = (u', now)" "\<not> isOk (EnsureActive y now)"
    and r: "r = Inl (authErr Auth_ErrInvalidRefreshToken)" "sessions w' = sessions w"
  then show ?thesis using y
    by (cases "ses_revokedAt y"; cases "now < ses_expiresAt y")
      (auto simp: EnsureActive_def IsRevoked_def IsExpired_def not_less)
next
  fix v now assume same: "sessions v = sessions w"
    and "if blank (digest t)
         then \<exists>e. r = Inl e \<and> e \<noteq> authErr Auth_ErrInvalidRefreshToken \<and> sessions w' = sessions w
         else if digest t \<noteq> ses_refreshTokenDigest y
         then rejectReusedToken D (tcl_SessionID claims) now v = (w', r)
         else issueRotation D config (y\<lparr>ses_id := tcl_SessionID claims,
                ses_userID := TrimSpace (ses_userID y)\<rparr>) now v = (w', r)"
  with stale show ?thesis using reject_result [of "tcl_SessionID claims" now v w' r]
    by (auto simp: revokes_def revoked_def split: if_splits)
qed auto

text \<open>A rotation makes the presented token useless, whatever the other clients do.\<close>

lemma Refresh_digests:
  assumes "Refresh D config t w = (w', Inr out)"
  shows "map_option ses_refreshTokenDigest (sessions w (tcl_SessionID (refresh_claims t))) = Some (digest t)"
    and "map_option ses_refreshTokenDigest (sessions w' (tcl_SessionID (refresh_claims t))) =
           Some (digest (ro_RefreshToken out))"
  using Refresh_granted [OF assms] by (elim exE conjE; simp)+

lemma Refresh_once:
  assumes first: "Refresh D config t w = (w', Inr out)" and fresh: "digest (ro_RefreshToken out) \<noteq> digest t"
    and later: "session_steps_avoiding prec (tcl_SessionID (refresh_claims t)) (digest t) (sessions w') (sessions w2)"
  shows "\<exists>e. snd (Refresh D config' t w2) = Inl e"
proof (cases "snd (Refresh D config' t w2)")
  case (Inr out2)
  then have again: "Refresh D config' t w2 = (fst (Refresh D config' t w2), Inr out2)"
    by (simp add: prod_eq_iff)
  from Refresh_digests(2) [OF first] fresh obtain y1 where
    "sessions w' (tcl_SessionID (refresh_claims t)) = Some y1" "ses_refreshTokenDigest y1 \<noteq> digest t"
    by auto
  from digest_gone [OF later this] Refresh_digests(1) [OF again] show ?thesis by auto
qed simp

subsection \<open>The other sessions\<close>

abbreviation others :: "session_ID \<Rightarrow> 'w \<Rightarrow> session_ID \<Rightarrow> session option" where
  "others i w \<equiv> (sessions w)(i := None)"

lemma quiet_others: "keeps sessions m \<Longrightarrow> keeps (others i) m"
  by (simp add: keeps_def)

lemma rotate_others: "ses_id x = i \<Longrightarrow> keeps (others i) (SessionRotate (SessionRepository D) (Some x) expected at)"
proof (rule keepsI)
  fix w w' r assume "ses_id x = i" and run: "SessionRotate (SessionRepository D) (Some x) expected at w = (w', r)"
  then show "others i w' = others i w"
    using Rotate_ok [of x expected at w w'] Rotate_err [of x expected at w w']
    by (cases r) (auto simp: rotates_def)
qed

lemma revoke_others: "keeps (others i) (SessionRevoke (SessionRepository D) i at)"
proof (rule keepsI)
  fix w w' r assume "SessionRevoke (SessionRepository D) i at w = (w', r)"
  then show "others i w' = others i w"
    using Revoke_ok [of i at w w'] Revoke_err [of i at w w'] by (cases r) (auto simp: revokes_def)
qed

lemma reject_others: "keeps (others i) (rejectReusedToken D i at)"
  unfolding rejectReusedToken_def by (intro frame revoke_others)

lemma issue_others: "ses_id s = i \<Longrightarrow> keeps (others i) (issueRotation D config s now)"
  unfolding issueRotation_def Let_def case_prod_beta
  by (intro frame quiet [THEN quiet_others])
    (auto intro!: frame quiet [THEN quiet_others] rotate_others reject_others
      simp: RotateRefreshToken_def split: sum.splits)

lemma Refresh_others:
  assumes "Refresh D config t w = (w', r)"
  shows "others (tcl_SessionID (refresh_claims t)) w' = others (tcl_SessionID (refresh_claims t)) w"
proof -
  let ?i = "tcl_SessionID (refresh_claims t)"
  obtain w1 q where v: "VerifyRefreshToken (TokenManager D) t w = (w1, q)" by fastforce
  have same: "sessions w1 = sessions w" using keepsD [OF tokens_quiet(4) v] .
  show ?thesis
  proof (cases "t = [] \<or> (\<exists>e. q = Inl e) \<or> (\<exists>c. q = Inr c \<and> claims_incomplete c)")
    case True
    then show ?thesis using assms v same by (auto simp: Refresh_def split: if_splits)
  next
    case False
    then obtain claims where q: "q = Inr claims" by (cases q) auto
    with refresh_verified v have claims: "claims = refresh_claims t"
      "TrimSpace (tcl_SessionID claims) = tcl_SessionID claims" by blast+
    obtain w2 p where f: "SessionFindByID (SessionRepository D) ?i w1 = (w2, p)" by fastforce
    have same2: "sessions w2 = sessions w" using keepsD [OF find_quiet f] same by simp
    note run = assms(1) [unfolded Refresh_def]
    show ?thesis
    proof (cases p)
      case (Inl e)
      then show ?thesis using run False v q claims(1) f same2 by auto
    next
      case (Inr found)
      with found_session [of ?i w1 w2] f claims obtain s where s: "found = Some s" "ses_id s = ?i"
        using FindByID_ok [of ?i w1 w2 found] by auto
      define k where "k = (if ses_userID s \<noteq> tcl_UserID claims
              then fail (authErr Auth_ErrInvalidRefreshToken)
              else reads (Clock D) (\<lambda>now.
                orFail (lift (EnsureActive s now))
                  (\<lambda>_. authErr Auth_ErrInvalidRefreshToken) (\<lambda>_.
                orFail (TokenDigester D t) (Wrap ''digest presented refresh token'')
                  (\<lambda>presentedDigest.
                attempt (lift (ValidateRefreshTokenDigest s presentedDigest))
                  (\<lambda>e. if errors_is e (SessionE Session_ErrRefreshTokenMismatch)
                       then rejectReusedToken D (ses_id s) now
                       else fail (Wrap ''validate refresh token digest'' e))
                  (\<lambda>_. issueRotation D config s now)))))"
      have "k w2 = (w', r)" using run False v q claims(1) f Inr s(1) by (auto simp: k_def)
      moreover have "keeps (others ?i) k"
        unfolding k_def using s(2)
        by (auto intro!: frame quiet [THEN quiet_others] reject_others issue_others)
      ultimately show ?thesis using same2 by (metis keepsD)
    qed
  qed
qed

subsection \<open>Sign-in\<close>

lemma openSession_ok:
  assumes "openSession D config account w = (w', Inr out)"
  shows "\<exists>i now. sessions w i = None \<and>
      sessions w' = (sessions w)(i \<mapsto> with_precision prec
        \<lparr>ses_id = i, ses_userID = usr_id account, ses_refreshTokenDigest = digest (so_RefreshToken out),
         ses_createdAt = now, ses_expiresAt = now + RefreshTokenTTL config, ses_revokedAt = None\<rparr>) \<and>
      so_UserID out = usr_id account \<and> so_Email out = usr_email account \<and>
      so_AccessTokenExpiresAt out = now + AccessTokenTTL config \<and>
      so_RefreshTokenExpiresAt out = now + RefreshTokenTTL config"
proof -
  from assms obtain w1 i w2 ia w3 ir w4 now w5 ta w6 tr w7 d x where
    calls: "IDGenerator D w = (w1, Inr i)" "IDGenerator D w1 = (w2, Inr ia)"
      "IDGenerator D w2 = (w3, Inr ir)" "Clock D w3 = (w4, now)"
      "SignAccessToken (TokenManager D)
         \<lparr>tcl_TokenID = ia, tcl_UserID = usr_id account, tcl_SessionID = TrimSpace i, tcl_IssuedAt = now,
          tcl_ExpiresAt = now + AccessTokenTTL config\<rparr> w4 = (w5, Inr ta)"
      "SignRefreshToken (TokenManager D)
         \<lparr>tcl_TokenID = ir, tcl_UserID = usr_id account, tcl_SessionID = TrimSpace i, tcl_IssuedAt = now,
          tcl_ExpiresAt = now + RefreshTokenTTL config\<rparr> w5 = (w6, Inr tr)"
      "TokenDigester D tr w6 = (w7, Inr d)"
    and new: "session_New (TrimSpace i) (usr_id account) d now (now + RefreshTokenTTL config) = Inr x"
    and st: "SessionCreate (SessionRepository D) (Some x) w7 = (w', Inr ())"
    and out: "out = \<lparr>so_UserID = usr_id account, so_Email = usr_email account, so_AccessToken = ta,
       so_AccessTokenExpiresAt = now + AccessTokenTTL config, so_RefreshToken = tr,
       so_RefreshTokenExpiresAt = now + RefreshTokenTTL config\<rparr>"
    by (auto simp: openSession_def generateSessionID_def Let_def run_iff)
  have "sessions w7 = sessions w" using calls quiet by (metis keepsD)
  with Create_ok [OF st] new out digested [OF calls(7)] show ?thesis
    by (intro exI [of _ "TrimSpace i"] exI [of _ now]) (simp add: session_New_ok)
qed

lemma openSession_steps: "follows steps (openSession D config account)"
  unfolding openSession_def generateSessionID_def Let_def
  by (intro follow_rules steps_preorder)

end

text \<open>With the user store: the two stores do not disturb each other.\<close>

locale account_ports =
  auth_ports D sessions prec digest access_claims refresh_claims +
  accounts: user_store "UserRepository D" users user_prec low
  for D :: "'w auth_dependencies" and sessions :: "'w \<Rightarrow> session_ID \<rightharpoonup> session"
    and prec :: "time \<Rightarrow> time" and digest :: "string \<Rightarrow> string"
    and access_claims refresh_claims :: "string \<Rightarrow> token_claims"
    and users :: "'w \<Rightarrow> user_ID \<rightharpoonup> user" and user_prec :: "time \<Rightarrow> time"
    and low :: "string \<Rightarrow> string" +
  assumes users_apart:
      "keeps sessions (UserCreate (UserRepository D) a)"
      "keeps sessions (UserFindByEmail (UserRepository D) email)"
      "keeps sessions (UserFindByID (UserRepository D) uid)"
    and hasher_quiet:
      "keeps sessions (Hash (PasswordHasher D) p)" "keeps sessions (Matches (PasswordHasher D) p h)"
      "keeps users (Hash (PasswordHasher D) p)" "keeps users (Matches (PasswordHasher D) p h)"
    and ids_apart: "keeps users (IDGenerator D)"
    and clock_apart: "keeps users (Clock D)"
begin

lemma Signin_granted:
  assumes "Signin low parse D config rawEmail password w = (w', Inr out)"
  shows "\<exists>account u u' i now.
      users w (usr_id account) = Some account \<and> usr_email account = low (TrimSpace rawEmail) \<and>
      Matches (PasswordHasher D) password (usr_passwordHash account) u = (u', Inr True) \<and>
      isOk (ValidatePlainPassword password) \<and>
      so_UserID out = TrimSpace (usr_id account) \<and>
      sessions w i = None \<and>
      sessions w' = (sessions w)(i \<mapsto> with_precision prec
        \<lparr>ses_id = i, ses_userID = TrimSpace (usr_id account),
         ses_refreshTokenDigest = digest (so_RefreshToken out),
         ses_createdAt = now, ses_expiresAt = now + RefreshTokenTTL config, ses_revokedAt = None\<rparr>) \<and>
      so_AccessTokenExpiresAt out = now + AccessTokenTTL config \<and>
      so_RefreshTokenExpiresAt out = now + RefreshTokenTTL config"
proof -
  from assms obtain w1 a w2 where email: "ParseEmail low parse rawEmail = Inr (low (TrimSpace rawEmail))"
    and pass: "ValidatePlainPassword password = Inr ()"
    and f: "UserFindByEmail (UserRepository D) (low (TrimSpace rawEmail)) w = (w1, Inr (Some a))"
    and m: "Matches (PasswordHasher D) password (usr_passwordHash a) w1 = (w2, Inr True)"
    and o: "openSession D config a w2 = (w', Inr out)"
    by (auto simp: Signin_def run_iff attempt_iff ParseEmail_ok consumePasswordHashCost_def
        split: option.splits if_splits)
  from accounts.FindByEmail_ok [OF f] obtain y where y: "users w (usr_id y) = Some y"
    "usr_email y = low (TrimSpace rawEmail)" "a = user_restored low y" by auto
  have "sessions w2 = sessions w"
    using f m users_apart(2) hasher_quiet(2) by (metis keepsD)
  with openSession_ok [OF o] y m pass show ?thesis
    by (intro exI [of _ y] exI [of _ w1] exI [of _ w2]) (auto simp: user_restored_def)
qed

lemma Signup_granted:
  assumes "Signup low parse D rawEmail password w = (w', Inr out)"
  shows "\<exists>account u u'. user_added user_prec account (users w) (users w') \<and>
      Hash (PasswordHasher D) password u = (u', Inr (usr_passwordHash account)) \<and>
      usr_email account = low (TrimSpace rawEmail) \<and> isOk (ValidatePlainPassword password) \<and>
      out = \<lparr>su_UserID = usr_id account, su_Email = usr_email account,
             su_CreatedAt = usr_createdAt account\<rparr> \<and>
      sessions w' = sessions w"
proof -
  from assms obtain w1 h w2 i w3 now account where pass: "ValidatePlainPassword password = Inr ()"
    and h: "Hash (PasswordHasher D) password w = (w1, Inr h)"
    and i: "IDGenerator D w1 = (w2, Inr i)" and n: "Clock D w2 = (w3, now)"
    and a: "user_New (TrimSpace i) (low (TrimSpace rawEmail)) h now = Inr account"
    and st: "UserCreate (UserRepository D) (Some account) w3 = (w', Inr ())"
    and out: "out = \<lparr>su_UserID = usr_id account, su_Email = usr_email account,
             su_CreatedAt = usr_createdAt account\<rparr>"
    by (auto simp: Signup_def run_iff ParseEmail_ok)
  have "users w3 = users w" "sessions w3 = sessions w"
    using h i n hasher_quiet ids_apart clock_apart ids_quiet clock_quiet by (metis keepsD)+
  moreover have "sessions w' = sessions w3" using users_apart(1) st by (metis keepsD)
  ultimately show ?thesis using accounts.UserCreate_ok [OF st] a h pass out
    by (intro exI [of _ account] exI [of _ w] exI [of _ w1]) (auto simp: user_New_ok)
qed

lemma Signin_steps: "follows steps (Signin low parse D config rawEmail password)"
proof -
  have "follows steps (consumePasswordHashCost D password)"
    unfolding consumePasswordHashCost_def
    by (intro follow_rules steps_preorder steps_quiet hasher_quiet(1))
  then show ?thesis
    unfolding Signin_def
    by (auto split: option.splits
        intro!: follow_rules steps_preorder openSession_steps users_apart [THEN steps_quiet]
          hasher_quiet(1,2) [THEN steps_quiet])
qed

lemma use_case_steps:
  "steps w (fst (Signin low parse D config rawEmail password w)) \<and>
   steps w (fst (Refresh D config t w)) \<and> steps w (fst (Logout D t w)) \<and>
   steps w (fst (Authenticate D t w))"
  using Signin_steps Refresh_steps Logout_steps steps_quiet [OF Authenticate_quiet]
  by (simp add: follows_def)

end

end
