(* ===== verification/Jwt.thy ===== *)
theory Jwt
  imports Authentication
begin

text \<open>
  The token manager \<^verbatim>\<open>internal/resources/security/jwtadapter\<close>.  The JWT library
  (\<^verbatim>\<open>golang-jwt\<close>) is a parameter: a record of the functions the adapter calls, whose
  documented behaviour is the locale \<open>jwt_library\<close>.  A context is a call that fails once it is
  cancelled.
\<close>

datatype jwt_sentinel = ErrInvalidClaims | Jwt_ErrInvalidConfiguration

definition jwtErr :: "jwt_sentinel \<Rightarrow> go_error" where
  "jwtErr e = NewError (case e of ErrInvalidClaims \<Rightarrow> ''invalid JWT claims''
                        | Jwt_ErrInvalidConfiguration \<Rightarrow> ''invalid JWT configuration'')"

record jwt_claims =
  jc_TokenType :: string
  jc_SessionID :: string
  jc_Issuer :: string
  jc_Subject :: string
  jc_Audience :: "string list"
  jc_ExpiresAt :: "time option"
  jc_NotBefore :: "time option"
  jc_IssuedAt :: "time option"
  jc_ID :: string

section \<open>The library\<close>

datatype parse_error = TokenExpired | TokenRefused

record parser_options =
  ValidMethods :: "string list"
  ParserIssuer :: string
  ParserAudience :: string
  ParserLeeway :: duration

text \<open>
  \<open>ParseWithClaims options keyFunc now rawToken\<close> asks \<open>keyFunc\<close> for the key of the token's
  signing method and checks the signature and the registered claims at \<open>now\<close>.
\<close>

record jwt_functions =
  NumericDate :: "time \<Rightarrow> time"
  SignedString :: "jwt_claims \<Rightarrow> string \<Rightarrow> go_error + string"
  ParseWithClaims :: "parser_options \<Rightarrow> (string \<Rightarrow> go_error + string) \<Rightarrow> time \<Rightarrow> string
     \<Rightarrow> parse_error + jwt_claims"

definition SigningMethodHS256 :: string where "SigningMethodHS256 = ''HS256''"

section \<open>Claims\<close>

definition accessTokenType :: string where "accessTokenType = ''access''"
definition refreshTokenType :: string where "refreshTokenType = ''refresh''"

definition newTokenClaims ::
  "jwt_functions \<Rightarrow> token_claims \<Rightarrow> string \<Rightarrow> string \<Rightarrow> string \<Rightarrow> jwt_claims" where
  "newTokenClaims J claims tokenType issuer audience =
     \<lparr>jc_TokenType = tokenType, jc_SessionID = tcl_SessionID claims, jc_Issuer = issuer,
      jc_Subject = tcl_UserID claims, jc_Audience = [audience],
      jc_ExpiresAt = Some (NumericDate J (UTC (tcl_ExpiresAt claims))),
      jc_NotBefore = Some (NumericDate J (UTC (tcl_IssuedAt claims))),
      jc_IssuedAt = Some (NumericDate J (UTC (tcl_IssuedAt claims))),
      jc_ID = tcl_TokenID claims\<rparr>"

definition validateSigninClaims :: "token_claims \<Rightarrow> go_error + unit" where
  "validateSigninClaims claims =
     (if blank (tcl_TokenID claims) then Inl (Wrap ''token id is empty'' (jwtErr ErrInvalidClaims))
      else if tcl_UserID claims = [] then Inl (Wrap ''user id is empty'' (jwtErr ErrInvalidClaims))
      else if tcl_SessionID claims = [] then Inl (Wrap ''session id is empty'' (jwtErr ErrInvalidClaims))
      else if IsZero (tcl_IssuedAt claims) then Inl (Wrap ''issued-at is empty'' (jwtErr ErrInvalidClaims))
      else if IsZero (tcl_ExpiresAt claims) \<or> \<not> tcl_ExpiresAt claims > tcl_IssuedAt claims
        then Inl (Wrap ''expiration must be after issued-at'' (jwtErr ErrInvalidClaims))
      else Inr ())"

abbreviation invalidToken :: go_error where
  "invalidToken \<equiv> Sentinel (PortsE ErrInvalidToken)"

definition toPortClaims :: "jwt_claims \<Rightarrow> string \<Rightarrow> go_error + token_claims" where
  "toPortClaims claims expectedTokenType =
     (if jc_TokenType claims \<noteq> expectedTokenType then Inl invalidToken
      else if blank (jc_ID claims) \<or> blank (jc_Subject claims) \<or> blank (jc_SessionID claims)
        then Inl invalidToken
      else case (jc_IssuedAt claims, jc_NotBefore claims, jc_ExpiresAt claims) of
        (Some issuedAt, Some notBefore, Some expiresAt) \<Rightarrow>
          if \<not> expiresAt > issuedAt then Inl invalidToken
          else andThen (user_ParseID (jc_Subject claims)) (\<lambda>_. invalidToken) (\<lambda>userID.
               andThen (session_ParseID (jc_SessionID claims)) (\<lambda>_. invalidToken) (\<lambda>sessionID.
               Inr \<lparr>tcl_TokenID = jc_ID claims, tcl_UserID = userID, tcl_SessionID = sessionID,
                    tcl_IssuedAt = UTC issuedAt, tcl_ExpiresAt = UTC expiresAt\<rparr>))
      | _ \<Rightarrow> Inl invalidToken)"

definition validateTokenType :: "string \<Rightarrow> go_error + unit" where
  "validateTokenType tokenType =
     (if tokenType = accessTokenType \<or> tokenType = refreshTokenType then Inr ()
      else Inl (Wrap ''unknown token type'' (jwtErr ErrInvalidClaims)))"

section \<open>The manager\<close>

definition minimumHMACKeyLength :: nat where "minimumHMACKeyLength = 32"
definition maximumLeeway :: duration where "maximumLeeway = 2 * minute"

record jwt_config =
  cfg_Issuer :: string
  cfg_Audience :: string
  cfg_AccessSecret :: string
  cfg_RefreshSecret :: string
  cfg_Leeway :: duration

record jwt_manager =
  mgr_issuer :: string
  mgr_audience :: string
  mgr_accessSecret :: string
  mgr_refreshSecret :: string
  mgr_parser :: parser_options

definition NewManager :: "jwt_config \<Rightarrow> go_error + jwt_manager" where
  "NewManager config =
     (if blank (cfg_Issuer config)
        then Inl (Wrap ''issuer is empty'' (jwtErr Jwt_ErrInvalidConfiguration))
      else if blank (cfg_Audience config)
        then Inl (Wrap ''audience is empty'' (jwtErr Jwt_ErrInvalidConfiguration))
      else if length (cfg_AccessSecret config) < minimumHMACKeyLength
        then Inl (Wrap ''access secret is too short'' (jwtErr Jwt_ErrInvalidConfiguration))
      else if length (cfg_RefreshSecret config) < minimumHMACKeyLength
        then Inl (Wrap ''refresh secret is too short'' (jwtErr Jwt_ErrInvalidConfiguration))
      else if cfg_AccessSecret config = cfg_RefreshSecret config
        then Inl (Wrap ''access and refresh secrets must be different'' (jwtErr Jwt_ErrInvalidConfiguration))
      else if cfg_Leeway config < 0 \<or> cfg_Leeway config > maximumLeeway
        then Inl (Wrap ''leeway is out of range'' (jwtErr Jwt_ErrInvalidConfiguration))
      else Inr \<lparr>mgr_issuer = cfg_Issuer config, mgr_audience = cfg_Audience config,
                mgr_accessSecret = cfg_AccessSecret config,
                mgr_refreshSecret = cfg_RefreshSecret config,
                mgr_parser = \<lparr>ValidMethods = [SigningMethodHS256], ParserIssuer = cfg_Issuer config,
                  ParserAudience = cfg_Audience config, ParserLeeway = cfg_Leeway config\<rparr>\<rparr>)"

definition jwt_sign ::
  "jwt_functions \<Rightarrow> 'w go_context \<Rightarrow> jwt_manager \<Rightarrow> token_claims \<Rightarrow> string \<Rightarrow> string
     \<Rightarrow> ('w, go_error, string) call" where
  "jwt_sign J ctx manager claims tokenType secret =
     orFail ctx (\<lambda>e. e) (\<lambda>_.
     orFail (lift (validateTokenType tokenType)) (\<lambda>e. e) (\<lambda>_.
     orFail (lift (validateSigninClaims claims)) (\<lambda>e. e) (\<lambda>_.
     orFail (lift (SignedString J (newTokenClaims J claims tokenType (mgr_issuer manager)
                                     (mgr_audience manager)) secret))
       (Wrap ''sign token'') (\<lambda>signedToken.
     orFail ctx (\<lambda>e. e) (\<lambda>_.
     ret signedToken)))))"

definition jwt_verify ::
  "jwt_functions \<Rightarrow> 'w go_context \<Rightarrow> 'w clock \<Rightarrow> jwt_manager \<Rightarrow> string \<Rightarrow> string \<Rightarrow> string
     \<Rightarrow> ('w, go_error, token_claims) call" where
  "jwt_verify J ctx clock manager rawToken expectedTokenType secret =
     orFail ctx (\<lambda>e. e) (\<lambda>_.
     if blank rawToken then fail invalidToken
     else
       orFail (lift (validateTokenType expectedTokenType)) (\<lambda>e. e) (\<lambda>_.
       reads clock (\<lambda>now.
       case ParseWithClaims J (mgr_parser manager)
              (\<lambda>tokenMethod. if tokenMethod \<noteq> SigningMethodHS256 then Inl invalidToken else Inr secret)
              (UTC now) rawToken of
         Inl TokenExpired \<Rightarrow> fail (Sentinel (PortsE ErrExpiredToken))
       | Inl TokenRefused \<Rightarrow> fail invalidToken
       | Inr parsedClaims \<Rightarrow>
           orFail (lift (toPortClaims parsedClaims expectedTokenType)) (\<lambda>_. invalidToken) (\<lambda>claims.
           orFail ctx (\<lambda>e. e) (\<lambda>_. ret claims)))))"

definition jwt_token_manager ::
  "jwt_functions \<Rightarrow> 'w go_context \<Rightarrow> 'w clock \<Rightarrow> jwt_manager \<Rightarrow> 'w token_manager" where
  "jwt_token_manager J ctx clock manager =
     \<lparr>SignAccessToken = (\<lambda>claims. jwt_sign J ctx manager claims accessTokenType (mgr_accessSecret manager)),
      SignRefreshToken = (\<lambda>claims. jwt_sign J ctx manager claims refreshTokenType (mgr_refreshSecret manager)),
      VerifyAccessToken = (\<lambda>t. jwt_verify J ctx clock manager t accessTokenType (mgr_accessSecret manager)),
      VerifyRefreshToken = (\<lambda>t. jwt_verify J ctx clock manager t refreshTokenType (mgr_refreshSecret manager))\<rparr>"

text \<open>The manager only reads the context and the clock.\<close>

lemma jwt_token_manager_keeps:
  assumes "keeps g ctx" "keeps g clock"
  shows "keeps g (SignAccessToken (jwt_token_manager J ctx clock m) c)"
    and "keeps g (SignRefreshToken (jwt_token_manager J ctx clock m) c)"
    and "keeps g (VerifyAccessToken (jwt_token_manager J ctx clock m) t)"
    and "keeps g (VerifyRefreshToken (jwt_token_manager J ctx clock m) t)"
  using assms
  by (auto simp: jwt_token_manager_def jwt_sign_def jwt_verify_def
      intro!: frame split: sum.splits parse_error.splits)

section \<open>The documented behaviour of the library\<close>

text \<open>
  \<open>payload\<close> reads the claims a token carries, \<open>signed_by\<close> checks its signature.  The registered
  claims are checked with the leeway of the parser; dates are cut to seconds.
\<close>

definition claims_in_force :: "parser_options \<Rightarrow> time \<Rightarrow> jwt_claims \<Rightarrow> bool" where
  "claims_in_force opts now c \<longleftrightarrow>
     jc_Issuer c = ParserIssuer opts \<and> ParserAudience opts \<in> set (jc_Audience c) \<and>
     (case jc_NotBefore c of None \<Rightarrow> False | Some t \<Rightarrow> t - ParserLeeway opts \<le> now) \<and>
     (case jc_IssuedAt c of None \<Rightarrow> True | Some t \<Rightarrow> t - ParserLeeway opts \<le> now)"

definition claims_unexpired :: "parser_options \<Rightarrow> time \<Rightarrow> jwt_claims \<Rightarrow> bool" where
  "claims_unexpired opts now c \<longleftrightarrow>
     (case jc_ExpiresAt c of None \<Rightarrow> False | Some t \<Rightarrow> now < t + ParserLeeway opts)"

text \<open>The claims a verified token stands for.\<close>

definition port_claims :: "(string \<Rightarrow> jwt_claims) \<Rightarrow> string \<Rightarrow> token_claims" where
  "port_claims payload t =
     \<lparr>tcl_TokenID = jc_ID (payload t), tcl_UserID = TrimSpace (jc_Subject (payload t)),
      tcl_SessionID = TrimSpace (jc_SessionID (payload t)),
      tcl_IssuedAt = the (jc_IssuedAt (payload t)), tcl_ExpiresAt = the (jc_ExpiresAt (payload t))\<rparr>"

locale jwt_library =
  fixes J :: jwt_functions
    and payload :: "string \<Rightarrow> jwt_claims"
    and signed_by :: "string \<Rightarrow> string \<Rightarrow> bool"
  assumes NumericDate_le: "NumericDate J at \<le> at"
    and NumericDate_close: "at < NumericDate J at + second"
    and accepted: "ParseWithClaims J opts keyFunc now t = Inr c \<Longrightarrow>
      c = payload t \<and> claims_in_force opts now c \<and> claims_unexpired opts now c \<and>
      (\<exists>m secret. m \<in> set (ValidMethods opts) \<and> keyFunc m = Inr secret \<and> signed_by t secret)"
    and signed: "SignedString J c secret = Inr t \<Longrightarrow>
      \<not> blank t \<and> payload t = c \<and> signed_by t secret"
    and parse_signed: "SignedString J c secret = Inr t \<Longrightarrow> SigningMethodHS256 \<in> set (ValidMethods opts) \<Longrightarrow>
      keyFunc SigningMethodHS256 = Inr secret \<Longrightarrow> claims_in_force opts now c \<Longrightarrow>
      ParseWithClaims J opts keyFunc now t = (if claims_unexpired opts now c then Inr c else Inl TokenExpired)"
begin

lemma verified:
  assumes "jwt_verify J ctx clock m t ty secret w = (w', Inr claims)"
  shows "claims = port_claims payload t \<and> toPortClaims (payload t) ty = Inr claims \<and>
    claims_in_force (mgr_parser m) (snd (clock (fst (ctx w)))) (payload t) \<and>
    claims_unexpired (mgr_parser m) (snd (clock (fst (ctx w)))) (payload t) \<and>
    jc_TokenType (payload t) = ty \<and> signed_by t secret"
proof -
  let ?key = "\<lambda>tm. if tm \<noteq> SigningMethodHS256 then Inl invalidToken else Inr secret"
  obtain w1 q where ctx: "ctx w = (w1, q)" by fastforce
  obtain w2 now where now: "clock w1 = (w2, now)" by fastforce
  obtain c where p: "ParseWithClaims J (mgr_parser m) ?key now t = Inr c"
    and c: "toPortClaims c ty = Inr claims"
  proof (cases "ParseWithClaims J (mgr_parser m) ?key now t")
    case (Inl e)
    then have False using assms ctx now
      by (cases e; cases q) (auto simp: jwt_verify_def run_iff split: if_splits)
    then show thesis ..
  next
    case (Inr c)
    then have "toPortClaims c ty = Inr claims" using assms ctx now
      by (cases q) (auto simp: jwt_verify_def run_iff split: if_splits)
    with Inr that show thesis by blast
  qed
  from accepted [OF p] have pay: "c = payload t"
    and a: "claims_in_force (mgr_parser m) now c" "claims_unexpired (mgr_parser m) now c"
    and s: "signed_by t secret" by (auto split: if_splits)
  from c pay have "claims = port_claims payload t" "jc_TokenType (payload t) = ty"
    by (auto simp: toPortClaims_def port_claims_def run_iff split: option.splits if_splits)
  then show ?thesis using ctx now c a s pay by simp
qed

text \<open>An access token is never a refresh token, whatever the secrets.\<close>

lemma verified_types_differ:
  assumes "jwt_verify J ctx clock m t ty secret w = (w', Inr claims)"
    and "jwt_verify J ctx' clock' m' t ty' secret' v = (v', Inr claims')"
  shows "ty = ty'"
proof -
  have "jc_TokenType (payload t) = ty" using verified [OF assms(1)] by blast
  moreover have "jc_TokenType (payload t) = ty'" using verified [OF assms(2)] by blast
  ultimately show ?thesis by simp
qed

text \<open>A signed token verifies to the claims it was signed with, its dates cut to seconds.\<close>

lemma sign_verify:
  assumes sign: "jwt_sign J ctx m claims ty secret w = (w1, Inr t)"
    and m: "NewManager config = Inr m"
    and c: "ctx v = (v1, Inr ())" and n: "clock v1 = (v2, now)" and c2: "ctx v2 = (v3, Inr ())"
    and normal: "TrimSpace (tcl_UserID claims) = tcl_UserID claims"
      "TrimSpace (tcl_SessionID claims) = tcl_SessionID claims"
    and lasting: "tcl_IssuedAt claims + second \<le> tcl_ExpiresAt claims"
    and valid: "tcl_IssuedAt claims \<le> now" "now + second \<le> tcl_ExpiresAt claims"
  shows "jwt_verify J ctx clock m t ty secret v =
    (v3, Inr (claims\<lparr>tcl_IssuedAt := NumericDate J (tcl_IssuedAt claims),
                    tcl_ExpiresAt := NumericDate J (tcl_ExpiresAt claims)\<rparr>))"
proof -
  let ?c = "newTokenClaims J claims ty (mgr_issuer m) (mgr_audience m)"
  from sign have ty: "validateTokenType ty = Inr ()" and vc: "validateSigninClaims claims = Inr ()"
    and s: "SignedString J ?c secret = Inr t"
    by (auto simp: jwt_sign_def run_iff)
  from m have p: "mgr_parser m = \<lparr>ValidMethods = [SigningMethodHS256], ParserIssuer = mgr_issuer m,
      ParserAudience = mgr_audience m, ParserLeeway = cfg_Leeway config\<rparr>" and l: "0 \<le> cfg_Leeway config"
    by (auto simp: NewManager_def split: if_splits)
  have "claims_in_force (mgr_parser m) now ?c"
    using p l valid(1) NumericDate_le [of "tcl_IssuedAt claims"]
    by (simp add: claims_in_force_def newTokenClaims_def)
  moreover have "claims_unexpired (mgr_parser m) now ?c"
    using p l valid(2) NumericDate_close [of "tcl_ExpiresAt claims"]
    by (simp add: claims_unexpired_def newTokenClaims_def)
  ultimately have parse: "ParseWithClaims J (mgr_parser m)
      (\<lambda>tm. if tm \<noteq> SigningMethodHS256 then Inl invalidToken else Inr secret) now t = Inr ?c"
    using parse_signed [OF s] p by simp
  have "NumericDate J (tcl_IssuedAt claims) < NumericDate J (tcl_ExpiresAt claims)"
    using lasting NumericDate_le [of "tcl_IssuedAt claims"] NumericDate_close [of "tcl_ExpiresAt claims"]
    by linarith
  moreover have "\<not> blank (tcl_UserID claims)" "\<not> blank (tcl_SessionID claims)" "\<not> blank (tcl_TokenID claims)"
    using vc normal by (auto simp: validateSigninClaims_def split: if_splits)
  ultimately have "toPortClaims ?c ty = Inr (claims\<lparr>tcl_IssuedAt := NumericDate J (tcl_IssuedAt claims),
                    tcl_ExpiresAt := NumericDate J (tcl_ExpiresAt claims)\<rparr>)"
    using normal by (simp add: toPortClaims_def newTokenClaims_def user_ParseID_def session_ParseID_def)
  moreover have "\<not> blank t" using signed [OF s] by blast
  ultimately show ?thesis using parse ty c n c2 by (simp add: jwt_verify_def)
qed

end

end
