(* ===== verification/Security.thy ===== *)
theory Security
  imports Jwt
begin

unbundle bit_operations_syntax

text \<open>
  The small adapters behind the security ports: the SHA-256 digest of a token
  (\<^verbatim>\<open>internal/resources/security/tokendigest\<close>) and the identifier generator
  (\<^verbatim>\<open>internal/resources/identifier\<close>).  SHA-256 and the random source are parameters.
\<close>

section \<open>Hexadecimal\<close>

text \<open>\<^verbatim>\<open>hex.EncodeToString\<close> and the verb \<^verbatim>\<open>%x\<close> on bytes: two lower-case digits per byte.\<close>

definition hexDigit :: "nat \<Rightarrow> char" where
  "hexDigit n = ''0123456789abcdef'' ! n"

definition hexByte :: "char \<Rightarrow> string" where
  "hexByte c = [hexDigit (of_char c div 16), hexDigit (of_char c mod 16)]"

definition hex_EncodeToString :: "string \<Rightarrow> string" where
  "hex_EncodeToString bs = concat (map hexByte bs)"

lemma hexDigit_inj: "m < 16 \<Longrightarrow> n < 16 \<Longrightarrow> hexDigit m = hexDigit n \<Longrightarrow> m = n"
  unfolding hexDigit_def by (subst (asm) nth_eq_iff_index_eq) simp_all

lemma hexByte_inj [simp]: "hexByte a = hexByte b \<longleftrightarrow> a = b"
proof
  assume "hexByte a = hexByte b"
  moreover have "of_char a div 16 < (16 :: nat)" "of_char b div 16 < (16 :: nat)"
    by (simp_all add: less_mult_imp_div_less)
  ultimately have "of_char a div 16 = (of_char b div 16 :: nat)" "of_char a mod 16 = (of_char b mod 16 :: nat)"
    using hexDigit_inj by (simp_all add: hexByte_def)
  then have "(of_char a :: nat) = of_char b" by (metis div_mod_decomp)
  then show "a = b" by simp
qed simp

text \<open>For evaluation, by the bits of the character.\<close>

lemma hexByte_code [code]:
  "hexByte (Char b0 b1 b2 b3 b4 b5 b6 b7) =
     (let d = (\<lambda>a b c e. ''0123456789abcdef'' !
                 (of_bool a + 2 * of_bool b + 4 * of_bool c + 8 * of_bool e))
      in [d b4 b5 b6 b7, d b0 b1 b2 b3])"
proof -
  have one: "of_bool b \<le> (1 :: nat)" for b by simp
  define lo hi :: nat where "lo = of_bool b0 + 2 * of_bool b1 + 4 * of_bool b2 + 8 * of_bool b3"
    and "hi = of_bool b4 + 2 * of_bool b5 + 4 * of_bool b6 + 8 * of_bool b7"
  have "lo < 16" using one [of b0] one [of b1] one [of b2] one [of b3] unfolding lo_def by linarith
  moreover have "of_char (Char b0 b1 b2 b3 b4 b5 b6 b7) = lo + 16 * hi"
    unfolding lo_def hi_def of_char_Char by (simp only: horner_sum_simps algebra_simps mult_zero_right)
  ultimately have "of_char (Char b0 b1 b2 b3 b4 b5 b6 b7) div 16 = hi"
    "of_char (Char b0 b1 b2 b3 b4 b5 b6 b7) mod 16 = lo" by simp_all
  then show ?thesis unfolding hexByte_def hexDigit_def Let_def lo_def hi_def by simp
qed

lemma length_hex [simp]: "length (hex_EncodeToString bs) = 2 * length bs"
  by (induction bs) (simp_all add: hex_EncodeToString_def hexByte_def)

lemma hex_inj [simp]: "hex_EncodeToString as = hex_EncodeToString bs \<longleftrightarrow> as = bs"
proof (induction as arbitrary: bs)
  case Nil
  then show ?case by (cases bs) (auto simp: hex_EncodeToString_def hexByte_def)
next
  case (Cons a as)
  show ?case
  proof (cases bs)
    case Nil
    then show ?thesis by (simp add: hex_EncodeToString_def hexByte_def)
  next
    case (Cons b bs')
    have "hexByte a @ xs = hexByte b @ ys \<longleftrightarrow> a = b \<and> xs = ys" for xs ys
      using hexByte_inj [of a b] by (auto simp: hexByte_def)
    then show ?thesis using Cons.IH [of bs'] Cons by (simp add: hex_EncodeToString_def)
  qed
qed

section \<open>Token digests\<close>

definition tokenDigest :: "(string \<Rightarrow> string) \<Rightarrow> string \<Rightarrow> string" where
  "tokenDigest sha256 rawToken = hex_EncodeToString (sha256 rawToken)"

definition SHA256Digester ::
  "(string \<Rightarrow> string) \<Rightarrow> 'w go_context \<Rightarrow> 'w token_digester" where
  "SHA256Digester sha256 ctx rawToken =
     orFail ctx (\<lambda>e. e) (\<lambda>_.
     if rawToken = [] then fail (NewError ''cannot digest an empty token'')
     else ret (tokenDigest sha256 rawToken))"

lemma SHA256Digester_digest:
  "SHA256Digester sha256 ctx t w = (w', Inr d) \<Longrightarrow> d = tokenDigest sha256 t \<and> t \<noteq> []"
  by (auto simp: SHA256Digester_def run_iff split: if_splits)

section \<open>Identifiers\<close>

definition uuidSize :: nat where "uuidSize = 16"

definition slice :: "nat \<Rightarrow> nat \<Rightarrow> 'a list \<Rightarrow> 'a list" where
  "slice i j xs = take (j - i) (drop i xs)"

definition formatUUID :: "string \<Rightarrow> string" where
  "formatUUID value =
     hex_EncodeToString (slice 0 4 value) @ ''-'' @ hex_EncodeToString (slice 4 6 value) @ ''-'' @
     hex_EncodeToString (slice 6 8 value) @ ''-'' @ hex_EncodeToString (slice 8 10 value) @ ''-'' @
     hex_EncodeToString (slice 10 16 value)"

definition setVariant :: "string \<Rightarrow> string" where
  "setVariant randomBytes =
     randomBytes[8 := char_of (((of_char (randomBytes ! 8) AND 0x3f) OR 0x80) :: nat)]"

lemma setVariant_code [code]:
  "setVariant bs = (case drop 8 bs of
       Char b0 b1 b2 b3 b4 b5 b6 b7 # rest \<Rightarrow> take 8 bs @ Char b0 b1 b2 b3 b4 b5 False True # rest
     | [] \<Rightarrow> bs)"
proof (cases "drop 8 bs")
  case Nil
  then show ?thesis by (simp add: setVariant_def list_update_beyond)
next
  case (Cons c rest)
  obtain xs where xs: "xs = take 8 bs" by blast
  have "\<not> length bs \<le> 8" using Cons drop_eq_Nil [of 8 bs] by (simp only: not_False_eq_True list.distinct)
  then have "length xs = 8" by (simp add: xs)
  moreover have "bs = xs @ c # rest" using append_take_drop_id [of 8 bs] Cons xs by simp
  ultimately have upd: "bs ! 8 = c" "bs[8 := v] = xs @ v # rest" for v
    by (metis nth_append_length) (metis \<open>length xs = 8\<close> \<open>bs = xs @ c # rest\<close> list_update_length)
  obtain b0 b1 b2 b3 b4 b5 b6 b7 where c: "c = Char b0 b1 b2 b3 b4 b5 b6 b7" by (cases c)
  have "char_of (((of_char c AND 0x3f) OR 0x80) :: nat) = Char b0 b1 b2 b3 b4 b5 False True"
    unfolding c char_of_def of_char_Char
    by (simp only: bit_or_iff bit_and_iff bit_horner_sum_bit_iff char.inject) (simp add: bit_0)
  then show ?thesis using upd Cons by (simp add: setVariant_def c xs)
qed

definition UUIDGenerator :: "'w go_context \<Rightarrow> (nat \<Rightarrow> ('w, go_error, string) call) \<Rightarrow> 'w id_generator" where
  "UUIDGenerator ctx rand_Read =
     orFail ctx (\<lambda>e. e) (\<lambda>_.
     orFail (rand_Read uuidSize) (Wrap ''read random bytes for UUID'') (\<lambda>randomBytes.
     ret (formatUUID (setVariant randomBytes))))"

lemma slices16: "length v = 16 \<Longrightarrow> slice 0 4 v @ slice 4 6 v @ slice 6 8 v @ slice 8 10 v @ slice 10 16 v = v"
  by (simp add: slice_def numeral_eq_Suc length_Suc_conv) (elim exE conjE, simp)

lemma length_slice [simp]: "j \<le> length v \<Longrightarrow> length (slice i j v) = j - i"
  by (simp add: slice_def)

lemma formatUUID_length: "length v = 16 \<Longrightarrow> length (formatUUID v) = 36"
  by (simp add: formatUUID_def)

lemma formatUUID_inj:
  assumes "length v = 16" "length u = 16" "formatUUID v = formatUUID u"
  shows "v = u"
proof -
  have "slice 0 4 v = slice 0 4 u" "slice 4 6 v = slice 4 6 u" "slice 6 8 v = slice 6 8 u"
    "slice 8 10 v = slice 8 10 u" "slice 10 16 v = slice 10 16 u"
    using assms(3) by (simp_all add: formatUUID_def assms(1,2))
  then show ?thesis using slices16 assms(1,2) by metis
qed

text \<open>An identifier is 36 characters, none of them blank, so parsing it as an identifier keeps it.\<close>

lemma hex_graphic: "c \<in> set (hex_EncodeToString bs) \<Longrightarrow> graphic c"
proof -
  have d: "graphic (hexDigit n)" if "n < 16" for n
  proof -
    have "list_all graphic ''0123456789abcdef''" by (simp add: graphic_def)
    then show ?thesis using that by (simp add: hexDigit_def list_all_length)
  qed
  assume "c \<in> set (hex_EncodeToString bs)"
  then obtain b where "c \<in> set (hexByte b)" by (auto simp: hex_EncodeToString_def)
  moreover have "of_char b div 16 < (16 :: nat)" by (simp add: less_mult_imp_div_less)
  ultimately show ?thesis using d by (auto simp: hexByte_def)
qed

lemma formatUUID_trimmed: "TrimSpace (formatUUID v) = formatUUID v"
proof (rule TrimSpace_id)
  have "graphic (CHR ''-'')" by (simp add: graphic_def)
  then show "list_all graphic (formatUUID v)"
    using hex_graphic by (auto simp: formatUUID_def list_all_iff)
qed

lemma setVariant_length [simp]: "length (setVariant v) = length v"
  by (simp add: setVariant_def)

lemma UUIDGenerator_ok:
  assumes "UUIDGenerator ctx rand_Read w = (w', Inr i)"
    and "\<And>w w' bs. rand_Read uuidSize w = (w', Inr bs) \<Longrightarrow> length bs = uuidSize"
  shows "length i = 36 \<and> session_ParseID i = Inr i \<and> user_ParseID i = Inr i"
proof -
  from assms(1) obtain w1 w2 bs where r: "rand_Read uuidSize w1 = (w2, Inr bs)" "i = formatUUID (setVariant bs)"
    by (auto simp: UUIDGenerator_def run_iff)
  from assms(2) [OF r(1)] have "length i = 36" using r(2) by (simp add: formatUUID_length uuidSize_def)
  then show ?thesis using r(2) by (auto simp: session_ParseID_ok user_ParseID_ok formatUUID_trimmed)
qed

end
