(* ===== verification/JwtMemory.thy ===== *)
theory JwtMemory
  imports Security
begin

text \<open>
  A token format that satisfies the laws of \<open>jwt_library\<close>: the fields of the claims and the key,
  one after the other.  It is not secure, and nothing but the witnesses uses it.
\<close>

section \<open>An injective text for claims\<close>

fun enc_string :: "string \<Rightarrow> string" where
  "enc_string [] = ''.''"
| "enc_string (c # s) = CHR ''!'' # c # enc_string s"

fun dec_string :: "string \<Rightarrow> string \<times> string" where
  "dec_string (x # c # s) =
     (if x = CHR ''!'' then (case dec_string s of (t, r) \<Rightarrow> (c # t, r)) else ([], c # s))"
| "dec_string s = ([], [])"

lemma dec_enc_string [simp]: "r \<noteq> [] \<Longrightarrow> dec_string (enc_string s @ r) = (s, r)"
  by (induction s) (auto simp: neq_Nil_conv)

function int_bits :: "int \<Rightarrow> string" where
  "int_bits n = (if n \<le> 0 then [] else (if n mod 2 = 1 then CHR ''1'' else CHR ''0'') # int_bits (n div 2))"
  by pat_completeness auto
termination by (relation "measure nat") auto

declare int_bits.simps [simp del]

fun bits_int :: "string \<Rightarrow> int" where
  "bits_int [] = 0"
| "bits_int (c # s) = (if c = CHR ''1'' then 1 else 0) + 2 * bits_int s"

lemma bits_int_bits [simp]: "0 \<le> n \<Longrightarrow> bits_int (int_bits n) = n"
proof (induction n rule: int_bits.induct)
  case (1 n)
  show ?case
  proof (cases "n \<le> 0")
    case True
    then show ?thesis using 1 by (subst int_bits.simps) simp
  next
    case False
    then have "bits_int (int_bits (n div 2)) = n div 2" using 1 by simp
    moreover have "n mod 2 = 1 \<Longrightarrow> 1 + 2 * (n div 2) = n" "n mod 2 \<noteq> 1 \<Longrightarrow> 2 * (n div 2) = n"
      by presburger+
    ultimately show ?thesis using False by (subst int_bits.simps) auto
  qed
qed

definition time_text :: "time option \<Rightarrow> string" where
  "time_text t = (case t of None \<Rightarrow> [] | Some i \<Rightarrow> (if i < 0 then CHR ''-'' else CHR ''+'') # int_bits \<bar>i\<bar>)"

definition text_time :: "string \<Rightarrow> time option" where
  "text_time s = (case s of [] \<Rightarrow> None
     | c # b \<Rightarrow> Some (if c = CHR ''-'' then - bits_int b else bits_int b))"

lemma text_time_text [simp]: "text_time (time_text t) = t"
  by (auto simp: time_text_def text_time_def split: option.splits)

fun enc_list :: "string list \<Rightarrow> string" where
  "enc_list [] = ''.''"
| "enc_list (x # xs) = enc_string x @ enc_list xs"

fun dec_fields :: "nat \<Rightarrow> string \<Rightarrow> string list" where
  "dec_fields 0 s = []"
| "dec_fields (Suc n) s = (case dec_string s of (x, r) \<Rightarrow> x # dec_fields n r)"

lemma enc_list_nonempty [simp]: "enc_list xs \<noteq> []"
  by (cases xs; simp) (metis append_is_Nil_conv enc_string.simps list.simps(3) list.exhaust)

lemma dec_enc_list [simp]: "dec_fields (length xs) (enc_list xs) = xs"
  by (induction xs) auto

definition claim_fields :: "jwt_claims \<Rightarrow> string list" where
  "claim_fields c = [jc_TokenType c, jc_SessionID c, jc_Issuer c, jc_Subject c,
     hd (jc_Audience c @ [[]]), time_text (jc_ExpiresAt c), time_text (jc_NotBefore c),
     time_text (jc_IssuedAt c), jc_ID c]"

definition fields_claims :: "string list \<Rightarrow> jwt_claims" where
  "fields_claims f = \<lparr>jc_TokenType = f ! 0, jc_SessionID = f ! 1, jc_Issuer = f ! 2, jc_Subject = f ! 3,
     jc_Audience = [f ! 4], jc_ExpiresAt = text_time (f ! 5), jc_NotBefore = text_time (f ! 6),
     jc_IssuedAt = text_time (f ! 7), jc_ID = f ! 8\<rparr>"

section \<open>The functions\<close>

definition mem_token :: "jwt_claims \<Rightarrow> string \<Rightarrow> string" where
  "mem_token c secret = enc_list (claim_fields c @ [secret])"

definition mem_fields :: "string \<Rightarrow> string list" where
  "mem_fields t = dec_fields 10 t"

definition mem_payload :: "string \<Rightarrow> jwt_claims" where
  "mem_payload t = fields_claims (mem_fields t)"

definition mem_signed_by :: "string \<Rightarrow> string \<Rightarrow> bool" where
  "mem_signed_by t secret \<longleftrightarrow> mem_fields t ! 9 = secret"

definition floor_second :: "time \<Rightarrow> time" where
  "floor_second t = t div second * second"

definition mem_jwt :: jwt_functions where
  "mem_jwt = \<lparr>
     NumericDate = floor_second,
     SignedString = (\<lambda>c secret. if length (jc_Audience c) = 1 then Inr (mem_token c secret)
                                else Inl (NewError ''one audience'')),
     ParseWithClaims = (\<lambda>opts keyFunc now t.
       if \<not> list_ex (\<lambda>m. m = SigningMethodHS256) (ValidMethods opts) then Inl TokenRefused
       else case keyFunc SigningMethodHS256 of
         Inl _ \<Rightarrow> Inl TokenRefused
       | Inr secret \<Rightarrow>
           if mem_signed_by t secret \<and> claims_in_force opts now (mem_payload t)
           then (if claims_unexpired opts now (mem_payload t) then Inr (mem_payload t) else Inl TokenExpired)
           else Inl TokenRefused)\<rparr>"

lemma mem_fields_token [simp]: "mem_fields (mem_token c secret) = claim_fields c @ [secret]"
proof -
  have "length (claim_fields c @ [secret]) = 10" by (simp add: claim_fields_def)
  then show ?thesis unfolding mem_fields_def mem_token_def by (metis dec_enc_list)
qed

lemma mem_payload_token [simp]: "length (jc_Audience c) = 1 \<Longrightarrow> mem_payload (mem_token c secret) = c"
  by (cases c) (auto simp: mem_payload_def fields_claims_def claim_fields_def length_Suc_conv)

lemma mem_signed_token [simp]: "mem_signed_by (mem_token c secret) s \<longleftrightarrow> s = secret"
  by (auto simp: mem_signed_by_def claim_fields_def)

lemma mem_token_nonblank: "\<not> blank (mem_token c secret)"
proof -
  have "\<exists>x s. enc_string t @ r = x # s \<and> graphic x" for t r
    by (cases t) (auto simp: graphic_def)
  then obtain x s where "mem_token c secret = x # s" "graphic x"
    unfolding mem_token_def claim_fields_def by fastforce
  then show ?thesis using TrimSpace_graphic_hd by metis
qed

interpretation mem_jwt: jwt_library mem_jwt mem_payload mem_signed_by
proof (unfold_locales, goal_cases)
  case (1 at)
  show ?case using div_mult_mod_eq [of at "second"] pos_mod_sign [of "second" at]
    by (simp add: mem_jwt_def floor_second_def)
next
  case (2 at)
  show ?case using div_mult_mod_eq [of at "second"] pos_mod_bound [of "second" at]
    by (simp add: mem_jwt_def floor_second_def)
next
  case 3
  then show ?case by (auto simp: mem_jwt_def list_ex_iff split: sum.splits if_splits)
next
  case 4
  then show ?case using mem_token_nonblank by (auto simp: mem_jwt_def split: if_splits)
next
  case 5
  then show ?case by (auto simp: mem_jwt_def list_ex_iff split: if_splits)
qed

end
