(* ===== verification/AuthWorld.thy ===== *)
theory AuthWorld
  imports AuthSafety JwtMemory
begin

text \<open>
  One world in which the whole authentication stack runs: the adapters of the program on
  in-memory collections with injected faults, on the in-memory token format, with a clock that
  advances at every reading and a deterministic random source.  It interprets the locales on the
  model's definitions, and the witnesses run on it.
\<close>

record auth_world =
  aw_faults :: "fault list"
  aw_cancelled :: bool
  aw_clock :: time
  aw_entropy :: nat
  aw_sessions :: "session_document list"
  aw_users :: "user_document list"

definition aw_pop :: "auth_world \<Rightarrow> auth_world \<times> fault" where
  "aw_pop w = (case aw_faults w of [] \<Rightarrow> (w, NoFault) | f # fs \<Rightarrow> (w\<lparr>aw_faults := fs\<rparr>, f))"

definition aw_ctx :: "auth_world go_context" where
  "aw_ctx = (\<lambda>w. if aw_cancelled w then (w, Inl (Sentinel ContextCanceled)) else (w, Inr ()))"

definition aw_now :: "auth_world clock" where
  "aw_now w = (w\<lparr>aw_clock := aw_clock w + millisecond\<rparr>, aw_clock w)"

definition aw_rand :: "nat \<Rightarrow> (auth_world, go_error, string) call" where
  "aw_rand n = (\<lambda>w. (w\<lparr>aw_entropy := aw_entropy w + 1\<rparr>,
     Inr (replicate (n - 1) (CHR 0x00) @ replicate (min n 1) (char_of (aw_entropy w)))))"

definition aw_session_collection :: "(auth_world, session_document) collection" where
  "aw_session_collection =
     mem_collection aw_sessions (\<lambda>ds w. w\<lparr>aw_sessions := ds\<rparr>) aw_pop sd_ID no_clash"

definition aw_user_collection :: "(auth_world, user_document) collection" where
  "aw_user_collection =
     mem_collection aw_users (\<lambda>ds w. w\<lparr>aw_users := ds\<rparr>) aw_pop ud_ID email_clash"

definition mem_mail :: "string \<Rightarrow> string option" where
  "mem_mail s = (if list_ex (\<lambda>c. c = CHR ''@'') s then Some s else None)"

definition mem_sha :: "string \<Rightarrow> string" where
  "mem_sha s = (let h = foldl (\<lambda>h c. (h * 31 + of_char c) mod 65536) (7 :: int) s
                in [char_of (h div 256), char_of (h mod 256)])"

definition mem_hasher :: "'w password_hasher" where
  "mem_hasher = \<lparr>Hash = (\<lambda>p. ret (CHR ''#'' # p)), Matches = (\<lambda>p h. ret (h = CHR ''#'' # p))\<rparr>"

definition aw_jwt_config :: jwt_config where
  "aw_jwt_config = \<lparr>cfg_Issuer = ''nexus'', cfg_Audience = ''web'',
     cfg_AccessSecret = replicate 32 (CHR ''a''), cfg_RefreshSecret = replicate 32 (CHR ''r''),
     cfg_Leeway = 0\<rparr>"

definition aw_manager :: jwt_manager where
  "aw_manager = (case NewManager aw_jwt_config of Inr m \<Rightarrow> m)"

definition aw_dependencies :: "auth_world auth_dependencies" where
  "aw_dependencies =
     \<lparr>UserRepository = mongo_user_repository ascii_ToLower mem_mail aw_user_collection,
      SessionRepository = mongo_session_repository aw_session_collection,
      PasswordHasher = mem_hasher,
      TokenManager = jwt_token_manager mem_jwt aw_ctx aw_now aw_manager,
      TokenDigester = SHA256Digester mem_sha aw_ctx,
      IDGenerator = UUIDGenerator aw_ctx aw_rand,
      Clock = aw_now\<rparr>"

abbreviation aw_stored_sessions :: "auth_world \<Rightarrow> session_ID \<rightharpoonup> session" where
  "aw_stored_sessions \<equiv> stored_sessions aw_session_collection"

abbreviation aw_stored_users :: "auth_world \<Rightarrow> user_ID \<rightharpoonup> user" where
  "aw_stored_users \<equiv> stored_users aw_user_collection"

section \<open>The collections\<close>

interpretation aw_sessions: session_collection aw_session_collection
proof -
  have "collection aw_session_collection sd_ID no_clash"
    unfolding aw_session_collection_def
    by (rule mem_collection_laws) (auto simp: aw_pop_def split: list.splits)
  then show "session_collection aw_session_collection" by (rule session_collection.intro)
qed

interpretation aw_users: user_collection aw_user_collection ascii_ToLower mem_mail
proof -
  have "collection aw_user_collection ud_ID email_clash"
    unfolding aw_user_collection_def
    by (rule mem_collection_laws) (auto simp: aw_pop_def split: list.splits)
  then show "user_collection aw_user_collection" by (rule user_collection.intro)
qed

section \<open>The ports\<close>

lemma aw_ctx_keeps: "keeps g aw_ctx"
  by (simp add: keeps_def aw_ctx_def)

lemma aw_now_keeps: "(\<And>w t. g (w\<lparr>aw_clock := t\<rparr>) = g w) \<Longrightarrow> keeps g aw_now"
  by (simp add: keeps_def aw_now_def)

lemma aw_rand_keeps: "(\<And>w n. g (w\<lparr>aw_entropy := n\<rparr>) = g w) \<Longrightarrow> keeps g (aw_rand n)"
  by (simp add: keeps_def aw_rand_def)

lemma aw_stores_quiet:
  "aw_stored_sessions (w\<lparr>aw_clock := t\<rparr>) = aw_stored_sessions w"
  "aw_stored_sessions (w\<lparr>aw_entropy := n\<rparr>) = aw_stored_sessions w"
  "aw_stored_sessions (w\<lparr>aw_users := us\<rparr>) = aw_stored_sessions w"
  "aw_stored_sessions (fst (aw_pop w)) = aw_stored_sessions w"
  "aw_stored_users (w\<lparr>aw_clock := t\<rparr>) = aw_stored_users w"
  "aw_stored_users (w\<lparr>aw_entropy := n\<rparr>) = aw_stored_users w"
  by (simp_all add: stored_sessions_def stored_users_def aw_session_collection_def
      aw_user_collection_def mem_collection_def aw_pop_def split: list.splits)

lemma aw_ids_keep: "(\<And>w n. g (w\<lparr>aw_entropy := n\<rparr>) = g w) \<Longrightarrow> keeps g (UUIDGenerator aw_ctx aw_rand)"
  unfolding UUIDGenerator_def by (intro frame aw_ctx_keeps aw_rand_keeps)

interpretation aw: account_ports aw_dependencies aw_stored_sessions "DateTime aw_session_collection"
  "tokenDigest mem_sha" "port_claims mem_payload" "port_claims mem_payload"
  aw_stored_users "DateTime aw_user_collection" ascii_ToLower
proof -
  note sel = aw_dependencies_def auth_dependencies.simps
  have digest: "keeps g (SHA256Digester mem_sha aw_ctx t)" for g :: "auth_world \<Rightarrow> 'x" and t
    unfolding SHA256Digester_def by (auto intro!: frame aw_ctx_keeps)
  have hasher: "keeps g (Hash mem_hasher p)" "keeps g (Matches mem_hasher p h)" for g :: "auth_world \<Rightarrow> 'x" and p h
    by (simp_all add: mem_hasher_def frame)
  have users: "keeps aw_stored_sessions (InsertOne aw_user_collection d)"
    "keeps aw_stored_sessions (FindOne aw_user_collection f le)" for d f le
    unfolding aw_user_collection_def by (rule mem_collection_keeps; simp add: aw_stores_quiet)+
  have clock: "keeps aw_stored_sessions aw_now" "keeps aw_stored_users aw_now"
    by (rule aw_now_keeps; simp add: aw_stores_quiet)+
  have port: "VerifyAccessToken (jwt_token_manager mem_jwt aw_ctx aw_now aw_manager) t w = (w', Inr c) \<Longrightarrow>
        c = port_claims mem_payload t \<and> TrimSpace (tcl_SessionID c) = tcl_SessionID c"
    "VerifyRefreshToken (jwt_token_manager mem_jwt aw_ctx aw_now aw_manager) t w = (w', Inr c) \<Longrightarrow>
        c = port_claims mem_payload t \<and> TrimSpace (tcl_SessionID c) = tcl_SessionID c" for t w w' c
    using mem_jwt.verified by (fastforce simp: jwt_token_manager_def port_claims_def)+
  show "account_ports aw_dependencies aw_stored_sessions (DateTime aw_session_collection)
    (tokenDigest mem_sha) (port_claims mem_payload) (port_claims mem_payload)
    aw_stored_users (DateTime aw_user_collection) ascii_ToLower"
    unfolding account_ports_def auth_ports_def sel
  proof (intro conjI)
    show "session_store (mongo_session_repository aw_session_collection) aw_stored_sessions
      (DateTime aw_session_collection)" ..
    show "user_store (mongo_user_repository ascii_ToLower mem_mail aw_user_collection) aw_stored_users
      (DateTime aw_user_collection) ascii_ToLower" ..
  qed (unfold_locales, unfold sel,
      auto intro!: jwt_token_manager_keeps mongo_user_repository_keeps aw_ctx_keeps clock users hasher digest
        aw_ids_keep simp: aw_stores_quiet SHA256Digester_digest port)
qed

section \<open>A signed-in user\<close>

text \<open>
  One user with one session, the tokens that were issued for it, and runs of the use cases on it.
  \<open>aw_start dig\<close> has the session with the refresh-token digest \<open>dig\<close>.
\<close>

definition aw_config :: session_config where "aw_config = \<lparr>AccessTokenTTL = minute, RefreshTokenTTL = hour\<rparr>"

definition aw_claims :: "string \<Rightarrow> time \<Rightarrow> token_claims" where
  "aw_claims tid at = \<lparr>tcl_TokenID = tid, tcl_UserID = ''u1'', tcl_SessionID = ''s1'',
     tcl_IssuedAt = 1 * hour, tcl_ExpiresAt = at\<rparr>"

definition aw_token :: "string \<Rightarrow> string \<Rightarrow> string \<Rightarrow> time \<Rightarrow> string" where
  "aw_token ty secret tid at =
     mem_token (newTokenClaims mem_jwt (aw_claims tid at) ty ''nexus'' ''web'') secret"

definition aw_refresh_token :: string where
  "aw_refresh_token = aw_token refreshTokenType (cfg_RefreshSecret aw_jwt_config) ''r1'' (3 * hour)"

definition aw_access_token :: string where
  "aw_access_token = aw_token accessTokenType (cfg_AccessSecret aw_jwt_config) ''a1'' (3 * hour)"

definition aw_start :: "string \<Rightarrow> auth_world" where
  "aw_start dig = \<lparr>aw_faults = [], aw_cancelled = False, aw_clock = 2 * hour, aw_entropy = 7,
     aw_sessions = [\<lparr>sd_ID = ''s1'', sd_UserID = ''u1'', sd_RefreshTokenDigest = dig,
       sd_CreatedAt = 1 * hour, sd_ExpiresAt = 3 * hour, sd_RevokedAt = None\<rparr>],
     aw_users = [\<lparr>ud_ID = ''u1'', ud_Email = ''a@b'', ud_PasswordHash = ''#correct horse battery'',
       ud_CreatedAt = 1 * hour\<rparr>]\<rparr>"
definition aw_signed_in :: auth_world where
  "aw_signed_in = aw_start (tokenDigest mem_sha aw_refresh_token)"

lemma aw_signin_runs:
  "isOk (snd (Signin ascii_ToLower mem_mail aw_dependencies aw_config ''A@b '' ''correct horse battery''
     aw_signed_in))"
  by code_simp

lemma aw_signup_runs:
  "isOk (snd (Signup ascii_ToLower mem_mail aw_dependencies ''C@b '' ''correct horse battery''
     aw_signed_in))"
  by code_simp

lemma aw_logout_runs: "isOk (snd (Logout aw_dependencies aw_refresh_token aw_signed_in))"
  by code_simp

lemma aw_refresh_runs:
  "case snd (Refresh aw_dependencies aw_config aw_refresh_token aw_signed_in) of
     Inr out \<Rightarrow> tokenDigest mem_sha (ro_RefreshToken out) \<noteq> tokenDigest mem_sha aw_refresh_token
   | Inl _ \<Rightarrow> False"
  by code_simp

lemma aw_authenticate_runs: "isOk (snd (Authenticate aw_dependencies aw_access_token aw_signed_in))"
  by code_simp

lemma aw_reuse_runs:
  "snd (Refresh aw_dependencies aw_config aw_refresh_token (aw_start ''older'')) =
     Inl (authErr Auth_ErrInvalidRefreshToken)"
  by code_simp

lemma aw_verify_runs:
  "snd (VerifyRefreshToken (TokenManager aw_dependencies) aw_refresh_token (aw_start d)) =
     Inr (port_claims mem_payload aw_refresh_token)"
  unfolding aw_start_def by code_simp

lemma aw_claims_facts:
  "tcl_SessionID (port_claims mem_payload aw_refresh_token) = ''s1''"
  "tcl_UserID (port_claims mem_payload aw_refresh_token) = ''u1''"
  "tcl_SessionID (port_claims mem_payload aw_access_token) = ''s1''"
  by code_simp+

lemma aw_stored_session:
  "aw_stored_sessions (aw_start d) ''s1'' =
     Some \<lparr>ses_id = ''s1'', ses_userID = ''u1'', ses_refreshTokenDigest = d, ses_createdAt = 1 * hour,
           ses_expiresAt = 3 * hour, ses_revokedAt = None\<rparr>"
  by (simp add: stored_sessions_def aw_session_collection_def mem_collection_def as_map_def aw_start_def
      stored_session_def)

end
