(* ===== verification/AuthProperties.thy ===== *)
theory AuthProperties
  imports AuthWorld
begin

text \<open>
  The properties of authentication: the theorems of \<open>AuthSafety\<close>, \<open>SessionStore\<close>, \<open>UserStore\<close>
  and \<open>Jwt\<close> stated over the use cases and the adapters, each with a run of the stack of
  \<open>AuthWorld\<close> as its witness.
\<close>

lemmas aw_ports = aw.auth_ports_axioms aw.account_ports_axioms

section \<open>Refresh\<close>

text \<open>
  C1. A refresh succeeds only for a token that verifies, names a stored session of the same user
  that is neither revoked nor expired, and has the digest stored for that session.  It then
  replaces exactly that digest and expiry by those of the token it returns, whose lifetimes are
  the configured ones; nothing else of the stored sessions changes.
\<close>

theorem refresh_rotates:
  assumes "auth_ports D sessions prec digest access_claims refresh_claims"
    and "Refresh D config t w = (w', Inr out)"
  shows "\<exists>y now. sessions w (tcl_SessionID (refresh_claims t)) = Some y \<and>
      TrimSpace (ses_userID y) = tcl_UserID (refresh_claims t) \<and> ses_revokedAt y = None \<and>
      ses_refreshTokenDigest y = digest t \<and> now < ses_expiresAt y \<and>
      ro_AccessTokenExpiresAt out = now + AccessTokenTTL config \<and>
      ro_RefreshTokenExpiresAt out = now + RefreshTokenTTL config \<and>
      sessions w' = (sessions w)(tcl_SessionID (refresh_claims t) \<mapsto>
        y\<lparr>ses_refreshTokenDigest := digest (ro_RefreshToken out),
          ses_expiresAt := prec (ro_RefreshTokenExpiresAt out)\<rparr>)"
  by (rule auth_ports.Refresh_granted [OF assms])

theorem refresh_rotates_witness:
  "\<exists>w' out. Refresh aw_dependencies aw_config aw_refresh_token aw_signed_in = (w', Inr out) \<and>
     map_option ses_refreshTokenDigest (aw_stored_sessions w' ''s1'') =
       Some (tokenDigest mem_sha (ro_RefreshToken out))"
proof -
  from aw_refresh_runs obtain w' out
    where run: "Refresh aw_dependencies aw_config aw_refresh_token aw_signed_in = (w', Inr out)"
    by (cases "Refresh aw_dependencies aw_config aw_refresh_token aw_signed_in") (auto split: sum.splits)
  from refresh_rotates [OF aw.auth_ports_axioms run] run show ?thesis
    by (auto simp: aw_claims_facts)
qed

text \<open>
  C2. A refresh token is accepted once: after a refresh that returned a token with another digest,
  and whatever all clients do to the stored sessions afterwards, as long as nobody writes the old
  digest again, no refresh with the old token succeeds.
\<close>

theorem refresh_token_single_use:
  assumes "auth_ports D sessions prec digest access_claims refresh_claims"
    and "Refresh D config t w = (w', Inr out)" and "digest (ro_RefreshToken out) \<noteq> digest t"
    and "session_steps_avoiding prec (tcl_SessionID (refresh_claims t)) (digest t) (sessions w') (sessions w2)"
  shows "\<exists>e. snd (Refresh D config' t w2) = Inl e"
  by (rule auth_ports.Refresh_once [OF assms])

theorem refresh_token_single_use_witness:
  "\<exists>w' out. Refresh aw_dependencies aw_config aw_refresh_token aw_signed_in = (w', Inr out) \<and>
     (\<exists>e. snd (Refresh aw_dependencies aw_config aw_refresh_token w') = Inl e)"
proof -
  from aw_refresh_runs obtain w' out
    where run: "Refresh aw_dependencies aw_config aw_refresh_token aw_signed_in = (w', Inr out)"
      and new: "tokenDigest mem_sha (ro_RefreshToken out) \<noteq> tokenDigest mem_sha aw_refresh_token"
    by (cases "Refresh aw_dependencies aw_config aw_refresh_token aw_signed_in") (auto split: sum.splits)
  from refresh_token_single_use [OF aw.auth_ports_axioms run new session_steps_avoiding.none] run
  show ?thesis by blast
qed

text \<open>
  C3. A verified refresh token whose digest is not the stored one (a replayed token) never
  succeeds; when the answer is \<^verbatim>\<open>ErrInvalidRefreshToken\<close>, the session had expired or is
  revoked now.
\<close>

theorem refresh_reuse_revokes:
  assumes "auth_ports D sessions prec digest access_claims refresh_claims"
    and "Refresh D config t w = (w', r)" and "t \<noteq> []"
    and "VerifyRefreshToken (TokenManager D) t w = (w1, Inr claims)" and "\<not> claims_incomplete claims"
    and "sessions w (tcl_SessionID claims) = Some y" "TrimSpace (ses_userID y) = tcl_UserID claims"
    and "ses_refreshTokenDigest y \<noteq> digest t"
  shows "(\<exists>e. r = Inl e) \<and>
    (r = Inl (authErr Auth_ErrInvalidRefreshToken) \<longrightarrow>
       (\<exists>u u' now. Clock D u = (u', now) \<and> ses_expiresAt y \<le> now) \<or>
       (\<exists>y'. sessions w' (tcl_SessionID claims) = Some y' \<and> ses_revokedAt y' \<noteq> None))"
  by (rule auth_ports.Refresh_reuse [OF assms])

theorem refresh_reuse_revokes_witness:
  "\<exists>w' e. Refresh aw_dependencies aw_config aw_refresh_token (aw_start ''older'') = (w', Inl e)"
proof -
  let ?w = "aw_start ''older''" and ?c = "port_claims mem_payload aw_refresh_token"
  obtain w1 where v: "VerifyRefreshToken (TokenManager aw_dependencies) aw_refresh_token ?w = (w1, Inr ?c)"
    using aw_verify_runs [of "''older''"] by (metis prod.collapse)
  obtain w' r where run: "Refresh aw_dependencies aw_config aw_refresh_token ?w = (w', r)" by fastforce
  have "tokenDigest mem_sha aw_refresh_token \<noteq> ''older''" by code_simp
  moreover have "aw_refresh_token \<noteq> []" by code_simp
  moreover have "TrimSpace ''u1'' = ''u1''" by code_simp
  ultimately show ?thesis
    using refresh_reuse_revokes [OF aw.auth_ports_axioms run _ v] aw_stored_session [of "''older''"] run
    by (auto simp: aw_claims_facts claims_incomplete_def)
qed

text \<open>
  Whatever its outcome, lost replies included, a refresh changes at most the session its token
  names.
\<close>

theorem refresh_touches_one_session:
  assumes "auth_ports D sessions prec digest access_claims refresh_claims"
    and "Refresh D config t w = (w', r)" and "i \<noteq> tcl_SessionID (refresh_claims t)"
  shows "sessions w' i = sessions w i"
  using auth_ports.Refresh_others [OF assms(1,2)] assms(3) by (metis fun_upd_other)

theorem refresh_touches_one_session_witness:
  "aw_stored_sessions (fst (Refresh aw_dependencies aw_config aw_refresh_token aw_signed_in)) ''s2'' =
   aw_stored_sessions aw_signed_in ''s2''"
  by (rule refresh_touches_one_session [OF aw.auth_ports_axioms prod.collapse [symmetric]])
    (simp add: aw_claims_facts)

section \<open>Logout\<close>

text \<open>
  C5. Logging out is final: after a logout that reported success for a verified token of a stored
  session, no interleaving of session operations makes any access token of that session valid
  again.
\<close>

theorem logout_is_final:
  assumes "auth_ports D sessions prec digest access_claims refresh_claims"
    and "Logout D t w = (w', Inr ())" "t \<noteq> []"
    and "VerifyRefreshToken (TokenManager D) t w = (w1, Inr claims)" "\<not> claims_incomplete claims"
    and "sessions w (tcl_SessionID claims) = Some y" "TrimSpace (ses_userID y) = tcl_UserID claims"
    and "session_steps prec (sessions w') (sessions w2)"
    and "tcl_SessionID (access_claims t2) = tcl_SessionID claims"
  shows "\<exists>e. snd (Authenticate D t2 w2) = Inl e"
  by (rule auth_ports.Logout_is_final [OF assms])

theorem logout_is_final_witness:
  "\<exists>w'. Logout aw_dependencies aw_refresh_token aw_signed_in = (w', Inr ()) \<and>
     (\<exists>e. snd (Authenticate aw_dependencies aw_access_token w') = Inl e)"
proof -
  let ?c = "port_claims mem_payload aw_refresh_token"
  obtain w1 where v: "VerifyRefreshToken (TokenManager aw_dependencies) aw_refresh_token aw_signed_in = (w1, Inr ?c)"
    using aw_verify_runs unfolding aw_signed_in_def by (metis prod.collapse)
  obtain w' where run: "Logout aw_dependencies aw_refresh_token aw_signed_in = (w', Inr ())"
    using run_ok [OF aw_logout_runs] by auto
  have "aw_refresh_token \<noteq> []" "TrimSpace ''u1'' = ''u1''" by code_simp+
  then show ?thesis
    using logout_is_final [OF aw.auth_ports_axioms run _ v _ _ _ rtranclp.rtrancl_refl]
      aw_stored_session run
    by (auto simp: aw_claims_facts claims_incomplete_def aw_signed_in_def)
qed

section \<open>Authenticate\<close>

text \<open>
  C6. An access token is accepted only if it verifies, names a stored session of the same user
  that is not revoked, and the clock showed times before the expiry of the token and of the
  session; authenticating changes no session.
\<close>

theorem authenticate_sound:
  assumes "auth_ports D sessions prec digest access_claims refresh_claims"
    and "Authenticate D t w = (w', Inr out)"
  shows "sessions w' = sessions w \<and>
    (\<exists>y. sessions w (tcl_SessionID (access_claims t)) = Some y \<and> ses_revokedAt y = None \<and>
      TrimSpace (ses_userID y) = tcl_UserID (access_claims t) \<and>
      (\<exists>v v' now. Clock D v = (v', now) \<and> now < tcl_ExpiresAt (access_claims t)) \<and>
      (\<exists>v v' now. Clock D v = (v', now) \<and> now < ses_expiresAt y) \<and>
      out = \<lparr>ao_UserID = tcl_UserID (access_claims t), ao_SessionID = tcl_SessionID (access_claims t),
             ao_AccessExpiresAt = tcl_ExpiresAt (access_claims t),
             ao_SessionExpiresAt = ses_expiresAt y\<rparr>)"
  by (intro conjI auth_ports.Authenticate_granted [OF assms]
      keepsD [OF auth_ports.Authenticate_quiet [OF assms(1)] assms(2)])

theorem authenticate_sound_witness:
  "\<exists>w' out. Authenticate aw_dependencies aw_access_token aw_signed_in = (w', Inr out) \<and>
     ao_SessionID out = ''s1'' \<and> aw_stored_sessions w' = aw_stored_sessions aw_signed_in"
proof -
  from run_ok [OF aw_authenticate_runs] obtain w' out
    where run: "Authenticate aw_dependencies aw_access_token aw_signed_in = (w', Inr out)" by blast
  from authenticate_sound [OF aw.auth_ports_axioms run] run show ?thesis by (auto simp: aw_claims_facts)
qed

section \<open>Sign-in and sign-up\<close>

text \<open>
  C7. A sign-in succeeds only for a stored account with the normalised address whose password
  hash matches; it creates exactly one session, new, active, owned by that account, holding the
  digest of the returned refresh token and the configured lifetime.
\<close>

theorem signin_opens_session:
  assumes "account_ports D sessions prec digest access_claims refresh_claims users user_prec low"
    and "Signin low parse D config rawEmail password w = (w', Inr out)"
  shows "\<exists>account u u' i now.
      users w (usr_id account) = Some account \<and> usr_email account = low (TrimSpace rawEmail) \<and>
      Matches (PasswordHasher D) password (usr_passwordHash account) u = (u', Inr True) \<and>
      isOk (ValidatePlainPassword password) \<and>
      so_UserID out = TrimSpace (usr_id account) \<and>
      sessions w i = None \<and>
      sessions w' = (sessions w)(i \<mapsto> with_precision prec
        \<lparr>ses_id = i, ses_userID = TrimSpace (usr_id account),
         ses_refreshTokenDigest = digest (so_RefreshToken out),
         ses_createdAt = now, ses_expiresAt = now + RefreshTokenTTL config, ses_revokedAt = None\<rparr>) \<and>
      so_AccessTokenExpiresAt out = now + AccessTokenTTL config \<and>
      so_RefreshTokenExpiresAt out = now + RefreshTokenTTL config"
  by (rule account_ports.Signin_granted [OF assms])

theorem signin_opens_session_witness:
  "\<exists>w' out i. Signin ascii_ToLower mem_mail aw_dependencies aw_config ''A@b '' ''correct horse battery''
       aw_signed_in = (w', Inr out) \<and>
     aw_stored_sessions aw_signed_in i = None \<and> aw_stored_sessions w' i \<noteq> None"
proof -
  from run_ok [OF aw_signin_runs] obtain w' out
    where run: "Signin ascii_ToLower mem_mail aw_dependencies aw_config ''A@b '' ''correct horse battery''
       aw_signed_in = (w', Inr out)" by blast
  from signin_opens_session [OF aw.account_ports_axioms run] obtain i x
    where "aw_stored_sessions aw_signed_in i = None"
      "aw_stored_sessions w' = (aw_stored_sessions aw_signed_in)(i \<mapsto> x)"
    by (elim exE conjE) (rule that)
  with run show ?thesis by auto
qed

text \<open>
  C8. A sign-up that succeeds stores exactly one new account, under a new identifier, with an
  address no stored account had and the hash the hasher returned for the password; it opens no
  session.
\<close>

theorem signup_registers:
  assumes "account_ports D sessions prec digest access_claims refresh_claims users user_prec low"
    and "Signup low parse D rawEmail password w = (w', Inr out)"
  shows "\<exists>account u u'. user_added user_prec account (users w) (users w') \<and>
      Hash (PasswordHasher D) password u = (u', Inr (usr_passwordHash account)) \<and>
      usr_email account = low (TrimSpace rawEmail) \<and> isOk (ValidatePlainPassword password) \<and>
      out = \<lparr>su_UserID = usr_id account, su_Email = usr_email account,
             su_CreatedAt = usr_createdAt account\<rparr> \<and>
      sessions w' = sessions w"
  by (rule account_ports.Signup_granted [OF assms])

theorem signup_registers_witness:
  "\<exists>w' out account. Signup ascii_ToLower mem_mail aw_dependencies ''C@b '' ''correct horse battery''
       aw_signed_in = (w', Inr out) \<and>
     user_added (DateTime aw_user_collection) account (aw_stored_users aw_signed_in) (aw_stored_users w')"
proof -
  from run_ok [OF aw_signup_runs] obtain w' out
    where run: "Signup ascii_ToLower mem_mail aw_dependencies ''C@b '' ''correct horse battery''
       aw_signed_in = (w', Inr out)" by blast
  from signup_registers [OF aw.account_ports_axioms run] obtain account
    where "user_added (DateTime aw_user_collection) account (aw_stored_users aw_signed_in) (aw_stored_users w')"
    by (elim exE conjE) (rule that)
  with run show ?thesis by blast
qed

section \<open>The stored sessions\<close>







text \<open>
  C12. The MongoDB user repository keeps the contract of the port; in particular an account is
  stored only if no other one has its address, and \<^verbatim>\<open>ErrEmailAlreadyExists\<close> means
  that nothing was stored.
\<close>

theorem user_repository_contract:
  assumes "user_collection C"
  shows "user_store (mongo_user_repository low parse C) (stored_users C) (DateTime C) low"
  by (rule user_collection.repository_contract [OF assms])

theorem user_repository_contract_witness:
  "user_store (mongo_user_repository ascii_ToLower mem_mail aw_user_collection) aw_stored_users
     (DateTime aw_user_collection) ascii_ToLower"
  by (rule user_repository_contract [OF aw_users.user_collection_axioms])

section \<open>Tokens\<close>



text \<open>
  C14. Access and refresh tokens are never interchangeable: a token that verifies as one type
  carries that type, so it verifies as no other, under any secrets, clocks and managers.
\<close>

theorem jwt_types_separate:
  assumes "jwt_library J payload signed_by"
    and "jwt_verify J ctx clock m t ty secret w = (w', Inr claims)"
    and "jwt_verify J ctx' clock' m' t ty' secret' v = (v', Inr claims')"
  shows "ty = ty'"
  by (rule jwt_library.verified_types_differ [OF assms])

theorem jwt_types_separate_witness:
  "snd (VerifyRefreshToken (TokenManager aw_dependencies) aw_refresh_token aw_signed_in) =
     Inr (port_claims mem_payload aw_refresh_token) \<and>
   (\<forall>v c. snd (VerifyAccessToken (TokenManager aw_dependencies) aw_refresh_token v) \<noteq> Inr c)"
proof -
  have d: "VerifyRefreshToken (TokenManager aw_dependencies) = (\<lambda>t. jwt_verify mem_jwt aw_ctx aw_now aw_manager t
        refreshTokenType (mgr_refreshSecret aw_manager))"
    "VerifyAccessToken (TokenManager aw_dependencies) = (\<lambda>t. jwt_verify mem_jwt aw_ctx aw_now aw_manager t
        accessTokenType (mgr_accessSecret aw_manager))"
    by (simp_all add: aw_dependencies_def jwt_token_manager_def)
  have ne: "accessTokenType \<noteq> refreshTokenType" by code_simp
  note run = aw_verify_runs [of "tokenDigest mem_sha aw_refresh_token", folded aw_signed_in_def]
  obtain w' where refresh: "jwt_verify mem_jwt aw_ctx aw_now aw_manager aw_refresh_token refreshTokenType
      (mgr_refreshSecret aw_manager) aw_signed_in = (w', Inr (port_claims mem_payload aw_refresh_token))"
    using run unfolding d by (metis prod.collapse)
  have no: "snd (jwt_verify mem_jwt aw_ctx aw_now aw_manager aw_refresh_token accessTokenType
      (mgr_accessSecret aw_manager) v) \<noteq> Inr c" for v c
  proof
    assume "snd (jwt_verify mem_jwt aw_ctx aw_now aw_manager aw_refresh_token accessTokenType
      (mgr_accessSecret aw_manager) v) = Inr c"
    then obtain v' where "jwt_verify mem_jwt aw_ctx aw_now aw_manager aw_refresh_token accessTokenType
      (mgr_accessSecret aw_manager) v = (v', Inr c)" by (metis prod.collapse)
    from jwt_types_separate [OF mem_jwt.jwt_library_axioms this refresh] ne show False by blast
  qed
  from run no show ?thesis unfolding d by blast
qed

end
