(* ===== verification/DomainChat.thy ===== *)
theory DomainChat
  imports DomainUser
begin

text \<open>
  The package \<^verbatim>\<open>internal/domain/chat\<close>: a direct chat between two users, whose participants are
  kept in byte order, so that the unordered pair has one representation.  \<open>chat_wf\<close> is what
  every chat built by the package satisfies.
\<close>

type_synonym chat_ID = string

abbreviation chatErr :: "chat_error \<Rightarrow> go_error + 'a" where
  "chatErr e \<equiv> Inl (Sentinel (ChatE e))"

definition chat_ParseID :: "string \<Rightarrow> go_error + chat_ID" where
  "chat_ParseID rawID =
     (let normalizedID = TrimSpace rawID
      in if normalizedID = [] then chatErr Chat_ErrInvalidID else Inr normalizedID)"

record chat =
  cht_id :: chat_ID
  cht_participantOneID :: user_ID
  cht_participantTwoID :: user_ID
  cht_createdAt :: time
  cht_updatedAt :: time
  cht_summarySortAt :: time
  cht_lastSequence :: int

definition orderParticipants :: "user_ID \<Rightarrow> user_ID \<Rightarrow> user_ID \<times> user_ID" where
  "orderParticipants firstParticipantID secondParticipantID =
     (if firstParticipantID < secondParticipantID
      then (firstParticipantID, secondParticipantID)
      else (secondParticipantID, firstParticipantID))"

definition RestoreDirect ::
  "chat_ID \<Rightarrow> user_ID \<Rightarrow> user_ID \<Rightarrow> time \<Rightarrow> time \<Rightarrow> time \<Rightarrow> int list \<Rightarrow> go_error + chat" where
  "RestoreDirect ident firstParticipantID secondParticipantID createdAt updatedAt summarySortAt
     persistedSequence =
    (if length persistedSequence > 1 then chatErr Chat_ErrInvalidSequence
     else let lastSequence = (case persistedSequence of [] \<Rightarrow> 0 | s # _ \<Rightarrow> s) in
       if lastSequence < 0 \<or> lastSequence > 2 ^ 53 - 1 then chatErr Chat_ErrInvalidSequence
       else if ident = [] then chatErr Chat_ErrInvalidID
       else if firstParticipantID = [] \<or> secondParticipantID = []
         then chatErr Chat_ErrInvalidParticipant
       else if firstParticipantID = secondParticipantID then chatErr Chat_ErrSameParticipant
       else if IsZero createdAt then chatErr Chat_ErrInvalidCreatedAt
       else if IsZero updatedAt \<or> updatedAt < createdAt then chatErr Chat_ErrInvalidUpdatedAt
       else if IsZero summarySortAt \<or> summarySortAt < createdAt
         then chatErr Chat_ErrInvalidSummarySortAt
       else let (participantOneID, participantTwoID) =
                  orderParticipants firstParticipantID secondParticipantID in
         Inr \<lparr>cht_id = ident, cht_participantOneID = participantOneID,
              cht_participantTwoID = participantTwoID, cht_createdAt = UTC createdAt,
              cht_updatedAt = UTC updatedAt, cht_summarySortAt = UTC summarySortAt,
              cht_lastSequence = lastSequence\<rparr>)"

definition NewDirect :: "chat_ID \<Rightarrow> user_ID \<Rightarrow> user_ID \<Rightarrow> time \<Rightarrow> go_error + chat" where
  "NewDirect ident firstParticipantID secondParticipantID now =
     RestoreDirect ident firstParticipantID secondParticipantID now now now []"

definition HasParticipant :: "chat \<Rightarrow> user_ID \<Rightarrow> bool" where
  "HasParticipant chat userID \<longleftrightarrow>
     cht_participantOneID chat = userID \<or> cht_participantTwoID chat = userID"

definition RelatedUserID :: "chat \<Rightarrow> user_ID \<Rightarrow> go_error + user_ID" where
  "RelatedUserID chat currentUserID =
     (if currentUserID = cht_participantOneID chat then Inr (cht_participantTwoID chat)
      else if currentUserID = cht_participantTwoID chat then Inr (cht_participantOneID chat)
      else chatErr Chat_ErrUserNotParticipant)"

section \<open>What every chat satisfies\<close>

definition chat_wf :: "chat \<Rightarrow> bool" where
  "chat_wf c \<longleftrightarrow>
     cht_id c \<noteq> [] \<and> cht_participantOneID c \<noteq> [] \<and>
     cht_participantOneID c < cht_participantTwoID c \<and>
     cht_createdAt c \<noteq> 0 \<and> cht_updatedAt c \<noteq> 0 \<and> cht_summarySortAt c \<noteq> 0 \<and>
     cht_createdAt c \<le> cht_updatedAt c \<and> cht_createdAt c \<le> cht_summarySortAt c \<and>
     0 \<le> cht_lastSequence c \<and> cht_lastSequence c \<le> 2 ^ 53 - 1"

lemma chat_ParseID_ok [code_checks, run_iff]:
  "chat_ParseID raw = Inr ident \<longleftrightarrow> ident = TrimSpace raw \<and> ident \<noteq> []"
  by (auto simp: chat_ParseID_def Let_def)

lemma chat_ParseID_err:
  "chat_ParseID raw = Inl e \<longleftrightarrow> blank raw \<and> e = Sentinel (ChatE Chat_ErrInvalidID)"
  by (auto simp: chat_ParseID_def Let_def)

lemma orderParticipants_commute: "a \<noteq> b \<Longrightarrow> orderParticipants a b = orderParticipants b a"
  by (auto simp: orderParticipants_def)

lemma orderParticipants_sorted:
  "a \<noteq> b \<Longrightarrow> orderParticipants a b = (x, y) \<Longrightarrow> x < y \<and> {x, y} = {a, b}"
  by (auto simp: orderParticipants_def split: if_splits)

lemma RestoreDirect_one [code_checks]:
  "RestoreDirect ident a b t u v [n] = Inr c \<longleftrightarrow>
     0 \<le> n \<and> n \<le> 2 ^ 53 - 1 \<and> ident \<noteq> [] \<and> a \<noteq> [] \<and> b \<noteq> [] \<and> a \<noteq> b \<and>
     t \<noteq> 0 \<and> u \<noteq> 0 \<and> t \<le> u \<and> v \<noteq> 0 \<and> t \<le> v \<and>
     c = \<lparr>cht_id = ident, cht_participantOneID = min a b, cht_participantTwoID = max a b,
          cht_createdAt = t, cht_updatedAt = u, cht_summarySortAt = v, cht_lastSequence = n\<rparr>"
  by (auto simp: RestoreDirect_def Let_def IsZero_def orderParticipants_def min_def max_def)

lemma NewDirect_ok [code_checks]:
  "NewDirect ident a b t = Inr c \<longleftrightarrow>
     ident \<noteq> [] \<and> a \<noteq> [] \<and> b \<noteq> [] \<and> a \<noteq> b \<and> t \<noteq> 0 \<and>
     c = \<lparr>cht_id = ident, cht_participantOneID = min a b, cht_participantTwoID = max a b,
          cht_createdAt = t, cht_updatedAt = t, cht_summarySortAt = t, cht_lastSequence = 0\<rparr>"
  by (auto simp: NewDirect_def RestoreDirect_def Let_def IsZero_def orderParticipants_def
      min_def max_def)

lemma RestoreDirect_sequence:
  "RestoreDirect ident a b t u v ss = Inr c \<Longrightarrow> \<exists>n. RestoreDirect ident a b t u v [n] = Inr c"
proof (cases ss)
  case Nil
  assume "RestoreDirect ident a b t u v ss = Inr c"
  with Nil have "RestoreDirect ident a b t u v [0] = Inr c" by (simp add: RestoreDirect_def)
  then show ?thesis ..
next
  case (Cons n ns)
  assume "RestoreDirect ident a b t u v ss = Inr c"
  with Cons have "RestoreDirect ident a b t u v [n] = Inr c"
    by (cases ns) (simp_all add: RestoreDirect_def)
  then show ?thesis ..
qed

lemma min_less_max: "(a :: 'a :: linorder) \<noteq> b \<Longrightarrow> min a b < max a b"
  by (auto simp: min_def max_def)

lemma RestoreDirect_wf:
  assumes "RestoreDirect ident a b t u v ss = Inr c"
  shows "chat_wf c"
proof -
  obtain n where "RestoreDirect ident a b t u v [n] = Inr c"
    using RestoreDirect_sequence [OF assms] ..
  then show ?thesis
    unfolding RestoreDirect_one chat_wf_def using min_less_max [of a b] by (auto simp: min_def)
qed

lemma NewDirect_wf: "NewDirect ident a b t = Inr c \<Longrightarrow> chat_wf c"
  unfolding NewDirect_def by (rule RestoreDirect_wf)

lemma HasParticipant_iff: "HasParticipant c u \<longleftrightarrow> isOk (RelatedUserID c u)"
  by (auto simp: HasParticipant_def RelatedUserID_def)

lemma RelatedUserID_ok [run_iff]:
  "RelatedUserID c u = Inr v \<longleftrightarrow>
     u = cht_participantOneID c \<and> v = cht_participantTwoID c \<or>
     u \<noteq> cht_participantOneID c \<and> u = cht_participantTwoID c \<and> v = cht_participantOneID c"
  by (auto simp: RelatedUserID_def)

lemma RelatedUserID_involution:
  assumes "chat_wf c" "RelatedUserID c u = Inr v"
  shows "RelatedUserID c v = Inr u \<and> u \<noteq> v"
  using assms by (auto simp: RelatedUserID_ok chat_wf_def)

end
