(* ===== verification/DomainTimeline.thy ===== *)
theory DomainTimeline
  imports DomainChat
begin

text \<open>
  The package \<^verbatim>\<open>internal/domain/timeline\<close>: client message identifiers (lower-case UUIDs of
  versions 1 to 8, without the nil UUID), message sequences up to \<open>2^53 - 1\<close>, message contents
  (a text or an image with a caption, never both), messages and timeline items.
  \<^verbatim>\<open>ContentType\<close> and \<^verbatim>\<open>Kind\<close> are string types and stay strings, since the code converts
  arbitrary strings to them.
\<close>

type_synonym timeline_ID = string
type_synonym client_message_ID = string
type_synonym sequence = int
type_synonym content_type = string

abbreviation timelineErr :: "timeline_error \<Rightarrow> go_error + 'a" where
  "timelineErr e \<equiv> Inl (Sentinel (TimelineE e))"

definition timeline_ParseID :: "string \<Rightarrow> go_error + timeline_ID" where
  "timeline_ParseID rawID =
     (let normalizedID = TrimSpace rawID
      in if normalizedID = [] then timelineErr Timeline_ErrInvalidID else Inr normalizedID)"

section \<open>Client message identifiers and sequences\<close>

definition hex_digit :: "char \<Rightarrow> bool" where
  "hex_digit c \<longleftrightarrow> (CHR ''0'' \<le> c \<and> c \<le> CHR ''9'') \<or> (CHR ''a'' \<le> c \<and> c \<le> CHR ''f'')"

text \<open>
  \<^verbatim>\<open>^[0-9a-f]{8}-[0-9a-f]{4}-[1-8][0-9a-f]{3}-[89ab][0-9a-f]{3}-[0-9a-f]{12}$\<close>, as the list of
  the character classes of its 36 positions.
\<close>

definition clientMessageIDPattern :: "(char \<Rightarrow> bool) list" where
  "clientMessageIDPattern =
     replicate 8 hex_digit @ [(=) CHR ''-''] @ replicate 4 hex_digit @ [(=) CHR ''-''] @
     [\<lambda>c. CHR ''1'' \<le> c \<and> c \<le> CHR ''8''] @ replicate 3 hex_digit @ [(=) CHR ''-''] @
     [\<lambda>c. c \<in> set ''89ab''] @ replicate 3 hex_digit @ [(=) CHR ''-''] @ replicate 12 hex_digit"

definition MatchString :: "(char \<Rightarrow> bool) list \<Rightarrow> string \<Rightarrow> bool" where
  "MatchString pattern s \<longleftrightarrow> list_all2 (\<lambda>p c. p c) pattern s"

definition nilClientMessageID :: string where
  "nilClientMessageID = ''00000000-0000-0000-0000-000000000000''"

definition ParseClientMessageID :: "string \<Rightarrow> go_error + client_message_ID" where
  "ParseClientMessageID rawID =
     (let normalizedID = ascii_ToLower (TrimSpace rawID)
      in if normalizedID = nilClientMessageID \<or> \<not> MatchString clientMessageIDPattern normalizedID
         then timelineErr Timeline_ErrInvalidClientMessageID
         else Inr normalizedID)"

definition MaxSequence :: int where "MaxSequence = 2 ^ 53 - 1"

definition ParseSequence :: "int \<Rightarrow> go_error + sequence" where
  "ParseSequence rawSequence =
     (if rawSequence \<le> 0 \<or> rawSequence > MaxSequence
      then timelineErr Timeline_ErrInvalidSequence else Inr rawSequence)"

section \<open>Kinds and contents\<close>

definition KindMessage :: string where "KindMessage = ''MESSAGE''"
definition ContentTypeText :: content_type where "ContentTypeText = ''TEXT''"
definition ContentTypeImage :: content_type where "ContentTypeImage = ''IMAGE''"

definition ParseKind :: "string \<Rightarrow> go_error + string" where
  "ParseKind rawKind =
     (let kind = ToUpper (TrimSpace rawKind)
      in if kind \<noteq> KindMessage then timelineErr Timeline_ErrInvalidKind else Inr kind)"

definition ParseContentType :: "string \<Rightarrow> go_error + content_type" where
  "ParseContentType rawType =
     (let contentType = ToUpper (TrimSpace rawType)
      in if contentType \<noteq> ContentTypeText \<and> contentType \<noteq> ContentTypeImage
         then timelineErr Timeline_ErrInvalidContentType else Inr contentType)"

record message_content =
  mct_contentType :: content_type
  mct_value :: string
  mct_imageID :: string
  mct_caption :: string

definition NewImageContent :: "string \<Rightarrow> string \<Rightarrow> go_error + message_content" where
  "NewImageContent imageID caption =
     (if blank imageID \<or> TrimSpace imageID \<noteq> imageID \<or> length imageID > 128
         \<or> \<not> ValidString caption \<or> RuneCountInString caption > 4000
      then timelineErr Timeline_ErrInvalidContent
      else Inr \<lparr>mct_contentType = ContentTypeImage, mct_value = [], mct_imageID = imageID,
                mct_caption = caption\<rparr>)"

definition NewMessageContent :: "content_type \<Rightarrow> string \<Rightarrow> go_error + message_content" where
  "NewMessageContent contentType value =
     (if contentType \<noteq> ContentTypeText then timelineErr Timeline_ErrInvalidContentType
      else if blank value then timelineErr Timeline_ErrInvalidContent
      else Inr \<lparr>mct_contentType = contentType, mct_value = value, mct_imageID = [],
                mct_caption = []\<rparr>)"

definition RestoreContent ::
  "content_type \<Rightarrow> string \<Rightarrow> string \<Rightarrow> string \<Rightarrow> go_error + message_content" where
  "RestoreContent kind value imageID caption =
     (if kind = ContentTypeText then
        (if imageID \<noteq> [] \<or> caption \<noteq> [] then timelineErr Timeline_ErrInvalidContent
         else NewMessageContent kind value)
      else if kind = ContentTypeImage then
        (if value \<noteq> [] then timelineErr Timeline_ErrInvalidContent
         else NewImageContent imageID caption)
      else timelineErr Timeline_ErrInvalidContentType)"

definition content_Valid :: "message_content \<Rightarrow> bool" where
  "content_Valid content \<longleftrightarrow>
     isOk (RestoreContent (mct_contentType content) (mct_value content) (mct_imageID content)
             (mct_caption content))"

section \<open>Messages and items\<close>

record message =
  msg_clientMessageID :: client_message_ID
  msg_senderID :: user_ID
  msg_content :: message_content

definition NewMessage ::
  "client_message_ID \<Rightarrow> user_ID \<Rightarrow> message_content \<Rightarrow> go_error + message" where
  "NewMessage clientMessageID senderID content =
     (if clientMessageID = [] then timelineErr Timeline_ErrInvalidClientMessageID
      else if senderID = [] then timelineErr Timeline_ErrInvalidSenderID
      else if \<not> content_Valid content then timelineErr Timeline_ErrInvalidContent
      else Inr \<lparr>msg_clientMessageID = clientMessageID, msg_senderID = senderID,
                msg_content = content\<rparr>)"

record item =
  itm_id :: timeline_ID
  itm_chatID :: chat_ID
  itm_sequence :: sequence
  itm_kind :: string
  itm_createdAt :: time
  itm_updatedAt :: time
  itm_message :: message

definition RestoreMessage ::
  "timeline_ID \<Rightarrow> chat_ID \<Rightarrow> sequence \<Rightarrow> time \<Rightarrow> time \<Rightarrow> message \<Rightarrow> go_error + item" where
  "RestoreMessage itemID chatID seqn createdAt updatedAt msg =
     (if itemID = [] then timelineErr Timeline_ErrInvalidID
      else if chatID = [] then timelineErr Timeline_ErrInvalidChatID
      else if seqn \<le> 0 then timelineErr Timeline_ErrInvalidSequence
      else if IsZero createdAt then timelineErr Timeline_ErrInvalidCreatedAt
      else if IsZero updatedAt \<or> updatedAt < createdAt then timelineErr Timeline_ErrInvalidUpdatedAt
      else if msg_clientMessageID msg = [] then timelineErr Timeline_ErrInvalidClientMessageID
      else if msg_senderID msg = [] then timelineErr Timeline_ErrInvalidSenderID
      else if \<not> content_Valid (msg_content msg) then timelineErr Timeline_ErrInvalidContent
      else Inr \<lparr>itm_id = itemID, itm_chatID = chatID, itm_sequence = seqn,
                itm_kind = KindMessage, itm_createdAt = UTC createdAt,
                itm_updatedAt = UTC updatedAt, itm_message = msg\<rparr>)"

section \<open>Laws\<close>

lemma timeline_ParseID_ok [code_checks, run_iff]:
  "timeline_ParseID raw = Inr i \<longleftrightarrow> i = TrimSpace raw \<and> i \<noteq> []"
  by (auto simp: timeline_ParseID_def Let_def)

lemma ParseSequence_ok [code_checks, run_iff]:
  "ParseSequence n = Inr k \<longleftrightarrow> k = n \<and> 0 < n \<and> n \<le> MaxSequence"
  by (auto simp: ParseSequence_def)

lemma ContentTypes_differ [simp]: "ContentTypeText \<noteq> ContentTypeImage" "ContentTypeImage \<noteq> ContentTypeText"
  by (simp_all add: ContentTypeText_def ContentTypeImage_def)

lemma NewImageContent_ok [code_checks]:
  "NewImageContent i c = Inr x \<longleftrightarrow>
     i \<noteq> [] \<and> TrimSpace i = i \<and> length i \<le> 128 \<and> ValidString c \<and> RuneCountInString c \<le> 4000 \<and>
     x = \<lparr>mct_contentType = ContentTypeImage, mct_value = [], mct_imageID = i, mct_caption = c\<rparr>"
  by (auto simp: NewImageContent_def)

lemma NewMessageContent_ok [code_checks]:
  "NewMessageContent t v = Inr x \<longleftrightarrow>
     t = ContentTypeText \<and> \<not> blank v \<and>
     x = \<lparr>mct_contentType = ContentTypeText, mct_value = v, mct_imageID = [], mct_caption = []\<rparr>"
  by (auto simp: NewMessageContent_def)

text \<open>Restoring accepts a content exactly in one of two shapes and never changes a field.\<close>

lemma RestoreContent_ok [code_checks]:
  "RestoreContent t v i c = Inr x \<longleftrightarrow>
     x = \<lparr>mct_contentType = t, mct_value = v, mct_imageID = i, mct_caption = c\<rparr> \<and>
     (t = ContentTypeText \<and> \<not> blank v \<and> i = [] \<and> c = [] \<or>
      t = ContentTypeImage \<and> v = [] \<and> i \<noteq> [] \<and> TrimSpace i = i \<and> length i \<le> 128 \<and>
        ValidString c \<and> RuneCountInString c \<le> 4000)"
  by (auto simp: RestoreContent_def code_checks)

lemma content_Valid_restore: "content_Valid x \<longleftrightarrow>
    RestoreContent (mct_contentType x) (mct_value x) (mct_imageID x) (mct_caption x) = Inr x"
  by (auto simp: content_Valid_def isOk_iff code_checks)

lemma RestoreContent_valid: "RestoreContent t v i c = Inr x \<Longrightarrow> content_Valid x"
  by (simp add: content_Valid_def isOk_iff code_checks)

lemma NewImageContent_valid: "NewImageContent i c = Inr x \<Longrightarrow> content_Valid x"
  by (simp add: content_Valid_def isOk_iff code_checks)

lemma NewMessageContent_valid: "NewMessageContent t v = Inr x \<Longrightarrow> content_Valid x"
  by (simp add: content_Valid_def isOk_iff code_checks)

lemma NewMessage_ok [code_checks]:
  "NewMessage cid u x = Inr m \<longleftrightarrow>
     cid \<noteq> [] \<and> u \<noteq> [] \<and> content_Valid x \<and>
     m = \<lparr>msg_clientMessageID = cid, msg_senderID = u, msg_content = x\<rparr>"
  by (auto simp: NewMessage_def)

lemma RestoreMessage_ok [code_checks]:
  "RestoreMessage i c n t u m = Inr x \<longleftrightarrow>
     i \<noteq> [] \<and> c \<noteq> [] \<and> 0 < n \<and> t \<noteq> 0 \<and> u \<noteq> 0 \<and> t \<le> u \<and> msg_clientMessageID m \<noteq> [] \<and>
     msg_senderID m \<noteq> [] \<and> content_Valid (msg_content m) \<and>
     x = \<lparr>itm_id = i, itm_chatID = c, itm_sequence = n, itm_kind = KindMessage,
          itm_createdAt = t, itm_updatedAt = u, itm_message = m\<rparr>"
  by (auto simp: RestoreMessage_def IsZero_def)

subsection \<open>Client message identifiers are canonical\<close>

text \<open>
  No character of an accepted identifier is an upper-case letter or a space, so parsing an
  accepted identifier gives it back.
\<close>

definition id_char :: "char \<Rightarrow> bool" where
  "id_char c \<longleftrightarrow> hex_digit c \<or> c = CHR ''-''"

lemma pattern_id_char: "p \<in> set clientMessageIDPattern \<Longrightarrow> p c \<Longrightarrow> id_char c"
proof -
  assume p: "p \<in> set clientMessageIDPattern" and c: "p c"
  from p consider "p = hex_digit" | "p = (=) CHR ''-''"
    | "p = (\<lambda>c. CHR ''1'' \<le> c \<and> c \<le> CHR ''8'')" | "p = (\<lambda>c. c \<in> set ''89ab'')"
    unfolding clientMessageIDPattern_def set_append set_replicate_conv_if by auto
  then show ?thesis using c by cases (auto simp: id_char_def hex_digit_def less_eq_char_def)
qed

lemma MatchString_id_char: "MatchString clientMessageIDPattern s \<Longrightarrow> list_all id_char s"
  unfolding MatchString_def list_all2_conv_all_nth list_all_length
  by (metis nth_mem pattern_id_char)

lemma lower_id_char: "id_char c \<Longrightarrow> lower_char c = c"
  by (auto simp: id_char_def hex_digit_def lower_char_def less_eq_char_def)

lemma id_char_graphic: "id_char c \<Longrightarrow> graphic c"
  by (auto simp: id_char_def graphic_def hex_digit_def less_eq_char_def)

lemma ParseClientMessageID_ok [code_checks]:
  "ParseClientMessageID raw = Inr cid \<longleftrightarrow>
     cid = ascii_ToLower (TrimSpace raw) \<and> cid \<noteq> nilClientMessageID \<and>
     MatchString clientMessageIDPattern cid"
  by (auto simp: ParseClientMessageID_def Let_def)

lemma ParseClientMessageID_canonical:
  assumes "ParseClientMessageID raw = Inr cid"
  shows "ParseClientMessageID cid = Inr cid \<and> length cid = 36 \<and> cid \<noteq> [] \<and> TrimSpace cid = cid"
proof -
  from assms have m: "MatchString clientMessageIDPattern cid"
    unfolding ParseClientMessageID_ok by blast
  then have ids: "list_all id_char cid" by (rule MatchString_id_char)
  then have trim: "TrimSpace cid = cid"
    by (intro TrimSpace_id) (auto simp: list_all_iff intro: id_char_graphic)
  have "ascii_ToLower cid = cid" unfolding ascii_ToLower_def
    using ids by (intro map_idI) (auto simp: list_all_iff intro: lower_id_char)
  moreover have "length cid = 36"
    using m by (auto simp: MatchString_def clientMessageIDPattern_def dest: list_all2_lengthD)
  ultimately show ?thesis using assms trim by (auto simp: ParseClientMessageID_ok)
qed

end
