(* ===== verification/ChatStore.thy ===== *)
theory ChatStore
  imports DomainChat MongoMemory
begin

text \<open>
  The chat repository: the port \<^verbatim>\<open>ports.ChatRepository\<close> as a record of calls, the MongoDB
  adapter \<^verbatim>\<open>internal/resources/mongodb/chat_repository\<close>, and the contract \<open>chat_store\<close> the use
  cases rely on, which the adapter provides.  A unique index on the two participants makes the
  direct chat of a pair unique.
\<close>

record chat_list_cursor =
  clc_ChatID :: chat_ID
  clc_SummarySortAt :: time

record list_chats_params =
  lcp_ParticipantID :: user_ID
  lcp_Limit :: int
  lcp_After :: "chat_list_cursor option"

record list_chats_result =
  lcr_Chats :: "chat list"
  lcr_HasNext :: bool
  lcr_NextCursor :: "chat_list_cursor option"
  lcr_TotalItems :: int

record 'w chat_repository =
  ChatGetOrCreateDirect :: "chat option \<Rightarrow> ('w, go_error, chat option \<times> bool) call"
  ChatFindByID :: "chat_ID \<Rightarrow> ('w, go_error, chat option) call"
  ChatListByParticipant :: "list_chats_params \<Rightarrow> ('w, go_error, list_chats_result) call"

section \<open>The MongoDB adapter\<close>

record chat_document =
  cd_ID :: string
  cd_ParticipantOneID :: string
  cd_ParticipantTwoID :: string
  cd_ParticipantIDs :: "string list"
  cd_CreatedAt :: time
  cd_UpdatedAt :: time
  cd_SummarySortAt :: time
  cd_LastSequence :: int

definition newChatDocument :: "chat option \<Rightarrow> go_error + chat_document" where
  "newChatDocument conversation =
     (case conversation of
        None \<Rightarrow> Inl (storeErr Store_ErrNilChat)
      | Some c \<Rightarrow>
          let participantOneID = cht_participantOneID c; participantTwoID = cht_participantTwoID c
          in Inr \<lparr>cd_ID = cht_id c, cd_ParticipantOneID = participantOneID,
                  cd_ParticipantTwoID = participantTwoID,
                  cd_ParticipantIDs = [participantOneID, participantTwoID],
                  cd_CreatedAt = UTC (cht_createdAt c), cd_UpdatedAt = UTC (cht_updatedAt c),
                  cd_SummarySortAt = UTC (cht_summarySortAt c),
                  cd_LastSequence = cht_lastSequence c\<rparr>)"

definition hasConsistentParticipantIDs :: "chat_document \<Rightarrow> user_ID \<Rightarrow> user_ID \<Rightarrow> bool" where
  "hasConsistentParticipantIDs document participantOneID participantTwoID \<longleftrightarrow>
     length (cd_ParticipantIDs document) = 2 \<and>
     cd_ParticipantIDs document ! 0 = participantOneID \<and>
     cd_ParticipantIDs document ! 1 = participantTwoID"

definition chat_toDomain :: "chat_document \<Rightarrow> go_error + chat" where
  "chat_toDomain document =
     andThen (chat_ParseID (cd_ID document))
       (\<lambda>_. Wrap ''parse chat id'' (storeErr Store_ErrInvalidDocument)) (\<lambda>chatID.
     andThen (user_ParseID (cd_ParticipantOneID document))
       (\<lambda>_. Wrap ''parse first participant id'' (storeErr Store_ErrInvalidDocument)) (\<lambda>participantOneID.
     andThen (user_ParseID (cd_ParticipantTwoID document))
       (\<lambda>_. Wrap ''parse second participant id'' (storeErr Store_ErrInvalidDocument)) (\<lambda>participantTwoID.
     require (\<not> participantOneID \<ge> participantTwoID)
       (Wrap ''participants are not in canonical order'' (storeErr Store_ErrInvalidDocument)) (
     require (hasConsistentParticipantIDs document participantOneID participantTwoID)
       (Wrap ''inconsistent participant ids'' (storeErr Store_ErrInvalidDocument)) (
     andThen (RestoreDirect chatID participantOneID participantTwoID (cd_CreatedAt document)
                (cd_UpdatedAt document) (cd_SummarySortAt document) [cd_LastSequence document])
       (\<lambda>_. Wrap ''restore chat'' (storeErr Store_ErrInvalidDocument)) (\<lambda>conversation.
     Inr conversation))))))"

definition bson_chat :: "(time \<Rightarrow> time) \<Rightarrow> chat_document \<Rightarrow> chat_document" where
  "bson_chat dt d = d\<lparr>cd_CreatedAt := dt (cd_CreatedAt d), cd_UpdatedAt := dt (cd_UpdatedAt d),
     cd_SummarySortAt := dt (cd_SummarySortAt d)\<rparr>"

definition chatParticipantsUniqueIndexName :: string where
  "chatParticipantsUniqueIndexName = ''chats_participants_unique''"

text \<open>The unique index that \<^verbatim>\<open>EnsureIndexes\<close> creates.\<close>

definition participants_clash :: "chat_document \<Rightarrow> chat_document \<Rightarrow> bool" where
  "participants_clash x y \<longleftrightarrow>
     cd_ParticipantOneID x = cd_ParticipantOneID y \<and> cd_ParticipantTwoID x = cd_ParticipantTwoID y"

type_synonym 's chats_collection = "('s, chat_document) collection"

definition chats_FindByID :: "'s chats_collection \<Rightarrow> chat_ID \<Rightarrow> ('s, go_error, chat option) call" where
  "chats_FindByID C chatID =
     (if chatID = [] then fail (storeErr Store_ErrInvalidChatID)
      else orFail (FindOne C (\<lambda>d. cd_ID d = chatID) unsorted) (Wrap ''find chat document by id'')
        (\<lambda>found. case found of
            None \<Rightarrow> fail (portsErr ErrChatNotFound)
          | Some document \<Rightarrow>
              orFail (lift (chat_toDomain document)) (Wrap ''convert chat document to domain'')
                (\<lambda>conversation. ret (Some conversation))))"

definition directParticipantsFilter :: "string \<Rightarrow> string \<Rightarrow> chat_document \<Rightarrow> bool" where
  "directParticipantsFilter participantOneID participantTwoID d \<longleftrightarrow>
     cd_ParticipantOneID d = participantOneID \<and> cd_ParticipantTwoID d = participantTwoID"

definition findDirectByParticipants ::
  "'s chats_collection \<Rightarrow> string \<Rightarrow> string \<Rightarrow> ('s, go_error, chat option) call" where
  "findDirectByParticipants C participantOneID participantTwoID =
     orFail (FindOne C (directParticipantsFilter participantOneID participantTwoID) unsorted)
       (Wrap ''find direct chat document by participants'') (\<lambda>found.
     case found of
       None \<Rightarrow> fail (Wrap ''find direct chat document by participants''
                       (DriverError ''no documents in result''))
     | Some document \<Rightarrow>
         orFail (lift (chat_toDomain document)) (Wrap ''convert direct chat document to domain'')
           (\<lambda>conversation. ret (Some conversation)))"

definition isParticipantsDuplicateError :: "go_error \<Rightarrow> bool" where
  "isParticipantsDuplicateError e \<longleftrightarrow> duplicate_index e = Some chatParticipantsUniqueIndexName"

definition convertStoredChat :: "chat_document \<Rightarrow> ('s, go_error, chat option \<times> bool) call" where
  "convertStoredChat document =
     orFail (lift (chat_toDomain document)) (Wrap ''convert direct chat document to domain'')
       (\<lambda>conversation. ret (Some conversation, False))"

definition chats_GetOrCreateDirect ::
  "'s chats_collection \<Rightarrow> chat option \<Rightarrow> ('s, go_error, chat option \<times> bool) call" where
  "chats_GetOrCreateDirect C candidate =
     orFail (lift (newChatDocument candidate)) (\<lambda>e. e) (\<lambda>candidateDocument.
     attempt
       (FindOneAndUpsert C
          (directParticipantsFilter (cd_ParticipantOneID candidateDocument)
             (cd_ParticipantTwoID candidateDocument))
          (bson_chat (DateTime C) candidateDocument))
       (\<lambda>e. if isParticipantsDuplicateError e
            then orFail (findDirectByParticipants C (cd_ParticipantOneID candidateDocument)
                           (cd_ParticipantTwoID candidateDocument))
                   (Wrap ''recover direct chat after duplicate key'')
                   (\<lambda>storedChat. ret (storedChat, False))
            else fail (Wrap ''find or create direct chat document'' e))
       (\<lambda>found. case found of
            None \<Rightarrow> ret (candidate, True)
          | Some storedDocument \<Rightarrow> convertStoredChat storedDocument))"

subsection \<open>Listing the chats of a participant\<close>

definition validateListChatParams :: "list_chats_params \<Rightarrow> go_error + unit" where
  "validateListChatParams params =
     require (lcp_ParticipantID params \<noteq> []) (storeErr Store_ErrInvalidListParticipant) (
     require (\<not> lcp_Limit params \<le> 0) (storeErr Store_ErrInvalidListLimit) (
     case lcp_After params of
       None \<Rightarrow> Inr ()
     | Some cursor \<Rightarrow>
         require (\<not> (clc_ChatID cursor = [] \<or> IsZero (clc_SummarySortAt cursor)))
           (storeErr Store_ErrInvalidListCursor) (Inr ())))"

definition buildListChatsFilter :: "(time \<Rightarrow> time) \<Rightarrow> list_chats_params \<Rightarrow> chat_document \<Rightarrow> bool" where
  "buildListChatsFilter dt params d \<longleftrightarrow>
     lcp_ParticipantID params \<in> set (cd_ParticipantIDs d) \<and>
     (case lcp_After params of
        None \<Rightarrow> True
      | Some cursor \<Rightarrow>
          let cursorSortAt = dt (UTC (clc_SummarySortAt cursor)); cursorChatID = clc_ChatID cursor
          in cd_SummarySortAt d < cursorSortAt \<or>
             cd_SummarySortAt d = cursorSortAt \<and> cd_ID d < cursorChatID)"

definition chats_order :: "chat_document \<Rightarrow> chat_document \<Rightarrow> bool" where
  "chats_order x y \<longleftrightarrow>
     cd_SummarySortAt x > cd_SummarySortAt y \<or>
     cd_SummarySortAt x = cd_SummarySortAt y \<and> cd_ID x \<ge> cd_ID y"

definition buildListChatResult :: "chat list \<Rightarrow> int \<Rightarrow> int \<Rightarrow> list_chats_result" where
  "buildListChatResult conversations limit totalItems =
     (let hasNext = int (length conversations) > limit;
          conversations = (if hasNext then take (nat limit) conversations else conversations);
          nextCursor =
            (if hasNext
             then let lastConversation = last conversations
                  in Some \<lparr>clc_ChatID = cht_id lastConversation,
                           clc_SummarySortAt = cht_summarySortAt lastConversation\<rparr>
             else None)
      in \<lparr>lcr_Chats = conversations, lcr_HasNext = hasNext, lcr_NextCursor = nextCursor,
          lcr_TotalItems = totalItems\<rparr>)"

definition chats_ListByParticipant ::
  "'s chats_collection \<Rightarrow> list_chats_params \<Rightarrow> ('s, go_error, list_chats_result) call" where
  "chats_ListByParticipant C params =
     orFail (lift (validateListChatParams params)) (\<lambda>e. e) (\<lambda>_.
     orFail (CountDocuments C (\<lambda>d. lcp_ParticipantID params \<in> set (cd_ParticipantIDs d)))
       (Wrap ''count chat documents by participant'') (\<lambda>totalItems.
     orFail (Find C (buildListChatsFilter (DateTime C) params) chats_order
               (Some (nat (lcp_Limit params + 1))))
       (Wrap ''find chat documents by participant'') (\<lambda>documents.
     orFail (lift (decode_all chat_toDomain documents)) (Wrap ''convert chat document to domain'')
       (\<lambda>conversations.
     ret (buildListChatResult conversations (lcp_Limit params) (int totalItems))))))"

definition mongo_chat_repository :: "'s chats_collection \<Rightarrow> 's chat_repository" where
  "mongo_chat_repository C =
     \<lparr>ChatGetOrCreateDirect = chats_GetOrCreateDirect C, ChatFindByID = chats_FindByID C,
      ChatListByParticipant = chats_ListByParticipant C\<rparr>"

lemma mongo_chat_repository_keeps:
  assumes "\<And>f le. keeps g (FindOne C f le)"
  shows "keeps g (ChatFindByID (mongo_chat_repository C) i)"
  using assms
  by (auto simp: mongo_chat_repository_def chats_FindByID_def intro!: frame split: option.splits)

section \<open>The contract\<close>

text \<open>
  \<open>stored_chats w\<close> observes the stored chats by identifier; a reader gets a chat whose identifiers
  were parsed again.
\<close>

definition stored_chat :: "chat_document \<Rightarrow> chat" where
  "stored_chat d = \<lparr>cht_id = cd_ID d, cht_participantOneID = cd_ParticipantOneID d,
     cht_participantTwoID = cd_ParticipantTwoID d, cht_createdAt = cd_CreatedAt d,
     cht_updatedAt = cd_UpdatedAt d, cht_summarySortAt = cd_SummarySortAt d,
     cht_lastSequence = cd_LastSequence d\<rparr>"

definition stored_chats :: "'s chats_collection \<Rightarrow> 's \<Rightarrow> chat_ID \<rightharpoonup> chat" where
  "stored_chats C s = map_option stored_chat \<circ> docs C s"

definition chat_restored :: "chat \<Rightarrow> chat" where
  "chat_restored y = y\<lparr>cht_id := TrimSpace (cht_id y),
     cht_participantOneID := TrimSpace (cht_participantOneID y),
     cht_participantTwoID := TrimSpace (cht_participantTwoID y)\<rparr>"

definition same_participants :: "chat \<Rightarrow> chat \<Rightarrow> bool" where
  "same_participants x y \<longleftrightarrow> cht_participantOneID x = cht_participantOneID y \<and>
     cht_participantTwoID x = cht_participantTwoID y"

definition chat_at :: "(time \<Rightarrow> time) \<Rightarrow> chat \<Rightarrow> chat" where
  "chat_at prec c = c\<lparr>cht_createdAt := prec (cht_createdAt c), cht_updatedAt := prec (cht_updatedAt c),
     cht_summarySortAt := prec (cht_summarySortAt c)\<rparr>"

definition chat_added :: "(time \<Rightarrow> time) \<Rightarrow> chat \<Rightarrow> (chat_ID \<rightharpoonup> chat) \<Rightarrow> (chat_ID \<rightharpoonup> chat) \<Rightarrow> bool" where
  "chat_added prec c m m' \<longleftrightarrow>
     m (cht_id c) = None \<and> (\<forall>y \<in> ran m. \<not> same_participants y c) \<and> m' = m(cht_id c \<mapsto> chat_at prec c)"

locale chat_store =
  fixes R :: "'w chat_repository"
    and chats :: "'w \<Rightarrow> chat_ID \<rightharpoonup> chat"
    and prec :: "time \<Rightarrow> time"
  assumes GetOrCreate_ok: "ChatGetOrCreateDirect R (Some c) w = (w', Inr (found, created)) \<Longrightarrow>
      if created then found = Some c \<and> chat_added prec c (chats w) (chats w')
      else chats w' = chats w \<and>
        (\<exists>y \<in> ran (chats w). same_participants y c \<and> found = Some (chat_restored y) \<and> chat_wf (the found))"
    and GetOrCreate_err: "ChatGetOrCreateDirect R (Some c) w = (w', Inl e) \<Longrightarrow>
      chats w' = chats w \<or> chat_added prec c (chats w) (chats w')"
    and ChatFindByID_ok: "ChatFindByID R i w = (w', Inr found) \<Longrightarrow>
      chats w' = chats w \<and>
      (\<exists>y. chats w i = Some y \<and> cht_id y = i \<and> found = Some (chat_restored y) \<and> chat_wf (the found))"
    and ChatFindByID_err: "ChatFindByID R i w = (w', Inl e) \<Longrightarrow>
      chats w' = chats w \<and> (errors_is e (PortsE ErrChatNotFound) \<longrightarrow> chats w i = None)"
    and ChatList_ok: "ChatListByParticipant R params w = (w', Inr page) \<Longrightarrow>
      chats w' = chats w \<and>
      (\<forall>c \<in> set (lcr_Chats page). HasParticipant c (lcp_ParticipantID params) \<and>
         (\<exists>y \<in> ran (chats w). c = chat_restored y))"
    and ChatList_err: "ChatListByParticipant R params w = (w', Inl e) \<Longrightarrow> chats w' = chats w"

text \<open>How the program stores chats, and the cursor that names one.\<close>

definition chat_canonical :: "(time \<Rightarrow> time) \<Rightarrow> chat_document \<Rightarrow> bool" where
  "chat_canonical dt d \<longleftrightarrow> dt (cd_SummarySortAt d) = cd_SummarySortAt d \<and> TrimSpace (cd_ID d) = cd_ID d"

definition cursor_of :: "chat_document \<Rightarrow> chat_list_cursor" where
  "cursor_of d = \<lparr>clc_ChatID = cd_ID d, clc_SummarySortAt = cd_SummarySortAt d\<rparr>"

section \<open>The adapter keeps the contract\<close>

lemma hasConsistent_iff [code_checks]:
  "hasConsistentParticipantIDs d a b \<longleftrightarrow> cd_ParticipantIDs d = [a, b]"
  by (auto simp: hasConsistentParticipantIDs_def length_Suc_conv numeral_2_eq_2)

lemma chat_toDomain_ok [code_checks]:
  "chat_toDomain d = Inr c \<longleftrightarrow>
     c = chat_restored (stored_chat d) \<and> chat_wf c \<and>
     cd_ParticipantIDs d = [cht_participantOneID c, cht_participantTwoID c]"
  by (auto simp: chat_toDomain_def run_iff code_checks chat_restored_def stored_chat_def chat_wf_def
      min_def max_def not_le)

lemma chat_toDomain_err: "chat_toDomain d = Inl e \<Longrightarrow> \<not> errors_is e (PortsE p)"
  by (auto simp: chat_toDomain_def andThen_def require_def split: sum.splits if_splits)

lemma newChatDocument_some:
  "newChatDocument (Some c) = Inr d \<Longrightarrow> stored_chat d = c \<and> cd_ID d = cht_id c \<and>
     cd_ParticipantIDs d = [cht_participantOneID c, cht_participantTwoID c]"
  by (auto simp: newChatDocument_def Let_def stored_chat_def)

lemma bson_chat_sel [simp]:
  "cd_ID (bson_chat dt d) = cd_ID d" "cd_ParticipantOneID (bson_chat dt d) = cd_ParticipantOneID d"
  "cd_ParticipantTwoID (bson_chat dt d) = cd_ParticipantTwoID d"
  "cd_ParticipantIDs (bson_chat dt d) = cd_ParticipantIDs d"
  "stored_chat (bson_chat dt d) = chat_at dt (stored_chat d)"
  by (simp_all add: bson_chat_def stored_chat_def chat_at_def)

text \<open>Writing a chat and reading it back gives it back.\<close>

lemma chat_document_roundtrip:
  assumes "chat_wf c" "TrimSpace (cht_id c) = cht_id c"
    "TrimSpace (cht_participantOneID c) = cht_participantOneID c"
    "TrimSpace (cht_participantTwoID c) = cht_participantTwoID c"
    and "newChatDocument (Some c) = Inr d"
  shows "chat_toDomain d = Inr c"
  using assms newChatDocument_some [OF assms(5)] by (simp add: chat_toDomain_ok chat_restored_def)

locale chat_collection =
  collection C cd_ID participants_clash for C :: "('s, chat_document) collection"
begin

lemma chats_same: "docs C s' = docs C s \<Longrightarrow> stored_chats C s' = stored_chats C s"
  by (simp add: stored_chats_def)

lemma stored_chat_ran: "y \<in> ran (stored_chats C s) \<longleftrightarrow> (\<exists>d \<in> ran (docs C s). y = stored_chat d)"
  by (auto simp: stored_chats_def ran_def)

lemma chat_insert:
  assumes "newChatDocument (Some c) = Inr d0" "d = bson_chat (DateTime C) d0"
    "docs C s (cd_ID d) = None" "\<forall>y \<in> ran (docs C s). \<not> participants_clash y d"
    "docs C s' = (docs C s)(cd_ID d \<mapsto> d)"
  shows "chat_added (DateTime C) c (stored_chats C s) (stored_chats C s')"
proof -
  note d0 = newChatDocument_some [OF assms(1)]
  have d: "cd_ID d = cht_id c" "stored_chat d = chat_at (DateTime C) c" using d0 assms(2) by simp_all
  have "\<not> same_participants y c" if "y \<in> ran (stored_chats C s)" for y
    using that assms(2,4) d0 by (auto simp: stored_chat_ran same_participants_def participants_clash_def stored_chat_def)
  then show ?thesis using assms(3,5) d by (auto simp: chat_added_def stored_chats_def fun_eq_iff)
qed

lemma FindByID_cases:
  assumes "chats_FindByID C i s = (s', r)"
  shows "stored_chats C s' = stored_chats C s \<and>
    (case r of
       Inr found \<Rightarrow> \<exists>y. stored_chats C s i = Some y \<and> cht_id y = i \<and> found = Some (chat_restored y) \<and>
         chat_wf (the found)
     | Inl e \<Rightarrow> errors_is e (PortsE ErrChatNotFound) \<longrightarrow> stored_chats C s i = None)"
proof (cases "i = []")
  case True
  with assms show ?thesis by (auto simp: chats_FindByID_def)
next
  case False
  obtain s1 q where f: "FindOne C (\<lambda>d. cd_ID d = i) unsorted s = (s1, q)" by fastforce
  show ?thesis
  proof (cases q)
    case (Inl e)
    with False assms f FindOne_err [OF f [unfolded Inl]] chats_same [of s1 s] show ?thesis
      by (auto simp: chats_FindByID_def)
  next
    case (Inr found)
    with FindOne_key f have same: "docs C s1 = docs C s" and found: "found = docs C s i" by blast+
    show ?thesis
    proof (cases found)
      case None
      with False assms f Inr found chats_same [OF same] show ?thesis
        by (auto simp: chats_FindByID_def stored_chats_def)
    next
      case (Some d)
      then have "cd_ID d = i" using found keyed by simp
      moreover have "stored_chats C s i = Some (stored_chat d)" using Some found by (simp add: stored_chats_def)
      ultimately show ?thesis using False assms f Inr Some chats_same [OF same]
        by (cases "chat_toDomain d")
          (auto simp: chats_FindByID_def chat_toDomain_ok stored_chat_def dest: chat_toDomain_err)
    qed
  qed
qed

lemma findDirect_cases:
  assumes "findDirectByParticipants C a b s = (s', r)"
  shows "docs C s' = docs C s \<and>
    (case r of
       Inr found \<Rightarrow> \<exists>d \<in> ran (docs C s). directParticipantsFilter a b d \<and>
         found = Some (chat_restored (stored_chat d)) \<and> chat_wf (the found)
     | Inl _ \<Rightarrow> True)"
proof -
  let ?f = "directParticipantsFilter a b"
  obtain s1 q where f: "FindOne C ?f unsorted s = (s1, q)" by fastforce
  show ?thesis
  proof (cases q)
    case (Inl e)
    then show ?thesis using assms f FindOne_err [OF f [unfolded Inl]]
      by (auto simp: findDirectByParticipants_def)
  next
    case (Inr found)
    from FindOne_ok [OF linear_unsorted f [unfolded Inr]] obtain ds
      where same: "docs C s1 = docs C s" and ds: "listing ?f unsorted (docs C s) ds" "found = first ds"
      by blast
    show ?thesis
    proof (cases found)
      case None
      then show ?thesis using assms f Inr same by (auto simp: findDirectByParticipants_def)
    next
      case (Some d)
      with ds have "d \<in> matching ?f (docs C s)" using listing_first(2) by metis
      then show ?thesis using assms f Inr Some same
        by (cases "chat_toDomain d") (auto simp: findDirectByParticipants_def chat_toDomain_ok matching_def)
    qed
  qed
qed

lemma direct_participants:
  assumes "newChatDocument (Some c) = Inr d"
    and "directParticipantsFilter (cd_ParticipantOneID d) (cd_ParticipantTwoID d) x"
  shows "same_participants (stored_chat x) c"
  using assms newChatDocument_some [OF assms(1)]
  by (auto simp: directParticipantsFilter_def same_participants_def stored_chat_def)

lemma GetOrCreate_cases:
  assumes "chats_GetOrCreateDirect C (Some c) s = (s', r)"
  shows "case r of
      Inr (found, created) \<Rightarrow>
        if created then found = Some c \<and> chat_added (DateTime C) c (stored_chats C s) (stored_chats C s')
        else stored_chats C s' = stored_chats C s \<and>
          (\<exists>y \<in> ran (stored_chats C s). same_participants y c \<and> found = Some (chat_restored y) \<and>
             chat_wf (the found))
    | Inl e \<Rightarrow> stored_chats C s' = stored_chats C s \<or>
        chat_added (DateTime C) c (stored_chats C s) (stored_chats C s')"
proof -
  obtain d where d: "newChatDocument (Some c) = Inr d" by (simp add: newChatDocument_def Let_def)
  let ?d = "bson_chat (DateTime C) d"
  let ?f = "directParticipantsFilter (cd_ParticipantOneID d) (cd_ParticipantTwoID d)"
  have found: "\<exists>y \<in> ran (stored_chats C s). same_participants y c \<and> Some z = Some (chat_restored y) \<and> chat_wf z"
    if "x \<in> ran (docs C s)" "?f x" "z = chat_restored (stored_chat x)" "chat_wf z" for x z
    using that direct_participants [OF d that(2)] stored_chat_ran by blast
  obtain s1 q where ups: "FindOneAndUpsert C ?f ?d s = (s1, q)" by fastforce
  show ?thesis
  proof (cases q)
    case (Inl e)
    show ?thesis
    proof (cases "isParticipantsDuplicateError e")
      case False
      then have r: "s' = s1" "\<exists>e'. r = Inl e'"
        using assms d ups Inl by (auto simp: chats_GetOrCreateDirect_def)
      from FindOneAndUpsert_err [OF ups [unfolded Inl]] show ?thesis
        using r chats_same [of s1 s] chat_insert [OF d refl, of s s1] by auto
    next
      case True
      then have "is_duplicate_key e" by (induction e) (auto simp: isParticipantsDuplicateError_def)
      then have same: "docs C s1 = docs C s" using FindOneAndUpsert_err [OF ups [unfolded Inl]] by auto
      obtain s2 q2 where fd: "findDirectByParticipants C (cd_ParticipantOneID d) (cd_ParticipantTwoID d) s1 = (s2, q2)"
        by fastforce
      show ?thesis
      proof (cases q2)
        case (Inl e2)
        then have "s' = s2" "\<exists>e'. r = Inl e'"
          using assms d ups \<open>q = Inl e\<close> True fd by (auto simp: chats_GetOrCreateDirect_def)
        then show ?thesis using findDirect_cases [OF fd] same chats_same [of s2 s] by auto
      next
        case (Inr z)
        then have "s' = s2" "r = Inr (z, False)"
          using assms d ups \<open>q = Inl e\<close> True fd by (auto simp: chats_GetOrCreateDirect_def)
        then show ?thesis using findDirect_cases [OF fd] same chats_same [of s2 s] Inr found by auto
      qed
    qed
  next
    case (Inr od)
    show ?thesis
    proof (cases od)
      case None
      then have "s' = s1" "r = Inr (Some c, True)"
        using assms d ups Inr by (auto simp: chats_GetOrCreateDirect_def)
      then show ?thesis using FindOneAndUpsert_ok [OF ups [unfolded Inr]] None chat_insert [OF d refl, of s s1]
        by auto
    next
      case (Some x)
      then have x: "x \<in> ran (docs C s)" "?f x" and same: "docs C s1 = docs C s"
        using FindOneAndUpsert_ok [OF ups [unfolded Inr]] by (auto simp: matching_def)
      show ?thesis
      proof (cases "chat_toDomain x")
        case (Inl e)
        then have "s' = s1" "\<exists>e'. r = Inl e'" using assms d ups \<open>q = Inr od\<close> Some
          by (auto simp: chats_GetOrCreateDirect_def convertStoredChat_def)
        then show ?thesis using chats_same [OF same] by auto
      next
        case (Inr z)
        then have "s' = s1" "r = Inr (Some z, False)" using assms d ups \<open>q = Inr od\<close> Some
          by (auto simp: chats_GetOrCreateDirect_def convertStoredChat_def)
        then show ?thesis using chats_same [OF same] found [OF x] Inr by (auto simp: chat_toDomain_ok)
      qed
    qed
  qed
qed

lemma linear_chats_order: "linear chats_order"
  by (auto simp: linear_def chats_order_def)

text \<open>A page is a prefix of the participant's chats, newest summary first.\<close>

lemma ListByParticipant_page:
  assumes "chats_ListByParticipant C params s = (s', Inr page)"
  shows "docs C s' = docs C s \<and> 0 < lcp_Limit params \<and>
    (\<exists>ds cs. listing (buildListChatsFilter (DateTime C) params) chats_order (docs C s) ds \<and>
       list_all2 (\<lambda>d c. chat_toDomain d = Inr c) (take (nat (lcp_Limit params + 1)) ds) cs \<and>
       page = buildListChatResult cs (lcp_Limit params)
         (int (card (matching (\<lambda>d. lcp_ParticipantID params \<in> set (cd_ParticipantIDs d)) (docs C s)))))"
proof -
  let ?p = "\<lambda>d. lcp_ParticipantID params \<in> set (cd_ParticipantIDs d)"
  let ?f = "buildListChatsFilter (DateTime C) params"
  from assms obtain n s1 found s2 cs where v: "validateListChatParams params = Inr ()"
    and n: "CountDocuments C ?p s = (s1, Inr n)"
    and f: "Find C ?f chats_order (Some (nat (lcp_Limit params + 1))) s1 = (s2, Inr found)"
    and cs: "decode_all chat_toDomain found = Inr cs" and s2: "s' = s2"
    and page: "page = buildListChatResult cs (lcp_Limit params) (int n)"
    by (auto simp: chats_ListByParticipant_def run_iff)
  from Find_ok [OF linear_chats_order f] obtain ds where "docs C s2 = docs C s1"
    "listing ?f chats_order (docs C s1) ds" "found = take (nat (lcp_Limit params + 1)) ds"
    by (auto simp: limited_def)
  moreover have "0 < lcp_Limit params" using v by (auto simp: validateListChatParams_def run_iff)
  ultimately show ?thesis
    using CountDocuments_ok [OF n] cs page s2 by (auto simp: decode_all_ok)
qed

lemma ListByParticipant_reads: "keeps (docs C) (chats_ListByParticipant C params)"
  unfolding chats_ListByParticipant_def by (intro frame readers linear_chats_order)

lemma ListByParticipant_chats:
  assumes "chats_ListByParticipant C params s = (s', Inr page)" "c \<in> set (lcr_Chats page)"
  shows "HasParticipant c (lcp_ParticipantID params) \<and> (\<exists>y \<in> ran (stored_chats C s). c = chat_restored y)"
proof -
  from ListByParticipant_page [OF assms(1)] obtain ds cs n
    where ds: "listing (buildListChatsFilter (DateTime C) params) chats_order (docs C s) ds"
      and cs: "list_all2 (\<lambda>d c. chat_toDomain d = Inr c) (take (nat (lcp_Limit params + 1)) ds) cs"
      and page: "page = buildListChatResult cs (lcp_Limit params) n" by blast
  from page assms(2) have "c \<in> set cs"
    by (auto simp: buildListChatResult_def Let_def dest: in_set_takeD split: if_splits)
  then obtain i where i: "i < length cs" "c = cs ! i" by (auto simp: in_set_conv_nth)
  let ?d = "take (nat (lcp_Limit params + 1)) ds ! i"
  have "?d \<in> set (take (nat (lcp_Limit params + 1)) ds)" "chat_toDomain ?d = Inr c"
    using cs i list_all2_nthD2 [OF cs i(1)] nth_mem list_all2_lengthD [OF cs] by metis+
  then have m: "?d \<in> matching (buildListChatsFilter (DateTime C) params) (docs C s)" "chat_toDomain ?d = Inr c"
    using ds by (auto simp: listing_def dest: in_set_takeD)
  have "stored_chat ?d \<in> ran (stored_chats C s)" using m(1) unfolding stored_chat_ran matching_def by blast
  moreover have "c = chat_restored (stored_chat ?d)" using m(2) by (simp add: chat_toDomain_ok)
  ultimately have "\<exists>y \<in> ran (stored_chats C s). c = chat_restored y" by blast
  moreover have "HasParticipant c (lcp_ParticipantID params)"
    using m by (auto simp: chat_toDomain_ok buildListChatsFilter_def matching_def HasParticipant_def)
  ultimately show ?thesis by blast
qed

text \<open>
  Following the cursor of a page goes on exactly where the page ended: the pages are consecutive
  slices of one list, the participant's chats, newest summary first.  Identifiers without spaces
  around them and times in milliseconds are what the program stores.
\<close>

lemma chats_order_antisym:
  assumes "x \<in> matching f (docs C s)" "y \<in> matching f (docs C s)" "chats_order x y" "chats_order y x"
  shows "x = y"
proof -
  have "cd_ID x = cd_ID y" using assms(3,4) by (auto simp: chats_order_def)
  moreover have "docs C s (cd_ID x) = Some x" "docs C s (cd_ID y) = Some y"
    using assms(1,2) unfolding matching_docs by blast+
  ultimately show ?thesis by (metis option.inject)
qed

lemma next_page_listing:
  assumes canon: "\<And>d. d \<in> ran (docs C s) \<Longrightarrow> chat_canonical (DateTime C) d"
    and ds: "listing (buildListChatsFilter (DateTime C) (params\<lparr>lcp_After := None\<rparr>)) chats_order (docs C s) ds"
    and n: "n \<le> length ds"
    and after: "lcp_After params = (if n = 0 then None else Some (cursor_of (ds ! (n - 1))))"
  shows "listing (buildListChatsFilter (DateTime C) params) chats_order (docs C s) (drop n ds)"
proof (cases "n = 0")
  case True
  with after have "params\<lparr>lcp_After := None\<rparr> = params" by simp
  then show ?thesis using ds True by simp
next
  case False
  let ?f = "buildListChatsFilter (DateTime C) (params\<lparr>lcp_After := None\<rparr>)"
  let ?c = "ds ! (n - 1)"
  have "listing (\<lambda>d. ?f d \<and> \<not> chats_order d ?c) chats_order (docs C s) (drop n ds)"
    by (rule listing_after [OF ds linear_chats_order _ n chats_order_antisym]) (use False in auto)
  moreover have "?c \<in> ran (docs C s)"
    using ds n False nth_mem [of "n - 1" ds] by (auto simp: listing_def matching_def)
  then have "DateTime C (cd_SummarySortAt ?c) = cd_SummarySortAt ?c"
    using canon [of ?c] by (simp add: chat_canonical_def)
  then have "(\<lambda>d. ?f d \<and> \<not> chats_order d ?c) = buildListChatsFilter (DateTime C) params"
    using after False
    by (auto simp: fun_eq_iff buildListChatsFilter_def chats_order_def cursor_of_def Let_def)
  ultimately show ?thesis by simp
qed

lemma page_at:
  assumes canon: "\<And>d. d \<in> ran (docs C s) \<Longrightarrow> chat_canonical (DateTime C) d"
    and ds: "listing (buildListChatsFilter (DateTime C) (params\<lparr>lcp_After := None\<rparr>)) chats_order (docs C s) ds"
    and n: "n \<le> length ds"
    and after: "lcp_After params = (if n = 0 then None else Some (cursor_of (ds ! (n - 1))))"
    and run: "chats_ListByParticipant C params s = (s', Inr page)"
  shows "list_all2 (\<lambda>d c. chat_toDomain d = Inr c) (take (nat (lcp_Limit params)) (drop n ds)) (lcr_Chats page) \<and>
    lcr_HasNext page = (n + nat (lcp_Limit params) < length ds) \<and>
    lcr_NextCursor page =
      (if lcr_HasNext page then Some (cursor_of (ds ! (n + nat (lcp_Limit params) - 1))) else None) \<and>
    lcr_TotalItems page = int (length ds)"
proof -
  let ?l = "nat (lcp_Limit params)"
  from ListByParticipant_page [OF run] obtain xs cs
    where lim: "0 < lcp_Limit params"
      and xs: "listing (buildListChatsFilter (DateTime C) params) chats_order (docs C s) xs"
      and cs: "list_all2 (\<lambda>d c. chat_toDomain d = Inr c) (take (nat (lcp_Limit params + 1)) xs) cs"
      and page: "page = buildListChatResult cs (lcp_Limit params)
         (int (card (matching (\<lambda>d. lcp_ParticipantID params \<in> set (cd_ParticipantIDs d)) (docs C s))))"
    by blast
  have rest: "listing (buildListChatsFilter (DateTime C) params) chats_order (docs C s) (drop n ds)"
    by (rule next_page_listing [OF canon ds n after])
  have "xs = drop n ds"
    by (rule listing_unique [OF xs rest chats_order_antisym])
  then have all: "list_all2 (\<lambda>d c. chat_toDomain d = Inr c) (take (Suc ?l) (drop n ds)) cs"
    using cs lim by (simp add: nat_add_distrib)
  then have len: "length cs = min (length ds - n) (Suc ?l)" by (auto dest: list_all2_lengthD)
  have more: "(int (length cs) > lcp_Limit params) = (n + ?l < length ds)" using len lim by auto
  have items: "take ?l cs = (if int (length cs) > lcp_Limit params then take ?l cs else cs)"
    using lim by auto
  have taken: "list_all2 (\<lambda>d c. chat_toDomain d = Inr c) (take ?l (drop n ds)) (take ?l cs)"
    using list_all2_takeI [OF all, of ?l] by (simp add: min_def)
  have total: "card (matching (\<lambda>d. lcp_ParticipantID params \<in> set (cd_ParticipantIDs d)) (docs C s)) = length ds"
  proof -
    have "(\<lambda>d. lcp_ParticipantID params \<in> set (cd_ParticipantIDs d)) =
        buildListChatsFilter (DateTime C) (params\<lparr>lcp_After := None\<rparr>)"
      by (simp add: buildListChatsFilter_def fun_eq_iff)
    moreover have "set ds = matching (buildListChatsFilter (DateTime C) (params\<lparr>lcp_After := None\<rparr>)) (docs C s)"
      "distinct ds" using ds by (simp_all add: listing_def)
    ultimately show ?thesis by (metis distinct_card)
  qed
  have cursor: "\<lparr>clc_ChatID = cht_id (last (take ?l cs)), clc_SummarySortAt = cht_summarySortAt (last (take ?l cs))\<rparr> =
      cursor_of (ds ! (n + ?l - 1))" if "n + ?l < length ds"
  proof -
    have l: "length (take ?l cs) = ?l" "0 < ?l" using len that lim by auto
    then have "last (take ?l cs) = cs ! (?l - 1)" by (subst last_conv_nth) auto
    moreover have "chat_toDomain (ds ! (n + ?l - 1)) = Inr (cs ! (?l - 1))"
      using list_all2_nthD2 [OF all, of "?l - 1"] l len that by auto
    moreover have "ds ! (n + ?l - 1) \<in> ran (docs C s)"
      using ds nth_mem [of "n + ?l - 1" ds] that by (auto simp: listing_def matching_def)
    ultimately show ?thesis using canon
      by (auto simp: chat_toDomain_ok cursor_of_def chat_restored_def stored_chat_def chat_canonical_def)
  qed
  show ?thesis
    using page taken items more cursor total by (auto simp: buildListChatResult_def Let_def)
qed

sublocale chat_store "mongo_chat_repository C" "stored_chats C" "DateTime C"
proof (unfold_locales, unfold mongo_chat_repository_def chat_repository.simps, goal_cases)
  case 1 then show ?case using GetOrCreate_cases by fastforce
next
  case 2 then show ?case using GetOrCreate_cases by fastforce
next
  case 3 then show ?case using FindByID_cases by fastforce
next
  case 4 then show ?case using FindByID_cases by fastforce
next
  case 5 then show ?case using ListByParticipant_chats ListByParticipant_page chats_same by blast
next
  case 6 then show ?case using ListByParticipant_reads chats_same by (blast dest: keepsD)
qed

lemma repository_contract: "chat_store (mongo_chat_repository C) (stored_chats C) (DateTime C)"
  by (rule chat_store_axioms)

end

end
