(* ===== verification/ImageStore.thy ===== *)
theory ImageStore
  imports MongoMemory
begin

text \<open>
  Image assets (\<^verbatim>\<open>internal/domain/image\<close>) and their repository
  (\<^verbatim>\<open>internal/resources/mongodb/image_repository\<close>).  An asset goes through the states PENDING
  (being uploaded, under a lease), READY (stored, not yet in a message), ATTACHED, DELETING and
  DELETED; the relation \<open>image_step\<close> is the state machine that every operation of the repository
  and the attachment by the message store follow.
\<close>

definition image_Pending :: string where "image_Pending = ''PENDING''"
definition image_Ready :: string where "image_Ready = ''READY''"
definition image_Attached :: string where "image_Attached = ''ATTACHED''"
definition image_Deleting :: string where "image_Deleting = ''DELETING''"
definition image_Deleted :: string where "image_Deleted = ''DELETED''"
definition MaxBytes :: int where "MaxBytes = 10 * 2 ^ 20"
definition MaxDimension :: int where "MaxDimension = 8192"
definition MaxPixels :: int where "MaxPixels = 16000000"
definition UploadLease :: duration where "UploadLease = 2 * minute"
definition AbandonAfter :: duration where "AbandonAfter = 24 * hour"
definition DeletionGrace :: duration where "DeletionGrace = 5 * minute"

lemmas image_status_defs =
  image_Pending_def image_Ready_def image_Attached_def image_Deleting_def image_Deleted_def

record asset =
  ast_ID :: string
  ast_UploadedBy :: string
  ast_ChatID :: string
  ast_ClientUploadID :: string
  ast_Bucket :: string
  ast_ObjectKey :: string
  ast_ContentType :: string
  ast_Checksum :: string
  ast_SizeBytes :: int
  ast_Width :: int
  ast_Height :: int
  ast_Status :: string
  ast_MessageID :: string
  ast_UploadToken :: string
  ast_DeleteToken :: string
  ast_CreatedAt :: time
  ast_ExpiresAt :: time
  ast_DeleteStartedAt :: time

record 'w image_repository =
  ImageReserveUpload :: "asset \<Rightarrow> time \<Rightarrow> ('w, go_error, asset option \<times> bool) call"
  ImageMarkReady :: "string \<Rightarrow> string \<Rightarrow> time \<Rightarrow> ('w, go_error, bool) call"
  ImageReleaseUpload :: "string \<Rightarrow> string \<Rightarrow> ('w, go_error, unit) call"
  ImageFindByID :: "string \<Rightarrow> ('w, go_error, asset option) call"
  ImageClaimAbandoned :: "time \<Rightarrow> string \<Rightarrow> ('w, go_error, asset option) call"
  ImageCompleteDeletion :: "asset \<Rightarrow> time \<Rightarrow> ('w, go_error, unit) call"

section \<open>The MongoDB adapter\<close>

text \<open>
  A field marked \<^verbatim>\<open>omitempty\<close> is absent when it is empty and after \<^verbatim>\<open>$unset\<close>; a filter
  with a value does not match an absent field.  Decoding an absent field leaves the zero value.
\<close>

definition omitempty :: "string \<Rightarrow> string option" where
  "omitempty s = (if s = [] then None else Some s)"

definition or_zero :: "string option \<Rightarrow> string" where
  "or_zero field = (case field of None \<Rightarrow> [] | Some s \<Rightarrow> s)"

lemma or_zero_simps [simp]: "or_zero None = []" "or_zero (Some s) = s" "or_zero (omitempty s) = s"
  by (simp_all add: or_zero_def omitempty_def)

record image_document =
  img_ID :: string
  img_UploadedBy :: string
  img_ChatID :: string
  img_ClientUploadID :: string
  img_Bucket :: string
  img_ObjectKey :: string
  img_ContentType :: string
  img_Checksum :: string
  img_SizeBytes :: int
  img_Width :: int
  img_Height :: int
  img_Status :: string
  img_MessageID :: "string option"
  img_UploadToken :: "string option"
  img_DeleteToken :: "string option"
  img_CreatedAt :: time
  img_ExpiresAt :: time
  img_LockedUntil :: time
  img_CleanupAfter :: time
  img_DeleteStartedAt :: time
  img_DeletedAt :: "time option"

definition document_asset :: "image_document \<Rightarrow> asset" where
  "document_asset d =
     \<lparr>ast_ID = img_ID d, ast_UploadedBy = img_UploadedBy d, ast_ChatID = img_ChatID d,
      ast_ClientUploadID = img_ClientUploadID d, ast_Bucket = img_Bucket d,
      ast_ObjectKey = img_ObjectKey d, ast_ContentType = img_ContentType d,
      ast_Checksum = img_Checksum d, ast_SizeBytes = img_SizeBytes d, ast_Width = img_Width d,
      ast_Height = img_Height d, ast_Status = img_Status d, ast_MessageID = or_zero (img_MessageID d),
      ast_UploadToken = or_zero (img_UploadToken d), ast_DeleteToken = or_zero (img_DeleteToken d),
      ast_CreatedAt = img_CreatedAt d, ast_ExpiresAt = img_ExpiresAt d,
      ast_DeleteStartedAt = img_DeleteStartedAt d\<rparr>"

definition bson_image :: "(time \<Rightarrow> time) \<Rightarrow> image_document \<Rightarrow> image_document" where
  "bson_image dt d = d\<lparr>img_CreatedAt := dt (img_CreatedAt d), img_ExpiresAt := dt (img_ExpiresAt d),
     img_LockedUntil := dt (img_LockedUntil d), img_CleanupAfter := dt (img_CleanupAfter d),
     img_DeleteStartedAt := dt (img_DeleteStartedAt d), img_DeletedAt := map_option dt (img_DeletedAt d)\<rparr>"

text \<open>The unique index \<^verbatim>\<open>image_upload_identity\<close>.\<close>

definition upload_clash :: "image_document \<Rightarrow> image_document \<Rightarrow> bool" where
  "upload_clash x y \<longleftrightarrow>
     img_UploadedBy x = img_UploadedBy y \<and> img_ClientUploadID x = img_ClientUploadID y"

type_synonym 's images_collection = "('s, image_document) collection"

definition reserved_document :: "asset \<Rightarrow> time \<Rightarrow> image_document" where
  "reserved_document a now =
     \<lparr>img_ID = ast_ID a, img_UploadedBy = ast_UploadedBy a, img_ChatID = ast_ChatID a,
      img_ClientUploadID = ast_ClientUploadID a, img_Bucket = ast_Bucket a,
      img_ObjectKey = ast_ObjectKey a, img_ContentType = ast_ContentType a,
      img_Checksum = ast_Checksum a, img_SizeBytes = ast_SizeBytes a, img_Width = ast_Width a,
      img_Height = ast_Height a, img_Status = image_Pending, img_MessageID = None,
      img_UploadToken = omitempty (ast_UploadToken a), img_DeleteToken = None,
      img_CreatedAt = ast_CreatedAt a, img_ExpiresAt = ast_ExpiresAt a,
      img_LockedUntil = now + UploadLease, img_CleanupAfter = 0, img_DeleteStartedAt = 0,
      img_DeletedAt = None\<rparr>"

definition relock_filter :: "(time \<Rightarrow> time) \<Rightarrow> string \<Rightarrow> time \<Rightarrow> image_document \<Rightarrow> bool" where
  "relock_filter dt i now d \<longleftrightarrow>
     img_ID d = i \<and> img_Status d = image_Pending \<and> img_ExpiresAt d > dt now \<and> img_LockedUntil d \<le> dt now"

definition relock_update :: "(time \<Rightarrow> time) \<Rightarrow> string \<Rightarrow> time \<Rightarrow> image_document \<Rightarrow> image_document" where
  "relock_update dt token now d =
     d\<lparr>img_UploadToken := Some token, img_LockedUntil := dt (now + UploadLease)\<rparr>"

definition images_ReserveUpload ::
  "'s images_collection \<Rightarrow> asset \<Rightarrow> time \<Rightarrow> ('s, go_error, asset option \<times> bool) call" where
  "images_ReserveUpload C a now =
     (let d = reserved_document a now in
      attempt (InsertOne C (bson_image (DateTime C) d))
        (\<lambda>e. if \<not> is_duplicate_key e then fail e
             else
               orFail (FindOne C (\<lambda>d. img_UploadedBy d = ast_UploadedBy a \<and>
                                      img_ClientUploadID d = ast_ClientUploadID a) unsorted)
                 (\<lambda>e. e) (\<lambda>found.
               case found of
                 None \<Rightarrow> fail (DriverError ''no documents in result'')
               | Some existing \<Rightarrow>
                   if img_ChatID existing \<noteq> ast_ChatID a \<or> img_Checksum existing \<noteq> ast_Checksum a
                       \<or> img_SizeBytes existing \<noteq> ast_SizeBytes a
                   then fail (portsErr ErrImageUploadConflict)
                   else if img_Status existing = image_Ready \<or> img_Status existing = image_Attached then
                     (if img_Status existing = image_Ready \<and> \<not> img_ExpiresAt existing > now
                      then fail (portsErr ErrImageExpired)
                      else ret (Some (document_asset existing), False))
                   else if img_Status existing \<noteq> image_Pending \<or> \<not> img_ExpiresAt existing > now
                   then fail (portsErr ErrImageExpired)
                   else
                     orFail (FindOneAndUpdate C (relock_filter (DateTime C) (img_ID existing) now)
                               (relock_update (DateTime C) (ast_UploadToken a) now) unsorted)
                       (\<lambda>e. e) (\<lambda>locked.
                     case locked of
                       None \<Rightarrow> ret (Some (document_asset existing), False)
                     | Some d \<Rightarrow> ret (Some (document_asset d), True))))
        (\<lambda>_. ret (Some (document_asset d), True)))"

definition ready_filter :: "(time \<Rightarrow> time) \<Rightarrow> string \<Rightarrow> string \<Rightarrow> time \<Rightarrow> image_document \<Rightarrow> bool" where
  "ready_filter dt i token now d \<longleftrightarrow>
     img_ID d = i \<and> img_Status d = image_Pending \<and> img_UploadToken d = Some token \<and>
     img_ExpiresAt d > dt now \<and> img_LockedUntil d > dt now"

definition ready_update :: "(time \<Rightarrow> time) \<Rightarrow> time \<Rightarrow> image_document \<Rightarrow> image_document" where
  "ready_update dt now d =
     d\<lparr>img_Status := image_Ready, img_LockedUntil := dt now, img_UploadToken := None\<rparr>"

definition images_MarkReady ::
  "'s images_collection \<Rightarrow> string \<Rightarrow> string \<Rightarrow> time \<Rightarrow> ('s, go_error, bool) call" where
  "images_MarkReady C i token now =
     orFail (UpdateOne C (ready_filter (DateTime C) i token now) (ready_update (DateTime C) now))
       (\<lambda>e. e) (\<lambda>(matchedCount, modifiedCount). ret (modifiedCount = 1))"

definition release_filter :: "string \<Rightarrow> string \<Rightarrow> image_document \<Rightarrow> bool" where
  "release_filter i token d \<longleftrightarrow>
     img_ID d = i \<and> img_Status d = image_Pending \<and> img_UploadToken d = Some token"

definition release_update :: "(time \<Rightarrow> time) \<Rightarrow> image_document \<Rightarrow> image_document" where
  "release_update dt d = d\<lparr>img_LockedUntil := dt 0, img_UploadToken := None\<rparr>"

definition images_ReleaseUpload ::
  "'s images_collection \<Rightarrow> string \<Rightarrow> string \<Rightarrow> ('s, go_error, unit) call" where
  "images_ReleaseUpload C i token =
     orFail (UpdateOne C (release_filter i token) (release_update (DateTime C))) (\<lambda>e. e) (\<lambda>_. ret ())"

definition images_FindByID :: "'s images_collection \<Rightarrow> string \<Rightarrow> ('s, go_error, asset option) call" where
  "images_FindByID C i =
     orFail (FindOne C (\<lambda>d. img_ID d = i) unsorted) (\<lambda>e. e) (\<lambda>found.
       case found of
         None \<Rightarrow> fail (portsErr ErrImageNotFound)
       | Some d \<Rightarrow> ret (Some (document_asset d)))"

definition abandoned_filter :: "(time \<Rightarrow> time) \<Rightarrow> time \<Rightarrow> image_document \<Rightarrow> bool" where
  "abandoned_filter dt now d \<longleftrightarrow>
     img_Status d \<in> {image_Pending, image_Ready} \<and> img_ExpiresAt d \<le> dt now \<and> img_LockedUntil d \<le> dt now"

definition abandoned_update :: "(time \<Rightarrow> time) \<Rightarrow> time \<Rightarrow> string \<Rightarrow> image_document \<Rightarrow> image_document" where
  "abandoned_update dt now token d =
     d\<lparr>img_Status := image_Deleting, img_DeleteToken := Some token, img_DeleteStartedAt := dt now,
       img_CleanupAfter := dt now, img_LockedUntil := dt (now + UploadLease), img_UploadToken := None\<rparr>"

definition redelete_filter :: "(time \<Rightarrow> time) \<Rightarrow> time \<Rightarrow> image_document \<Rightarrow> bool" where
  "redelete_filter dt now d \<longleftrightarrow>
     img_Status d = image_Deleting \<and> img_CleanupAfter d \<le> dt now \<and> img_LockedUntil d \<le> dt now"

definition redelete_update :: "(time \<Rightarrow> time) \<Rightarrow> time \<Rightarrow> string \<Rightarrow> image_document \<Rightarrow> image_document" where
  "redelete_update dt now token d =
     d\<lparr>img_DeleteToken := Some token, img_LockedUntil := dt (now + UploadLease)\<rparr>"

definition images_ClaimAbandoned ::
  "'s images_collection \<Rightarrow> time \<Rightarrow> string \<Rightarrow> ('s, go_error, asset option) call" where
  "images_ClaimAbandoned C now token =
     orFail (FindOneAndUpdate C (abandoned_filter (DateTime C) now)
               (abandoned_update (DateTime C) now token) unsorted) (\<lambda>e. e) (\<lambda>claimed.
     case claimed of
       Some d \<Rightarrow> ret (Some (document_asset d))
     | None \<Rightarrow>
         orFail (FindOneAndUpdate C (redelete_filter (DateTime C) now)
                   (redelete_update (DateTime C) now token) unsorted) (\<lambda>e. e)
           (\<lambda>claimed. ret (map_option document_asset claimed)))"

definition complete_filter :: "asset \<Rightarrow> image_document \<Rightarrow> bool" where
  "complete_filter a d \<longleftrightarrow>
     img_ID d = ast_ID a \<and> img_Status d = image_Deleting \<and> img_DeleteToken d = Some (ast_DeleteToken a)"

definition complete_update :: "(time \<Rightarrow> time) \<Rightarrow> asset \<Rightarrow> time \<Rightarrow> image_document \<Rightarrow> image_document" where
  "complete_update dt a now d =
     (let d = d\<lparr>img_LockedUntil := dt now,
                img_CleanupAfter := dt (ast_DeleteStartedAt a + DeletionGrace),
                img_DeleteToken := None\<rparr>
      in if \<not> now < ast_DeleteStartedAt a + DeletionGrace
         then d\<lparr>img_Status := image_Deleted, img_DeletedAt := Some (dt now)\<rparr> else d)"

definition images_CompleteDeletion ::
  "'s images_collection \<Rightarrow> asset \<Rightarrow> time \<Rightarrow> ('s, go_error, unit) call" where
  "images_CompleteDeletion C a now =
     orFail (UpdateOne C (complete_filter a) (complete_update (DateTime C) a now)) (\<lambda>e. e) (\<lambda>_. ret ())"

definition mongo_image_repository :: "'s images_collection \<Rightarrow> 's image_repository" where
  "mongo_image_repository C =
     \<lparr>ImageReserveUpload = images_ReserveUpload C, ImageMarkReady = images_MarkReady C,
      ImageReleaseUpload = images_ReleaseUpload C, ImageFindByID = images_FindByID C,
      ImageClaimAbandoned = images_ClaimAbandoned C, ImageCompleteDeletion = images_CompleteDeletion C\<rparr>"

section \<open>The state machine\<close>

text \<open>
  The message store claims a READY image for a message of its uploader in its chat.
\<close>

definition attach_filter ::
  "(time \<Rightarrow> time) \<Rightarrow> string \<Rightarrow> string \<Rightarrow> string \<Rightarrow> time \<Rightarrow> image_document \<Rightarrow> bool" where
  "attach_filter dt imageID senderID chatID createdAt d \<longleftrightarrow>
     img_ID d = imageID \<and> img_UploadedBy d = senderID \<and> img_ChatID d = chatID \<and>
     img_Status d = image_Ready \<and> img_ExpiresAt d > dt createdAt"

definition attach_update :: "string \<Rightarrow> image_document \<Rightarrow> image_document" where
  "attach_update messageID d = d\<lparr>img_Status := image_Attached, img_MessageID := Some messageID\<rparr>"

inductive image_edit ::
  "(time \<Rightarrow> time) \<Rightarrow> (image_document \<Rightarrow> bool) \<Rightarrow> (image_document \<Rightarrow> image_document) \<Rightarrow> bool" for dt where
  relock: "image_edit dt (relock_filter dt i now) (relock_update dt token now)"
| ready: "image_edit dt (ready_filter dt i token now) (ready_update dt now)"
| release: "image_edit dt (release_filter i token) (release_update dt)"
| claim: "image_edit dt (abandoned_filter dt now) (abandoned_update dt now token)"
| reclaim: "image_edit dt (redelete_filter dt now) (redelete_update dt now token)"
| complete: "image_edit dt (complete_filter a) (complete_update dt a now)"
| attach: "image_edit dt (attach_filter dt i u c at) (attach_update mid)"

inductive image_step ::
  "(time \<Rightarrow> time) \<Rightarrow> image_document documents \<Rightarrow> image_document documents \<Rightarrow> bool" for dt where
  idle: "image_step dt m m"
| reserve: "m (img_ID d) = None \<Longrightarrow> (\<forall>x \<in> ran m. \<not> upload_clash x d) \<Longrightarrow> img_Status d = image_Pending \<Longrightarrow>
    img_MessageID d = None \<Longrightarrow> image_step dt m (m(img_ID d \<mapsto> d))"
| edit: "image_edit dt f u \<Longrightarrow> m (img_ID d) = Some d \<Longrightarrow> f d \<Longrightarrow>
    image_step dt m (m(img_ID d \<mapsto> u d))"

abbreviation image_steps ::
  "(time \<Rightarrow> time) \<Rightarrow> image_document documents \<Rightarrow> image_document documents \<Rightarrow> bool" where
  "image_steps dt \<equiv> (image_step dt)\<^sup>*\<^sup>*"

lemmas image_edit_defs = relock_filter_def relock_update_def ready_filter_def ready_update_def
  release_filter_def release_update_def abandoned_filter_def abandoned_update_def redelete_filter_def
  redelete_update_def complete_filter_def complete_update_def attach_filter_def attach_update_def

text \<open>The transitions between states, and what identifies an asset.\<close>

definition status_edge :: "string \<Rightarrow> string \<Rightarrow> bool" where
  "status_edge s t \<longleftrightarrow> s = t \<or>
     (s, t) \<in> {(image_Pending, image_Ready), (image_Pending, image_Deleting), (image_Ready, image_Attached),
               (image_Ready, image_Deleting), (image_Deleting, image_Deleted)}"

definition image_identity :: "image_document \<Rightarrow> string list \<times> int \<times> int \<times> int \<times> time \<times> time" where
  "image_identity d = ([img_ID d, img_UploadedBy d, img_ChatID d, img_ClientUploadID d, img_Bucket d,
     img_ObjectKey d, img_ContentType d, img_Checksum d], img_SizeBytes d, img_Width d, img_Height d,
     img_CreatedAt d, img_ExpiresAt d)"

lemma image_edit_effect:
  assumes "image_edit dt f u" "f d"
  shows "image_identity (u d) = image_identity d \<and> status_edge (img_Status d) (img_Status (u d)) \<and>
    img_Status d \<noteq> image_Attached \<and> img_Status d \<noteq> image_Deleted \<and>
    (img_MessageID d = None \<or> img_MessageID (u d) = img_MessageID d \<or> img_Status (u d) = image_Attached)"
  using assms
  by (cases rule: image_edit.cases)
    (auto simp: image_edit_defs Let_def image_identity_def status_edge_def image_status_defs)

lemma image_step_keeps:
  assumes "image_step dt m m'" "m i = Some d"
  shows "\<exists>d'. m' i = Some d' \<and> image_identity d' = image_identity d \<and>
    status_edge (img_Status d) (img_Status d') \<and>
    (img_Status d \<in> {image_Attached, image_Deleted} \<longrightarrow> d' = d)"
  using assms
proof (cases rule: image_step.cases)
  case (edit f u x)
  with image_edit_effect [OF edit(2,4)] assms(2) show ?thesis
    by (cases "i = img_ID x") (auto simp: status_edge_def)
qed (auto simp: status_edge_def)

lemma status_edge_Deleting:
  "status_edge s t \<Longrightarrow> s \<in> {image_Deleting, image_Deleted} \<Longrightarrow> t \<in> {image_Deleting, image_Deleted}"
  by (auto simp: status_edge_def image_status_defs)

text \<open>
  An attached image stays attached to its message, a deleted one stays deleted, and one that is
  being deleted is never used again, whatever all clients do.
\<close>

lemma image_steps_keep:
  assumes "image_steps dt m m'" "m i = Some d"
  shows "\<exists>d'. m' i = Some d' \<and> image_identity d' = image_identity d \<and>
    (img_Status d \<in> {image_Attached, image_Deleted} \<longrightarrow> d' = d) \<and>
    (img_Status d \<in> {image_Deleting, image_Deleted} \<longrightarrow> img_Status d' \<in> {image_Deleting, image_Deleted})"
  using assms(1)
proof (induction rule: rtranclp_induct)
  case base
  then show ?case using assms(2) by simp
next
  case (step m1 m2)
  then obtain d1 where d1: "m1 i = Some d1" "image_identity d1 = image_identity d"
    "img_Status d \<in> {image_Attached, image_Deleted} \<longrightarrow> d1 = d"
    "img_Status d \<in> {image_Deleting, image_Deleted} \<longrightarrow> img_Status d1 \<in> {image_Deleting, image_Deleted}"
    by blast
  from image_step_keeps [OF step.hyps(2) d1(1)] obtain d2 where d2: "m2 i = Some d2"
    "image_identity d2 = image_identity d1" "status_edge (img_Status d1) (img_Status d2)"
    "img_Status d1 \<in> {image_Attached, image_Deleted} \<longrightarrow> d2 = d1" by blast
  show ?case
  proof (intro exI conjI)
    show "m2 i = Some d2" "image_identity d2 = image_identity d" using d1 d2 by simp_all
    show "img_Status d \<in> {image_Attached, image_Deleted} \<longrightarrow> d2 = d" using d1(3) d2(4) by simp
    show "img_Status d \<in> {image_Deleting, image_Deleted} \<longrightarrow> img_Status d2 \<in> {image_Deleting, image_Deleted}"
      using d1(4) status_edge_Deleting [OF d2(3)] by blast
  qed
qed

section \<open>The contract\<close>

definition same_upload :: "asset \<Rightarrow> image_document \<Rightarrow> bool" where
  "same_upload a d \<longleftrightarrow>
     img_UploadedBy d = ast_UploadedBy a \<and> img_ClientUploadID d = ast_ClientUploadID a \<and>
     img_ChatID d = ast_ChatID a \<and> img_Checksum d = ast_Checksum a \<and> img_SizeBytes d = ast_SizeBytes a"

text \<open>
  A reservation inserts the candidate, or takes over the lease of the earlier upload with the same
  identity when that lease ended, or returns the earlier upload without owning it.
\<close>

definition upload_reserved ::
  "(time \<Rightarrow> time) \<Rightarrow> asset \<Rightarrow> time \<Rightarrow> asset option \<Rightarrow> bool
     \<Rightarrow> image_document documents \<Rightarrow> image_document documents \<Rightarrow> bool" where
  "upload_reserved prec a now reserved owned m m' \<longleftrightarrow>
     (if owned then
        m (ast_ID a) = None \<and> reserved = Some (document_asset (reserved_document a now)) \<and>
          m' = m(ast_ID a \<mapsto> bson_image prec (reserved_document a now)) \<or>
        (\<exists>d i. m i = Some d \<and> img_ID d = i \<and> same_upload a d \<and> relock_filter prec i now d \<and>
          reserved = Some (document_asset (relock_update prec (ast_UploadToken a) now d)) \<and>
          m' = m(i \<mapsto> relock_update prec (ast_UploadToken a) now d))
      else m' = m \<and> (\<exists>d i. m i = Some d \<and> img_ID d = i \<and> same_upload a d \<and> reserved = Some (document_asset d)))"

definition image_changed ::
  "(image_document \<Rightarrow> bool) \<Rightarrow> (image_document \<Rightarrow> image_document) \<Rightarrow> string
     \<Rightarrow> image_document documents \<Rightarrow> image_document documents \<Rightarrow> bool" where
  "image_changed f u i m m' \<longleftrightarrow> (\<exists>d. m i = Some d \<and> f d \<and> m' = m(i \<mapsto> u d))"

locale image_store =
  fixes R :: "'w image_repository"
    and images :: "'w \<Rightarrow> image_document documents"
    and prec :: "time \<Rightarrow> time"
  assumes Reserve_ok: "ImageReserveUpload R a now w = (w', Inr (reserved, owned)) \<Longrightarrow>
      upload_reserved prec a now reserved owned (images w) (images w')"
    and Ready_ok: "ImageMarkReady R i token now w = (w', Inr b) \<Longrightarrow>
      if b then image_changed (ready_filter prec i token now) (ready_update prec now) i (images w) (images w')
      else images w' = images w"
    and Release_any: "ImageReleaseUpload R i token w = (w', r) \<Longrightarrow>
      images w' = images w \<or> image_changed (release_filter i token) (release_update prec) i (images w) (images w')"
    and FindImage_ok: "ImageFindByID R i w = (w', Inr found) \<Longrightarrow>
      images w' = images w \<and> (\<exists>d. images w i = Some d \<and> img_ID d = i \<and> found = Some (document_asset d))"
    and Claim_ok: "ImageClaimAbandoned R now token w = (w', Inr claimed) \<Longrightarrow>
      (case claimed of
         None \<Rightarrow> images w' = images w
       | Some a \<Rightarrow> \<exists>d. images w (ast_ID a) = Some d \<and> img_ID d = ast_ID a \<and>
           (abandoned_filter prec now d \<and> a = document_asset (abandoned_update prec now token d) \<and>
              images w' = (images w)(ast_ID a \<mapsto> abandoned_update prec now token d) \<or>
            redelete_filter prec now d \<and> a = document_asset (redelete_update prec now token d) \<and>
              images w' = (images w)(ast_ID a \<mapsto> redelete_update prec now token d)))"
    and Image_steps:
      "follows (\<lambda>w w'. image_steps prec (images w) (images w')) (ImageReserveUpload R a now)"
      "follows (\<lambda>w w'. image_steps prec (images w) (images w')) (ImageMarkReady R i token now)"
      "follows (\<lambda>w w'. image_steps prec (images w) (images w')) (ImageReleaseUpload R i token)"
      "follows (\<lambda>w w'. image_steps prec (images w) (images w')) (ImageFindByID R i)"
      "follows (\<lambda>w w'. image_steps prec (images w) (images w')) (ImageClaimAbandoned R now token)"
      "follows (\<lambda>w w'. image_steps prec (images w) (images w')) (ImageCompleteDeletion R a now)"

section \<open>The adapter follows the state machine\<close>

locale image_collection =
  collection C img_ID upload_clash for C :: "('s, image_document) collection"
begin

abbreviation steps :: "'s \<Rightarrow> 's \<Rightarrow> bool" where
  "steps s s' \<equiv> image_steps (DateTime C) (docs C s) (docs C s')"

lemma steps_refl: "reflp steps" and steps_trans: "transp steps"
  by (auto simp: reflp_def transp_def)

lemma edits_step: "image_edit (DateTime C) f u \<Longrightarrow> edits f u s s' \<Longrightarrow> steps s s'"
  using image_step.edit by (fastforce simp: updated_def matching_docs)

lemma edit_follows:
  assumes "image_edit (DateTime C) f u"
  shows "follows steps (UpdateOne C f u)" "follows steps (FindOneAndUpdate C f u unsorted)"
  by (rule follows_mono [OF writers(1)], erule edits_step [OF assms])
    (rule follows_mono [OF writers(2) [OF linear_unsorted]], erule edits_step [OF assms])

lemma insert_follows:
  assumes "img_Status d = image_Pending" "img_MessageID d = None"
  shows "follows steps (InsertOne C d)"
  by (rule follows_mono [OF writers(3)]) (auto intro!: r_into_rtranclp image_step.reserve image_step.idle assms)

lemma read_follows: "follows steps (FindOne C f unsorted)"
  using readers(1) [OF linear_unsorted] unfolding follows_def keeps_def by simp

lemmas step_rules = follows_attempt [OF steps_trans] follows_orFail [OF steps_refl steps_trans]
  follows_pure [OF steps_refl] edit_follows insert_follows read_follows image_edit.intros

lemma repository_follows:
  shows "follows steps (images_ReserveUpload C a now)"
    and "follows steps (images_MarkReady C i token now)"
    and "follows steps (images_ReleaseUpload C i token)"
    and "follows steps (images_FindByID C i)"
    and "follows steps (images_ClaimAbandoned C now token)"
    and "follows steps (images_CompleteDeletion C a now)"
  unfolding images_ReserveUpload_def images_MarkReady_def images_ReleaseUpload_def images_FindByID_def
    images_ClaimAbandoned_def images_CompleteDeletion_def Let_def case_prod_beta
  by (auto intro!: step_rules simp: reserved_document_def bson_image_def split: option.splits)

lemma changedI:
  assumes "updated img_ID f u (docs C s) (docs C s') d" "\<And>d. f d \<Longrightarrow> img_ID d = i"
  shows "image_changed f u i (docs C s) (docs C s')"
  using assms by (auto simp: updated_def matching_docs image_changed_def)

lemma Reserve_cases:
  assumes "images_ReserveUpload C a now s = (s', Inr (reserved, owned))"
  shows "upload_reserved (DateTime C) a now reserved owned (docs C s) (docs C s')"
proof -
  let ?d = "bson_image (DateTime C) (reserved_document a now)"
  let ?same = "\<lambda>d. img_UploadedBy d = ast_UploadedBy a \<and> img_ClientUploadID d = ast_ClientUploadID a"
  have id: "img_ID ?d = ast_ID a" by (simp add: bson_image_def reserved_document_def)
  obtain s1 q where ins: "InsertOne C ?d s = (s1, q)" by fastforce
  show ?thesis
  proof (cases q)
    case (Inr u)
    then show ?thesis using assms ins InsertOne_ok [of ?d s s1] id
      by (auto simp: images_ReserveUpload_def Let_def upload_reserved_def)
  next
    case (Inl e)
    then have dup: "is_duplicate_key e" using assms ins by (auto simp: images_ReserveUpload_def Let_def split: if_splits)
    then have s1: "docs C s1 = docs C s" using InsertOne_err [OF ins [unfolded Inl]] by blast
    from assms ins Inl dup obtain existing s2 where f: "FindOne C ?same unsorted s1 = (s2, Inr (Some existing))"
      by (auto simp: images_ReserveUpload_def Let_def run_iff split: option.splits)
    from FindOne_ok [OF linear_unsorted f] obtain ds where s2: "docs C s2 = docs C s1"
      and ds: "listing ?same unsorted (docs C s1) ds" "Some existing = first ds" by blast
    have "existing \<in> matching ?same (docs C s)" using listing_first(2) [OF ds(1)] ds(2) s1 by simp
    then have ex: "docs C s (img_ID existing) = Some existing" "?same existing" by (simp_all add: matching_docs)
    let ?f = "relock_filter (DateTime C) (img_ID existing) now" and ?u = "relock_update (DateTime C) (ast_UploadToken a) now"
    note run = assms [unfolded images_ReserveUpload_def Let_def, simplified]
    have cont: "(if img_ChatID existing \<noteq> ast_ChatID a \<or> img_Checksum existing \<noteq> ast_Checksum a
                       \<or> img_SizeBytes existing \<noteq> ast_SizeBytes a
                   then fail (portsErr ErrImageUploadConflict)
                   else if img_Status existing = image_Ready \<or> img_Status existing = image_Attached then
                     (if img_Status existing = image_Ready \<and> \<not> img_ExpiresAt existing > now
                      then fail (portsErr ErrImageExpired)
                      else ret (Some (document_asset existing), False))
                   else if img_Status existing \<noteq> image_Pending \<or> \<not> img_ExpiresAt existing > now
                   then fail (portsErr ErrImageExpired)
                   else
                     orFail (FindOneAndUpdate C ?f ?u unsorted)
                       (\<lambda>e. e) (\<lambda>locked.
                     case locked of
                       None \<Rightarrow> ret (Some (document_asset existing), False)
                     | Some d \<Rightarrow> ret (Some (document_asset d), True))) s2 = (s', Inr (reserved, owned))"
      using assms ins Inl dup f by (simp add: images_ReserveUpload_def Let_def)
    then have same: "same_upload a existing" using ex(2) by (auto simp: same_upload_def split: if_splits)
    show ?thesis
    proof (cases "img_Status existing = image_Ready \<or> img_Status existing = image_Attached")
      case True
      then have "s' = s2" "reserved = Some (document_asset existing)" "\<not> owned"
        using cont by (auto split: if_splits)
      then show ?thesis using s1 s2 ex same by (auto simp: upload_reserved_def)
    next
      case False
      then obtain locked where u: "FindOneAndUpdate C ?f ?u unsorted s2 = (s', Inr locked)"
        and r: "(reserved, owned) = (case locked of None \<Rightarrow> (Some (document_asset existing), False)
                   | Some d \<Rightarrow> (Some (document_asset d), True))"
        using cont by (auto simp: run_iff split: if_splits option.splits)
      from FindOneAndUpdate_unsorted [OF u] show ?thesis
      proof (cases locked)
        case None
        then show ?thesis using FindOneAndUpdate_unsorted [OF u] r s1 s2 ex same by (auto simp: upload_reserved_def)
      next
        case (Some d')
        then obtain d where d: "updated img_ID ?f ?u (docs C s2) (docs C s') d" "d' = ?u d"
          using FindOneAndUpdate_unsorted [OF u] by auto
        then have d1: "docs C s (img_ID d) = Some d" "?f d" "docs C s' = (docs C s)(img_ID d \<mapsto> ?u d)"
          using s1 s2 by (auto simp: updated_def matching_docs)
        then have "d = existing" using ex by (simp add: relock_filter_def)
        then show ?thesis using d1 d(2) r Some same by (auto simp: upload_reserved_def relock_filter_def)
      qed
    qed
  qed
qed

lemma Ready_cases:
  assumes "images_MarkReady C i token now s = (s', Inr b)"
  shows "if b then image_changed (ready_filter (DateTime C) i token now) (ready_update (DateTime C) now) i (docs C s) (docs C s')
      else docs C s' = docs C s"
proof -
  let ?f = "ready_filter (DateTime C) i token now" and ?u = "ready_update (DateTime C) now"
  from assms obtain m n where u: "UpdateOne C ?f ?u s = (s', Inr (m, n))" and b: "b = (n = 1)"
    by (auto simp: images_MarkReady_def run_iff)
  have changes: "?u d \<noteq> d" if "?f d" for d
  proof
    assume same: "?u d = d"
    have "img_Status (?u d) = image_Ready" by (simp add: ready_update_def)
    with same that show False by (simp add: ready_filter_def image_status_defs)
  qed
  from UpdateOne_ok [OF u] show ?thesis
  proof (elim disjE exE conjE)
    fix d assume d: "updated img_ID ?f ?u (docs C s) (docs C s') d" "n = (if ?u d = d then 0 else 1)"
    then have "?f d" by (simp add: updated_def matching_def)
    then have "b" using changes d(2) b by simp
    moreover have "image_changed ?f ?u i (docs C s) (docs C s')"
      by (rule changedI [OF d(1)]) (simp add: ready_filter_def)
    ultimately show ?thesis by simp
  qed (use b in simp)
qed

lemma Release_cases:
  assumes "images_ReleaseUpload C i token s = (s', r)"
  shows "docs C s' = docs C s \<or> image_changed (release_filter i token) (release_update (DateTime C)) i (docs C s) (docs C s')"
proof -
  obtain s1 q where u: "UpdateOne C (release_filter i token) (release_update (DateTime C)) s = (s1, q)" by fastforce
  then have "s' = s1" using assms by (auto simp: images_ReleaseUpload_def orFail_iff)
  moreover have "edits (release_filter i token) (release_update (DateTime C)) s s1"
    using writers(1) u by (blast dest: followsD)
  ultimately show ?thesis using changedI [where f = "release_filter i token" and i = i]
    by (auto simp: release_filter_def)
qed

lemma FindByID_ok:
  assumes "images_FindByID C i s = (s', Inr found)"
  shows "docs C s' = docs C s \<and> (\<exists>d. docs C s i = Some d \<and> img_ID d = i \<and> found = Some (document_asset d))"
proof -
  from assms obtain d where f: "FindOne C (\<lambda>d. img_ID d = i) unsorted s = (s', Inr (Some d))"
    and "found = Some (document_asset d)"
    by (auto simp: images_FindByID_def run_iff split: option.splits)
  moreover from FindOne_key [OF f] have "docs C s' = docs C s" "docs C s i = Some d" by auto
  moreover from this(2) have "img_ID d = i" by (rule keyed)
  ultimately show ?thesis by blast
qed

lemma Claim_cases:
  assumes "images_ClaimAbandoned C now token s = (s', Inr claimed)"
  shows "case claimed of
         None \<Rightarrow> docs C s' = docs C s
       | Some a \<Rightarrow> \<exists>d. docs C s (ast_ID a) = Some d \<and> img_ID d = ast_ID a \<and>
           (abandoned_filter (DateTime C) now d \<and> a = document_asset (abandoned_update (DateTime C) now token d) \<and>
              docs C s' = (docs C s)(ast_ID a \<mapsto> abandoned_update (DateTime C) now token d) \<or>
            redelete_filter (DateTime C) now d \<and> a = document_asset (redelete_update (DateTime C) now token d) \<and>
              docs C s' = (docs C s)(ast_ID a \<mapsto> redelete_update (DateTime C) now token d))"
proof -
  let ?f = "abandoned_filter (DateTime C) now" and ?u = "abandoned_update (DateTime C) now token"
  let ?g = "redelete_filter (DateTime C) now" and ?v = "redelete_update (DateTime C) now token"
  from assms obtain s1 found where r: "FindOneAndUpdate C ?f ?u unsorted s = (s1, Inr found)"
    by (auto simp: images_ClaimAbandoned_def run_iff)
  show ?thesis
  proof (cases found)
    case (Some d')
    then obtain d where d: "updated img_ID ?f ?u (docs C s) (docs C s1) d" "d' = ?u d"
      using FindOneAndUpdate_unsorted [OF r] by auto
    moreover have "s' = s1" "claimed = Some (document_asset d')"
      using assms r Some by (auto simp: images_ClaimAbandoned_def)
    moreover have "ast_ID (document_asset (?u d)) = img_ID d" by (simp add: document_asset_def abandoned_update_def)
    ultimately show ?thesis by (auto simp: updated_def matching_docs)
  next
    case None
    then have s1: "docs C s1 = docs C s" using FindOneAndUpdate_unsorted [OF r] by simp
    from assms r None obtain found2 where r2: "FindOneAndUpdate C ?g ?v unsorted s1 = (s', Inr found2)"
      and c: "claimed = map_option document_asset found2"
      by (auto simp: images_ClaimAbandoned_def run_iff)
    show ?thesis
    proof (cases found2)
      case None
      then show ?thesis using FindOneAndUpdate_unsorted [OF r2] s1 c by simp
    next
      case (Some d')
      then obtain d where d: "updated img_ID ?g ?v (docs C s) (docs C s') d" "d' = ?v d"
        using FindOneAndUpdate_unsorted [OF r2] s1 by auto
      moreover have "ast_ID (document_asset (?v d)) = img_ID d" by (simp add: document_asset_def redelete_update_def)
      ultimately show ?thesis using c Some by (auto simp: updated_def matching_docs)
    qed
  qed
qed

sublocale image_store "mongo_image_repository C" "docs C" "DateTime C"
proof (unfold_locales, unfold mongo_image_repository_def image_repository.simps, goal_cases)
  case 1 then show ?case by (rule Reserve_cases)
next
  case 2 then show ?case by (rule Ready_cases)
next
  case 3 then show ?case by (rule Release_cases)
next
  case 4 then show ?case by (rule FindByID_ok)
next
  case 5 then show ?case by (rule Claim_cases)
qed (rule repository_follows)+

lemma repository_contract: "image_store (mongo_image_repository C) (docs C) (DateTime C)"
  by (rule image_store_axioms)

end

end
