(* ===== verification/Images.thy ===== *)
theory Images
  imports ChatStore ImageStore DomainTimeline
begin

text \<open>
  The image service (\<^verbatim>\<open>internal/application/images/service.go\<close>) and its clean-up loop
  (\<^verbatim>\<open>internal/drivers/worker/image_cleanup\<close>): an upload reserves an asset under a lease, stores
  the object and confirms it; an image is shown to the participants of its chat; abandoned uploads
  are deleted.  The object storage (\<^verbatim>\<open>internal/resources/garage\<close>, over the S3 client) and the
  body of the request are parameters.
\<close>

record 'w read_seeker =
  rs_Read :: "int \<Rightarrow> ('w, go_error, string) call"
  rs_Seek :: "int \<Rightarrow> int \<Rightarrow> ('w, go_error, int) call"

record 'w image_storage =
  StoragePut :: "asset \<Rightarrow> 'w read_seeker \<Rightarrow> ('w, go_error, unit) call"
  StorageDelete :: "string \<Rightarrow> string \<Rightarrow> ('w, go_error, unit) call"
  StoragePresignGet :: "asset \<Rightarrow> duration \<Rightarrow> ('w, go_error, string) call"

record 'w image_service =
  svc_images :: "'w image_repository"
  svc_storage :: "'w image_storage"
  svc_chats :: "'w chat_repository"
  svc_ids :: "'w id_generator"
  svc_clock :: "'w clock"
  svc_bucket :: string

record 'w upload_input =
  upl_UserID :: string
  upl_ChatID :: string
  upl_ClientUploadID :: string
  upl_ContentType :: string
  upl_Checksum :: string
  upl_SizeBytes :: int
  upl_Width :: int
  upl_Height :: int
  upl_Body :: "'w read_seeker option"

record image_metadata =
  imd_ID :: string
  imd_ContentType :: string
  imd_SizeBytes :: int
  imd_Width :: int
  imd_Height :: int

definition metadata :: "asset \<Rightarrow> image_metadata" where
  "metadata a = \<lparr>imd_ID = ast_ID a, imd_ContentType = ast_ContentType a,
     imd_SizeBytes = ast_SizeBytes a, imd_Width = ast_Width a, imd_Height = ast_Height a\<rparr>"

definition authorize :: "'w image_service \<Rightarrow> string \<Rightarrow> string \<Rightarrow> ('w, go_error, unit) call" where
  "authorize s userID chatID =
     orFail (lift (user_ParseID userID)) (\<lambda>_. portsErr ErrChatNotFound) (\<lambda>u.
     orFail (lift (chat_ParseID chatID)) (\<lambda>_. portsErr ErrChatNotFound) (\<lambda>c.
     orFail (ChatFindByID (svc_chats s) c) (\<lambda>e. e) (\<lambda>conversation.
     case conversation of
       None \<Rightarrow> fail (portsErr ErrChatNotFound)
     | Some chat \<Rightarrow> if \<not> HasParticipant chat u then fail (portsErr ErrChatNotFound) else ret ())))"

section \<open>Upload\<close>

definition invalid_upload :: "'w upload_input \<Rightarrow> bool" where
  "invalid_upload i \<longleftrightarrow>
     upl_Body i = None \<or> upl_SizeBytes i \<le> 0 \<or> upl_SizeBytes i > MaxBytes \<or>
     upl_Width i < 1 \<or> upl_Height i < 1 \<or> upl_Width i > MaxDimension \<or> upl_Height i > MaxDimension \<or>
     upl_Width i * upl_Height i > MaxPixels \<or> length (upl_Checksum i) \<noteq> 64 \<or>
     (upl_ContentType i \<noteq> ''image/jpeg'' \<and> upl_ContentType i \<noteq> ''image/png'')"

definition upload_candidate ::
  "'w image_service \<Rightarrow> 'w upload_input \<Rightarrow> string \<Rightarrow> string \<Rightarrow> time \<Rightarrow> asset" where
  "upload_candidate s i ident token now =
     \<lparr>ast_ID = ident, ast_UploadedBy = upl_UserID i, ast_ChatID = upl_ChatID i,
      ast_ClientUploadID = upl_ClientUploadID i, ast_Bucket = svc_bucket s,
      ast_ObjectKey = ''images/'' @ ident, ast_ContentType = upl_ContentType i,
      ast_Checksum = upl_Checksum i, ast_SizeBytes = upl_SizeBytes i, ast_Width = upl_Width i,
      ast_Height = upl_Height i, ast_Status = image_Pending, ast_MessageID = [],
      ast_UploadToken = token, ast_DeleteToken = [], ast_CreatedAt = now,
      ast_ExpiresAt = now + AbandonAfter, ast_DeleteStartedAt = 0\<rparr>"

text \<open>What happens under the lease; the lease is released on every way out.\<close>

definition storeReserved ::
  "'w image_service \<Rightarrow> asset \<Rightarrow> 'w read_seeker \<Rightarrow> ('w, go_error, image_metadata) call" where
  "storeReserved s a body =
     deferring (ImageReleaseUpload (svc_images s) (ast_ID a) (ast_UploadToken a)) (
     orFail (rs_Seek body 0 0) (\<lambda>e. e) (\<lambda>_.
     orFail (StoragePut (svc_storage s) a body) (Wrap ''store image'') (\<lambda>_.
     reads (svc_clock s) (\<lambda>now.
     orFail (ImageMarkReady (svc_images s) (ast_ID a) (ast_UploadToken a) now)
       (Wrap ''confirm stored image'') (\<lambda>ready.
     if \<not> ready then fail (portsErr ErrImageExpired) else ret (metadata a))))))"

definition uploadNormalized ::
  "'w image_service \<Rightarrow> 'w upload_input \<Rightarrow> ('w, go_error, image_metadata) call" where
  "uploadNormalized s input =
     (if invalid_upload input then fail (Sentinel (ImagesE Images_ErrInvalidUpload))
      else
        orFail (authorize s (upl_UserID input) (upl_ChatID input)) (\<lambda>e. e) (\<lambda>_.
        orFail (svc_ids s) (\<lambda>e. e) (\<lambda>ident.
        orFail (svc_ids s) (\<lambda>e. e) (\<lambda>token.
        reads (svc_clock s) (\<lambda>now.
        orFail (ImageReserveUpload (svc_images s) (upload_candidate s input ident token now) now)
          (\<lambda>e. e) (\<lambda>(reserved, acquired).
        case (reserved, upl_Body input) of
          (Some a, Some body) \<Rightarrow>
            if \<not> acquired then
              (if ast_Status a = image_Ready \<or> ast_Status a = image_Attached then ret (metadata a)
               else fail (portsErr ErrImageUploadBusy))
            else storeReserved s a body
        | _ \<Rightarrow> fail (Panic ''nil asset'')))))))"

definition Upload :: "'w image_service \<Rightarrow> 'w upload_input \<Rightarrow> ('w, go_error, image_metadata) call" where
  "Upload s input =
     orFail (lift (ParseClientMessageID (upl_ClientUploadID input)))
       (\<lambda>_. Sentinel (ImagesE Images_ErrInvalidUpload)) (\<lambda>clientUploadID.
     orFail (lift (chat_ParseID (upl_ChatID input))) (\<lambda>_. portsErr ErrChatNotFound) (\<lambda>chatID.
     uploadNormalized s (input\<lparr>upl_ClientUploadID := clientUploadID, upl_ChatID := chatID\<rparr>)))"

section \<open>Access\<close>

record image_access =
  acc_Metadata :: image_metadata
  acc_URL :: string
  acc_ExpiresAt :: time

definition access_ttl :: duration where "access_ttl = 10 * minute"

definition presignAccess ::
  "'w image_service \<Rightarrow> string \<Rightarrow> asset \<Rightarrow> ('w, go_error, image_access) call" where
  "presignAccess s userID a =
     orFail (authorize s userID (ast_ChatID a))
       (\<lambda>e. if errors_is e (PortsE ErrChatNotFound) then portsErr ErrImageNotFound else e) (\<lambda>_.
     reads (svc_clock s) (\<lambda>now.
     orFail (StoragePresignGet (svc_storage s) a access_ttl) (\<lambda>e. e) (\<lambda>url.
     ret \<lparr>acc_Metadata = metadata a, acc_URL = url, acc_ExpiresAt = now + access_ttl\<rparr>)))"

definition AccessImage :: "'w image_service \<Rightarrow> string \<Rightarrow> string \<Rightarrow> ('w, go_error, image_access) call" where
  "AccessImage s userID ident =
     orFail (ImageFindByID (svc_images s) ident) (\<lambda>e. e) (\<lambda>found.
     case found of
       None \<Rightarrow> fail (Panic ''nil asset'')
     | Some a \<Rightarrow>
         if ast_Status a = image_Attached then presignAccess s userID a
         else if ast_Status a = image_Ready \<and> ast_UploadedBy a = userID then
           reads (svc_clock s) (\<lambda>now.
             if ast_ExpiresAt a > now then presignAccess s userID a
             else fail (portsErr ErrImageNotFound))
         else fail (portsErr ErrImageNotFound))"

section \<open>Clean-up\<close>

text \<open>The Go function returns the flag together with the error, so a failure carries the flag.\<close>

definition CleanupOnce :: "'w image_service \<Rightarrow> ('w, bool \<times> go_error, bool) call" where
  "CleanupOnce s =
     orFail (svc_ids s) (Pair False) (\<lambda>token.
     reads (svc_clock s) (\<lambda>now.
     orFail (ImageClaimAbandoned (svc_images s) now token) (Pair False) (\<lambda>claimed.
     case claimed of
       None \<Rightarrow> ret False
     | Some a \<Rightarrow>
         orFail (StorageDelete (svc_storage s) (ast_Bucket a) (ast_ObjectKey a)) (Pair True) (\<lambda>_.
         reads (svc_clock s) (\<lambda>now.
         orFail (ImageCompleteDeletion (svc_images s) a now) (Pair True) (\<lambda>_. ret True))))))"

text \<open>
  A round of the loop handles at most 100 assets; between rounds it waits for a minute or until the
  context ends (\<open>sleep\<close> answers false).
\<close>

fun cleanup_batch :: "nat \<Rightarrow> ('w, bool \<times> go_error, bool) call \<Rightarrow> 'w go_context \<Rightarrow> ('w, go_error, unit) call" where
  "cleanup_batch 0 cleaner ctx = ret ()"
| "cleanup_batch (Suc n) cleaner ctx =
     attempt cleaner (\<lambda>err. attempt ctx (\<lambda>_. ret ()) (\<lambda>_. ret ()))
       (\<lambda>worked. if \<not> worked then ret () else cleanup_batch n cleaner ctx)"

fun cleanup_run ::
  "nat \<Rightarrow> ('w, bool \<times> go_error, bool) call \<Rightarrow> 'w go_context \<Rightarrow> (duration \<Rightarrow> 'w \<Rightarrow> 'w \<times> bool)
     \<Rightarrow> ('w, go_error, unit) call" where
  "cleanup_run 0 cleaner ctx sleep = ret ()"
| "cleanup_run (Suc fuel) cleaner ctx sleep =
     attempt ctx (\<lambda>_. ret ()) (\<lambda>_.
     attempt (cleanup_batch 100 cleaner ctx) (\<lambda>_. ret ()) (\<lambda>_.
     reads (sleep minute) (\<lambda>go_on. if \<not> go_on then ret () else cleanup_run fuel cleaner ctx sleep)))"

section \<open>What the service promises\<close>

text \<open>
  The ports of the service.  \<open>deleted\<close> observes the objects that were removed from the storage; only
  \<open>StorageDelete\<close> adds to it.
\<close>

locale image_ports =
  image_store "svc_images S" images prec + chats: chat_store "svc_chats S" chats prec
  for S :: "'w image_service" and images :: "'w \<Rightarrow> image_document documents"
    and chats :: "'w \<Rightarrow> chat_ID \<rightharpoonup> chat" and prec :: "time \<Rightarrow> time" +
  fixes deleted :: "'w \<Rightarrow> (string \<times> string) set"
  assumes find_chat_keeps: "keeps images (ChatFindByID (svc_chats S) c)" "keeps deleted (ChatFindByID (svc_chats S) c)"
    and ids_keep: "keeps images (svc_ids S)" "keeps deleted (svc_ids S)"
    and clock_keeps: "keeps images (svc_clock S)" "keeps deleted (svc_clock S)" "keeps chats (svc_clock S)"
    and put_keeps: "keeps images (StoragePut (svc_storage S) a body)"
    and presign_keeps: "keeps images (StoragePresignGet (svc_storage S) a ttl)"
    and delete_keeps: "keeps images (StorageDelete (svc_storage S) b k)"
    and delete_only: "StorageDelete (svc_storage S) b k w = (w', r) \<Longrightarrow> deleted w' \<subseteq> insert (b, k) (deleted w)"
    and find_image_keeps: "keeps chats (ImageFindByID (svc_images S) i)"
    and claim_keeps: "keeps deleted (ImageClaimAbandoned (svc_images S) now token)"
    and complete_keeps: "keeps deleted (ImageCompleteDeletion (svc_images S) a now)"
    and times: "prec (prec t) = prec t"
begin

abbreviation steps :: "'w \<Rightarrow> 'w \<Rightarrow> bool" where
  "steps w w' \<equiv> image_steps prec (images w) (images w')"

lemma steps_refl: "reflp steps" and steps_trans: "transp steps"
  by (auto simp: reflp_def transp_def)

lemma quiet: "keeps images m \<Longrightarrow> follows steps m"
  by (simp add: follows_def keeps_def)

lemma authorize_ok:
  assumes "authorize S userID chatID w = (w', Inr ok)"
  shows "images w' = images w \<and>
    (\<exists>y. chats w (TrimSpace chatID) = Some y \<and> HasParticipant (chat_restored y) (TrimSpace userID))"
proof -
  from assms obtain u c conversation where u: "user_ParseID userID = Inr u" "chat_ParseID chatID = Inr c"
    and f: "ChatFindByID (svc_chats S) c w = (w', Inr (Some conversation))" and "HasParticipant conversation u"
    by (auto simp: authorize_def run_iff split: option.splits if_splits)
  moreover have "u = TrimSpace userID" "c = TrimSpace chatID"
    using u by (auto simp: user_ParseID_def chat_ParseID_def Let_def split: if_splits)
  moreover have "images w' = images w" by (rule keepsD [OF find_chat_keeps(1) f])
  ultimately show ?thesis using chats.ChatFindByID_ok [OF f] by auto
qed

lemma authorize_keeps: "keeps images (authorize S userID chatID)"
  unfolding authorize_def by (auto intro!: frame find_chat_keeps split: option.splits)

lemma Access_ok:
  assumes "AccessImage S userID i w = (w', Inr access)"
  shows "\<exists>d y. images w i = Some d \<and> acc_Metadata access = metadata (document_asset d) \<and>
    (img_Status d = image_Attached \<or>
      img_Status d = image_Ready \<and> img_UploadedBy d = userID \<and>
      (\<exists>u u' now. svc_clock S u = (u', now) \<and> now < img_ExpiresAt d)) \<and>
    chats w (TrimSpace (img_ChatID d)) = Some y \<and> HasParticipant (chat_restored y) (TrimSpace userID)"
proof -
  from assms obtain a w1 where f: "ImageFindByID (svc_images S) i w = (w1, Inr (Some a))"
    by (auto simp: AccessImage_def run_iff split: option.splits)
  from FindImage_ok [OF f] obtain d where d: "images w i = Some d" "a = document_asset d" by auto
  have sel: "ast_Status a = img_Status d" "ast_UploadedBy a = img_UploadedBy d" "ast_ChatID a = img_ChatID d"
    "ast_ExpiresAt a = img_ExpiresAt d" by (simp_all add: d document_asset_def)
  have c1: "chats w1 = chats w" by (rule keepsD [OF find_image_keeps f])
  have "\<exists>w2. presignAccess S userID a w2 = (w', Inr access) \<and> chats w2 = chats w1 \<and>
    (img_Status d = image_Attached \<or> img_Status d = image_Ready \<and> img_UploadedBy d = userID \<and>
      (\<exists>u u' now. svc_clock S u = (u', now) \<and> now < img_ExpiresAt d))"
  proof (cases "img_Status d = image_Attached")
    case True
    then show ?thesis using assms f by (auto simp: AccessImage_def sel)
  next
    case False
    then have r: "img_Status d = image_Ready" "img_UploadedBy d = userID"
      using assms f by (auto simp: AccessImage_def sel split: if_splits)
    obtain w2 now where n: "svc_clock S w1 = (w2, now)" by fastforce
    with False r assms f have "now < img_ExpiresAt d" "presignAccess S userID a w2 = (w', Inr access)"
      by (auto simp: AccessImage_def sel split: if_splits)
    then show ?thesis using r n keepsD [OF clock_keeps(3) n] by blast
  qed
  then obtain w2 where p: "presignAccess S userID a w2 = (w', Inr access)" "chats w2 = chats w"
    and open_to: "img_Status d = image_Attached \<or> img_Status d = image_Ready \<and> img_UploadedBy d = userID \<and>
      (\<exists>u u' now. svc_clock S u = (u', now) \<and> now < img_ExpiresAt d)"
    using c1 by auto
  from p(1) obtain w3 ok where au: "authorize S userID (img_ChatID d) w2 = (w3, Inr ok)"
    and m: "acc_Metadata access = metadata a"
    by (auto simp: presignAccess_def run_iff sel)
  from authorize_ok [OF au] p(2) obtain y where "chats w (TrimSpace (img_ChatID d)) = Some y"
    "HasParticipant (chat_restored y) (TrimSpace userID)" by auto
  then show ?thesis using d m open_to by blast
qed

text \<open>Every run of the service is a run of the state machine of the assets.\<close>

lemmas step_rules = follows_attempt [OF steps_trans] follows_orFail [OF steps_refl steps_trans]
  follows_reads [OF steps_trans] follows_deferring [OF steps_trans] follows_pure [OF steps_refl] Image_steps
  quiet [OF ids_keep(1)] quiet [OF put_keeps] quiet [OF presign_keeps] quiet [OF delete_keeps]
  quiet [OF authorize_keeps]

lemma clock_follows: "follows steps (svc_clock S)"
  using clock_keeps(1) by (simp add: follows_def keeps_def)

lemma Access_steps: "follows steps (AccessImage S userID i)"
  unfolding AccessImage_def presignAccess_def
  by (auto intro!: step_rules clock_follows split: option.splits)

lemma Cleanup_steps: "follows steps (CleanupOnce S)"
  unfolding CleanupOnce_def by (auto intro!: step_rules clock_follows split: option.splits)

lemma Upload_steps:
  assumes "\<And>body. upl_Body input = Some body \<Longrightarrow> keeps images (rs_Seek body 0 0)"
  shows "follows steps (Upload S input)"
  unfolding Upload_def uploadNormalized_def storeReserved_def case_prod_beta
  by (auto intro!: step_rules clock_follows quiet [OF assms] split: option.splits)

text \<open>
  Clean-up removes at most the object of one asset, which was abandoned (never attached to a
  message, expired, not being uploaded) or already being deleted, and which stays out of use.
\<close>

lemma Cleanup_deletes:
  assumes "CleanupOnce S w = (w', r)"
  shows "deleted w' \<subseteq> deleted w \<or>
    (\<exists>d d' now. images w (img_ID d) = Some d \<and> (abandoned_filter prec now d \<or> redelete_filter prec now d) \<and>
       deleted w' \<subseteq> insert (img_Bucket d, img_ObjectKey d) (deleted w) \<and>
       images w' (img_ID d) = Some d' \<and> img_Status d' \<in> {image_Deleting, image_Deleted})"
proof -
  obtain w1 q1 where i: "svc_ids S w = (w1, q1)" by fastforce
  have v1: "images w1 = images w" "deleted w1 = deleted w" using keepsD ids_keep i by metis+
  obtain w2 now where n: "svc_clock S w1 = (w2, now)" by fastforce
  have v2: "images w2 = images w" "deleted w2 = deleted w" using keepsD clock_keeps n v1 by metis+
  show ?thesis
  proof (cases q1)
    case (Inl e)
    then show ?thesis using assms i v1 by (auto simp: CleanupOnce_def)
  next
    case (Inr token)
    obtain w3 q3 where c: "ImageClaimAbandoned (svc_images S) now token w2 = (w3, q3)" by fastforce
    have v3: "deleted w3 = deleted w" using keepsD [OF claim_keeps c] v2 by simp
    show ?thesis
    proof (cases "\<exists>a. q3 = Inr (Some a)")
      case False
      then have "w' = w3" using assms i Inr n c
        by (cases q3) (auto simp: CleanupOnce_def split: option.splits)
      then show ?thesis using v3 by simp
    next
      case True
      then obtain a where a: "q3 = Inr (Some a)" by blast
      from Claim_ok [OF c [unfolded a]] obtain d d3 where d: "images w2 (ast_ID a) = Some d" "img_ID d = ast_ID a"
          "abandoned_filter prec now d \<or> redelete_filter prec now d"
        and d3: "images w3 (ast_ID a) = Some d3" "a = document_asset d3" "img_Status d3 = image_Deleting"
          "img_Bucket d3 = img_Bucket d" "img_ObjectKey d3 = img_ObjectKey d"
        by (auto simp: abandoned_update_def redelete_update_def redelete_filter_def)
      have key: "ast_Bucket a = img_Bucket d" "ast_ObjectKey a = img_ObjectKey d"
        using d3 by (simp_all add: document_asset_def)
      obtain w4 q4 where del: "StorageDelete (svc_storage S) (ast_Bucket a) (ast_ObjectKey a) w3 = (w4, q4)" by fastforce
      have v4: "images w4 = images w3" "deleted w4 \<subseteq> insert (img_Bucket d, img_ObjectKey d) (deleted w)"
        using keepsD [OF delete_keeps del] delete_only [OF del] key v3 by auto
      have rest: "deleted w' \<subseteq> insert (img_Bucket d, img_ObjectKey d) (deleted w) \<and> steps w4 w'"
      proof (cases q4)
        case (Inl e)
        then have "w' = w4" using assms i Inr n c a del by (auto simp: CleanupOnce_def)
        then show ?thesis using v4 by simp
      next
        case (Inr u)
        obtain w5 now' where n': "svc_clock S w4 = (w5, now')" by fastforce
        obtain w6 q6 where m: "ImageCompleteDeletion (svc_images S) a now' w5 = (w6, q6)" by fastforce
        have "w' = w6" using assms i \<open>q1 = Inr token\<close> n c a del Inr n' m
          by (cases q6) (auto simp: CleanupOnce_def)
        moreover have "images w5 = images w4" "deleted w5 = deleted w4" using keepsD clock_keeps n' by metis+
        moreover have "deleted w6 = deleted w5" by (rule keepsD [OF complete_keeps m])
        ultimately show ?thesis using v4 followsD [OF Image_steps(6) m] by simp
      qed
      then have "image_steps prec (images w3) (images w')" using v4(1) by simp
      from image_steps_keep [OF this d3(1)] d3(3) obtain d' where d': "images w' (ast_ID a) = Some d'"
          "img_Status d' \<in> {image_Deleting, image_Deleted}"
        by auto
      have id: "ast_ID a = img_ID d" and "images w (img_ID d) = Some d" using d v2(1) by simp_all
      with d(3) rest d' show ?thesis by (metis (no_types))
    qed
  qed
qed

text \<open>A reservation names a stored asset of the same upload.\<close>

lemma reserved_stored:
  assumes "upload_reserved prec a now (Some x) owned m m'"
  shows "\<exists>d. m' (ast_ID x) = Some d \<and> metadata x = metadata (document_asset d) \<and>
    ast_Status x = img_Status d \<and> same_upload a d \<and> (\<not> owned \<longrightarrow> m' = m)"
proof (cases owned)
  case True
  with assms consider
      (new) "x = document_asset (reserved_document a now)" "m' = m(ast_ID a \<mapsto> bson_image prec (reserved_document a now))"
    | (old) d i where "m i = Some d" "img_ID d = i" "same_upload a d"
        "x = document_asset (relock_update prec (ast_UploadToken a) now d)"
        "m' = m(i \<mapsto> relock_update prec (ast_UploadToken a) now d)"
    by (auto simp: upload_reserved_def)
  then show ?thesis
  proof cases
    case new
    then show ?thesis using True
      by (simp add: metadata_def document_asset_def bson_image_def reserved_document_def same_upload_def)
  next
    case old
    then show ?thesis using True
      by (simp add: metadata_def document_asset_def relock_update_def same_upload_def)
  qed
next
  case False
  with assms obtain d i where "m' = m" "m i = Some d" "img_ID d = i" "same_upload a d" "x = document_asset d"
    by (auto simp: upload_reserved_def)
  then show ?thesis by (simp add: document_asset_def)
qed

lemma storeReserved_ok:
  assumes "storeReserved S a body w = (w', Inr md)" and "images w (ast_ID a) = Some d"
    and seek: "keeps images (rs_Seek body 0 0)"
  shows "md = metadata a \<and> (\<exists>now. images w' (ast_ID a) = Some (ready_update prec now d)) \<and>
    (\<exists>w1 w2. StoragePut (svc_storage S) a body w1 = (w2, Inr ()) \<and> images w1 = images w)"
proof -
  from assms(1) obtain n w1 w2 w3 w4 now
    where k: "rs_Seek body 0 0 w = (w1, Inr n)" and p: "StoragePut (svc_storage S) a body w1 = (w2, Inr ())"
      and t: "svc_clock S w2 = (w3, now)"
      and m: "ImageMarkReady (svc_images S) (ast_ID a) (ast_UploadToken a) now w3 = (w4, Inr True)"
      and md: "md = metadata a"
      and w': "w' = fst (ImageReleaseUpload (svc_images S) (ast_ID a) (ast_UploadToken a) w4)"
    by (auto simp: storeReserved_def deferring_iff run_iff split: if_splits)
  have v1: "images w1 = images w" by (rule keepsD [OF seek k])
  have "images w3 = images w" using v1 keepsD [OF put_keeps p] keepsD [OF clock_keeps(1) t] by simp
  moreover have "image_changed (ready_filter prec (ast_ID a) (ast_UploadToken a) now) (ready_update prec now)
      (ast_ID a) (images w3) (images w4)"
    using Ready_ok [OF m] by simp
  ultimately have v4: "images w4 (ast_ID a) = Some (ready_update prec now d)"
    using assms(2) by (auto simp: image_changed_def)
  then have "\<not> image_changed (release_filter (ast_ID a) (ast_UploadToken a)) (release_update prec)
      (ast_ID a) (images w4) (images w')"
    by (auto simp: image_changed_def release_filter_def ready_update_def image_status_defs)
  then have "images w' = images w4"
    using Release_any [of "ast_ID a" "ast_UploadToken a" w4] w' by (metis prod.collapse)
  then show ?thesis using md v4 p v1 by auto
qed

text \<open>
  An upload that returns is valid, was made by a participant of its chat, and left a READY or
  ATTACHED asset with the returned metadata; unless that asset was there before, its content was
  put into the storage first.
\<close>

lemma Upload_ok:
  assumes "Upload S input w = (w', Inr md)"
    and seek: "\<And>body. upl_Body input = Some body \<Longrightarrow> keeps images (rs_Seek body 0 0)"
  shows "\<exists>y d body. \<not> invalid_upload input \<and> chats w (TrimSpace (upl_ChatID input)) = Some y \<and>
    HasParticipant (chat_restored y) (TrimSpace (upl_UserID input)) \<and>
    images w' (imd_ID md) = Some d \<and> md = metadata (document_asset d) \<and>
    img_Status d \<in> {image_Ready, image_Attached} \<and> img_UploadedBy d = upl_UserID input \<and>
    img_ChatID d = TrimSpace (upl_ChatID input) \<and>
    ParseClientMessageID (upl_ClientUploadID input) = Inr (img_ClientUploadID d) \<and>
    img_Checksum d = upl_Checksum input \<and> img_SizeBytes d = upl_SizeBytes input \<and>
    (images w' = images w \<or>
      upl_Body input = Some body \<and>
      (\<exists>a w1 w2. metadata a = md \<and> StoragePut (svc_storage S) a body w1 = (w2, Inr ())))"
proof -
  from assms(1) obtain cid chat where cid: "ParseClientMessageID (upl_ClientUploadID input) = Inr cid"
    and chat_id: "chat = TrimSpace (upl_ChatID input)"
    and run: "uploadNormalized S (input\<lparr>upl_ClientUploadID := cid, upl_ChatID := chat\<rparr>) w = (w', Inr md)"
    by (auto simp: Upload_def run_iff)
  define inp where "inp = input\<lparr>upl_ClientUploadID := cid, upl_ChatID := chat\<rparr>"
  have sel: "upl_ChatID inp = chat" "upl_UserID inp = upl_UserID input" "upl_Body inp = upl_Body input"
    "upl_ClientUploadID inp = cid" "upl_Checksum inp = upl_Checksum input" "upl_SizeBytes inp = upl_SizeBytes input"
    "invalid_upload inp = invalid_upload input"
    by (simp_all add: inp_def invalid_upload_def)
  from run [folded inp_def] obtain ok w1 w2 w3 w4 w5 ident token now reserved owned
    where valid: "\<not> invalid_upload inp"
      and au: "authorize S (upl_UserID inp) (upl_ChatID inp) w = (w1, Inr ok)"
      and i1: "svc_ids S w1 = (w2, Inr ident)" and i2: "svc_ids S w2 = (w3, Inr token)"
      and t: "svc_clock S w3 = (w4, now)"
      and r: "ImageReserveUpload (svc_images S) (upload_candidate S inp ident token now) now w4
                = (w5, Inr (reserved, owned))"
      and cont: "(case (reserved, upl_Body inp) of
         (Some a, Some body) \<Rightarrow>
           if \<not> owned then
             (if ast_Status a = image_Ready \<or> ast_Status a = image_Attached then ret (metadata a)
              else fail (portsErr ErrImageUploadBusy))
           else storeReserved S a body
       | _ \<Rightarrow> fail (Panic ''nil asset'')) w5 = (w', Inr md)"
    unfolding uploadNormalized_def if_fail_ok run_iff split_paired_Ex prod.case by blast
  have v4: "images w4 = images w"
    using authorize_ok [OF au] keepsD [OF ids_keep(1) i1] keepsD [OF ids_keep(1) i2] keepsD [OF clock_keeps(1) t]
    by simp
  from authorize_ok [OF au] obtain y where y: "chats w (TrimSpace chat) = Some y"
    "HasParticipant (chat_restored y) (TrimSpace (upl_UserID input))" by (auto simp: sel)
  from cont obtain x body where x: "reserved = Some x" and body: "upl_Body input = Some body"
    by (auto simp: sel split: option.splits)
  let ?a = "upload_candidate S inp ident token now"
  from reserved_stored [OF Reserve_ok [OF r, unfolded x]] v4 obtain d
    where d: "images w5 (ast_ID x) = Some d" "metadata x = metadata (document_asset d)"
      "ast_Status x = img_Status d" "same_upload ?a d" "\<not> owned \<longrightarrow> images w5 = images w" by auto
  have same: "img_UploadedBy d = upl_UserID input" "img_ChatID d = chat" "img_ClientUploadID d = cid"
    "img_Checksum d = upl_Checksum input" "img_SizeBytes d = upl_SizeBytes input"
    using d(4) by (simp_all add: same_upload_def upload_candidate_def sel)
  note facts = y body same cid chat_id valid [unfolded sel]
  show ?thesis
  proof (cases owned)
    case False
    then have w': "w' = w5" "md = metadata x" "img_Status d \<in> {image_Ready, image_Attached}"
      using cont x body d(3) by (auto simp: sel split: if_splits)
    have "imd_ID md = ast_ID x" by (simp add: w' metadata_def)
    then show ?thesis using facts w' d False by auto
  next
    case True
    then have st: "storeReserved S x body w5 = (w', Inr md)" using cont x body by (simp add: sel)
    from storeReserved_ok [OF st d(1) seek [OF body]] obtain at wa wb
      where md: "md = metadata x" "images w' (ast_ID x) = Some (ready_update prec at d)"
        and p: "StoragePut (svc_storage S) x body wa = (wb, Inr ())" by blast
    have "imd_ID md = ast_ID x" "md = metadata (document_asset (ready_update prec at d))"
      using md d(2) by (simp_all add: metadata_def document_asset_def ready_update_def)
    moreover have "img_Status (ready_update prec at d) = image_Ready"
      "img_UploadedBy (ready_update prec at d) = img_UploadedBy d" "img_ChatID (ready_update prec at d) = img_ChatID d"
      "img_ClientUploadID (ready_update prec at d) = img_ClientUploadID d"
      "img_Checksum (ready_update prec at d) = img_Checksum d" "img_SizeBytes (ready_update prec at d) = img_SizeBytes d"
      by (simp_all add: ready_update_def)
    moreover have "\<exists>a w1 w2. metadata a = md \<and> StoragePut (svc_storage S) a body w1 = (w2, Inr ())"
      using p md(1) by metis
    ultimately show ?thesis using facts md(2) by (intro exI [of _ y] exI [of _ "ready_update prec at d"] exI [of _ body]) auto
  qed
qed

end

end
