(* ===== verification/TimelineDocs.thy ===== *)
theory TimelineDocs
  imports DomainTimeline MongoMemory
begin

text \<open>
  The documents of the timeline collection, which the message store writes and the timeline
  repository reads, and their conversion to timeline items.  Documents from before sequences and
  client message identifiers lack these two fields; decoding such a document leaves their zero
  values.
\<close>

record message_content_document =
  mcd_Type :: string
  mcd_Value :: string
  mcd_ImageID :: string
  mcd_Caption :: string

record message_document =
  mdd_ClientMessageID :: "string option"
  mdd_SenderID :: string
  mdd_Content :: message_content_document

record timeline_document =
  tld_ID :: string
  tld_ChatID :: string
  tld_Sequence :: "int option"
  tld_Kind :: string
  tld_CreatedAt :: time
  tld_UpdatedAt :: time
  tld_Message :: message_document

type_synonym 's timeline_collection = "('s, timeline_document) collection"

definition decoded_sequence :: "timeline_document \<Rightarrow> int" where
  "decoded_sequence d = (case tld_Sequence d of None \<Rightarrow> 0 | Some n \<Rightarrow> n)"

definition decoded_clientMessageID :: "timeline_document \<Rightarrow> string" where
  "decoded_clientMessageID d = (case mdd_ClientMessageID (tld_Message d) of None \<Rightarrow> [] | Some c \<Rightarrow> c)"

text \<open>
  Both packages convert a document in the same way; they differ in the sentinel \<open>bad\<close> they wrap.
\<close>

definition timeline_toDomain :: "go_error \<Rightarrow> timeline_document \<Rightarrow> go_error + item" where
  "timeline_toDomain bad document =
     andThen (timeline_ParseID (tld_ID document)) (\<lambda>_. Wrap ''parse item id'' bad) (\<lambda>itemID.
     andThen (chat_ParseID (tld_ChatID document)) (\<lambda>_. Wrap ''parse chat id'' bad) (\<lambda>chatID.
     andThen (ParseSequence (decoded_sequence document)) (\<lambda>_. Wrap ''parse sequence'' bad) (\<lambda>seqn.
     andThen (ParseKind (tld_Kind document)) (\<lambda>_. Wrap ''unsupported item kind'' bad) (\<lambda>kind.
     require (\<not> kind \<noteq> KindMessage) (Wrap ''unsupported item kind'' bad) (
     andThen (ParseClientMessageID (decoded_clientMessageID document))
       (\<lambda>_. Wrap ''parse client message id'' bad) (\<lambda>clientMessageID.
     andThen (user_ParseID (mdd_SenderID (tld_Message document)))
       (\<lambda>_. Wrap ''parse sender id'' bad) (\<lambda>senderID.
     andThen (ParseContentType (mcd_Type (mdd_Content (tld_Message document))))
       (\<lambda>_. Wrap ''parse content type'' bad) (\<lambda>contentType.
     andThen (RestoreContent contentType (mcd_Value (mdd_Content (tld_Message document)))
                (mcd_ImageID (mdd_Content (tld_Message document)))
                (mcd_Caption (mdd_Content (tld_Message document))))
       (\<lambda>_. Wrap ''restore content'' bad) (\<lambda>content.
     andThen (NewMessage clientMessageID senderID content) (\<lambda>_. Wrap ''restore message'' bad) (\<lambda>msg.
     andThen (RestoreMessage itemID chatID seqn (tld_CreatedAt document) (tld_UpdatedAt document) msg)
       (\<lambda>_. Wrap ''restore timeline item'' bad) (\<lambda>item.
     Inr item)))))))))))"

definition stored_item_toDomain :: "timeline_document \<Rightarrow> go_error + item" where
  "stored_item_toDomain = timeline_toDomain (storeErr Store_ErrInvalidStoredDocument)"

definition listed_item_toDomain :: "timeline_document \<Rightarrow> go_error + item" where
  "listed_item_toDomain = timeline_toDomain (storeErr Store_ErrInvalidDocument)"

definition bson_item :: "(time \<Rightarrow> time) \<Rightarrow> timeline_document \<Rightarrow> timeline_document" where
  "bson_item dt d = d\<lparr>tld_CreatedAt := dt (tld_CreatedAt d), tld_UpdatedAt := dt (tld_UpdatedAt d)\<rparr>"

text \<open>
  The two unique indexes: the sequence within a chat, and the client message identifier of a
  sender; both are partial, on documents that have the field.
\<close>

definition sequence_clash :: "timeline_document \<Rightarrow> timeline_document \<Rightarrow> bool" where
  "sequence_clash x y \<longleftrightarrow>
     tld_ChatID x = tld_ChatID y \<and> tld_Sequence x = tld_Sequence y \<and> tld_Sequence x \<noteq> None"

definition client_message_clash :: "timeline_document \<Rightarrow> timeline_document \<Rightarrow> bool" where
  "client_message_clash x y \<longleftrightarrow>
     mdd_SenderID (tld_Message x) = mdd_SenderID (tld_Message y) \<and>
     mdd_ClientMessageID (tld_Message x) = mdd_ClientMessageID (tld_Message y) \<and>
     mdd_ClientMessageID (tld_Message x) \<noteq> None"

definition timeline_clash :: "timeline_document \<Rightarrow> timeline_document \<Rightarrow> bool" where
  "timeline_clash x y \<longleftrightarrow> sequence_clash x y \<or> client_message_clash x y"

lemma ToUpper_ContentTypes [simp]:
  "ToUpper KindMessage = KindMessage" "ToUpper ContentTypeText = ContentTypeText"
  "ToUpper ContentTypeImage = ContentTypeImage" "TrimSpace KindMessage = KindMessage"
  "TrimSpace ContentTypeText = ContentTypeText" "TrimSpace ContentTypeImage = ContentTypeImage"
  by code_simp+

lemma ParseContentType_ok:
  "ParseContentType raw = Inr t \<longleftrightarrow> t = ToUpper (TrimSpace raw) \<and> (t = ContentTypeText \<or> t = ContentTypeImage)"
  by (auto simp: ParseContentType_def Let_def)

lemma ParseKind_ok: "ParseKind raw = Inr k \<longleftrightarrow> k = KindMessage \<and> ToUpper (TrimSpace raw) = KindMessage"
  by (auto simp: ParseKind_def Let_def)

text \<open>A converted item has the fields of its document, with the identifiers parsed again.\<close>

definition document_item ::
  "timeline_document \<Rightarrow> client_message_ID \<Rightarrow> message_content \<Rightarrow> item" where
  "document_item d cid content =
     \<lparr>itm_id = TrimSpace (tld_ID d), itm_chatID = TrimSpace (tld_ChatID d),
      itm_sequence = decoded_sequence d, itm_kind = KindMessage,
      itm_createdAt = tld_CreatedAt d, itm_updatedAt = tld_UpdatedAt d,
      itm_message = \<lparr>msg_clientMessageID = cid,
        msg_senderID = TrimSpace (mdd_SenderID (tld_Message d)), msg_content = content\<rparr>\<rparr>"

lemma timeline_toDomain_ok:
  "timeline_toDomain bad d = Inr x \<longleftrightarrow>
     TrimSpace (tld_ID d) \<noteq> [] \<and> TrimSpace (tld_ChatID d) \<noteq> [] \<and>
     0 < decoded_sequence d \<and> decoded_sequence d \<le> MaxSequence \<and>
     ToUpper (TrimSpace (tld_Kind d)) = KindMessage \<and> TrimSpace (mdd_SenderID (tld_Message d)) \<noteq> [] \<and>
     tld_CreatedAt d \<noteq> 0 \<and> tld_UpdatedAt d \<noteq> 0 \<and> tld_CreatedAt d \<le> tld_UpdatedAt d \<and>
     (\<exists>cid t content. ParseClientMessageID (decoded_clientMessageID d) = Inr cid \<and>
       ParseContentType (mcd_Type (mdd_Content (tld_Message d))) = Inr t \<and>
       RestoreContent t (mcd_Value (mdd_Content (tld_Message d)))
         (mcd_ImageID (mdd_Content (tld_Message d))) (mcd_Caption (mdd_Content (tld_Message d))) = Inr content \<and>
       x = document_item d cid content)"
  unfolding timeline_toDomain_def run_iff RestoreMessage_ok NewMessage_ok ParseKind_ok
  by (auto simp: document_item_def dest: ParseClientMessageID_canonical RestoreContent_valid)

lemma timeline_toDomain_err:
  "timeline_toDomain bad d = Inl e \<Longrightarrow> \<exists>m. e = Wrap m bad"
  by (auto simp: timeline_toDomain_def andThen_def require_def split: sum.splits if_splits)

end
