(* ===== verification/OutboxStore.thy ===== *)
theory OutboxStore
  imports ImageStore
begin

text \<open>
  The transactional outbox: the port types of \<^verbatim>\<open>internal/ports/outbox.go\<close> and the repository
  \<^verbatim>\<open>internal/resources/mongodb/outbox_repository\<close>.  An event is PENDING until a worker claims it
  under a lease (PROCESSING); the owner of the lease marks it PUBLISHED or FAILED or schedules a
  retry, and a lease that expired is taken back.  The relation \<open>outbox_step\<close> is the state machine
  every operation follows.
\<close>

section \<open>The ports\<close>

record outbox_content =
  oc_Type :: string
  oc_Value :: string
  oc_ImageID :: string
  oc_Caption :: string

record message_created_payload =
  mcp_MessageID :: string
  mcp_ClientMessageID :: string
  mcp_ChatID :: string
  mcp_Sequence :: int
  mcp_SenderID :: string
  mcp_Content :: outbox_content
  mcp_CreatedAt :: time

record outbox_event =
  oev_ID :: string
  oev_AggregateType :: string
  oev_AggregateID :: string
  oev_EventType :: string
  oev_Payload :: message_created_payload
  oev_Attempts :: int
  oev_LeaseID :: string

record publish_receipt =
  rcp_Stream :: string
  rcp_Sequence :: nat

record 'w outbox_store =
  OutboxClaimNext :: "string \<Rightarrow> string \<Rightarrow> time \<Rightarrow> duration \<Rightarrow> ('w, go_error, outbox_event option) call"
  OutboxMarkPublished :: "string \<Rightarrow> string \<Rightarrow> publish_receipt \<Rightarrow> time \<Rightarrow> ('w, go_error, bool) call"
  OutboxScheduleRetry :: "string \<Rightarrow> string \<Rightarrow> time \<Rightarrow> string \<Rightarrow> ('w, go_error, bool) call"
  OutboxMarkFailed :: "string \<Rightarrow> string \<Rightarrow> time \<Rightarrow> string \<Rightarrow> ('w, go_error, bool) call"

type_synonym 'w event_publisher = "outbox_event \<Rightarrow> ('w, go_error, publish_receipt) call"
type_synonym 'w outbox_lease_recoverer = "time \<Rightarrow> int \<Rightarrow> ('w, go_error, int) call"

section \<open>The MongoDB adapter\<close>

record event_content_document =
  ecd_Type :: string
  ecd_Value :: string
  ecd_ImageID :: string
  ecd_Caption :: string

record payload_document =
  pld_MessageID :: string
  pld_ClientMessageID :: string
  pld_ChatID :: string
  pld_Sequence :: int
  pld_SenderID :: string
  pld_Content :: event_content_document
  pld_CreatedAt :: time

record jetstream_document =
  jsd_Stream :: string
  jsd_Sequence :: string

record outbox_document =
  obd_ID :: string
  obd_AggregateType :: string
  obd_AggregateID :: string
  obd_EventType :: string
  obd_Payload :: payload_document
  obd_Status :: string
  obd_Attempts :: int
  obd_NextAttemptAt :: time
  obd_LockedBy :: "string option"
  obd_LockedUntil :: "time option"
  obd_LeaseID :: "string option"
  obd_PublishedAt :: "time option"
  obd_FailedAt :: "time option"
  obd_LastError :: "string option"
  obd_Jetstream :: "jetstream_document option"
  obd_CreatedAt :: time

type_synonym 's outbox_collection = "('s, outbox_document) collection"

definition statusPending :: string where "statusPending = ''PENDING''"
definition statusProcessing :: string where "statusProcessing = ''PROCESSING''"
definition statusPublished :: string where "statusPublished = ''PUBLISHED''"
definition statusFailed :: string where "statusFailed = ''FAILED''"
definition maxStoredOutboxErrorLength :: nat where "maxStoredOutboxErrorLength = 512"

lemmas outbox_status_defs = statusPending_def statusProcessing_def statusPublished_def statusFailed_def

definition event_toPort :: "outbox_document \<Rightarrow> outbox_event" where
  "event_toPort document =
     (let p = obd_Payload document; c = pld_Content p in
      \<lparr>oev_ID = obd_ID document, oev_AggregateType = obd_AggregateType document,
       oev_AggregateID = obd_AggregateID document, oev_EventType = obd_EventType document,
       oev_Payload =
         \<lparr>mcp_MessageID = pld_MessageID p, mcp_ClientMessageID = pld_ClientMessageID p,
          mcp_ChatID = pld_ChatID p, mcp_Sequence = pld_Sequence p, mcp_SenderID = pld_SenderID p,
          mcp_Content = \<lparr>oc_Type = ecd_Type c, oc_Value = ecd_Value c, oc_ImageID = ecd_ImageID c,
                         oc_Caption = ecd_Caption c\<rparr>,
          mcp_CreatedAt = pld_CreatedAt p\<rparr>,
       oev_Attempts = obd_Attempts document, oev_LeaseID = or_zero (obd_LeaseID document)\<rparr>)"

subsection \<open>Claiming\<close>

definition due_filter :: "(time \<Rightarrow> time) \<Rightarrow> time \<Rightarrow> outbox_document \<Rightarrow> bool" where
  "due_filter dt now d \<longleftrightarrow>
     obd_Status d = statusPending \<and> obd_PublishedAt d = None \<and> obd_NextAttemptAt d \<le> dt now"

definition claim_update ::
  "(time \<Rightarrow> time) \<Rightarrow> string \<Rightarrow> string \<Rightarrow> time \<Rightarrow> duration \<Rightarrow> outbox_document \<Rightarrow> outbox_document" where
  "claim_update dt workerID leaseID now leaseDuration d =
     d\<lparr>obd_Status := statusProcessing, obd_LockedBy := Some workerID,
       obd_LockedUntil := Some (dt (now + leaseDuration)), obd_LeaseID := Some leaseID\<rparr>"

definition claim_order :: "outbox_document \<Rightarrow> outbox_document \<Rightarrow> bool" where
  "claim_order x y \<longleftrightarrow>
     obd_NextAttemptAt x < obd_NextAttemptAt y \<or>
     obd_NextAttemptAt x = obd_NextAttemptAt y \<and>
       (obd_CreatedAt x < obd_CreatedAt y \<or> obd_CreatedAt x = obd_CreatedAt y \<and> obd_ID x \<le> obd_ID y)"

definition outbox_ClaimNext ::
  "'s outbox_collection \<Rightarrow> string \<Rightarrow> string \<Rightarrow> time \<Rightarrow> duration \<Rightarrow> ('s, go_error, outbox_event option) call" where
  "outbox_ClaimNext C workerID leaseID now leaseDuration =
     (if blank workerID \<or> blank leaseID \<or> IsZero now \<or> leaseDuration \<le> 0
      then fail (NewError ''invalid outbox claim parameters'')
      else orFail (FindOneAndUpdate C (due_filter (DateTime C) (UTC now))
                     (claim_update (DateTime C) workerID leaseID (UTC now) leaseDuration) claim_order)
        (Wrap ''claim next outbox event'') (\<lambda>claimed. ret (map_option event_toPort claimed)))"

subsection \<open>Finishing\<close>

definition ownedProcessingFilter :: "string \<Rightarrow> string \<Rightarrow> outbox_document \<Rightarrow> bool" where
  "ownedProcessingFilter eventID leaseID d \<longleftrightarrow>
     obd_ID d = eventID \<and> obd_Status d = statusProcessing \<and> obd_LeaseID d = Some leaseID \<and>
     obd_PublishedAt d = None"

definition failed_update :: "(time \<Rightarrow> time) \<Rightarrow> time \<Rightarrow> string \<Rightarrow> outbox_document \<Rightarrow> outbox_document" where
  "failed_update dt failedAt reasonCode d =
     d\<lparr>obd_Status := statusFailed, obd_FailedAt := Some (dt (UTC failedAt)),
       obd_LastError := Some reasonCode, obd_LockedBy := None, obd_LockedUntil := None,
       obd_Attempts := obd_Attempts d + 1, obd_LeaseID := None\<rparr>"

definition outbox_MarkFailed ::
  "'s outbox_collection \<Rightarrow> string \<Rightarrow> string \<Rightarrow> time \<Rightarrow> string \<Rightarrow> ('s, go_error, bool) call" where
  "outbox_MarkFailed C eventID leaseID failedAt reasonCode =
     (if blank eventID \<or> blank leaseID \<or> IsZero failedAt \<or> blank reasonCode \<or>
         length reasonCode > maxStoredOutboxErrorLength
      then fail (NewError ''invalid permanent failure parameters'')
      else orFail (UpdateOne C (ownedProcessingFilter eventID leaseID)
                     (failed_update (DateTime C) failedAt reasonCode))
        (Wrap ''mark outbox event failed'') (\<lambda>(matchedCount, modifiedCount). ret (matchedCount = 1)))"

text \<open>\<^verbatim>\<open>strconv.FormatUint(n, 10)\<close>.\<close>

fun decimal :: "nat \<Rightarrow> string" where
  "decimal n = (if n < 10 then [char_of (48 + n)] else decimal (n div 10) @ [char_of (48 + n mod 10)])"

declare decimal.simps [simp del]

definition published_update ::
  "(time \<Rightarrow> time) \<Rightarrow> publish_receipt \<Rightarrow> time \<Rightarrow> outbox_document \<Rightarrow> outbox_document" where
  "published_update dt receipt publishedAt d =
     d\<lparr>obd_Status := statusPublished, obd_PublishedAt := Some (dt (UTC publishedAt)),
       obd_Jetstream := Some \<lparr>jsd_Stream = rcp_Stream receipt, jsd_Sequence = decimal (rcp_Sequence receipt)\<rparr>,
       obd_LockedBy := None, obd_LockedUntil := None, obd_LastError := None, obd_LeaseID := None\<rparr>"

definition outbox_MarkPublished ::
  "'s outbox_collection \<Rightarrow> string \<Rightarrow> string \<Rightarrow> publish_receipt \<Rightarrow> time \<Rightarrow> ('s, go_error, bool) call" where
  "outbox_MarkPublished C eventID leaseID receipt publishedAt =
     (if blank eventID \<or> blank leaseID \<or> blank (rcp_Stream receipt) \<or> rcp_Sequence receipt = 0 \<or>
         IsZero publishedAt
      then fail (NewError ''invalid outbox publication parameters'')
      else orFail (UpdateOne C (ownedProcessingFilter eventID leaseID)
                     (published_update (DateTime C) receipt publishedAt))
        (Wrap ''mark outbox event published'') (\<lambda>(matchedCount, modifiedCount). ret (matchedCount = 1)))"

definition retry_update :: "(time \<Rightarrow> time) \<Rightarrow> time \<Rightarrow> string \<Rightarrow> outbox_document \<Rightarrow> outbox_document" where
  "retry_update dt nextAttemptAt sanitizedError d =
     d\<lparr>obd_Status := statusPending, obd_NextAttemptAt := dt (UTC nextAttemptAt),
       obd_LastError := Some sanitizedError, obd_LockedBy := None, obd_LockedUntil := None,
       obd_Attempts := obd_Attempts d + 1, obd_LeaseID := None\<rparr>"

definition outbox_ScheduleRetry ::
  "'s outbox_collection \<Rightarrow> string \<Rightarrow> string \<Rightarrow> time \<Rightarrow> string \<Rightarrow> ('s, go_error, bool) call" where
  "outbox_ScheduleRetry C eventID leaseID nextAttemptAt sanitizedError =
     (if blank eventID \<or> blank leaseID \<or> IsZero nextAttemptAt \<or> blank sanitizedError \<or>
         length sanitizedError > maxStoredOutboxErrorLength
      then fail (NewError ''invalid outbox retry parameters'')
      else orFail (UpdateOne C (ownedProcessingFilter eventID leaseID)
                     (retry_update (DateTime C) nextAttemptAt sanitizedError))
        (Wrap ''schedule outbox event retry'') (\<lambda>(matchedCount, modifiedCount). ret (matchedCount = 1)))"

subsection \<open>Taking expired leases back\<close>

definition lease_expired :: "(time \<Rightarrow> time) \<Rightarrow> time \<Rightarrow> outbox_document \<Rightarrow> bool" where
  "lease_expired dt now d \<longleftrightarrow> (case obd_LockedUntil d of None \<Rightarrow> False | Some t \<Rightarrow> t \<le> dt now)"

definition expired_filter :: "(time \<Rightarrow> time) \<Rightarrow> time \<Rightarrow> outbox_document \<Rightarrow> bool" where
  "expired_filter dt now d \<longleftrightarrow>
     obd_Status d = statusProcessing \<and> obd_PublishedAt d = None \<and> lease_expired dt now d"

text \<open>The sort is by expiry and identifier; a null expiry, which the filter excludes, comes first.\<close>

definition expiry_order :: "outbox_document \<Rightarrow> outbox_document \<Rightarrow> bool" where
  "expiry_order x y \<longleftrightarrow>
     (case (obd_LockedUntil x, obd_LockedUntil y) of
        (None, None) \<Rightarrow> obd_ID x \<le> obd_ID y
      | (None, Some _) \<Rightarrow> True
      | (Some _, None) \<Rightarrow> False
      | (Some t, Some u) \<Rightarrow> t < u \<or> t = u \<and> obd_ID x \<le> obd_ID y)"

definition recover_update :: "outbox_document \<Rightarrow> outbox_document" where
  "recover_update d =
     d\<lparr>obd_Status := statusPending, obd_LockedBy := None, obd_LockedUntil := None, obd_LeaseID := None\<rparr>"

definition recover_model ::
  "(time \<Rightarrow> time) \<Rightarrow> time \<Rightarrow> outbox_document
     \<Rightarrow> (outbox_document \<Rightarrow> bool) \<times> (outbox_document \<Rightarrow> outbox_document)" where
  "recover_model dt now document =
     (\<lambda>d. ownedProcessingFilter (obd_ID document) (or_zero (obd_LeaseID document)) d \<and> lease_expired dt now d,
      recover_update)"

definition outbox_RecoverExpired :: "'s outbox_collection \<Rightarrow> 's outbox_lease_recoverer" where
  "outbox_RecoverExpired C now limit =
     (if IsZero now \<or> limit \<le> 0 \<or> limit > 1000 then fail (NewError ''invalid outbox recovery parameters'')
      else orFail (Find C (expired_filter (DateTime C) (UTC now)) expiry_order (Some (nat limit)))
        (Wrap ''find expired outbox leases'') (\<lambda>documents.
      if documents = [] then ret 0
      else orFail (BulkWrite C (map (recover_model (DateTime C) (UTC now)) documents))
        (Wrap ''recover expired outbox leases'') (\<lambda>modifiedCount. ret (int modifiedCount))))"

definition mongo_outbox_store :: "'s outbox_collection \<Rightarrow> 's outbox_store" where
  "mongo_outbox_store C =
     \<lparr>OutboxClaimNext = outbox_ClaimNext C, OutboxMarkPublished = outbox_MarkPublished C,
      OutboxScheduleRetry = outbox_ScheduleRetry C, OutboxMarkFailed = outbox_MarkFailed C\<rparr>"

section \<open>The lease state machine\<close>

inductive outbox_edit ::
  "(time \<Rightarrow> time) \<Rightarrow> (outbox_document \<Rightarrow> bool) \<Rightarrow> (outbox_document \<Rightarrow> outbox_document) \<Rightarrow> bool" for dt where
  claim: "outbox_edit dt (due_filter dt now) (claim_update dt worker lease now duration)"
| publish: "outbox_edit dt (ownedProcessingFilter i lease) (published_update dt receipt at)"
| retry: "outbox_edit dt (ownedProcessingFilter i lease) (retry_update dt next_at err)"
| giveup: "outbox_edit dt (ownedProcessingFilter i lease) (failed_update dt at reason)"
| takeback: "outbox_edit dt (\<lambda>d. ownedProcessingFilter i lease d \<and> lease_expired dt now d) recover_update"

inductive outbox_step ::
  "(time \<Rightarrow> time) \<Rightarrow> outbox_document documents \<Rightarrow> outbox_document documents \<Rightarrow> bool" for dt where
  idle: "outbox_step dt m m"
| enqueue: "m (obd_ID d) = None \<Longrightarrow> obd_Status d = statusPending \<Longrightarrow> obd_LeaseID d = None \<Longrightarrow>
    obd_LockedUntil d = None \<Longrightarrow> obd_PublishedAt d = None \<Longrightarrow> outbox_step dt m (m(obd_ID d \<mapsto> d))"
| edit: "outbox_edit dt f u \<Longrightarrow> m (obd_ID d) = Some d \<Longrightarrow> f d \<Longrightarrow> outbox_step dt m (m(obd_ID d \<mapsto> u d))"

abbreviation outbox_steps ::
  "(time \<Rightarrow> time) \<Rightarrow> outbox_document documents \<Rightarrow> outbox_document documents \<Rightarrow> bool" where
  "outbox_steps dt \<equiv> (outbox_step dt)\<^sup>*\<^sup>*"

lemmas outbox_edit_defs = due_filter_def claim_update_def ownedProcessingFilter_def published_update_def
  retry_update_def failed_update_def recover_update_def

text \<open>
  What every stored event satisfies: a lease, with its expiry, exactly while it is being processed,
  and a publication time exactly when it is published.
\<close>

definition outbox_wf :: "outbox_document \<Rightarrow> bool" where
  "outbox_wf d \<longleftrightarrow>
     obd_Status d \<in> {statusPending, statusProcessing, statusPublished, statusFailed} \<and>
     (obd_Status d = statusProcessing \<longleftrightarrow> obd_LeaseID d \<noteq> None) \<and>
     (obd_Status d = statusProcessing \<longleftrightarrow> obd_LockedUntil d \<noteq> None) \<and>
     (obd_Status d = statusPublished \<longleftrightarrow> obd_PublishedAt d \<noteq> None)"

definition event_content :: "outbox_document \<Rightarrow> string list \<times> payload_document \<times> time" where
  "event_content d =
     ([obd_ID d, obd_AggregateType d, obd_AggregateID d, obd_EventType d], obd_Payload d, obd_CreatedAt d)"

lemma outbox_edit_effect:
  assumes "outbox_edit dt f u" "f d"
  shows "event_content (u d) = event_content d \<and> obd_PublishedAt d = None \<and>
    obd_Status d \<in> {statusPending, statusProcessing} \<and> (outbox_wf d \<longrightarrow> outbox_wf (u d)) \<and>
    obd_Attempts (u d) \<in> {obd_Attempts d, obd_Attempts d + 1} \<and>
    (obd_Status (u d) \<in> {statusPublished, statusFailed} \<longrightarrow> obd_Status d = statusProcessing)"
  using assms
  by (cases rule: outbox_edit.cases)
    (auto simp: outbox_edit_defs event_content_def outbox_wf_def outbox_status_defs)

lemma outbox_step_keeps:
  assumes "outbox_step dt m m'" "m i = Some d"
  shows "\<exists>d'. m' i = Some d' \<and> event_content d' = event_content d \<and>
    obd_Attempts d \<le> obd_Attempts d' \<and>
    (obd_Status d \<in> {statusPublished, statusFailed} \<longrightarrow> d' = d)"
  using assms
proof (cases rule: outbox_step.cases)
  case (edit f u x)
  with outbox_edit_effect [OF edit(2,4)] assms(2) show ?thesis
    by (cases "i = obd_ID x") (auto simp: outbox_status_defs)
qed auto

lemma outbox_step_wf:
  assumes "outbox_step dt m m'" "\<forall>d \<in> ran m. outbox_wf d"
  shows "\<forall>d \<in> ran m'. outbox_wf d"
  using assms
proof (cases rule: outbox_step.cases)
  case (edit f u x)
  with outbox_edit_effect [OF edit(2,4)] assms(2) show ?thesis
    by (auto simp: ran_def)
qed (auto simp: outbox_wf_def outbox_status_defs ran_def)

text \<open>An event never leaves the outbox or changes, and PUBLISHED and FAILED are final.\<close>

lemma outbox_steps_keep:
  assumes "outbox_steps dt m m'" "m i = Some d"
  shows "\<exists>d'. m' i = Some d' \<and> event_content d' = event_content d \<and>
    obd_Attempts d \<le> obd_Attempts d' \<and>
    (obd_Status d \<in> {statusPublished, statusFailed} \<longrightarrow> d' = d)"
  using assms(1)
proof (induction rule: rtranclp_induct)
  case base
  then show ?case using assms(2) by simp
next
  case (step m1 m2)
  then obtain d1 where d1: "m1 i = Some d1" "event_content d1 = event_content d"
    "obd_Attempts d \<le> obd_Attempts d1" "obd_Status d \<in> {statusPublished, statusFailed} \<longrightarrow> d1 = d" by blast
  from outbox_step_keeps [OF step.hyps(2) d1(1)] d1(2-) show ?case by auto
qed

lemma outbox_steps_wf:
  "outbox_steps dt m m' \<Longrightarrow> \<forall>d \<in> ran m. outbox_wf d \<Longrightarrow> \<forall>d \<in> ran m'. outbox_wf d"
  by (induction rule: rtranclp_induct) (blast dest: outbox_step_wf)+

text \<open>
  A lease that was lost (finished, taken back, or never given) is not obtained again without a new
  claim under its name; \<open>outbox_steps_without\<close> are the steps in which nobody claims with it.
\<close>

definition holds_lease :: "string \<Rightarrow> string \<Rightarrow> outbox_document documents \<Rightarrow> bool" where
  "holds_lease i lease m \<longleftrightarrow> (\<exists>d. m i = Some d \<and> obd_LeaseID d = Some lease)"

definition claims_lease :: "string \<Rightarrow> string \<Rightarrow> outbox_document documents \<Rightarrow> outbox_document documents \<Rightarrow> bool" where
  "claims_lease i lease m m' \<longleftrightarrow> holds_lease i lease m' \<and> \<not> holds_lease i lease m"

inductive outbox_steps_without ::
  "(time \<Rightarrow> time) \<Rightarrow> string \<Rightarrow> string \<Rightarrow> outbox_document documents \<Rightarrow> outbox_document documents \<Rightarrow> bool"
  for dt i lease m where
  none: "outbox_steps_without dt i lease m m"
| more: "outbox_steps_without dt i lease m m1 \<Longrightarrow> outbox_step dt m1 m2 \<Longrightarrow> \<not> claims_lease i lease m1 m2 \<Longrightarrow>
    outbox_steps_without dt i lease m m2"

lemma lease_stays_lost:
  "outbox_steps_without dt i lease m m' \<Longrightarrow> \<not> holds_lease i lease m \<Longrightarrow> \<not> holds_lease i lease m'"
  by (induction rule: outbox_steps_without.induct) (auto simp: claims_lease_def)

section \<open>The contract\<close>

text \<open>
  A claim returns the first due event and gives it the lease; a finishing call writes exactly when
  the event is being processed under the given lease.
\<close>

definition claimed_next ::
  "(time \<Rightarrow> time) \<Rightarrow> string \<Rightarrow> string \<Rightarrow> time \<Rightarrow> duration \<Rightarrow> outbox_event option
     \<Rightarrow> outbox_document documents \<Rightarrow> outbox_document documents \<Rightarrow> bool" where
  "claimed_next dt worker lease now duration claimed m m' \<longleftrightarrow>
     (case claimed of
        None \<Rightarrow> m' = m \<and> (\<forall>d \<in> ran m. \<not> due_filter dt now d)
      | Some event \<Rightarrow> \<exists>d. m (obd_ID d) = Some d \<and> due_filter dt now d \<and>
          (\<forall>x \<in> ran m. due_filter dt now x \<longrightarrow> claim_order d x) \<and>
          event = event_toPort (claim_update dt worker lease now duration d) \<and>
          m' = m(obd_ID d \<mapsto> claim_update dt worker lease now duration d))"

definition finished ::
  "string \<Rightarrow> string \<Rightarrow> (outbox_document \<Rightarrow> outbox_document) \<Rightarrow> bool
     \<Rightarrow> outbox_document documents \<Rightarrow> outbox_document documents \<Rightarrow> bool" where
  "finished i lease u done_it m m' \<longleftrightarrow>
     (if done_it then \<exists>d. m i = Some d \<and> ownedProcessingFilter i lease d \<and> m' = m(i \<mapsto> u d)
      else m' = m \<and> (\<forall>d. m i = Some d \<longrightarrow> \<not> ownedProcessingFilter i lease d))"

locale outbox_port =
  fixes R :: "'w outbox_store"
    and events :: "'w \<Rightarrow> outbox_document documents"
    and prec :: "time \<Rightarrow> time"
  assumes Claim_ok: "OutboxClaimNext R worker lease now duration w = (w', Inr claimed) \<Longrightarrow>
      claimed_next prec worker lease now duration claimed (events w) (events w')"
    and Published_ok: "OutboxMarkPublished R i lease receipt at w = (w', Inr b) \<Longrightarrow>
      finished i lease (published_update prec receipt at) b (events w) (events w')"
    and Retry_ok: "OutboxScheduleRetry R i lease at e w = (w', Inr b) \<Longrightarrow>
      finished i lease (retry_update prec at e) b (events w) (events w')"
    and Failed_ok: "OutboxMarkFailed R i lease at e w = (w', Inr b) \<Longrightarrow>
      finished i lease (failed_update prec at e) b (events w) (events w')"
    and Claim_steps: "follows (\<lambda>w w'. outbox_steps prec (events w) (events w'))
      (OutboxClaimNext R worker lease now duration)"
    and Published_steps: "follows (\<lambda>w w'. outbox_steps prec (events w) (events w'))
      (OutboxMarkPublished R i lease receipt at)"
    and Retry_steps: "follows (\<lambda>w w'. outbox_steps prec (events w) (events w'))
      (OutboxScheduleRetry R i lease at e)"
    and Failed_steps: "follows (\<lambda>w w'. outbox_steps prec (events w) (events w'))
      (OutboxMarkFailed R i lease at e)"

section \<open>The adapter follows the state machine\<close>

locale outbox_collection =
  collection C obd_ID no_clash for C :: "('s, outbox_document) collection"
begin

abbreviation steps :: "'s \<Rightarrow> 's \<Rightarrow> bool" where
  "steps s s' \<equiv> outbox_steps (DateTime C) (docs C s) (docs C s')"

lemma steps_refl: "reflp steps" and steps_trans: "transp steps"
  by (auto simp: reflp_def transp_def)

lemma edits_step:
  assumes "outbox_edit (DateTime C) f u" "edits f u s s'"
  shows "steps s s'"
  using assms(2)
proof (elim disjE exE)
  fix d assume "updated obd_ID f u (docs C s) (docs C s') d"
  then show ?thesis using outbox_step.edit [OF assms(1), of "docs C s" d]
    by (simp add: updated_def matching_docs r_into_rtranclp)
qed simp

lemma linear_claim_order: "linear claim_order"
  by (auto simp: linear_def claim_order_def)

lemma linear_expiry_order: "linear expiry_order"
  by (auto simp: linear_def expiry_order_def split: option.splits)

lemma edit_follows:
  assumes "outbox_edit (DateTime C) f u"
  shows "follows steps (UpdateOne C f u)" "follows steps (FindOneAndUpdate C f u claim_order)"
  by (rule follows_mono [OF writers(1)], erule edits_step [OF assms])
    (rule follows_mono [OF writers(2) [OF linear_claim_order]], erule edits_step [OF assms])

lemma read_follows: "follows steps (Find C f expiry_order lim)"
  using readers(2) [OF linear_expiry_order] unfolding follows_def keeps_def by simp

text \<open>A bulk write of recoveries is a sequence of steps.\<close>

lemma recoveries_steps:
  assumes "writes obd_ID ws m m' n" "\<And>f u. (f, u) \<in> set ws \<Longrightarrow> outbox_edit (DateTime C) f u"
    and "\<And>k d. m k = Some d \<Longrightarrow> obd_ID d = k"
  shows "outbox_steps (DateTime C) m m'"
  using assms
proof (induction rule: writes.induct)
  case (hit f u m m1 d ws m' n)
  then have d: "m (obd_ID d) = Some d" "f d" and m1: "m1 = m(obd_ID d \<mapsto> u d)" "obd_ID (u d) = obd_ID d"
    by (fastforce simp: updated_def matching_def ran_def)+
  have "outbox_step (DateTime C) m m1" using outbox_step.edit [of _ f u m d] hit.prems(1) d m1 by simp
  moreover have "outbox_steps (DateTime C) m1 m'"
  proof (rule hit.IH)
    show "m1 k = Some x \<Longrightarrow> obd_ID x = k" for k x
      using hit.prems(2) m1 by (cases "k = obd_ID d") auto
  qed (simp add: hit.prems(1))
  ultimately show ?case by (rule converse_rtranclp_into_rtranclp)
next
  case (miss f m u ws m' n)
  show ?case by (rule miss.IH) (simp_all add: miss.prems)
qed simp

lemma bulk_writes:
  assumes "BulkWrite C ws s = (s', r)"
  obtains vs n where "set vs \<subseteq> set ws" "writes obd_ID vs (docs C s) (docs C s') n"
proof (cases r)
  case (Inl e)
  then show ?thesis using BulkWrite_err [of ws s s' e] assms that set_mset_mono set_mset_mset by metis
next
  case (Inr n)
  then show ?thesis using BulkWrite_ok [of ws s s' n] assms that by (metis order_refl set_mset_mset)
qed

lemma recover_follows: "follows steps (BulkWrite C (map (recover_model (DateTime C) now) ds))"
proof (rule followsI)
  fix s s' r
  assume run: "BulkWrite C (map (recover_model (DateTime C) now) ds) s = (s', r)"
  have ed: "outbox_edit (DateTime C) f u" if "(f, u) \<in> set (map (recover_model (DateTime C) now) ds)" for f u
    using that by (auto simp: recover_model_def intro: outbox_edit.takeback)
  obtain vs n where vs: "set vs \<subseteq> set (map (recover_model (DateTime C) now) ds)"
    and w: "writes obd_ID vs (docs C s) (docs C s') n"
    by (rule bulk_writes [OF run])
  show "steps s s'" by (rule recoveries_steps [OF w]) (use vs ed keyed in blast)+
qed

lemmas step_rules = follows_attempt [OF steps_trans] follows_orFail [OF steps_refl steps_trans]
  follows_pure [OF steps_refl] edit_follows recover_follows read_follows outbox_edit.intros

lemma repository_follows:
  shows "follows steps (outbox_ClaimNext C worker lease now duration)"
    and "follows steps (outbox_MarkPublished C i lease receipt at)"
    and "follows steps (outbox_ScheduleRetry C i lease at e)"
    and "follows steps (outbox_MarkFailed C i lease at e)"
    and "follows steps (outbox_RecoverExpired C now limit)"
  unfolding outbox_ClaimNext_def outbox_MarkPublished_def outbox_ScheduleRetry_def outbox_MarkFailed_def
    outbox_RecoverExpired_def case_prod_beta
  by (auto intro!: step_rules)

text \<open>What each call did when it returned.\<close>

lemma finish_ok:
  assumes "UpdateOne C (ownedProcessingFilter i lease) u s = (s', Inr (matched, modified))"
  shows "finished i lease u (matched = 1) (docs C s) (docs C s')"
  using UpdateOne_ok [OF assms]
proof (elim disjE exE conjE)
  assume "matching (ownedProcessingFilter i lease) (docs C s) = {}" "matched = 0" "docs C s' = docs C s"
  then show ?thesis by (auto simp: finished_def matching_def ran_def)
next
  fix d assume d: "updated obd_ID (ownedProcessingFilter i lease) u (docs C s) (docs C s') d" "matched = 1"
  then have "obd_ID d = i" by (simp add: updated_def matching_docs ownedProcessingFilter_def)
  then show ?thesis using d by (auto simp: finished_def updated_def matching_docs)
qed

lemma Mark_ok:
  shows "outbox_MarkPublished C i lease receipt at s = (s', Inr b) \<Longrightarrow>
      finished i lease (published_update (DateTime C) receipt at) b (docs C s) (docs C s')"
    and "outbox_ScheduleRetry C i lease at e s = (s', Inr b) \<Longrightarrow>
      finished i lease (retry_update (DateTime C) at e) b (docs C s) (docs C s')"
    and "outbox_MarkFailed C i lease at e s = (s', Inr b) \<Longrightarrow>
      finished i lease (failed_update (DateTime C) at e) b (docs C s) (docs C s')"
  by (auto simp: outbox_MarkPublished_def outbox_ScheduleRetry_def outbox_MarkFailed_def run_iff
      case_prod_beta split: if_splits dest!: finish_ok)

lemma ClaimNext_ok:
  assumes "outbox_ClaimNext C worker lease now duration s = (s', Inr claimed)"
  shows "claimed_next (DateTime C) worker lease now duration claimed (docs C s) (docs C s')"
proof -
  let ?f = "due_filter (DateTime C) now" and ?u = "claim_update (DateTime C) worker lease now duration"
  from assms obtain r where run: "FindOneAndUpdate C ?f ?u claim_order s = (s', Inr r)"
    and claimed: "claimed = map_option event_toPort r"
    by (auto simp: outbox_ClaimNext_def run_iff split: if_splits)
  from FindOneAndUpdate_ok [OF linear_claim_order run] obtain ds
    where ds: "listing ?f claim_order (docs C s) ds" and r: "r = map_option ?u (first ds)"
      and eff: "case first ds of None \<Rightarrow> docs C s' = docs C s
        | Some d \<Rightarrow> updated obd_ID ?f ?u (docs C s) (docs C s') d" by blast
  show ?thesis
  proof (cases ds)
    case Nil
    then show ?thesis using ds r eff claimed by (auto simp: claimed_next_def listing_def matching_def)
  next
    case (Cons d rest)
    have "claim_order d x" if "x \<in> ran (docs C s)" "?f x" for x
    proof -
      have "x \<in> set ds" using ds that by (auto simp: listing_def matching_def)
      then show ?thesis using ds Cons by (auto simp: listing_def claim_order_def)
    qed
    then show ?thesis using r eff claimed Cons
      by (auto simp: claimed_next_def updated_def matching_docs intro!: exI [of _ d])
  qed
qed

lemma RecoverExpired_ok:
  assumes "outbox_RecoverExpired C now limit s = (s', r)" "docs C s i = Some d"
  shows "docs C s' i = Some d \<or>
    expired_filter (DateTime C) now d \<and> docs C s' i = Some (recover_update d)"
proof -
  have bulk: "m' i = Some d \<or> expired_filter (DateTime C) now d \<and> m' i = Some (recover_update d)"
    if "writes obd_ID vs m m' n" "set vs \<subseteq> set (map (recover_model (DateTime C) now) ds)"
      "\<And>k x. m k = Some x \<Longrightarrow> obd_ID x = k"
      "m i = Some d \<or> expired_filter (DateTime C) now d \<and> m i = Some (recover_update d)" for vs m m' n ds
    using that
  proof (induction rule: writes.induct)
    case (miss f m u ws m' n)
    show ?case by (rule miss.IH) (use miss.prems in auto)
  next
    case (hit f u m m1 x ws m' n)
    then have x: "m (obd_ID x) = Some x" "f x" and m1: "m1 = m(obd_ID x \<mapsto> u x)" "obd_ID (u x) = obd_ID x"
      by (fastforce simp: updated_def matching_def ran_def)+
    have u: "u = recover_update" "obd_Status x = statusProcessing" "obd_PublishedAt x = None"
      "lease_expired (DateTime C) now x"
      using hit.prems(1) x(2) by (auto simp: recover_model_def ownedProcessingFilter_def)
    show ?case
    proof (rule hit.IH)
      show "m1 k = Some y \<Longrightarrow> obd_ID y = k" for k y
        using hit.prems(2) m1 by (cases "k = obd_ID x") auto
      show "m1 i = Some d \<or> expired_filter (DateTime C) now d \<and> m1 i = Some (recover_update d)"
        using hit.prems(3) x m1 u
        by (cases "i = obd_ID x") (auto simp: expired_filter_def recover_update_def outbox_status_defs)
    qed (use hit.prems in auto)
  qed auto
  show ?thesis
  proof (cases "IsZero now \<or> limit \<le> 0 \<or> limit > 1000")
    case True
    then show ?thesis using assms by (auto simp: outbox_RecoverExpired_def)
  next
    case False
    obtain s1 q where f: "Find C (expired_filter (DateTime C) now) expiry_order (Some (nat limit)) s = (s1, q)"
      by fastforce
    have same: "docs C s1 = docs C s" using readers(2) [OF linear_expiry_order] f by (blast dest: keepsD)
    show ?thesis
    proof (cases "\<exists>ds. q = Inr ds \<and> ds \<noteq> []")
      case False
      then have "s' = s1" using assms(1) f \<open>\<not> (IsZero now \<or> limit \<le> 0 \<or> limit > 1000)\<close>
        by (cases q) (auto simp: outbox_RecoverExpired_def)
      then show ?thesis using same assms(2) by simp
    next
      case True
      then obtain ds where ds: "q = Inr ds" "ds \<noteq> []" by blast
      let ?ws = "map (recover_model (DateTime C) now) ds"
      obtain s2 q2 where b: "BulkWrite C ?ws s1 = (s2, q2)" by fastforce
      then have "s' = s2" using assms(1) f ds False
        by (cases q2) (auto simp: outbox_RecoverExpired_def)
      moreover obtain vs n where "set vs \<subseteq> set ?ws" "writes obd_ID vs (docs C s1) (docs C s2) n"
        by (rule bulk_writes [OF b])
      ultimately show ?thesis using bulk [of vs "docs C s1" "docs C s2" n ds] keyed same assms(2) by auto
    qed
  qed
qed

sublocale outbox_port "mongo_outbox_store C" "docs C" "DateTime C"
proof (unfold_locales, unfold mongo_outbox_store_def outbox_store.simps, goal_cases)
  case 1 then show ?case by (rule ClaimNext_ok)
next
  case 2 then show ?case by (rule Mark_ok)
next
  case 3 then show ?case by (rule Mark_ok)
next
  case 4 then show ?case by (rule Mark_ok)
qed (rule repository_follows)+

lemma repository_contract: "outbox_port (mongo_outbox_store C) (docs C) (DateTime C)"
  by (rule outbox_port_axioms)

end

end
