(* ===== verification/MessageStore.thy ===== *)
theory MessageStore
  imports ChatStore TimelineDocs OutboxStore
begin

text \<open>
  The message store (\<^verbatim>\<open>internal/resources/mongodb/message_store\<close>) and the transactions of
  \<^verbatim>\<open>internal/resources/mongodb/transaction.go\<close>.  Creating a message claims its image, allocates
  the next sequence of its chat, and inserts the timeline item and its outbox event, in one
  transaction; a retry with the same client message identifier finds the first message.
\<close>

record create_message_params =
  cmp_MessageID :: timeline_ID
  cmp_EventID :: string
  cmp_ChatID :: chat_ID
  cmp_Message :: message
  cmp_CreatedAt :: time

record create_message_result =
  cmr_Item :: "item option"
  cmr_Created :: bool

type_synonym 'w message_store =
  "create_message_params \<Rightarrow> ('w, go_error, create_message_result) call"

section \<open>Transactions\<close>

text \<open>
  The closure passed to a transaction assigns the allocated sequence to a variable outside of it;
  here the sequence is the closure's result.  The driver may run the closure several times; the
  variable then has the value of the run that was committed.
\<close>

record 's mongo_client =
  StartSession :: "('s, go_error, unit) call"
  WithTransaction :: "('s, go_error, int) call \<Rightarrow> ('s, go_error, int) call"

type_synonym 's transaction_runner = "('s, go_error, int) call option \<Rightarrow> ('s, go_error, int) call"

definition RunInTransaction :: "'s mongo_client option \<Rightarrow> 's go_context \<Rightarrow> 's transaction_runner" where
  "RunInTransaction client ctx operation =
     (case client of
        None \<Rightarrow> fail (storeErr Store_ErrUninitializedClient)
      | Some client \<Rightarrow>
          (case operation of
             None \<Rightarrow> fail (storeErr Store_ErrNilTransactionOperation)
           | Some operation \<Rightarrow>
               orFail ctx (\<lambda>e. e) (\<lambda>_.
               orFail (StartSession client) (Wrap ''start MongoDB session'') (\<lambda>_.
               orFail (WithTransaction client (attempt operation fail ret))
                 (Wrap ''execute MongoDB transaction'') ret))))"

section \<open>The store\<close>

record 's message_repository =
  mr_transactions :: "'s transaction_runner"
  mr_chats :: "'s chats_collection"
  mr_timeline :: "'s timeline_collection"
  mr_outbox :: "'s outbox_collection"
  mr_images :: "'s images_collection option"

definition aggregateTypeChat :: string where "aggregateTypeChat = ''CHAT''"
definition messageCreatedEventType :: string where "messageCreatedEventType = ''chat.message.created.v1''"
definition outboxStatusPending :: string where "outboxStatusPending = ''PENDING''"

definition newTimelineItemDocument :: "create_message_params \<Rightarrow> sequence \<Rightarrow> timeline_document" where
  "newTimelineItemDocument params seqn =
     (let msg = cmp_Message params; content = msg_content msg; createdAt = UTC (cmp_CreatedAt params) in
      \<lparr>tld_ID = cmp_MessageID params, tld_ChatID = cmp_ChatID params, tld_Sequence = Some seqn,
       tld_Kind = KindMessage, tld_CreatedAt = createdAt, tld_UpdatedAt = createdAt,
       tld_Message =
         \<lparr>mdd_ClientMessageID = Some (msg_clientMessageID msg), mdd_SenderID = msg_senderID msg,
          mdd_Content = \<lparr>mcd_Type = mct_contentType content, mcd_Value = mct_value content,
                         mcd_ImageID = mct_imageID content, mcd_Caption = mct_caption content\<rparr>\<rparr>\<rparr>)"

definition newOutboxEventDocument :: "create_message_params \<Rightarrow> sequence \<Rightarrow> outbox_document" where
  "newOutboxEventDocument params seqn =
     (let msg = cmp_Message params; content = msg_content msg; createdAt = UTC (cmp_CreatedAt params) in
      \<lparr>obd_ID = cmp_EventID params, obd_AggregateType = aggregateTypeChat,
       obd_AggregateID = cmp_ChatID params, obd_EventType = messageCreatedEventType,
       obd_Payload =
         \<lparr>pld_MessageID = cmp_MessageID params, pld_ClientMessageID = msg_clientMessageID msg,
          pld_ChatID = cmp_ChatID params, pld_Sequence = seqn, pld_SenderID = msg_senderID msg,
          pld_Content = \<lparr>ecd_Type = mct_contentType content, ecd_Value = mct_value content,
                         ecd_ImageID = mct_imageID content, ecd_Caption = mct_caption content\<rparr>,
          pld_CreatedAt = createdAt\<rparr>,
       obd_Status = outboxStatusPending, obd_Attempts = 0, obd_NextAttemptAt = createdAt,
       obd_LockedBy = None, obd_LockedUntil = None, obd_LeaseID = None, obd_PublishedAt = None,
       obd_FailedAt = None, obd_LastError = None, obd_Jetstream = None, obd_CreatedAt = createdAt\<rparr>)"

definition bson_event :: "(time \<Rightarrow> time) \<Rightarrow> outbox_document \<Rightarrow> outbox_document" where
  "bson_event dt d = d\<lparr>obd_Payload := (obd_Payload d)\<lparr>pld_CreatedAt := dt (pld_CreatedAt (obd_Payload d))\<rparr>,
     obd_NextAttemptAt := dt (obd_NextAttemptAt d), obd_CreatedAt := dt (obd_CreatedAt d)\<rparr>"

definition validateCreateParams :: "create_message_params \<Rightarrow> go_error + unit" where
  "validateCreateParams params =
     (let invalid = (\<lambda>why. Wrap why (storeErr Store_ErrInvalidCreateParams));
          normalizedEventID = TrimSpace (cmp_EventID params); msg = cmp_Message params in
      require (cmp_MessageID params \<noteq> []) (invalid ''message id cannot be empty'') (
      require (cmp_ChatID params \<noteq> []) (invalid ''chat id cannot be empty'') (
      require (\<not> (normalizedEventID = [] \<or> normalizedEventID \<noteq> cmp_EventID params))
        (invalid ''event id is invalid'') (
      require (\<not> IsZero (cmp_CreatedAt params)) (invalid ''created at cannot be zero'') (
      require (msg_clientMessageID msg \<noteq> []) (invalid ''client message id cannot be empty'') (
      require (msg_senderID msg \<noteq> []) (invalid ''sender id cannot be empty'') (
      require (content_Valid (msg_content msg)) (invalid ''message content is invalid'') (
      Inr ()))))))))"

definition idempotency_filter :: "message \<Rightarrow> timeline_document \<Rightarrow> bool" where
  "idempotency_filter msg d \<longleftrightarrow>
     mdd_SenderID (tld_Message d) = msg_senderID msg \<and>
     mdd_ClientMessageID (tld_Message d) = Some (msg_clientMessageID msg)"

text \<open>The pair \<^verbatim>\<open>(item, found)\<close> of the source is an option here.\<close>

definition findExistingMessage ::
  "'s message_repository \<Rightarrow> create_message_params \<Rightarrow> ('s, go_error, item option) call" where
  "findExistingMessage R params =
     orFail (FindOne (mr_timeline R) (idempotency_filter (cmp_Message params)) unsorted)
       (Wrap ''find timeline item by idempotency key'') (\<lambda>found.
     case found of
       None \<Rightarrow> ret None
     | Some document \<Rightarrow>
         orFail (lift (stored_item_toDomain document))
           (Wrap ''convert existing timeline item to domain'') (\<lambda>item. ret (Some item)))"

definition sameLogicalMessage :: "item \<Rightarrow> create_message_params \<Rightarrow> bool" where
  "sameLogicalMessage existingItem params =
     (if itm_chatID existingItem \<noteq> cmp_ChatID params then False
      else let existingMessage = itm_message existingItem; requestedMessage = cmp_Message params in
        if msg_clientMessageID existingMessage \<noteq> msg_clientMessageID requestedMessage then False
        else if msg_senderID existingMessage \<noteq> msg_senderID requestedMessage then False
        else let existingContent = msg_content existingMessage; requestedContent = msg_content requestedMessage in
          mct_contentType existingContent = mct_contentType requestedContent \<and>
          mct_value existingContent = mct_value requestedContent \<and>
          mct_imageID existingContent = mct_imageID requestedContent \<and>
          mct_caption existingContent = mct_caption requestedContent)"

definition resolveExistingMessage ::
  "item option \<Rightarrow> create_message_params \<Rightarrow> go_error + create_message_result" where
  "resolveExistingMessage existingItem params =
     (case existingItem of
        None \<Rightarrow> Inl (NewError ''existing message cannot be nil'')
      | Some item \<Rightarrow>
          if \<not> sameLogicalMessage item params then Inl (portsErr ErrMessageIdempotencyConflict)
          else Inr \<lparr>cmr_Item = Some item, cmr_Created = False\<rparr>)"

definition allocation_filter :: "create_message_params \<Rightarrow> chat_document \<Rightarrow> bool" where
  "allocation_filter params d \<longleftrightarrow>
     cd_ID d = cmp_ChatID params \<and> msg_senderID (cmp_Message params) \<in> set (cd_ParticipantIDs d)"

definition allocation_update :: "(time \<Rightarrow> time) \<Rightarrow> create_message_params \<Rightarrow> chat_document \<Rightarrow> chat_document" where
  "allocation_update dt params d =
     d\<lparr>cd_LastSequence := cd_LastSequence d + 1,
       cd_SummarySortAt := max (cd_SummarySortAt d) (dt (UTC (cmp_CreatedAt params)))\<rparr>"

definition allocateSequence ::
  "'s message_repository \<Rightarrow> create_message_params \<Rightarrow> ('s, go_error, sequence) call" where
  "allocateSequence R params =
     orFail (FindOneAndUpdate (mr_chats R) (allocation_filter params)
               (allocation_update (DateTime (mr_chats R)) params) unsorted)
       (Wrap ''allocate chat sequence'') (\<lambda>found.
     case found of
       None \<Rightarrow> fail (portsErr ErrChatNotFound)
     | Some document \<Rightarrow>
         orFail (lift (ParseSequence (cd_LastSequence document)))
           (Wrap ''parse allocated chat sequence'') ret)"

text \<open>The claim of the image of an image message.\<close>

definition claimImage :: "'s message_repository \<Rightarrow> create_message_params \<Rightarrow> ('s, go_error, unit) call" where
  "claimImage R params =
     (if mct_contentType (msg_content (cmp_Message params)) \<noteq> ContentTypeImage then ret ()
      else case mr_images R of
        None \<Rightarrow> fail (NewError ''images collection is required for image messages'')
      | Some images \<Rightarrow>
          orFail (UpdateOne images
                    (attach_filter (DateTime images) (mct_imageID (msg_content (cmp_Message params)))
                       (msg_senderID (cmp_Message params)) (cmp_ChatID params) (cmp_CreatedAt params))
                    (attach_update (cmp_MessageID params)))
            (\<lambda>e. e) (\<lambda>(matchedCount, modifiedCount).
          if modifiedCount \<noteq> 1 then fail (portsErr ErrImageUnavailable) else ret ()))"

text \<open>The operation that runs inside of the transaction.\<close>

definition createOperation ::
  "'s message_repository \<Rightarrow> create_message_params \<Rightarrow> ('s, go_error, sequence) call" where
  "createOperation R params =
     orFail (claimImage R params) (\<lambda>e. e) (\<lambda>_.
     orFail (allocateSequence R params) (\<lambda>e. e) (\<lambda>seqn.
     orFail (InsertOne (mr_timeline R) (bson_item (DateTime (mr_timeline R)) (newTimelineItemDocument params seqn)))
       (Wrap ''insert timeline item'') (\<lambda>_.
     orFail (InsertOne (mr_outbox R) (bson_event (DateTime (mr_outbox R)) (newOutboxEventDocument params seqn)))
       (Wrap ''insert outbox event'') (\<lambda>_.
     ret seqn))))"

definition createTransaction ::
  "'s message_repository \<Rightarrow> create_message_params \<Rightarrow> ('s, go_error, sequence) call" where
  "createTransaction R params =
     orFail (mr_transactions R (Some (createOperation R params))) (\<lambda>e. e) (\<lambda>allocatedSequence.
     if allocatedSequence \<le> 0
     then fail (NewError ''transaction completed without allocating a sequence'')
     else ret allocatedSequence)"

definition CreateWithOutbox :: "'s message_repository \<Rightarrow> 's message_store" where
  "CreateWithOutbox R params =
     orFail (lift (validateCreateParams params)) (\<lambda>e. e) (\<lambda>_.
     orFail (findExistingMessage R params) (Wrap ''find existing idempotent message'') (\<lambda>found.
     if found \<noteq> None then lift (resolveExistingMessage found params)
     else
       attempt (createTransaction R params)
         (\<lambda>err.
            let failed = fail (if errors_is err (PortsE ErrChatNotFound) then portsErr ErrChatNotFound
                               else Wrap ''persist message transaction'' err)
            in if is_duplicate_key err \<or> errors_is err (PortsE ErrImageUnavailable)
               then orFail (findExistingMessage R params) (Wrap ''find message after duplicate key'') (\<lambda>found.
                      if found \<noteq> None then lift (resolveExistingMessage found params) else failed)
               else failed)
         (\<lambda>seqn.
            orFail (lift (stored_item_toDomain (newTimelineItemDocument params seqn)))
              (Wrap ''restore created message'') (\<lambda>item.
            ret \<lparr>cmr_Item = Some item, cmr_Created = True\<rparr>))))"

end
