(* ===== verification/MessageSafety.thy ===== *)
theory MessageSafety
  imports MessageStore
begin

text \<open>
  What the message store does to the stored data: the laws of its backend as locales, the effect of
  a created message (\<open>posted\<close>), the replay of a retry, and the steps of all writers of the four
  collections (\<open>store_step\<close>) with the invariant they keep.
\<close>

section \<open>The stored data\<close>

record store_view =
  sv_chats :: "chat_document documents"
  sv_items :: "timeline_document documents"
  sv_events :: "outbox_document documents"
  sv_images :: "image_document documents"

definition store_view :: "'s message_repository \<Rightarrow> 's \<Rightarrow> store_view" where
  "store_view R s =
     \<lparr>sv_chats = docs (mr_chats R) s, sv_items = docs (mr_timeline R) s, sv_events = docs (mr_outbox R) s,
      sv_images = (case mr_images R of None \<Rightarrow> Map.empty | Some images \<Rightarrow> docs images s)\<rparr>"

lemma store_view_sel [simp]:
  "sv_chats (store_view R s) = docs (mr_chats R) s" "sv_items (store_view R s) = docs (mr_timeline R) s"
  "sv_events (store_view R s) = docs (mr_outbox R) s"
  "mr_images R = Some images \<Longrightarrow> sv_images (store_view R s) = docs images s"
  by (simp_all add: store_view_def)

abbreviation sender_of :: "create_message_params \<Rightarrow> user_ID" where
  "sender_of p \<equiv> msg_senderID (cmp_Message p)"

text \<open>\<open>posted prec p n V V'\<close>: the message of \<open>p\<close> became the \<open>n\<close>-th of its chat.\<close>

definition attached :: "(time \<Rightarrow> time) \<Rightarrow> create_message_params \<Rightarrow> store_view \<Rightarrow> store_view \<Rightarrow> bool" where
  "attached prec p V V' \<longleftrightarrow>
     (let content = msg_content (cmp_Message p) in
      if mct_contentType content = ContentTypeImage
      then \<exists>d. sv_images V (mct_imageID content) = Some d \<and>
             attach_filter prec (mct_imageID content) (sender_of p) (cmp_ChatID p) (cmp_CreatedAt p) d \<and>
             sv_images V' = (sv_images V)(mct_imageID content \<mapsto> attach_update (cmp_MessageID p) d)
      else sv_images V' = sv_images V)"

definition posted :: "(time \<Rightarrow> time) \<Rightarrow> create_message_params \<Rightarrow> sequence \<Rightarrow> store_view \<Rightarrow> store_view \<Rightarrow> bool" where
  "posted prec p n V V' \<longleftrightarrow>
     (let item = bson_item prec (newTimelineItemDocument p n);
          event = bson_event prec (newOutboxEventDocument p n) in
      (\<exists>c. sv_chats V (cmp_ChatID p) = Some c \<and> sender_of p \<in> set (cd_ParticipantIDs c) \<and>
         n = cd_LastSequence c + 1 \<and> 0 < n \<and> n \<le> MaxSequence \<and>
         sv_chats V' = (sv_chats V)(cmp_ChatID p \<mapsto> allocation_update prec p c)) \<and>
      sv_items V (cmp_MessageID p) = None \<and> (\<forall>x \<in> ran (sv_items V). \<not> timeline_clash x item) \<and>
      sv_items V' = (sv_items V)(cmp_MessageID p \<mapsto> item) \<and>
      sv_events V (cmp_EventID p) = None \<and> sv_events V' = (sv_events V)(cmp_EventID p \<mapsto> event) \<and>
      attached prec p V V')"

section \<open>Transactions\<close>

text \<open>
  A transaction that returns has run its operation once, atomically, and published the result.  One
  that fails has not changed the data itself, and its error is the operation's, or it is a failure
  of the infrastructure, in which case the transaction may have been committed.  Other clients may
  act before the transaction reads: \<open>env\<close> relates the data before and after what they did.
\<close>

definition same_error :: "go_error \<Rightarrow> go_error \<Rightarrow> bool" where
  "same_error e e0 \<longleftrightarrow> (\<forall>t. errors_is e t = errors_is e0 t) \<and> is_duplicate_key e = is_duplicate_key e0"

definition infrastructure_error :: "go_error \<Rightarrow> bool" where
  "infrastructure_error e \<longleftrightarrow> \<not> is_duplicate_key e \<and> (\<forall>p. \<not> errors_is e (PortsE p))"

lemma infrastructure_simps [simp]:
  "infrastructure_error (Wrap m e) = infrastructure_error e"
  "infrastructure_error (Sentinel (StoreE x))" "infrastructure_error (NewError m)"
  by (simp_all add: infrastructure_error_def)

lemma same_error_Wrap [simp]: "same_error (Wrap m e) e0 = same_error e e0"
  by (simp add: same_error_def)

definition committed ::
  "('v \<Rightarrow> 'v \<Rightarrow> bool) \<Rightarrow> ('s \<Rightarrow> 'v) \<Rightarrow> ('s, go_error, int) call \<Rightarrow> int \<Rightarrow> 's \<Rightarrow> 's \<Rightarrow> bool" where
  "committed env view op n s s' \<longleftrightarrow>
     (\<exists>s0 s1. env (view s) (view s0) \<and> op s0 = (s1, Inr n) \<and> view s' = view s1)"

definition aborted ::
  "('v \<Rightarrow> 'v \<Rightarrow> bool) \<Rightarrow> ('s \<Rightarrow> 'v) \<Rightarrow> ('s, go_error, int) call \<Rightarrow> go_error \<Rightarrow> 's \<Rightarrow> 's \<Rightarrow> bool" where
  "aborted env view op e s s' \<longleftrightarrow>
     env (view s) (view s') \<and>
     (infrastructure_error e \<or> (\<exists>s0 s1 e0. view s0 = view s' \<and> op s0 = (s1, Inl e0) \<and> same_error e e0))"

locale transaction_runner =
  fixes run :: "'s transaction_runner" and view :: "'s \<Rightarrow> 'v" and env :: "'v \<Rightarrow> 'v \<Rightarrow> bool"
  assumes env_refl: "env v v"
    and Run_ok: "run (Some op) s = (s', Inr n) \<Longrightarrow> committed env view op n s s'"
    and Run_err: "run (Some op) s = (s', Inl e) \<Longrightarrow>
      aborted env view op e s s' \<or> infrastructure_error e \<and> (\<exists>n. committed env view op n s s')"

locale mongo_session =
  fixes client :: "'s mongo_client" and ctx :: "'s go_context" and view :: "'s \<Rightarrow> 'v"
    and env :: "'v \<Rightarrow> 'v \<Rightarrow> bool"
  assumes client_env_refl: "env v v"
    and ctx_keeps: "keeps view ctx" and start_keeps: "keeps view (StartSession client)"
    and ctx_err: "ctx s = (s', Inl e) \<Longrightarrow> infrastructure_error e"
    and start_err: "StartSession client s = (s', Inl e) \<Longrightarrow> infrastructure_error e"
    and With_ok: "WithTransaction client op s = (s', Inr n) \<Longrightarrow> committed env view op n s s'"
    and With_err: "WithTransaction client op s = (s', Inl e) \<Longrightarrow>
      aborted env view op e s s' \<or> infrastructure_error e \<and> (\<exists>n. committed env view op n s s')"
begin

lemma attempt_same: "attempt op fail ret = op"
  by (rule ext) (auto simp: attempt_def split: prod.splits sum.splits)

lemma moved: "view s2 = view s \<Longrightarrow> committed env view op n s2 s' = committed env view op n s s'"
    "view s2 = view s \<Longrightarrow> aborted env view op e s2 s' = aborted env view op e s s'"
  by (simp_all add: committed_def aborted_def)

sublocale transaction_runner "RunInTransaction (Some client) ctx" view env
proof
  show "env v v" for v by (rule client_env_refl)
next
  fix op s s' n
  assume "RunInTransaction (Some client) ctx (Some op) s = (s', Inr n)"
  then obtain s1 s2 where c: "ctx s = (s1, Inr ())" and st: "StartSession client s1 = (s2, Inr ())"
    and w: "WithTransaction client op s2 = (s', Inr n)"
    by (auto simp: RunInTransaction_def run_iff attempt_same)
  have "view s2 = view s" using keepsD [OF ctx_keeps c] keepsD [OF start_keeps st] by simp
  then show "committed env view op n s s'" using With_ok [OF w] moved(1) by blast
next
  fix op s s' e
  assume run: "RunInTransaction (Some client) ctx (Some op) s = (s', Inl e)"
  obtain s1 r1 where c: "ctx s = (s1, r1)" by fastforce
  have v1: "view s1 = view s" by (rule keepsD [OF ctx_keeps c])
  show "aborted env view op e s s' \<or> infrastructure_error e \<and> (\<exists>n. committed env view op n s s')"
  proof (cases r1)
    case (Inl e1)
    then show ?thesis using run c v1 ctx_err [OF c [unfolded Inl]] client_env_refl
      by (auto simp: RunInTransaction_def aborted_def)
  next
    case (Inr u)
    obtain s2 r2 where st: "StartSession client s1 = (s2, r2)" by fastforce
    have v2: "view s2 = view s" using keepsD [OF start_keeps st] v1 by simp
    show ?thesis
    proof (cases r2)
      case (Inl e2)
      then show ?thesis using run c v2 \<open>r1 = Inr u\<close> st start_err [OF st [unfolded Inl]] client_env_refl
        by (auto simp: RunInTransaction_def aborted_def)
    next
      case (Inr u2)
      then obtain e3 where w: "WithTransaction client op s2 = (s', Inl e3)"
        and e: "e = Wrap ''execute MongoDB transaction'' e3"
        using run c \<open>r1 = Inr u\<close> st by (auto simp: RunInTransaction_def orFail_iff attempt_same)
      have "aborted env view op e s2 s' = aborted env view op e3 s2 s'" by (simp add: e aborted_def)
      then show ?thesis using With_err [OF w] moved [OF v2] e by simp
    qed
  qed
qed

lemma runner_contract: "transaction_runner (RunInTransaction (Some client) ctx) view env"
  by (rule transaction_runner_axioms)

end

section \<open>Creating a message\<close>

definition unavailable :: "(time \<Rightarrow> time) \<Rightarrow> create_message_params \<Rightarrow> store_view \<Rightarrow> bool" where
  "unavailable prec p V \<longleftrightarrow>
     mct_contentType (msg_content (cmp_Message p)) = ContentTypeImage \<and>
     \<not> (\<exists>d \<in> ran (sv_images V). attach_filter prec (mct_imageID (msg_content (cmp_Message p))) (sender_of p)
           (cmp_ChatID p) (cmp_CreatedAt p) d)"

definition no_chat :: "create_message_params \<Rightarrow> store_view \<Rightarrow> bool" where
  "no_chat p V \<longleftrightarrow> \<not> (\<exists>c. sv_chats V (cmp_ChatID p) = Some c \<and> sender_of p \<in> set (cd_ParticipantIDs c))"

text \<open>The message that a retry finds: the stored item with its sender and client identifier.\<close>

definition existing_item :: "create_message_params \<Rightarrow> store_view \<Rightarrow> item \<Rightarrow> bool" where
  "existing_item p V x \<longleftrightarrow> (\<exists>d \<in> ran (sv_items V). idempotency_filter (cmp_Message p) d \<and> stored_item_toDomain d = Inr x)"

definition not_stored :: "create_message_params \<Rightarrow> store_view \<Rightarrow> bool" where
  "not_stored p V \<longleftrightarrow> (\<forall>d \<in> ran (sv_items V). \<not> idempotency_filter (cmp_Message p) d)"

text \<open>
  The outcome of one attempt: a message was posted, after other clients acted, or only other
  clients acted.
\<close>

definition create_posts ::
  "(store_view \<Rightarrow> store_view \<Rightarrow> bool) \<Rightarrow> (time \<Rightarrow> time) \<Rightarrow> create_message_params \<Rightarrow> sequence
      \<Rightarrow> store_view \<Rightarrow> store_view \<Rightarrow> bool" where
  "create_posts env prec p n V V' \<longleftrightarrow> (\<exists>V0. env V V0 \<and> posted prec p n V0 V')"

text \<open>Every outcome of \<^verbatim>\<open>CreateWithOutbox\<close>.\<close>

definition create_outcome ::
  "(store_view \<Rightarrow> store_view \<Rightarrow> bool) \<Rightarrow> (time \<Rightarrow> time) \<Rightarrow> create_message_params
     \<Rightarrow> store_view \<Rightarrow> store_view \<Rightarrow> go_error + create_message_result \<Rightarrow> bool" where
  "create_outcome env prec p V V' r \<longleftrightarrow>
     (case r of
        Inr result \<Rightarrow>
          if cmr_Created result
          then not_stored p V \<and> (\<exists>n x. create_posts env prec p n V V' \<and> cmr_Item result = Some x \<and>
                 stored_item_toDomain (newTimelineItemDocument p n) = Inr x)
          else env V V' \<and> (\<exists>x. cmr_Item result = Some x \<and> existing_item p V' x \<and> sameLogicalMessage x p)
      | Inl e \<Rightarrow>
          (env V V' \<or> infrastructure_error e \<and> not_stored p V \<and> (\<exists>n. create_posts env prec p n V V')) \<and>
          (errors_is e (PortsE ErrMessageIdempotencyConflict) \<longrightarrow>
             env V V' \<and> (\<exists>x. existing_item p V' x \<and> \<not> sameLogicalMessage x p)) \<and>
          (errors_is e (PortsE ErrChatNotFound) \<longrightarrow> env V V' \<and> no_chat p V') \<and>
          (errors_is e (PortsE ErrImageUnavailable) \<longrightarrow> env V V' \<and> unavailable prec p V'))"

text \<open>The contract of the port \<^verbatim>\<open>ports.MessageStore\<close>.\<close>

locale message_contract =
  fixes S :: "'w message_store" and view :: "'w \<Rightarrow> store_view"
    and env :: "store_view \<Rightarrow> store_view \<Rightarrow> bool" and prec :: "time \<Rightarrow> time"
  assumes env_reflexive: "env V V"
    and Create: "S p w = (w', r) \<Longrightarrow> create_outcome env prec p (view w) (view w') r"

locale message_backend =
  chats: chat_collection "mr_chats R" + items: collection "mr_timeline R" tld_ID timeline_clash +
  events: outbox_collection "mr_outbox R" + transaction_runner "mr_transactions R" "store_view R" env
  for R :: "'s message_repository" and env :: "store_view \<Rightarrow> store_view \<Rightarrow> bool" +
  fixes prec :: "time \<Rightarrow> time"
  assumes images: "mr_images R = Some I \<Longrightarrow> image_collection I \<and> DateTime I = prec"
    and times: "DateTime (mr_chats R) = prec" "DateTime (mr_timeline R) = prec" "DateTime (mr_outbox R) = prec"
    and chats_frame: "keeps (\<lambda>s. (store_view R s)\<lparr>sv_chats := Map.empty\<rparr>) (FindOneAndUpdate (mr_chats R) cf cu le)"
    and items_frame: "keeps (\<lambda>s. (store_view R s)\<lparr>sv_items := Map.empty\<rparr>) (InsertOne (mr_timeline R) item)"
    and find_frame: "keeps (\<lambda>s. (store_view R s)\<lparr>sv_items := Map.empty\<rparr>) (FindOne (mr_timeline R) tf le')"
    and events_frame: "keeps (\<lambda>s. (store_view R s)\<lparr>sv_events := Map.empty\<rparr>) (InsertOne (mr_outbox R) event)"
    and images_frame: "mr_images R = Some I \<Longrightarrow>
      keeps (\<lambda>s. (store_view R s)\<lparr>sv_images := Map.empty\<rparr>) (UpdateOne I imf imu)"
begin

abbreviation view :: "'s \<Rightarrow> store_view" where "view \<equiv> store_view R"

lemma chats_only: "FindOneAndUpdate (mr_chats R) f u le s = (s', r) \<Longrightarrow>
    view s' = (view s)\<lparr>sv_chats := docs (mr_chats R) s'\<rparr>"
  using keepsD [OF chats_frame [of f u le]] by (fastforce simp: store_view_def)

lemma items_only: "InsertOne (mr_timeline R) d s = (s', r) \<Longrightarrow>
    view s' = (view s)\<lparr>sv_items := docs (mr_timeline R) s'\<rparr>"
  using keepsD [OF items_frame [of d]] by (fastforce simp: store_view_def)

lemma events_only: "InsertOne (mr_outbox R) e s = (s', r) \<Longrightarrow>
    view s' = (view s)\<lparr>sv_events := docs (mr_outbox R) s'\<rparr>"
  using keepsD [OF events_frame [of e]] by (fastforce simp: store_view_def)

lemma images_only: "mr_images R = Some I \<Longrightarrow> UpdateOne I f u s = (s', r) \<Longrightarrow>
    view s' = (view s)\<lparr>sv_images := docs I s'\<rparr>"
  using keepsD [OF images_frame [of I f u]] by (fastforce simp: store_view_def)

lemma find_keeps: "keeps view (FindOne (mr_timeline R) f unsorted)"
proof (rule keepsI)
  fix s s' r assume run: "FindOne (mr_timeline R) f unsorted s = (s', r)"
  then have "docs (mr_timeline R) s' = docs (mr_timeline R) s"
    using keepsD [OF items.readers(1) [OF linear_unsorted]] by blast
  with keepsD [OF find_frame run] show "view s' = view s" by (simp add: store_view_def)
qed

text \<open>The lookup of an earlier message.\<close>

lemma findExisting_cases:
  assumes "findExistingMessage R p s = (s', r)"
  shows "view s' = view s \<and>
    (case r of Inr None \<Rightarrow> not_stored p (view s)
     | Inr (Some x) \<Rightarrow> existing_item p (view s) x
     | Inl e \<Rightarrow> infrastructure_error e)"
proof -
  obtain s1 q where f: "FindOne (mr_timeline R) (idempotency_filter (cmp_Message p)) unsorted s = (s1, q)"
    by fastforce
  have same: "view s1 = view s" by (rule keepsD [OF find_keeps f])
  show ?thesis
  proof (cases q)
    case (Inl e)
    then have "infrastructure_error e" using items.FindOne_err f by (auto simp: infrastructure_error_def)
    then show ?thesis using assms f Inl same by (auto simp: findExistingMessage_def)
  next
    case (Inr found)
    from items.FindOne_ok [OF linear_unsorted f [unfolded Inr]] obtain ds
      where ds: "listing (idempotency_filter (cmp_Message p)) unsorted (docs (mr_timeline R) s) ds"
        "found = first ds" by blast
    show ?thesis
    proof (cases found)
      case None
      then have "not_stored p (view s)"
        using ds listing_first(1) [OF ds(1)] by (auto simp: not_stored_def matching_def)
      then show ?thesis using assms f Inr None same by (auto simp: findExistingMessage_def)
    next
      case (Some d)
      have d: "d \<in> ran (sv_items (view s))" "idempotency_filter (cmp_Message p) d"
        using ds Some listing_first(2) [OF ds(1), of d] by (auto simp: matching_def)
      show ?thesis
      proof (cases "stored_item_toDomain d")
        case (Inl e)
        then have "infrastructure_error e"
          unfolding stored_item_toDomain_def by (auto dest!: timeline_toDomain_err)
        then show ?thesis using assms f \<open>q = Inr found\<close> Some same Inl by (auto simp: findExistingMessage_def)
      next
        case (Inr x)
        then have "existing_item p (view s) x" using d unfolding existing_item_def by blast
        then show ?thesis using assms f \<open>q = Inr found\<close> Some same Inr by (auto simp: findExistingMessage_def)
      qed
    qed
  qed
qed

text \<open>The steps of the transaction.\<close>

lemma claimImage_ok:
  assumes "claimImage R p s = (s', Inr ())"
  shows "view s' = (view s)\<lparr>sv_images := sv_images (view s')\<rparr> \<and> attached prec p (view s) (view s')"
proof (cases "mct_contentType (msg_content (cmp_Message p)) = ContentTypeImage")
  case False
  then show ?thesis using assms by (auto simp: claimImage_def attached_def)
next
  case True
  let ?f = "attach_filter prec (mct_imageID (msg_content (cmp_Message p))) (sender_of p) (cmp_ChatID p) (cmp_CreatedAt p)"
  from assms True obtain I where I: "mr_images R = Some I"
    by (cases "mr_images R") (auto simp: claimImage_def)
  then have im: "collection I img_ID upload_clash" and t: "DateTime I = prec"
    using images unfolding image_collection_def by blast+
  from assms True I t obtain m where u: "UpdateOne I ?f (attach_update (cmp_MessageID p)) s = (s', Inr (m, 1))"
    by (auto simp: claimImage_def run_iff split: if_splits)
  from collection.UpdateOne_ok [OF im u] obtain d where d: "updated img_ID ?f (attach_update (cmp_MessageID p)) (docs I s) (docs I s') d"
    by auto
  then have "docs I s (img_ID d) = Some d" "?f d" "docs I s' = (docs I s)(img_ID d \<mapsto> attach_update (cmp_MessageID p) d)"
    by (auto simp: updated_def collection.matching_docs [OF im])
  moreover from this have "img_ID d = mct_imageID (msg_content (cmp_Message p))" by (simp add: attach_filter_def)
  ultimately show ?thesis using images_only [OF I u] I True by (auto simp: attached_def)
qed

lemma claimImage_err:
  assumes "claimImage R p s = (s', Inl e)"
  shows "errors_is e (PortsE q) \<longrightarrow> q = ErrImageUnavailable \<and> unavailable prec p (view s)"
proof (cases "mct_contentType (msg_content (cmp_Message p)) = ContentTypeImage \<and> mr_images R \<noteq> None")
  case False
  then show ?thesis using assms by (auto simp: claimImage_def split: if_splits)
next
  case True
  let ?f = "attach_filter prec (mct_imageID (msg_content (cmp_Message p))) (sender_of p) (cmp_ChatID p) (cmp_CreatedAt p)"
  from True obtain I where I: "mr_images R = Some I" by blast
  then have im: "collection I img_ID upload_clash" and t: "DateTime I = prec"
    using images unfolding image_collection_def by blast+
  obtain s1 q1 where u: "UpdateOne I ?f (attach_update (cmp_MessageID p)) s = (s1, q1)" by fastforce
  show ?thesis
  proof (cases q1)
    case (Inl e1)
    then have "e = e1" using assms True I t u by (auto simp: claimImage_def)
    then show ?thesis using collection.UpdateOne_err [OF im u [unfolded Inl]] by auto
  next
    case (Inr mm)
    obtain m n where mm: "mm = (m, n)" by fastforce
    then have e: "e = portsErr ErrImageUnavailable" "n \<noteq> 1"
      using assms True I t u Inr by (auto simp: claimImage_def split: if_splits)
    have changes: "attach_update (cmp_MessageID p) d \<noteq> d" if "?f d" for d
    proof
      assume same: "attach_update (cmp_MessageID p) d = d"
      have "img_Status (attach_update (cmp_MessageID p) d) = image_Attached" by (simp add: attach_update_def)
      with same that show False by (simp add: attach_filter_def image_status_defs)
    qed
    have "matching ?f (docs I s) = {}"
      using collection.UpdateOne_ok [OF im u [unfolded Inr mm]] e(2) changes
      by (auto simp: updated_def matching_def)
    then show ?thesis using e(1) True I by (auto simp: unavailable_def matching_def)
  qed
qed

lemma allocate_ok:
  assumes "allocateSequence R p s = (s', Inr n)"
  shows "\<exists>c. sv_chats (view s) (cmp_ChatID p) = Some c \<and> sender_of p \<in> set (cd_ParticipantIDs c) \<and>
      n = cd_LastSequence c + 1 \<and> 0 < n \<and> n \<le> MaxSequence \<and>
      view s' = (view s)\<lparr>sv_chats := (sv_chats (view s))(cmp_ChatID p \<mapsto> allocation_update prec p c)\<rparr>"
proof -
  from assms obtain d where run: "FindOneAndUpdate (mr_chats R) (allocation_filter p) (allocation_update prec p) unsorted s =
      (s', Inr (Some d))" and n: "ParseSequence (cd_LastSequence d) = Inr n"
    by (auto simp: allocateSequence_def run_iff times split: option.splits)
  from chats.FindOneAndUpdate_unsorted [OF run] obtain c
    where c: "updated cd_ID (allocation_filter p) (allocation_update prec p) (docs (mr_chats R) s) (docs (mr_chats R) s') c"
      and d: "d = allocation_update prec p c" by auto
  then have "docs (mr_chats R) s (cd_ID c) = Some c" "allocation_filter p c"
    "docs (mr_chats R) s' = (docs (mr_chats R) s)(cd_ID c \<mapsto> allocation_update prec p c)"
    by (auto simp: updated_def chats.matching_docs)
  then show ?thesis using chats_only [OF run] n d
    by (auto simp: allocation_filter_def allocation_update_def code_checks)
qed

lemma allocate_err:
  assumes "allocateSequence R p s = (s', Inl e)"
  shows "errors_is e (PortsE q) \<longrightarrow> q = ErrChatNotFound \<and> no_chat p (view s)"
proof -
  obtain s1 q1 where run: "FindOneAndUpdate (mr_chats R) (allocation_filter p) (allocation_update prec p) unsorted s =
      (s1, q1)" by fastforce
  show ?thesis
  proof (cases q1)
    case (Inl e1)
    then show ?thesis using assms run chats.FindOneAndUpdate_err [OF linear_unsorted run [unfolded Inl]]
      by (auto simp: allocateSequence_def times)
  next
    case (Inr found)
    show ?thesis
    proof (cases found)
      case (Some d)
      then show ?thesis using assms run Inr
        by (cases "ParseSequence (cd_LastSequence d)") (auto simp: allocateSequence_def times ParseSequence_def split: if_splits)
    next
      case None
      then have e: "e = portsErr ErrChatNotFound" using assms run Inr by (auto simp: allocateSequence_def times)
      have "matching (allocation_filter p) (docs (mr_chats R) s) = {}"
        using chats.FindOneAndUpdate_unsorted [OF run [unfolded Inr]] None by simp
      then show ?thesis using e by (auto simp: no_chat_def matching_def allocation_filter_def ran_def
          dest: chats.keyed)
    qed
  qed
qed

lemma createOperation_ok:
  assumes "createOperation R p s = (s', Inr n)"
  shows "posted prec p n (view s) (view s')"
proof -
  let ?item = "bson_item prec (newTimelineItemDocument p n)" and ?event = "bson_event prec (newOutboxEventDocument p n)"
  from assms obtain s1 s2 s3 where im: "claimImage R p s = (s1, Inr ())"
    and al: "allocateSequence R p s1 = (s2, Inr n)"
    and it: "InsertOne (mr_timeline R) ?item s2 = (s3, Inr ())"
    and ev: "InsertOne (mr_outbox R) ?event s3 = (s', Inr ())"
    by (auto simp: createOperation_def run_iff times)
  have keys: "tld_ID ?item = cmp_MessageID p" "obd_ID ?event = cmp_EventID p"
    by (simp_all add: bson_item_def newTimelineItemDocument_def bson_event_def newOutboxEventDocument_def Let_def)
  note v1 = claimImage_ok [OF im]
  from allocate_ok [OF al] obtain c where c: "sv_chats (view s1) (cmp_ChatID p) = Some c"
    "sender_of p \<in> set (cd_ParticipantIDs c)" "n = cd_LastSequence c + 1" "0 < n" "n \<le> MaxSequence"
    and v2: "view s2 = (view s1)\<lparr>sv_chats := (sv_chats (view s1))(cmp_ChatID p \<mapsto> allocation_update prec p c)\<rparr>"
    by blast
  have it': "sv_items (view s2) (cmp_MessageID p) = None" "\<forall>x \<in> ran (sv_items (view s2)). \<not> timeline_clash x ?item"
    "view s3 = (view s2)\<lparr>sv_items := (sv_items (view s2))(cmp_MessageID p \<mapsto> ?item)\<rparr>"
    using items.InsertOne_ok [OF it] items_only [OF it] keys by simp_all
  have ev': "sv_events (view s3) (cmp_EventID p) = None"
    "view s' = (view s3)\<lparr>sv_events := (sv_events (view s3))(cmp_EventID p \<mapsto> ?event)\<rparr>"
    using events.InsertOne_ok [OF ev] events_only [OF ev] keys by simp_all
  have s1: "sv_chats (view s1) = sv_chats (view s)" "sv_items (view s1) = sv_items (view s)"
    "sv_events (view s1) = sv_events (view s)"
    using v1 by (metis store_view.select_convs store_view.update_convs store_view.surjective)+
  show ?thesis
    using c v1 s1 it' ev' v2 unfolding posted_def Let_def attached_def by simp
qed

lemma createOperation_err:
  assumes "createOperation R p s = (s', Inl e)"
  shows "(errors_is e (PortsE ErrChatNotFound) \<longrightarrow> no_chat p (view s)) \<and>
    (errors_is e (PortsE ErrImageUnavailable) \<longrightarrow> unavailable prec p (view s)) \<and>
    \<not> errors_is e (PortsE ErrMessageIdempotencyConflict)"
proof -
  obtain s1 q1 where im: "claimImage R p s = (s1, q1)" by fastforce
  show ?thesis
  proof (cases q1)
    case (Inl e1)
    then have "e = e1" using assms im by (simp add: createOperation_def)
    then show ?thesis using claimImage_err [OF im [unfolded Inl]] by blast
  next
    case (Inr u)
    note v1 = claimImage_ok [of p s s1]
    have chats: "sv_chats (view s1) = sv_chats (view s)" using v1 im Inr
      by (metis store_view.select_convs(1) store_view.update_convs(4) store_view.surjective old.unit.exhaust)
    obtain s2 q2 where al: "allocateSequence R p s1 = (s2, q2)" by fastforce
    show ?thesis
    proof (cases q2)
      case (Inl e2)
      then have "e = e2" using assms im \<open>q1 = Inr u\<close> al by (simp add: createOperation_def)
      then show ?thesis using allocate_err [OF al [unfolded Inl]] chats by (auto simp: no_chat_def)
    next
      case (Inr n)
      let ?item = "bson_item prec (newTimelineItemDocument p n)" and ?event = "bson_event prec (newOutboxEventDocument p n)"
      obtain s3 q3 where it: "InsertOne (mr_timeline R) ?item s2 = (s3, q3)" by fastforce
      show ?thesis
      proof (cases q3)
        case (Inl e3)
        then have "e = Wrap ''insert timeline item'' e3" using assms im \<open>q1 = Inr u\<close> al Inr it
          by (simp add: createOperation_def times)
        then show ?thesis using items.InsertOne_err [OF it [unfolded Inl]] by simp
      next
        case (Inr u3)
        then obtain e4 s4 where "InsertOne (mr_outbox R) ?event s3 = (s4, Inl e4)" "e = Wrap ''insert outbox event'' e4"
          using assms im \<open>q1 = Inr u\<close> al \<open>q2 = Inr n\<close> it by (auto simp: createOperation_def times orFail_iff)
        then show ?thesis using events.InsertOne_err by fastforce
      qed
    qed
  qed
qed

lemma createTransaction_cases:
  assumes "createTransaction R p s = (s', r)"
  shows "case r of
      Inr n \<Rightarrow> create_posts env prec p n (view s) (view s')
    | Inl e \<Rightarrow>
        (env (view s) (view s') \<or> infrastructure_error e \<and> (\<exists>n. create_posts env prec p n (view s) (view s'))) \<and>
        (errors_is e (PortsE ErrChatNotFound) \<longrightarrow> no_chat p (view s')) \<and>
        (errors_is e (PortsE ErrImageUnavailable) \<longrightarrow> unavailable prec p (view s')) \<and>
        \<not> errors_is e (PortsE ErrMessageIdempotencyConflict)"
proof -
  let ?op = "createOperation R p"
  have posts: "create_posts env prec p n (view s) (view s')" if "committed env view ?op n s s'" for n
    using that createOperation_ok unfolding committed_def create_posts_def by metis
  have pos: "0 < n" if "create_posts env prec p n V V'" for n V V'
    using that by (auto simp: create_posts_def posted_def Let_def)
  obtain s1 q where run: "mr_transactions R (Some ?op) s = (s1, q)" by fastforce
  show ?thesis
  proof (cases q)
    case (Inr n)
    from Run_ok [OF run [unfolded Inr]] have c: "committed env view ?op n s s1" .
    then have "s' = s1" "r = Inr n"
      using assms run Inr posts [of n] pos [of n] createOperation_ok
      by (auto simp: createTransaction_def committed_def posted_def Let_def split: if_splits)
    then show ?thesis using posts c by simp
  next
    case (Inl e)
    then have r: "s' = s1" "r = Inl e" using assms run by (simp_all add: createTransaction_def)
    from Run_err [OF run [unfolded Inl]] show ?thesis
    proof
      assume a: "aborted env view ?op e s s1"
      then show ?thesis
      proof (cases "infrastructure_error e")
        case True
        then show ?thesis using a r by (auto simp: aborted_def infrastructure_error_def)
      next
        case False
        then obtain s0 s2 e0 where "view s0 = view s1" "?op s0 = (s2, Inl e0)" "same_error e e0"
          using a by (auto simp: aborted_def)
        then show ?thesis using createOperation_err [of p s0 s2 e0] a r by (auto simp: same_error_def aborted_def)
      qed
    next
      assume "infrastructure_error e \<and> (\<exists>n. committed env view ?op n s s1)"
      then show ?thesis using posts r by (auto simp: infrastructure_error_def)
    qed
  qed
qed

lemma resolve_iff:
  "resolveExistingMessage (Some x) p =
     (if sameLogicalMessage x p then Inr \<lparr>cmr_Item = Some x, cmr_Created = False\<rparr>
      else Inl (portsErr ErrMessageIdempotencyConflict))"
  by (simp add: resolveExistingMessage_def)

lemma CreateWithOutbox_cases:
  assumes "CreateWithOutbox R p s = (s', r)"
  shows "create_outcome env prec p (view s) (view s') r"
proof (cases "validateCreateParams p")
  case (Inl e)
  then have "\<exists>m. e = Wrap m (storeErr Store_ErrInvalidCreateParams)"
    by (auto simp: validateCreateParams_def Let_def require_def split: if_splits)
  then show ?thesis using assms Inl env_refl by (auto simp: CreateWithOutbox_def create_outcome_def)
next
  case valid: (Inr u)
  obtain s1 q1 where f1: "findExistingMessage R p s = (s1, q1)" by fastforce
  note found1 = findExisting_cases [OF f1]
  then have v1: "view s1 = view s" by blast
  show ?thesis
  proof (cases q1)
    case (Inl e)
    then show ?thesis using assms valid f1 found1 env_refl
      by (auto simp: CreateWithOutbox_def create_outcome_def infrastructure_error_def)
  next
    case q1: (Inr found)
    show ?thesis
    proof (cases found)
      case (Some x)
      then show ?thesis using assms valid f1 q1 found1 env_refl
        by (auto simp: CreateWithOutbox_def create_outcome_def infrastructure_error_def resolve_iff)
    next
      case None
      then have new: "not_stored p (view s)" using found1 q1 by simp
      obtain s2 q2 where tx: "createTransaction R p s1 = (s2, q2)" by fastforce
      note outcome = createTransaction_cases [OF tx, unfolded v1]
      show ?thesis
      proof (cases q2)
        case (Inr n)
        have bad: "stored_item_toDomain d = Inl e \<Longrightarrow> infrastructure_error e" for d e
          unfolding stored_item_toDomain_def by (auto dest!: timeline_toDomain_err)
        show ?thesis
          using assms valid f1 q1 None tx Inr outcome new
          by (cases "stored_item_toDomain (newTimelineItemDocument p n)")
            (auto simp: CreateWithOutbox_def create_outcome_def infrastructure_error_def dest!: bad)
      next
        case q2: (Inl err)
        let ?failed = "if errors_is err (PortsE ErrChatNotFound) then portsErr ErrChatNotFound
                       else Wrap ''persist message transaction'' err"
        note out = outcome [unfolded q2 sum.case]
        have failed: ?thesis if "view s' = view s2" "r = Inl ?failed"
          using that out new by (auto simp: create_outcome_def infrastructure_error_def)
        show ?thesis
        proof (cases "is_duplicate_key err \<or> errors_is err (PortsE ErrImageUnavailable)")
          case False
          then show ?thesis using assms valid f1 q1 None tx q2 failed by (auto simp: CreateWithOutbox_def Let_def)
        next
          case True
          then have "\<not> infrastructure_error err" by (auto simp: infrastructure_error_def)
          then have env: "env (view s) (view s2)" using out by blast
          obtain s3 q3 where f2: "findExistingMessage R p s2 = (s3, q3)" by fastforce
          note found2 = findExisting_cases [OF f2]
          then have v3: "view s3 = view s2" by blast
          note run = assms [unfolded CreateWithOutbox_def]
          consider e where "q3 = Inl e" | "q3 = Inr None" | x where "q3 = Inr (Some x)"
            by (cases q3) auto
          then show ?thesis
          proof cases
            case 1
            then have "s' = s3" "\<exists>m. r = Inl (Wrap m e)"
              using run valid f1 q1 None tx q2 True f2 by (auto simp: Let_def)
            then show ?thesis using found2 v3 env 1
              by (auto simp: create_outcome_def infrastructure_error_def)
          next
            case 2
            then have "s' = s3" "r = Inl ?failed"
              using run valid f1 q1 None tx q2 True f2 by (auto simp: Let_def)
            then show ?thesis using failed v3 by simp
          next
            case (3 x)
            then have "s' = s3" "r = resolveExistingMessage (Some x) p"
              using run valid f1 q1 None tx q2 True f2 by (auto simp: Let_def)
            then show ?thesis using found2 v3 env 3
              by (auto simp: create_outcome_def infrastructure_error_def resolve_iff)
          qed
        qed
      qed
    qed
  qed
qed

sublocale message_contract "CreateWithOutbox R" "store_view R" env prec
  by unfold_locales (rule env_refl, rule CreateWithOutbox_cases)

lemma store_contract: "message_contract (CreateWithOutbox R) (store_view R) env prec"
  by (rule message_contract_axioms)

end

end
