(* ===== verification/MessageHistory.thy ===== *)
theory MessageHistory
  imports MessageSafety
begin

text \<open>
  The stored data under every writer: chats are opened, messages are posted, outbox events and
  images go through their state machines, in any order.  \<open>store_ok\<close> is what every such history
  keeps: the messages of a chat are numbered \<open>1..last_sequence\<close> without gaps or repetitions, each
  message was sent by a participant, each has exactly one outbox event with its data, and each
  image message owns its image.
\<close>

inductive store_step :: "(time \<Rightarrow> time) \<Rightarrow> store_view \<Rightarrow> store_view \<Rightarrow> bool" for prec where
  idle: "store_step prec V V"
| open_chat: "sv_chats V (cd_ID d) = None \<Longrightarrow> cd_LastSequence d = 0 \<Longrightarrow>
    store_step prec V (V\<lparr>sv_chats := (sv_chats V)(cd_ID d \<mapsto> d)\<rparr>)"
| post: "posted prec p n V V' \<Longrightarrow> store_step prec V V'"
| outbox: "outbox_edit prec f u \<Longrightarrow> sv_events V (obd_ID e) = Some e \<Longrightarrow> f e \<Longrightarrow>
    store_step prec V (V\<lparr>sv_events := (sv_events V)(obd_ID e \<mapsto> u e)\<rparr>)"
| image: "image_step prec (sv_images V) m \<Longrightarrow> store_step prec V (V\<lparr>sv_images := m\<rparr>)"

abbreviation store_steps :: "(time \<Rightarrow> time) \<Rightarrow> store_view \<Rightarrow> store_view \<Rightarrow> bool" where
  "store_steps prec \<equiv> (store_step prec)\<^sup>*\<^sup>*"

section \<open>The invariant\<close>

definition in_chat :: "chat_ID \<Rightarrow> int \<Rightarrow> timeline_document \<Rightarrow> bool" where
  "in_chat c k x \<longleftrightarrow> tld_ChatID x = c \<and> tld_Sequence x = Some k"

definition sequences_ok :: "store_view \<Rightarrow> bool" where
  "sequences_ok V \<longleftrightarrow>
     (\<forall>x \<in> ran (sv_items V). \<exists>c k. sv_chats V (tld_ChatID x) = Some c \<and>
        mdd_SenderID (tld_Message x) \<in> set (cd_ParticipantIDs c) \<and>
        tld_Sequence x = Some k \<and> 1 \<le> k \<and> k \<le> cd_LastSequence c) \<and>
     (\<forall>i c. sv_chats V i = Some c \<longrightarrow> 0 \<le> cd_LastSequence c \<and>
        (\<forall>k. 1 \<le> k \<longrightarrow> k \<le> cd_LastSequence c \<longrightarrow> (\<exists>x \<in> ran (sv_items V). in_chat i k x))) \<and>
     (\<forall>x \<in> ran (sv_items V). \<forall>y \<in> ran (sv_items V). x \<noteq> y \<longrightarrow> \<not> timeline_clash x y)"

definition event_for :: "timeline_document \<Rightarrow> outbox_document \<Rightarrow> bool" where
  "event_for x e \<longleftrightarrow>
     (let content = mdd_Content (tld_Message x) in
      obd_AggregateType e = aggregateTypeChat \<and> obd_AggregateID e = tld_ChatID x \<and>
      obd_EventType e = messageCreatedEventType \<and>
      obd_Payload e =
        \<lparr>pld_MessageID = tld_ID x, pld_ClientMessageID = decoded_clientMessageID x,
         pld_ChatID = tld_ChatID x, pld_Sequence = decoded_sequence x,
         pld_SenderID = mdd_SenderID (tld_Message x),
         pld_Content = \<lparr>ecd_Type = mcd_Type content, ecd_Value = mcd_Value content,
                        ecd_ImageID = mcd_ImageID content, ecd_Caption = mcd_Caption content\<rparr>,
         pld_CreatedAt = tld_CreatedAt x\<rparr>)"

definition events_ok :: "store_view \<Rightarrow> bool" where
  "events_ok V \<longleftrightarrow>
     (\<forall>i x. sv_items V i = Some x \<longrightarrow> tld_ID x = i) \<and>
     (\<forall>x \<in> ran (sv_items V). \<exists>i e. sv_events V i = Some e \<and> event_for x e) \<and>
     (\<forall>i e. sv_events V i = Some e \<longrightarrow> (\<exists>x \<in> ran (sv_items V). event_for x e)) \<and>
     (\<forall>i j e e'. sv_events V i = Some e \<longrightarrow> sv_events V j = Some e' \<longrightarrow>
        pld_MessageID (obd_Payload e) = pld_MessageID (obd_Payload e') \<longrightarrow> i = j)"

definition images_ok :: "store_view \<Rightarrow> bool" where
  "images_ok V \<longleftrightarrow>
     (\<forall>x \<in> ran (sv_items V). mcd_Type (mdd_Content (tld_Message x)) = ContentTypeImage \<longrightarrow>
        (\<exists>d. sv_images V (mcd_ImageID (mdd_Content (tld_Message x))) = Some d \<and>
           img_Status d = image_Attached \<and> img_MessageID d = Some (tld_ID x) \<and>
           img_ChatID d = tld_ChatID x \<and> img_UploadedBy d = mdd_SenderID (tld_Message x)))"

definition store_ok :: "store_view \<Rightarrow> bool" where
  "store_ok V \<longleftrightarrow> sequences_ok V \<and> events_ok V \<and> images_ok V"

definition empty_store :: store_view where
  "empty_store = \<lparr>sv_chats = Map.empty, sv_items = Map.empty, sv_events = Map.empty, sv_images = Map.empty\<rparr>"

lemma empty_store_ok: "store_ok empty_store"
  by (simp add: store_ok_def sequences_ok_def events_ok_def images_ok_def empty_store_def)

section \<open>Every step keeps it\<close>

lemma new_item_sel [simp]:
  "tld_ID (bson_item prec (newTimelineItemDocument p n)) = cmp_MessageID p"
  "tld_ChatID (bson_item prec (newTimelineItemDocument p n)) = cmp_ChatID p"
  "tld_Sequence (bson_item prec (newTimelineItemDocument p n)) = Some n"
  "mdd_SenderID (tld_Message (bson_item prec (newTimelineItemDocument p n))) = sender_of p"
  "mdd_ClientMessageID (tld_Message (bson_item prec (newTimelineItemDocument p n))) =
     Some (msg_clientMessageID (cmp_Message p))"
  "mcd_Type (mdd_Content (tld_Message (bson_item prec (newTimelineItemDocument p n)))) =
     mct_contentType (msg_content (cmp_Message p))"
  "mcd_ImageID (mdd_Content (tld_Message (bson_item prec (newTimelineItemDocument p n)))) =
     mct_imageID (msg_content (cmp_Message p))"
  by (simp_all add: bson_item_def newTimelineItemDocument_def Let_def)

lemma new_event_for: "event_for (bson_item prec (newTimelineItemDocument p n)) (bson_event prec (newOutboxEventDocument p n))"
  by (simp add: event_for_def bson_item_def newTimelineItemDocument_def bson_event_def
      newOutboxEventDocument_def Let_def decoded_sequence_def decoded_clientMessageID_def)

lemma event_for_message: "event_for x e \<Longrightarrow> pld_MessageID (obd_Payload e) = tld_ID x"
  by (simp add: event_for_def Let_def)

lemma ran_fresh: "m i = None \<Longrightarrow> ran (m(i \<mapsto> x)) = insert x (ran m)"
  by (rule ran_map_upd)

lemma allocation_update_sel [simp]:
  "cd_LastSequence (allocation_update prec p c) = cd_LastSequence c + 1"
  "cd_ParticipantIDs (allocation_update prec p c) = cd_ParticipantIDs c"
  by (simp_all add: allocation_update_def)

lemma clash_sym: "timeline_clash x y \<longleftrightarrow> timeline_clash y x"
  unfolding timeline_clash_def sequence_clash_def client_message_clash_def by metis

lemma posted_sequences:
  assumes "posted prec p n V V'" "sequences_ok V"
  shows "sequences_ok V'"
proof -
  let ?item = "bson_item prec (newTimelineItemDocument p n)"
  from assms(1) obtain c where c: "sv_chats V (cmp_ChatID p) = Some c" "sender_of p \<in> set (cd_ParticipantIDs c)"
    "n = cd_LastSequence c + 1" "0 < n"
    and V': "sv_chats V' = (sv_chats V)(cmp_ChatID p \<mapsto> allocation_update prec p c)"
    and fresh: "sv_items V (cmp_MessageID p) = None" "\<forall>x \<in> ran (sv_items V). \<not> timeline_clash x ?item"
    and items: "ran (sv_items V') = insert ?item (ran (sv_items V))"
    unfolding posted_def Let_def by (auto simp: ran_fresh)
  from assms(2) have a: "\<forall>x \<in> ran (sv_items V). \<exists>c k. sv_chats V (tld_ChatID x) = Some c \<and>
        mdd_SenderID (tld_Message x) \<in> set (cd_ParticipantIDs c) \<and>
        tld_Sequence x = Some k \<and> 1 \<le> k \<and> k \<le> cd_LastSequence c"
    and b: "\<And>i c. sv_chats V i = Some c \<Longrightarrow> 0 \<le> cd_LastSequence c \<and>
        (\<forall>k. 1 \<le> k \<longrightarrow> k \<le> cd_LastSequence c \<longrightarrow> (\<exists>x \<in> ran (sv_items V). in_chat i k x))"
    and d: "\<forall>x \<in> ran (sv_items V). \<forall>y \<in> ran (sv_items V). x \<noteq> y \<longrightarrow> \<not> timeline_clash x y"
    unfolding sequences_ok_def by blast+
  have "\<exists>c k. sv_chats V' (tld_ChatID x) = Some c \<and>
        mdd_SenderID (tld_Message x) \<in> set (cd_ParticipantIDs c) \<and>
        tld_Sequence x = Some k \<and> 1 \<le> k \<and> k \<le> cd_LastSequence c" if "x \<in> ran (sv_items V')" for x
  proof (cases "x = ?item")
    case True
    then show ?thesis using c V' by simp
  next
    case False
    then have "x \<in> ran (sv_items V)" using that items by simp
    with a show ?thesis using c V' by (cases "tld_ChatID x = cmp_ChatID p") fastforce+
  qed
  moreover have "0 \<le> cd_LastSequence c' \<and>
        (\<forall>k. 1 \<le> k \<longrightarrow> k \<le> cd_LastSequence c' \<longrightarrow> (\<exists>x \<in> ran (sv_items V'). in_chat i k x))"
    if "sv_chats V' i = Some c'" for i c'
  proof (cases "i = cmp_ChatID p")
    case False
    then show ?thesis using b [of i c'] that V' items by auto
  next
    case True
    then have "cd_LastSequence c' = n" using that V' c by auto
    moreover have "in_chat i n ?item" using True by (simp add: in_chat_def)
    ultimately show ?thesis using b [OF c(1)] c(3,4) items True
      by (metis insert_iff order_le_less zle_add1_eq_le order_less_imp_le)
  qed
  moreover have "\<not> timeline_clash x y" if "x \<in> ran (sv_items V')" "y \<in> ran (sv_items V')" "x \<noteq> y" for x y
    using that d fresh(2) items clash_sym by auto
  ultimately show ?thesis unfolding sequences_ok_def by blast
qed

lemma posted_events:
  assumes "posted prec p n V V'" "events_ok V"
  shows "events_ok V'"
proof -
  let ?item = "bson_item prec (newTimelineItemDocument p n)" and ?event = "bson_event prec (newOutboxEventDocument p n)"
  from assms(1) have fresh: "sv_items V (cmp_MessageID p) = None" "sv_events V (cmp_EventID p) = None"
    and V': "sv_items V' = (sv_items V)(cmp_MessageID p \<mapsto> ?item)" "sv_events V' = (sv_events V)(cmp_EventID p \<mapsto> ?event)"
    unfolding posted_def Let_def by auto
  have items: "ran (sv_items V') = insert ?item (ran (sv_items V))" using V'(1) fresh(1) by (simp add: ran_fresh)
  have new: "pld_MessageID (obd_Payload e) \<noteq> cmp_MessageID p" if "sv_events V i = Some e" for i e
  proof -
    from assms(2) that obtain j x where "sv_items V j = Some x" "tld_ID x = j" "event_for x e"
      unfolding events_ok_def ran_def by blast
    then show ?thesis using fresh(1) event_for_message by fastforce
  qed
  show ?thesis
    unfolding events_ok_def
  proof (intro conjI allI ballI impI)
    fix i x assume "sv_items V' i = Some x"
    then show "tld_ID x = i" using assms(2) V'(1) by (auto simp: events_ok_def split: if_splits)
  next
    fix x assume "x \<in> ran (sv_items V')"
    then consider "x = ?item" | "x \<in> ran (sv_items V)" using items by blast
    then show "\<exists>i e. sv_events V' i = Some e \<and> event_for x e"
    proof cases
      case 1
      then show ?thesis using new_event_for [of prec p n] V'(2) by auto
    next
      case 2
      then obtain i e where "sv_events V i = Some e" "event_for x e" using assms(2) unfolding events_ok_def by blast
      moreover from this have "i \<noteq> cmp_EventID p" using fresh(2) by auto
      ultimately show ?thesis using V'(2) by auto
    qed
  next
    fix i e assume "sv_events V' i = Some e"
    show "\<exists>x \<in> ran (sv_items V'). event_for x e"
    proof (cases "i = cmp_EventID p")
      case True
      with \<open>sv_events V' i = Some e\<close> V'(2) have "e = ?event" by simp
      then show ?thesis using new_event_for [of prec p n] items by blast
    next
      case False
      with \<open>sv_events V' i = Some e\<close> V'(2) have "sv_events V i = Some e" by simp
      then show ?thesis using items assms(2) unfolding events_ok_def by blast
    qed
  next
    fix i j e e'
    assume e: "sv_events V' i = Some e" "sv_events V' j = Some e'"
      and same: "pld_MessageID (obd_Payload e) = pld_MessageID (obd_Payload e')"
    have ev: "pld_MessageID (obd_Payload ?event) = cmp_MessageID p"
      by (simp add: bson_event_def newOutboxEventDocument_def Let_def)
    have old: "sv_events V' k = Some e1 \<Longrightarrow> k \<noteq> cmp_EventID p \<Longrightarrow> sv_events V k = Some e1" for k e1
      using V'(2) by simp
    have its: "sv_events V' (cmp_EventID p) = Some ?event" using V'(2) by simp
    show "i = j"
    proof (cases "i = cmp_EventID p \<or> j = cmp_EventID p")
      case True
      then show ?thesis using e same ev its new old by (metis option.inject)
    next
      case False
      then have "sv_events V i = Some e" "sv_events V j = Some e'" using e old by blast+
      then show ?thesis using same assms(2) unfolding events_ok_def by blast
    qed
  qed
qed

lemma posted_images:
  assumes "posted prec p n V V'" "images_ok V"
  shows "images_ok V'"
proof -
  let ?item = "bson_item prec (newTimelineItemDocument p n)"
  from assms(1) have items: "ran (sv_items V') = insert ?item (ran (sv_items V))" and at: "attached prec p V V'"
    unfolding posted_def Let_def by (auto simp: ran_fresh)
  show ?thesis
  proof (cases "mct_contentType (msg_content (cmp_Message p)) = ContentTypeImage")
    case False
    then have "sv_images V' = sv_images V" using at by (simp add: attached_def)
    then show ?thesis using assms(2) items False by (simp add: images_ok_def)
  next
    case True
    let ?i = "mct_imageID (msg_content (cmp_Message p))"
    from at True obtain d where d: "sv_images V ?i = Some d" "img_Status d = image_Ready"
      "img_UploadedBy d = sender_of p" "img_ChatID d = cmp_ChatID p"
      and V': "sv_images V' = (sv_images V)(?i \<mapsto> attach_update (cmp_MessageID p) d)"
      by (auto simp: attached_def attach_filter_def Let_def)
    have "mcd_ImageID (mdd_Content (tld_Message x)) \<noteq> ?i"
      if "x \<in> ran (sv_items V)" "mcd_Type (mdd_Content (tld_Message x)) = ContentTypeImage" for x
      using that assms(2) d(1,2) by (auto simp: images_ok_def image_status_defs)
    then show ?thesis using assms(2) items V' d True by (auto simp: images_ok_def attach_update_def)
  qed
qed

lemma opened_sequences:
  assumes "sequences_ok V" "sv_chats V (cd_ID d) = None" "cd_LastSequence d = 0"
  shows "sequences_ok (V\<lparr>sv_chats := (sv_chats V)(cd_ID d \<mapsto> d)\<rparr>)"
proof -
  have "tld_ChatID x \<noteq> cd_ID d" if "x \<in> ran (sv_items V)" for x
    using that assms(1,2) unfolding sequences_ok_def by fastforce
  then show ?thesis using assms unfolding sequences_ok_def by simp
qed

lemma edited_events:
  assumes "events_ok V" "outbox_edit prec f u" "sv_events V (obd_ID e) = Some e" "f e"
  shows "events_ok (V\<lparr>sv_events := (sv_events V)(obd_ID e \<mapsto> u e)\<rparr>)"
proof -
  have "event_content (u e) = event_content e" using outbox_edit_effect [OF assms(2,4)] by blast
  then have "obd_AggregateType (u e) = obd_AggregateType e" "obd_AggregateID (u e) = obd_AggregateID e"
    "obd_EventType (u e) = obd_EventType e" and pl: "obd_Payload (u e) = obd_Payload e"
    by (simp_all add: event_content_def)
  then have u: "event_for x (u e) = event_for x e" for x by (simp add: event_for_def)
  from assms(1) have a: "\<forall>i x. sv_items V i = Some x \<longrightarrow> tld_ID x = i"
    and b: "\<forall>x \<in> ran (sv_items V). \<exists>i e. sv_events V i = Some e \<and> event_for x e"
    and c: "\<forall>i e. sv_events V i = Some e \<longrightarrow> (\<exists>x \<in> ran (sv_items V). event_for x e)"
    and d: "\<forall>i j e e'. sv_events V i = Some e \<longrightarrow> sv_events V j = Some e' \<longrightarrow>
        pld_MessageID (obd_Payload e) = pld_MessageID (obd_Payload e') \<longrightarrow> i = j"
    unfolding events_ok_def by blast+
  define m where "m = (sv_events V)(obd_ID e \<mapsto> u e)"
  have at: "m (obd_ID e) = Some (u e)" and other: "\<And>i. i \<noteq> obd_ID e \<Longrightarrow> m i = sv_events V i"
    by (simp_all add: m_def)
  have "\<exists>i e2. m i = Some e2 \<and> event_for x e2" if x: "x \<in> ran (sv_items V)" for x
  proof -
    from b x obtain i e1 where e1: "sv_events V i = Some e1" "event_for x e1" by blast
    show ?thesis
    proof (cases "i = obd_ID e")
      case True
      with e1 assms(3) u at show ?thesis by auto
    next
      case False
      with e1 other show ?thesis by metis
    qed
  qed
  moreover have "\<exists>x \<in> ran (sv_items V). event_for x e2" if e2: "m i = Some e2" for i e2
  proof (cases "i = obd_ID e")
    case True
    with e2 at have "e2 = u e" by simp
    moreover obtain x where "x \<in> ran (sv_items V)" "event_for x e" using c assms(3) by blast
    ultimately show ?thesis using u by blast
  next
    case False
    with e2 other have "sv_events V i = Some e2" by simp
    then show ?thesis using c by blast
  qed
  moreover have "i = j" if e: "m i = Some e1" "m j = Some e2"
    "pld_MessageID (obd_Payload e1) = pld_MessageID (obd_Payload e2)" for i j e1 e2
  proof -
    have "\<exists>e0. sv_events V k = Some e0 \<and> obd_Payload e0 = obd_Payload e3" if "m k = Some e3" for k e3
      using that pl assms(3) at other by (cases "k = obd_ID e") auto
    then obtain e1' e2' where "sv_events V i = Some e1'" "obd_Payload e1' = obd_Payload e1"
      "sv_events V j = Some e2'" "obd_Payload e2' = obd_Payload e2" using e(1,2) by blast
    then show ?thesis using d e(3) by metis
  qed
  moreover have sel: "sv_items (V\<lparr>sv_events := m\<rparr>) = sv_items V" "sv_events (V\<lparr>sv_events := m\<rparr>) = m"
    by simp_all
  ultimately show ?thesis using a unfolding m_def [symmetric] events_ok_def sel by blast
qed

lemma stepped_images:
  assumes "images_ok V" "image_step prec (sv_images V) m"
  shows "images_ok (V\<lparr>sv_images := m\<rparr>)"
proof -
  have "\<exists>d. m i = Some d \<and> img_Status d = image_Attached \<and> img_MessageID d = k \<and>
      img_ChatID d = c \<and> img_UploadedBy d = s"
    if "sv_images V i = Some d" "img_Status d = image_Attached" "img_MessageID d = k" "img_ChatID d = c"
      "img_UploadedBy d = s" for i d k c s
    using image_step_keeps [OF assms(2) that(1)] that(2-) by auto
  then show ?thesis using assms(1) unfolding images_ok_def by fastforce
qed

lemma store_step_ok:
  assumes "store_step prec V V'" "store_ok V"
  shows "store_ok V'"
  using assms
proof (cases rule: store_step.cases)
  case (open_chat d)
  then show ?thesis using assms(2) opened_sequences [of V d]
    by (simp add: store_ok_def events_ok_def images_ok_def)
next
  case (post p n)
  then show ?thesis using assms(2) posted_sequences posted_events posted_images unfolding store_ok_def by blast
next
  case (outbox f u e)
  then show ?thesis using assms(2) edited_events [of V prec f u e]
    by (simp add: store_ok_def sequences_ok_def images_ok_def)
next
  case (image m)
  then show ?thesis using assms(2) stepped_images [of V prec m]
    by (simp add: store_ok_def sequences_ok_def events_ok_def)
qed (simp add: assms(2))

lemma store_steps_ok: "store_steps prec V V' \<Longrightarrow> store_ok V \<Longrightarrow> store_ok V'"
  by (induction rule: rtranclp_induct) (auto dest: store_step_ok)

section \<open>A message is never lost or duplicated\<close>

lemma store_step_items:
  "store_step prec V V' \<Longrightarrow> sv_items V i = Some x \<Longrightarrow> sv_items V' i = Some x"
  by (cases rule: store_step.cases) (auto simp: posted_def Let_def)

lemma store_steps_items:
  "store_steps prec V V' \<Longrightarrow> sv_items V i = Some x \<Longrightarrow> sv_items V' i = Some x"
  by (induction rule: rtranclp_induct) (auto dest: store_step_items)

lemma posted_stored: "posted prec p n V V' \<Longrightarrow>
    sv_items V' (cmp_MessageID p) = Some (bson_item prec (newTimelineItemDocument p n))"
  by (auto simp: posted_def Let_def)

text \<open>No second message gets the client identifier of a stored one of the same sender.\<close>

lemma posted_fresh:
  assumes "posted prec p n V V'" "x \<in> ran (sv_items V)"
  shows "\<not> idempotency_filter (cmp_Message p) x"
proof
  assume "idempotency_filter (cmp_Message p) x"
  then have "timeline_clash x (bson_item prec (newTimelineItemDocument p n))"
    by (simp add: idempotency_filter_def timeline_clash_def client_message_clash_def)
  then show False using assms by (auto simp: posted_def Let_def)
qed

lemma posted_once:
  assumes "posted prec p n V V1" "store_steps prec V1 V2" "posted prec q m V2 V3"
    and "sender_of q = sender_of p" "msg_clientMessageID (cmp_Message q) = msg_clientMessageID (cmp_Message p)"
  shows False
proof -
  have "bson_item prec (newTimelineItemDocument p n) \<in> ran (sv_items V2)"
    using store_steps_items [OF assms(2) posted_stored [OF assms(1)]] by (rule ranI)
  from posted_fresh [OF assms(3) this] assms(4,5) show False by (simp add: idempotency_filter_def)
qed

context message_contract
begin

text \<open>When the other clients make steps of the store, so does a creation, whatever its outcome.\<close>

lemma create_steps:
  assumes "\<And>V V'. env V V' \<Longrightarrow> store_steps prec V V'"
  shows "follows (\<lambda>s s'. store_steps prec (view s) (view s')) (S p)"
proof (rule followsI)
  fix s s' r assume run: "S p s = (s', r)"
  have "create_posts env prec p n V V' \<Longrightarrow> store_steps prec V V'" for n V V'
    unfolding create_posts_def using assms store_step.post by (meson rtranclp.rtrancl_into_rtrancl)
  then show "store_steps prec (view s) (view s')"
    using Create [OF run] assms
    by (cases r) (auto simp: create_outcome_def split: if_splits)
qed

text \<open>A retry of a message that was posted finds it, whatever happened in between.\<close>

lemma retry_not_created:
  assumes env: "\<And>V V'. env V V' \<Longrightarrow> store_steps prec V V'"
    and "posted prec p n V V1" "store_steps prec V1 (view s)"
    and "sender_of q = sender_of p" "msg_clientMessageID (cmp_Message q) = msg_clientMessageID (cmp_Message p)"
    and run: "S q s = (s', r)"
  shows "env (view s) (view s') \<and> (\<forall>result. r = Inr result \<longrightarrow> \<not> cmr_Created result)"
proof -
  have "bson_item prec (newTimelineItemDocument p n) \<in> ran (sv_items (view s))"
    using store_steps_items [OF assms(3) posted_stored [OF assms(2)]] by (rule ranI)
  moreover have "idempotency_filter (cmp_Message q) (bson_item prec (newTimelineItemDocument p n))"
    using assms(4,5) by (simp add: idempotency_filter_def)
  ultimately have "\<not> not_stored q (view s)" unfolding not_stored_def by blast
  then show ?thesis using Create [OF run] by (auto simp: create_outcome_def split: sum.splits if_splits)
qed

end

end
