(* ===== verification/Messages.thy ===== *)
theory Messages
  imports MessageHistory
begin

text \<open>
  The use case \<^verbatim>\<open>internal/application/messages/create.go\<close>: a participant of a chat writes a
  message in it.
\<close>

definition maxTextMessageCharacters :: nat where "maxTextMessageCharacters = 4000"
definition DeliveryStatusPersisted :: string where "DeliveryStatusPersisted = ''PERSISTED''"

record create_content_input =
  cci_Type :: string
  cci_Value :: string
  cci_ImageID :: string
  cci_Caption :: string

record create_input =
  cin_CurrentUserID :: string
  cin_ChatID :: string
  cin_ClientMessageID :: string
  cin_Content :: create_content_input

record created_content =
  cco_Type :: string
  cco_Value :: string
  cco_ImageID :: string
  cco_Caption :: string

record create_output =
  cou_ID :: string
  cou_ClientMessageID :: string
  cou_ChatID :: string
  cou_Sequence :: int
  cou_SenderID :: string
  cou_Content :: created_content
  cou_CreatedAt :: time
  cou_DeliveryStatus :: string
  cou_Created :: bool

record 'w create_dependencies =
  crd_ChatRepository :: "'w chat_repository"
  crd_MessageStore :: "'w message_store"
  crd_IDGenerator :: "'w id_generator"
  crd_Clock :: "'w clock"

abbreviation messagesErr :: "messages_error \<Rightarrow> go_error" where
  "messagesErr e \<equiv> Sentinel (MessagesE e)"

definition parseContent :: "create_content_input \<Rightarrow> go_error + message_content" where
  "parseContent input =
     andThen (ParseContentType (cci_Type input))
       (\<lambda>_. Wrap ''invalid message content type'' (messagesErr Messages_ErrInvalidContentType)) (\<lambda>contentType.
     require (ValidString (cci_Value input)) (messagesErr Messages_ErrInvalidContent) (
     if contentType = ContentTypeImage then
       require (\<not> cci_Value input \<noteq> []) (messagesErr Messages_ErrInvalidContent) (
       andThen (NewImageContent (cci_ImageID input) (cci_Caption input))
         (\<lambda>_. messagesErr Messages_ErrInvalidContent) (\<lambda>content. Inr content))
     else
       require (\<not> (cci_ImageID input \<noteq> [] \<or> cci_Caption input \<noteq> [])) (messagesErr Messages_ErrInvalidContent) (
       require (\<not> RuneCountInString (cci_Value input) > maxTextMessageCharacters)
         (messagesErr Messages_ErrContentTooLong) (
       andThen (NewMessageContent contentType (cci_Value input))
         (\<lambda>_. Wrap ''invalid message content'' (messagesErr Messages_ErrInvalidContent)) (\<lambda>content. Inr content)))))"

definition generateMessageID :: "'w create_dependencies \<Rightarrow> ('w, go_error, timeline_ID) call" where
  "generateMessageID D =
     orFail (crd_IDGenerator D) (Wrap ''generate message id'') (\<lambda>rawID.
     orFail (lift (timeline_ParseID rawID)) (Wrap ''parse generated message id'') ret)"

definition generateEventID :: "'w create_dependencies \<Rightarrow> ('w, go_error, string) call" where
  "generateEventID D =
     orFail (crd_IDGenerator D) (Wrap ''generate outbox event id'') (\<lambda>eventID.
     let eventID = TrimSpace eventID in
     if eventID = [] then fail (NewError ''id generator returned an empty outbox event id'') else ret eventID)"

definition validateStoredItem :: "item option \<Rightarrow> chat_ID \<Rightarrow> message \<Rightarrow> go_error + item" where
  "validateStoredItem item expectedChatID expectedMessage =
     (case item of
        None \<Rightarrow> Inl (NewError ''message store returned a nil item'')
      | Some item \<Rightarrow>
          let storedMessage = itm_message item; storedContent = msg_content storedMessage;
              expectedContent = msg_content expectedMessage in
          require (\<not> itm_chatID item \<noteq> expectedChatID)
            (NewError ''message store returned an item from another chat'') (
          require (\<not> itm_sequence item \<le> 0) (NewError ''message store returned an invalid sequence'') (
          require (\<not> msg_clientMessageID storedMessage \<noteq> msg_clientMessageID expectedMessage)
            (NewError ''message store returned another client message id'') (
          require (\<not> msg_senderID storedMessage \<noteq> msg_senderID expectedMessage)
            (NewError ''message store returned another sender'') (
          require (\<not> (mct_contentType storedContent \<noteq> mct_contentType expectedContent \<or>
                      mct_value storedContent \<noteq> mct_value expectedContent \<or>
                      mct_imageID storedContent \<noteq> mct_imageID expectedContent \<or>
                      mct_caption storedContent \<noteq> mct_caption expectedContent))
            (NewError ''message store returned different message content'') (
          Inr item))))))"

definition mapCreateOutput :: "item \<Rightarrow> bool \<Rightarrow> create_output" where
  "mapCreateOutput item created =
     (let msg = itm_message item; content = msg_content msg in
      \<lparr>cou_ID = itm_id item, cou_ClientMessageID = msg_clientMessageID msg, cou_ChatID = itm_chatID item,
       cou_Sequence = itm_sequence item, cou_SenderID = msg_senderID msg,
       cou_Content = \<lparr>cco_Type = mct_contentType content, cco_Value = mct_value content,
                      cco_ImageID = mct_imageID content, cco_Caption = mct_caption content\<rparr>,
       cou_CreatedAt = itm_createdAt item, cou_DeliveryStatus = DeliveryStatusPersisted,
       cou_Created = created\<rparr>)"

definition CreateMessage :: "'w create_dependencies \<Rightarrow> create_input \<Rightarrow> ('w, go_error, create_output) call" where
  "CreateMessage D input =
     orFail (lift (user_ParseID (cin_CurrentUserID input)))
       (\<lambda>_. Wrap ''invalid current user id'' (messagesErr Messages_ErrInvalidCurrentUserID)) (\<lambda>currentUserID.
     orFail (lift (chat_ParseID (cin_ChatID input)))
       (\<lambda>_. Wrap ''invalid chat id'' (messagesErr Messages_ErrInvalidChatID)) (\<lambda>chatID.
     orFail (lift (ParseClientMessageID (cin_ClientMessageID input)))
       (\<lambda>_. Wrap ''invalid client message id'' (messagesErr Messages_ErrInvalidClientMessageID)) (\<lambda>clientMessageID.
     orFail (lift (parseContent (cin_Content input))) (\<lambda>e. e) (\<lambda>content.
     orFail (ChatFindByID (crd_ChatRepository D) chatID)
       (\<lambda>e. if errors_is e (PortsE ErrChatNotFound) then messagesErr Messages_ErrChatNotFound
            else Wrap ''find chat'' e) (\<lambda>found.
     case found of
       None \<Rightarrow> fail (NewError ''chat repository returned a nil chat'')
     | Some conversation \<Rightarrow>
         if \<not> HasParticipant conversation currentUserID then fail (messagesErr Messages_ErrChatNotFound)
         else
           orFail (lift (NewMessage clientMessageID currentUserID content)) (Wrap ''create message value'') (\<lambda>msg.
           orFail (generateMessageID D) (\<lambda>e. e) (\<lambda>messageID.
           orFail (generateEventID D) (\<lambda>e. e) (\<lambda>eventID.
           reads (crd_Clock D) (\<lambda>now.
             let createdAt = UTC now in
             if IsZero createdAt then fail (NewError ''clock returned a zero creation time'')
             else
               orFail (crd_MessageStore D
                         \<lparr>cmp_MessageID = messageID, cmp_EventID = eventID, cmp_ChatID = chatID,
                          cmp_Message = msg, cmp_CreatedAt = createdAt\<rparr>)
                 (\<lambda>e. if errors_is e (PortsE ErrMessageIdempotencyConflict)
                      then messagesErr Messages_ErrIdempotencyConflict
                      else if errors_is e (PortsE ErrChatNotFound) then messagesErr Messages_ErrChatNotFound
                      else Wrap ''create message with outbox'' e) (\<lambda>result.
               orFail (lift (validateStoredItem (cmr_Item result) chatID msg)) (\<lambda>e. e) (\<lambda>item.
               ret (mapCreateOutput item (cmr_Created result)))))))))))))"

section \<open>What is accepted\<close>

text \<open>
  A content is accepted when it is a text of 1 to 4000 characters that is not blank, or an image
  with a caption of at most 4000 characters, in valid UTF-8; nothing of it is changed.
\<close>

lemma parseContent_ok:
  "parseContent input = Inr content \<longleftrightarrow>
     content_Valid content \<and> ParseContentType (cci_Type input) = Inr (mct_contentType content) \<and>
     mct_value content = cci_Value input \<and> mct_imageID content = cci_ImageID input \<and>
     mct_caption content = cci_Caption input \<and> ValidString (cci_Value input) \<and>
     RuneCountInString (cci_Value input) \<le> maxTextMessageCharacters"
proof -
  have nil: "RuneCountInString [] = 0" by code_simp
  show ?thesis
    unfolding parseContent_def run_iff
    by (cases content) (auto simp: code_checks run_iff ParseContentType_ok content_Valid_restore nil split: if_splits)
qed

section \<open>What is written\<close>

text \<open>
  The ports of the use case: the message store and a chat repository that read and write the same
  data, an identifier generator and a clock that leave it alone.
\<close>

definition view_chats :: "store_view \<Rightarrow> chat_ID \<rightharpoonup> chat" where
  "view_chats V = map_option stored_chat \<circ> sv_chats V"

locale create_ports =
  message_contract "crd_MessageStore D" view env prec +
  chats: chat_store "crd_ChatRepository D" "view_chats \<circ> view" prec
  for D :: "'w create_dependencies" and view :: "'w \<Rightarrow> store_view"
    and env :: "store_view \<Rightarrow> store_view \<Rightarrow> bool" and prec :: "time \<Rightarrow> time" +
  assumes find_keeps: "keeps view (ChatFindByID (crd_ChatRepository D) i)"
    and ids_keep: "keeps view (crd_IDGenerator D)"
    and clock_keeps: "keeps view (crd_Clock D)"
begin

lemma generateMessageID_ok: "generateMessageID D w = (w', r) \<Longrightarrow>
    view w' = view w \<and> (\<forall>i. r = Inr i \<longrightarrow> i \<noteq> [] \<and> TrimSpace i = i)"
proof -
  assume run: "generateMessageID D w = (w', r)"
  have "keeps view (generateMessageID D)" unfolding generateMessageID_def by (intro frame ids_keep)
  moreover have "i \<noteq> [] \<and> TrimSpace i = i" if "r = Inr i" for i
    using run that by (auto simp: generateMessageID_def run_iff)
  ultimately show ?thesis using keepsD run by metis
qed

lemma generateEventID_keeps: "keeps view (generateEventID D)"
  unfolding generateEventID_def Let_def by (auto intro!: frame ids_keep)

text \<open>A run that returns went through the message store once, for a participant of the chat.\<close>

lemma CreateMessage_ok:
  assumes "CreateMessage D input w = (w', Inr out)"
  shows "\<exists>p w1 result item y.
    view w1 = view w \<and> crd_MessageStore D p w1 = (w', Inr result) \<and> cmr_Item result = Some item \<and>
    out = mapCreateOutput item (cmr_Created result) \<and>
    cmp_ChatID p = TrimSpace (cin_ChatID input) \<and> sender_of p = TrimSpace (cin_CurrentUserID input) \<and>
    ParseClientMessageID (cin_ClientMessageID input) = Inr (msg_clientMessageID (cmp_Message p)) \<and>
    parseContent (cin_Content input) = Inr (msg_content (cmp_Message p)) \<and>
    cmp_MessageID p \<noteq> [] \<and> TrimSpace (cmp_MessageID p) = cmp_MessageID p \<and>
    view_chats (view w) (cmp_ChatID p) = Some y \<and> HasParticipant (chat_restored y) (sender_of p) \<and>
    itm_chatID item = cmp_ChatID p \<and> 0 < itm_sequence item \<and> itm_message item = cmp_Message p"
proof -
  from assms obtain uid chat_id cid content w1 conversation msg mid w2 eid w3 now w4 result item
    where ids: "user_ParseID (cin_CurrentUserID input) = Inr uid" "chat_ParseID (cin_ChatID input) = Inr chat_id"
      "ParseClientMessageID (cin_ClientMessageID input) = Inr cid" "parseContent (cin_Content input) = Inr content"
      and fc: "ChatFindByID (crd_ChatRepository D) chat_id w = (w1, Inr (Some conversation))"
      and part: "HasParticipant conversation uid"
      and msg: "NewMessage cid uid content = Inr msg"
      and mid: "generateMessageID D w1 = (w2, Inr mid)" and eid: "generateEventID D w2 = (w3, Inr eid)"
      and now: "crd_Clock D w3 = (w4, now)"
      and store: "crd_MessageStore D \<lparr>cmp_MessageID = mid, cmp_EventID = eid, cmp_ChatID = chat_id,
          cmp_Message = msg, cmp_CreatedAt = now\<rparr> w4 = (w', Inr result)"
      and item: "validateStoredItem (cmr_Item result) chat_id msg = Inr item"
      and out: "out = mapCreateOutput item (cmr_Created result)"
    unfolding CreateMessage_def
    by (auto simp: run_iff Let_def split: option.splits if_splits)
  let ?p = "\<lparr>cmp_MessageID = mid, cmp_EventID = eid, cmp_ChatID = chat_id, cmp_Message = msg, cmp_CreatedAt = now\<rparr>"
  have v: "view w4 = view w"
    using keepsD [OF find_keeps fc] generateMessageID_ok [OF mid] keepsD [OF generateEventID_keeps eid]
      keepsD [OF clock_keeps now] by simp
  from item have it: "cmr_Item result = Some item" "itm_chatID item = chat_id" "0 < itm_sequence item"
    "itm_message item = msg"
    by (auto simp: validateStoredItem_def Let_def run_iff split: option.splits)
  from chats.ChatFindByID_ok [OF fc] obtain y where y: "view_chats (view w) chat_id = Some y"
    "conversation = chat_restored y" by auto
  show ?thesis
    by (rule exI [of _ ?p], rule exI [of _ w4], rule exI [of _ result], rule exI [of _ item], rule exI [of _ y])
      (use ids msg v store it out part y generateMessageID_ok [OF mid] in
        \<open>auto simp: NewMessage_ok code_checks\<close>)
qed

text \<open>What a run that returns has written.\<close>

lemma CreateMessage_posts:
  assumes "CreateMessage D input w = (w', Inr out)"
  shows "\<exists>p y. view_chats (view w) (cmp_ChatID p) = Some y \<and> HasParticipant (chat_restored y) (sender_of p) \<and>
    cmp_ChatID p = TrimSpace (cin_ChatID input) \<and> sender_of p = TrimSpace (cin_CurrentUserID input) \<and>
    ParseClientMessageID (cin_ClientMessageID input) = Inr (msg_clientMessageID (cmp_Message p)) \<and>
    parseContent (cin_Content input) = Inr (msg_content (cmp_Message p)) \<and>
    (if cou_Created out
     then not_stored p (view w) \<and>
       (\<exists>n. create_posts env prec p n (view w) (view w') \<and> cou_Sequence out = n \<and> cou_ID out = cmp_MessageID p)
     else env (view w) (view w') \<and>
       (\<exists>x. existing_item p (view w') x \<and> cou_Sequence out = itm_sequence x \<and> cou_ID out = itm_id x))"
proof -
  from CreateMessage_ok [OF assms] obtain p w1 result item y where
    v: "view w1 = view w" and run: "crd_MessageStore D p w1 = (w', Inr result)"
    and item: "cmr_Item result = Some item" and out: "out = mapCreateOutput item (cmr_Created result)"
    and mid: "TrimSpace (cmp_MessageID p) = cmp_MessageID p"
    and rest: "view_chats (view w) (cmp_ChatID p) = Some y" "HasParticipant (chat_restored y) (sender_of p)"
      "cmp_ChatID p = TrimSpace (cin_ChatID input)" "sender_of p = TrimSpace (cin_CurrentUserID input)"
      "ParseClientMessageID (cin_ClientMessageID input) = Inr (msg_clientMessageID (cmp_Message p))"
      "parseContent (cin_Content input) = Inr (msg_content (cmp_Message p))"
    by blast
  have sel: "cou_Created out = cmr_Created result" "cou_Sequence out = itm_sequence item" "cou_ID out = itm_id item"
    by (simp_all add: out mapCreateOutput_def Let_def)
  have fields: "itm_sequence x = n \<and> itm_id x = cmp_MessageID p"
    if "stored_item_toDomain (newTimelineItemDocument p n) = Inr x" for n x
    using that mid unfolding stored_item_toDomain_def timeline_toDomain_ok
    by (auto simp: document_item_def newTimelineItemDocument_def decoded_sequence_def Let_def)
  have "create_outcome env prec p (view w) (view w') (Inr result)"
    using Create [OF run] v by simp
  then show ?thesis
    using rest sel fields item by (intro exI [of _ p] exI [of _ y]) (auto simp: create_outcome_def split: if_splits)
qed

text \<open>Someone who is not a participant writes nothing and is told that there is no such chat.\<close>

lemma CreateMessage_stranger:
  assumes run: "CreateMessage D input w = (w', r)"
    and stranger: "\<And>y. view_chats (view w) (TrimSpace (cin_ChatID input)) = Some y \<Longrightarrow>
      \<not> HasParticipant (chat_restored y) (TrimSpace (cin_CurrentUserID input))"
  shows "view w' = view w \<and> (\<exists>e. r = Inl e)"
proof -
  obtain w1 q where f: "ChatFindByID (crd_ChatRepository D) (TrimSpace (cin_ChatID input)) w = (w1, q)" by fastforce
  have v: "view w1 = view w" by (rule keepsD [OF find_keeps f])
  have no: "\<not> HasParticipant c (TrimSpace (cin_CurrentUserID input))" if "q = Inr (Some c)" for c
    using chats.ChatFindByID_ok [OF f [unfolded that]] stranger by auto
  show ?thesis
  proof (cases "isOk (user_ParseID (cin_CurrentUserID input)) \<and> isOk (chat_ParseID (cin_ChatID input)) \<and>
      isOk (ParseClientMessageID (cin_ClientMessageID input)) \<and> isOk (parseContent (cin_Content input))")
    case False
    then show ?thesis using run
      by (auto simp: CreateMessage_def isOk_def orFail_iff split: sum.splits)
  next
    case True
    then obtain cid content where "user_ParseID (cin_CurrentUserID input) = Inr (TrimSpace (cin_CurrentUserID input))"
      "chat_ParseID (cin_ChatID input) = Inr (TrimSpace (cin_ChatID input))"
      "ParseClientMessageID (cin_ClientMessageID input) = Inr cid" "parseContent (cin_Content input) = Inr content"
      by (auto simp: isOk_iff code_checks)
    then show ?thesis using run f v no
      by (cases q) (auto simp: CreateMessage_def split: option.splits if_splits)
  qed
qed

text \<open>The use case makes only steps of the store, whatever its outcome.\<close>

lemma CreateMessage_steps:
  assumes "\<And>V V'. env V V' \<Longrightarrow> store_steps prec V V'"
  shows "follows (\<lambda>w w'. store_steps prec (view w) (view w')) (CreateMessage D input)"
proof -
  let ?R = "\<lambda>w w'. store_steps prec (view w) (view w')"
  have R: "reflp ?R" "transp ?R" by (auto simp: reflp_def transp_def)
  have quiet: "follows ?R m" if "keeps view m" for m :: "('w, go_error, 'b) call"
    using that by (simp add: follows_def keeps_def)
  have clock: "follows ?R (crd_Clock D)" using clock_keeps by (simp add: follows_def keeps_def)
  have mid: "keeps view (generateMessageID D)" unfolding generateMessageID_def by (intro frame ids_keep)
  show ?thesis
    unfolding CreateMessage_def Let_def
    by (auto intro!: follows_orFail [OF R] follows_reads [OF R(2)] follows_pure [OF R(1)] clock
        quiet [OF find_keeps] quiet [OF mid] quiet [OF generateEventID_keeps] create_steps [OF assms]
        split: option.splits)
qed

end

end
