(* ===== verification/OutboxWorker.thy ===== *)
theory OutboxWorker
  imports OutboxStore
begin

text \<open>
  The outbox publisher: one step of it (\<^verbatim>\<open>internal/application/outbox/publish_one.go\<close>) claims an
  event, publishes it and finishes it under the lease; the loops of
  \<^verbatim>\<open>internal/drivers/worker/outbox_runner\<close> repeat the step and take expired leases back.
\<close>

definition OutcomeNoWork :: string where "OutcomeNoWork = ''NO_WORK''"
definition OutcomePublished :: string where "OutcomePublished = ''PUBLISHED''"
definition OutcomeRetryScheduled :: string where "OutcomeRetryScheduled = ''RETRY_SCHEDULED''"
definition OutcomeFailedPermanent :: string where "OutcomeFailedPermanent = ''FAILED_PERMANENT''"

lemmas outcome_defs = OutcomeNoWork_def OutcomePublished_def OutcomeRetryScheduled_def OutcomeFailedPermanent_def

record 'w publish_one =
  pub_Store :: "'w outbox_store"
  pub_Publisher :: "'w event_publisher"
  pub_IDGenerator :: "'w id_generator"
  pub_Clock :: "'w clock"
  pub_WorkerID :: string
  pub_LeaseDuration :: duration
  pub_PublishTimeout :: duration
  pub_FinishTimeout :: duration

text \<open>The checks of the constructor; the sum of the two timeouts is one of 64-bit integers.\<close>

definition NewPublishOne :: "'w publish_one \<Rightarrow> go_error + 'w publish_one" where
  "NewPublishOne deps =
     require (\<not> blank (pub_WorkerID deps)) (NewError ''worker ID cannot be empty'') (
     require (\<not> (pub_PublishTimeout deps \<le> 0 \<or> pub_FinishTimeout deps \<le> 0 \<or>
                 pub_LeaseDuration deps \<le> wrap64 (pub_PublishTimeout deps + pub_FinishTimeout deps)))
       (NewError ''invalid outbox publisher timeouts'') (
     Inr deps))"

definition retry_delays :: "duration list" where
  "retry_delays = [second, 2 * second, 5 * second, 10 * second, 30 * second, minute, 5 * minute]"

definition retry_base :: "int \<Rightarrow> duration" where
  "retry_base attempts =
     (let attempts = (if attempts < 0 then 0 else attempts);
          attempts = (if attempts \<ge> int (length retry_delays) then int (length retry_delays) - 1 else attempts)
      in retry_delays ! nat attempts)"

text \<open>\<open>int64N n\<close> is \<^verbatim>\<open>rand.Int64N\<close>, a random number below \<open>n\<close>.\<close>

definition retryDelay :: "(int \<Rightarrow> 'w \<Rightarrow> 'w \<times> int) \<Rightarrow> int \<Rightarrow> 'w \<Rightarrow> 'w \<times> duration" where
  "retryDelay int64N attempts w =
     (let base = retry_base attempts in
      case int64N (go_div base 5 + 1) w of (w', jitter) \<Rightarrow> (w', base + jitter))"

text \<open>The second half of \<^verbatim>\<open>RunOnce\<close>: the claimed event is published and finished.\<close>

definition publishClaimed ::
  "'w publish_one \<Rightarrow> (int \<Rightarrow> 'w \<Rightarrow> 'w \<times> int) \<Rightarrow> string \<Rightarrow> outbox_event \<Rightarrow> ('w, go_error, string) call" where
  "publishClaimed worker int64N leaseID event =
     (let finish = (\<lambda>done_it outcome.
            if \<not> done_it then fail (NewError (''lease lost for outbox event '' @ oev_ID event)) else ret outcome) in
      attempt (pub_Publisher worker event)
        (\<lambda>publishErr.
           if errors_is publishErr (PortsE ErrInvalidOutboxEvent) then
             reads (pub_Clock worker) (\<lambda>now.
             orFail (OutboxMarkFailed (pub_Store worker) (oev_ID event) leaseID now ''invalid_outbox_event'')
               (Wrap ''finish invalid outbox event'') (\<lambda>updated. finish updated OutcomeFailedPermanent))
           else
             reads (pub_Clock worker) (\<lambda>now.
             reads (retryDelay int64N (oev_Attempts event)) (\<lambda>delay.
             let nextAttemptAt = now + delay in
             orFail (OutboxScheduleRetry (pub_Store worker) (oev_ID event) leaseID nextAttemptAt
                       ''outbox_publish_failed'')
               (Wrap ''schedule outbox retry'') (\<lambda>updated. finish updated OutcomeRetryScheduled))))
        (\<lambda>receipt.
           reads (pub_Clock worker) (\<lambda>now.
           orFail (OutboxMarkPublished (pub_Store worker) (oev_ID event) leaseID receipt now)
             (Wrap ''finish published outbox event'') (\<lambda>updated. finish updated OutcomePublished))))"

definition RunOnce ::
  "'w publish_one \<Rightarrow> 'w go_context \<Rightarrow> (int \<Rightarrow> 'w \<Rightarrow> 'w \<times> int) \<Rightarrow> ('w, go_error, string) call" where
  "RunOnce worker ctx int64N =
     orFail ctx (\<lambda>e. e) (\<lambda>_.
     orFail (pub_IDGenerator worker) (Wrap ''generate outbox lease ID'') (\<lambda>leaseID.
     reads (pub_Clock worker) (\<lambda>now.
     orFail (OutboxClaimNext (pub_Store worker) (pub_WorkerID worker) leaseID now (pub_LeaseDuration worker))
       (Wrap ''claim outbox event'') (\<lambda>claimed.
     case claimed of
       None \<Rightarrow> ret OutcomeNoWork
     | Some event \<Rightarrow>
         if oev_LeaseID event \<noteq> leaseID then fail (NewError ''outbox store returned another lease ID'')
         else publishClaimed worker int64N leaseID event))))"

section \<open>The loops\<close>

text \<open>
  \<open>sleep d\<close> is the function \<^verbatim>\<open>wait\<close>: false when the context ended first.  The loops run until the
  context ends; the fuel bounds how many rounds of a loop are looked at.
\<close>

record 'w outbox_runner =
  run_step :: "('w, go_error, string) call"
  run_recoverer :: "'w outbox_lease_recoverer"
  run_clock :: "'w clock"
  run_Concurrency :: int
  run_IdleInterval :: duration
  run_ErrorInterval :: duration
  run_RecoveryInterval :: duration
  run_RecoveryBatchSize :: int

definition NewOutboxRunner :: "'w outbox_runner \<Rightarrow> go_error + 'w outbox_runner" where
  "NewOutboxRunner config =
     require (\<not> (run_IdleInterval config \<le> 0 \<or> run_ErrorInterval config \<le> 0 \<or> run_RecoveryInterval config \<le> 0))
       (NewError ''outbox intervals must be positive'') (
     require (\<not> (run_Concurrency config < 1 \<or> run_Concurrency config > 64 \<or>
                 run_RecoveryBatchSize config < 1 \<or> run_RecoveryBatchSize config > 1000))
       (NewError ''invalid outbox concurrency or recovery batch size'') (
     Inr config))"

fun runner_publish ::
  "nat \<Rightarrow> 'w outbox_runner \<Rightarrow> 'w go_context \<Rightarrow> (duration \<Rightarrow> 'w \<Rightarrow> 'w \<times> bool) \<Rightarrow> ('w, go_error, unit) call" where
  "runner_publish 0 runner ctx sleep = ret ()"
| "runner_publish (Suc fuel) runner ctx sleep =
     (let again = runner_publish fuel runner ctx sleep;
          pause = (\<lambda>d. reads (sleep d) (\<lambda>go_on. if \<not> go_on then ret () else again)) in
      attempt ctx (\<lambda>_. ret ()) (\<lambda>_.
      attempt (run_step runner)
        (\<lambda>err. attempt ctx (\<lambda>_. ret ()) (\<lambda>_. pause (run_ErrorInterval runner)))
        (\<lambda>outcome.
           if outcome = OutcomeNoWork then pause (run_IdleInterval runner)
           else if outcome = OutcomePublished then again
           else if outcome = OutcomeRetryScheduled then pause (run_ErrorInterval runner)
           else if outcome = OutcomeFailedPermanent then again
           else pause (run_ErrorInterval runner))))"

fun runner_recoverLeases ::
  "nat \<Rightarrow> 'w outbox_runner \<Rightarrow> 'w go_context \<Rightarrow> (duration \<Rightarrow> 'w \<Rightarrow> 'w \<times> bool) \<Rightarrow> ('w, go_error, unit) call" where
  "runner_recoverLeases 0 runner ctx sleep = ret ()"
| "runner_recoverLeases (Suc fuel) runner ctx sleep =
     (let go_on = attempt ctx (\<lambda>_. ret ()) (\<lambda>_.
            reads (sleep (run_RecoveryInterval runner)) (\<lambda>go_on.
            if \<not> go_on then ret () else runner_recoverLeases fuel runner ctx sleep)) in
      attempt ctx (\<lambda>_. ret ()) (\<lambda>_.
      reads (run_clock runner) (\<lambda>now.
      attempt (run_recoverer runner now (run_RecoveryBatchSize runner)) (\<lambda>_. go_on) (\<lambda>_. go_on))))"

section \<open>Retry delays\<close>

lemma retry_base_bounds: "second \<le> retry_base attempts \<and> retry_base attempts \<le> 5 * minute"
proof -
  have "n < 7 \<Longrightarrow> second \<le> retry_delays ! n \<and> retry_delays ! n \<le> 5 * minute" for n :: nat
    by (auto simp: retry_delays_def less_Suc_eq numeral_eq_Suc nth_Cons')
  then show ?thesis by (auto simp: retry_base_def Let_def retry_delays_def nat_less_iff)
qed

lemma retry_base_index: "retry_base a = retry_delays ! nat (min (max a 0) 6)"
  by (simp add: retry_base_def Let_def retry_delays_def)

lemma retry_base_mono: "a \<le> b \<Longrightarrow> retry_base a \<le> retry_base b"
  unfolding retry_base_index by (rule sorted_nth_mono) (simp_all add: retry_delays_def nat_less_iff nat_mono)

lemma retryDelay_bounds:
  assumes "\<And>n w w' k. 0 < n \<Longrightarrow> int64N n w = (w', k) \<Longrightarrow> 0 \<le> k \<and> k < n"
    and "retryDelay int64N attempts w = (w', d)"
  shows "retry_base attempts \<le> d \<and> 5 * d \<le> 6 * retry_base attempts"
proof -
  let ?b = "retry_base attempts"
  have b: "0 < ?b" using retry_base_bounds [of attempts] by simp
  then have g: "go_div ?b 5 = ?b div 5" by (simp add: go_div_def)
  obtain w1 k where r: "int64N (go_div ?b 5 + 1) w = (w1, k)" by fastforce
  have "0 < go_div ?b 5 + 1" using b g by simp
  from assms(1) [OF this r] have "0 \<le> k" "k \<le> ?b div 5" using g by simp_all
  moreover have "d = ?b + k" using assms(2) r by (simp add: retryDelay_def Let_def)
  moreover have "5 * (?b div 5) \<le> ?b" by simp
  ultimately show ?thesis by linarith
qed

section \<open>One step of the publisher\<close>

text \<open>
  \<open>published_step W prec out d m m'\<close>: the event \<open>d\<close>, the first one that was due, was leased,
  handed to the publisher, and finished according to the publisher's answer, with outcome \<open>out\<close>.
\<close>

definition published_step ::
  "'w publish_one \<Rightarrow> (time \<Rightarrow> time) \<Rightarrow> string \<Rightarrow> outbox_document
     \<Rightarrow> outbox_document documents \<Rightarrow> outbox_document documents \<Rightarrow> bool" where
  "published_step W prec out d m m' \<longleftrightarrow>
     (\<exists>lease now. due_filter prec now d \<and> (\<forall>x \<in> ran m. due_filter prec now x \<longrightarrow> claim_order d x) \<and>
       (let d1 = claim_update prec (pub_WorkerID W) lease now (pub_LeaseDuration W) d in
        \<exists>w1 w2 answer. pub_Publisher W (event_toPort d1) w1 = (w2, answer) \<and>
           (case answer of
              Inr receipt \<Rightarrow> out = OutcomePublished \<and> (\<exists>at. m' = m(obd_ID d \<mapsto> published_update prec receipt at d1))
            | Inl e \<Rightarrow>
                if errors_is e (PortsE ErrInvalidOutboxEvent)
                then out = OutcomeFailedPermanent \<and>
                  (\<exists>at. m' = m(obd_ID d \<mapsto> failed_update prec at ''invalid_outbox_event'' d1))
                else out = OutcomeRetryScheduled \<and>
                  (\<exists>at delay. retry_base (obd_Attempts d) \<le> delay \<and> 5 * delay \<le> 6 * retry_base (obd_Attempts d) \<and>
                     m' = m(obd_ID d \<mapsto> retry_update prec (at + delay) ''outbox_publish_failed'' d1)))))"

text \<open>The publisher, the clock, the identifier generator and the random source leave the outbox alone.\<close>

locale publisher_ports =
  outbox_port "pub_Store W" events prec
  for W :: "'w publish_one" and events :: "'w \<Rightarrow> outbox_document documents" and prec :: "time \<Rightarrow> time" +
  fixes ctx :: "'w go_context" and int64N :: "int \<Rightarrow> 'w \<Rightarrow> 'w \<times> int"
  assumes publish_keeps: "keeps events (pub_Publisher W event)"
    and ids_keep: "keeps events (pub_IDGenerator W)"
    and clock_keeps: "keeps events (pub_Clock W)"
    and ctx_keeps: "keeps events ctx"
    and rand_keeps: "keeps events (int64N n)"
    and rand_range: "0 < n \<Longrightarrow> int64N n w = (w', k) \<Longrightarrow> 0 \<le> k \<and> k < n"
begin

abbreviation steps :: "'w \<Rightarrow> 'w \<Rightarrow> bool" where
  "steps w w' \<equiv> outbox_steps prec (events w) (events w')"

lemma steps_refl: "reflp steps" and steps_trans: "transp steps"
  by (auto simp: reflp_def transp_def)

lemma quiet: "keeps events m \<Longrightarrow> follows steps m"
  by (simp add: follows_def keeps_def)

lemma delay_keeps: "keeps events (retryDelay int64N a)"
  using rand_keeps unfolding keeps_def retryDelay_def Let_def by (simp split: prod.splits) (metis fst_conv)

text \<open>Whatever happens, a step of the publisher makes only steps of the lease machine.\<close>

lemmas step_rules = follows_attempt [OF steps_trans] follows_orFail [OF steps_refl steps_trans]
  follows_reads [OF steps_trans] follows_pure [OF steps_refl] Claim_steps Published_steps Retry_steps
  Failed_steps quiet [OF publish_keeps] quiet [OF ids_keep] quiet [OF ctx_keeps]

lemma clock_follows: "follows steps (pub_Clock W)"
  using clock_keeps by (simp add: follows_def keeps_def)

lemma delay_follows: "follows steps (retryDelay int64N a)"
  using delay_keeps by (simp add: follows_def keeps_def)

lemma RunOnce_steps: "follows steps (RunOnce W ctx int64N)"
  unfolding RunOnce_def publishClaimed_def Let_def
  by (auto intro!: step_rules clock_follows delay_follows split: option.splits)

lemma finished_claimed:
  assumes "finished i lease u True (m(i \<mapsto> d1)) m'"
  shows "m' = m(i \<mapsto> u d1)"
  using assms by (auto simp: finished_def)

lemma publishClaimed_ok:
  assumes run: "publishClaimed W int64N lease event w = (w', Inr out)"
    and "events w = m(oev_ID event \<mapsto> d1)"
  shows "\<exists>w1 answer. pub_Publisher W event w = (w1, answer) \<and>
     (case answer of
        Inr receipt \<Rightarrow> out = OutcomePublished \<and> (\<exists>at. events w' = m(oev_ID event \<mapsto> published_update prec receipt at d1))
      | Inl e \<Rightarrow>
          if errors_is e (PortsE ErrInvalidOutboxEvent)
          then out = OutcomeFailedPermanent \<and>
            (\<exists>at. events w' = m(oev_ID event \<mapsto> failed_update prec at ''invalid_outbox_event'' d1))
          else out = OutcomeRetryScheduled \<and>
            (\<exists>at delay. retry_base (oev_Attempts event) \<le> delay \<and> 5 * delay \<le> 6 * retry_base (oev_Attempts event) \<and>
               events w' = m(oev_ID event \<mapsto> retry_update prec (at + delay) ''outbox_publish_failed'' d1)))"
proof -
  obtain w1 answer where p: "pub_Publisher W event w = (w1, answer)" by fastforce
  have v1: "events w1 = m(oev_ID event \<mapsto> d1)" using keepsD [OF publish_keeps p] assms(2) by simp
  obtain w2 now where n: "pub_Clock W w1 = (w2, now)" by fastforce
  have v2: "events w2 = m(oev_ID event \<mapsto> d1)" using keepsD [OF clock_keeps n] v1 by simp
  obtain w3 delay where r: "retryDelay int64N (oev_Attempts event) w2 = (w3, delay)" by fastforce
  have v3: "events w3 = m(oev_ID event \<mapsto> d1)" using keepsD [OF delay_keeps r] v2 by simp
  show ?thesis
  proof (cases answer)
    case (Inr receipt)
    then have out: "out = OutcomePublished"
      and "OutboxMarkPublished (pub_Store W) (oev_ID event) lease receipt now w2 = (w', Inr True)"
      using run p n by (auto simp: publishClaimed_def run_iff split: if_splits)
    from Published_ok [OF this(2), unfolded v2] have "events w' = m(oev_ID event \<mapsto> published_update prec receipt now d1)"
      by (rule finished_claimed)
    then show ?thesis using p Inr out by auto
  next
    case (Inl e)
    show ?thesis
    proof (cases "errors_is e (PortsE ErrInvalidOutboxEvent)")
      case True
      then have out: "out = OutcomeFailedPermanent"
        and "OutboxMarkFailed (pub_Store W) (oev_ID event) lease now ''invalid_outbox_event'' w2 = (w', Inr True)"
        using run p n Inl by (auto simp: publishClaimed_def run_iff split: if_splits)
      from Failed_ok [OF this(2), unfolded v2]
      have "events w' = m(oev_ID event \<mapsto> failed_update prec now ''invalid_outbox_event'' d1)"
        by (rule finished_claimed)
      then show ?thesis using p Inl True out by auto
    next
      case False
      then have out: "out = OutcomeRetryScheduled"
        and "OutboxScheduleRetry (pub_Store W) (oev_ID event) lease (now + delay) ''outbox_publish_failed'' w3 = (w', Inr True)"
        using run p n r Inl by (auto simp: publishClaimed_def run_iff Let_def split: if_splits)
      from Retry_ok [OF this(2), unfolded v3]
      have "events w' = m(oev_ID event \<mapsto> retry_update prec (now + delay) ''outbox_publish_failed'' d1)"
        by (rule finished_claimed)
      moreover have "retry_base (oev_Attempts event) \<le> delay \<and> 5 * delay \<le> 6 * retry_base (oev_Attempts event)"
        by (rule retryDelay_bounds [OF rand_range r])
      ultimately show ?thesis using p Inl False out by auto
    qed
  qed
qed

lemma RunOnce_ok:
  assumes "RunOnce W ctx int64N w = (w', Inr out)"
  shows "out = OutcomeNoWork \<and> events w' = events w \<and> (\<exists>now. \<forall>d \<in> ran (events w). \<not> due_filter prec now d) \<or>
    (\<exists>d. events w (obd_ID d) = Some d \<and> published_step W prec out d (events w) (events w'))"
proof -
  from assms obtain w1 w2 lease w3 now w4 claimed where c: "ctx w = (w1, Inr ())"
    and l: "pub_IDGenerator W w1 = (w2, Inr lease)" and n: "pub_Clock W w2 = (w3, now)"
    and cl: "OutboxClaimNext (pub_Store W) (pub_WorkerID W) lease now (pub_LeaseDuration W) w3 = (w4, Inr claimed)"
    and rest: "(case claimed of None \<Rightarrow> ret OutcomeNoWork
       | Some event \<Rightarrow> if oev_LeaseID event \<noteq> lease then fail (NewError ''outbox store returned another lease ID'')
           else publishClaimed W int64N lease event) w4 = (w', Inr out)"
    unfolding RunOnce_def by (auto simp: run_iff)
  have v3: "events w3 = events w"
    using keepsD [OF ctx_keeps c] keepsD [OF ids_keep l] keepsD [OF clock_keeps n] by simp
  note claim = Claim_ok [OF cl, unfolded v3]
  show ?thesis
  proof (cases claimed)
    case None
    then show ?thesis using rest claim by (auto simp: claimed_next_def)
  next
    case (Some event)
    let ?u = "claim_update prec (pub_WorkerID W) lease now (pub_LeaseDuration W)"
    from claim Some obtain d where d: "events w (obd_ID d) = Some d" "due_filter prec now d"
      "\<forall>x \<in> ran (events w). due_filter prec now x \<longrightarrow> claim_order d x" "event = event_toPort (?u d)"
      and v4: "events w4 = (events w)(obd_ID d \<mapsto> ?u d)"
      by (auto simp: claimed_next_def)
    have ids: "oev_ID event = obd_ID d" "oev_Attempts event = obd_Attempts d"
      using d(4) by (simp_all add: event_toPort_def claim_update_def Let_def)
    from rest Some have "publishClaimed W int64N lease event w4 = (w', Inr out)" by (auto split: if_splits)
    from publishClaimed_ok [OF this, of "events w" "?u d", unfolded ids, OF v4] d
    have "published_step W prec out d (events w) (events w')"
      unfolding published_step_def Let_def by blast
    with d(1) show ?thesis by blast
  qed
qed

text \<open>So do the loops of the runner, however long they run.\<close>

lemma runner_steps:
  assumes "run_step r = RunOnce W ctx int64N" "\<And>d. keeps events (sleep d)" "keeps events (run_clock r)"
    and "\<And>now n. follows steps (run_recoverer r now n)"
  shows "follows steps (runner_publish fuel r ctx sleep)"
    and "follows steps (runner_recoverLeases fuel r ctx sleep)"
proof -
  have sleep: "follows steps (sleep d)" for d using assms(2) by (simp add: follows_def keeps_def)
  have clock: "follows steps (run_clock r)" using assms(3) by (simp add: follows_def keeps_def)
  show "follows steps (runner_publish fuel r ctx sleep)"
  proof (induction fuel)
    case (Suc fuel)
    have "follows steps (run_step r)" using RunOnce_steps assms(1) by simp
    with Suc show ?case unfolding runner_publish.simps Let_def
      by (auto intro!: step_rules sleep)
  qed (simp add: follows_def)
  show "follows steps (runner_recoverLeases fuel r ctx sleep)"
  proof (induction fuel)
    case (Suc fuel)
    then show ?case unfolding runner_recoverLeases.simps Let_def
      by (auto intro!: step_rules sleep clock assms(4))
  qed (simp add: follows_def)
qed

end

end
