(* ===== verification/Delivery.thy ===== *)
theory Delivery
  imports OutboxStore ChatStore DomainTimeline
begin

text \<open>
  From the outbox to the users: the JetStream publisher of outbox events
  (\<^verbatim>\<open>internal/resources/nats/jetstream_publisher\<close>), the use case that turns a delivered event
  into notifications (\<^verbatim>\<open>internal/application/delivery/dispatch.go\<close>), the NATS publishers of
  notifications and of permanent failures, and the consumer loop
  (\<^verbatim>\<open>internal/drivers/worker/delivery_runner\<close>).  The NATS client and the JSON codec are parameters.
\<close>

unbundle bit_operations_syntax

section \<open>The events\<close>

definition ValidMessageContent :: "outbox_content \<Rightarrow> bool" where
  "ValidMessageContent content =
     isOk (RestoreContent (oc_Type content) (oc_Value content) (oc_ImageID content) (oc_Caption content))"

definition MessageCreatedEventTypeV1 :: string where
  "MessageCreatedEventTypeV1 = ''chat.message.created.v1''"

record message_created_event =
  mce_EventID :: string
  mce_EventType :: string
  mce_AggregateType :: string
  mce_AggregateID :: string
  mce_OccurredAt :: time
  mce_Payload :: message_created_payload

definition RealtimeProtocolVersion :: int where "RealtimeProtocolVersion = 1"
definition RealtimeMessageCreatedType :: string where "RealtimeMessageCreatedType = ''message.created''"

record realtime_message_data =
  rmd_ID :: string
  rmd_ClientMessageID :: string
  rmd_ChatID :: string
  rmd_Sequence :: int
  rmd_SenderID :: string
  rmd_Content :: outbox_content
  rmd_CreatedAt :: time

record realtime_message_created =
  rmc_Version :: int
  rmc_Type :: string
  rmc_EventID :: string
  rmc_OccurredAt :: time
  rmc_Data :: realtime_message_data

type_synonym 'w realtime_publisher = "user_ID \<Rightarrow> realtime_message_created \<Rightarrow> ('w, go_error, unit) call"
type_synonym 'w message_delivery_handler = "message_created_event \<Rightarrow> ('w, go_error, unit) call"

record delivery_failure =
  dfl_EventID :: string
  dfl_StreamSequence :: nat
  dfl_ReasonCode :: string

type_synonym 'w delivery_failure_publisher = "delivery_failure \<Rightarrow> ('w, go_error, unit) call"

section \<open>The publisher of outbox events\<close>

record pub_ack =
  ack_Stream :: string
  ack_Sequence :: nat

text \<open>\<open>js subject data messageID expectedStream\<close> is \<^verbatim>\<open>JetStream.Publish\<close> with its two options.\<close>

type_synonym 'w jetstream = "string \<Rightarrow> string \<Rightarrow> string \<Rightarrow> string \<Rightarrow> ('w, go_error, pub_ack option) call"

definition streamName :: string where "streamName = ''CHAT_EVENTS''"
definition messageCreatedSubjectPrefix :: string where
  "messageCreatedSubjectPrefix = ''chat.message.created''"

text \<open>\<^verbatim>\<open>hash/fnv\<close>: the 32-bit FNV-1a hash.\<close>

definition fnv32a :: "string \<Rightarrow> 32 word" where
  "fnv32a s = foldl (\<lambda>h c. (h XOR of_char c) * 16777619) 2166136261 s"

definition subjectForChat :: "string \<Rightarrow> 32 word \<Rightarrow> string" where
  "subjectForChat chatID partitions =
     messageCreatedSubjectPrefix @ ''.'' @ decimal (unat (fnv32a chatID mod partitions))"

definition validateEvent :: "outbox_event \<Rightarrow> go_error + unit" where
  "validateEvent event =
     (let payload = oev_Payload event in
      if blank (oev_ID event) \<or> oev_EventType event \<noteq> MessageCreatedEventTypeV1 \<or>
         oev_AggregateType event \<noteq> ''CHAT'' \<or> blank (mcp_ChatID payload) \<or>
         oev_AggregateID event \<noteq> mcp_ChatID payload \<or> blank (mcp_MessageID payload) \<or>
         blank (mcp_SenderID payload) \<or> mcp_Sequence payload \<le> 0 \<or>
         mcp_Sequence payload > MaxSequence \<or> IsZero (mcp_CreatedAt payload) \<or>
         \<not> ValidMessageContent (mcp_Content payload)
      then Inl (portsErr ErrInvalidOutboxEvent) else Inr ())"

definition event_envelope :: "outbox_event \<Rightarrow> message_created_event" where
  "event_envelope event =
     \<lparr>mce_EventID = oev_ID event, mce_EventType = oev_EventType event,
      mce_AggregateType = oev_AggregateType event, mce_AggregateID = oev_AggregateID event,
      mce_OccurredAt = UTC (mcp_CreatedAt (oev_Payload event)), mce_Payload = oev_Payload event\<rparr>"

definition NewPublisher :: "'w jetstream option \<Rightarrow> 32 word \<Rightarrow> go_error + 'w jetstream \<times> 32 word" where
  "NewPublisher js partitions =
     (case js of
        None \<Rightarrow> Inl (NewError ''JetStream client cannot be nil'')
      | Some js \<Rightarrow> if partitions = 0 then Inl (NewError ''partition count must be positive'')
                   else Inr (js, partitions))"

definition publisher_Publish ::
  "(message_created_event \<Rightarrow> go_error + string) \<Rightarrow> 'w jetstream \<Rightarrow> 32 word \<Rightarrow> 'w event_publisher" where
  "publisher_Publish marshal js partitions event =
     orFail (lift (validateEvent event)) (\<lambda>e. e) (\<lambda>_.
     orFail (lift (marshal (event_envelope event))) (Wrap ''encode outbox event'') (\<lambda>data.
     orFail (js (subjectForChat (mcp_ChatID (oev_Payload event)) partitions) data (oev_ID event) streamName)
       (Wrap ''publish outbox event'') (\<lambda>answer.
     case answer of
       None \<Rightarrow> fail (NewError ''invalid JetStream publish acknowledgement'')
     | Some ack \<Rightarrow>
         if ack_Stream ack \<noteq> streamName \<or> ack_Sequence ack = 0
         then fail (NewError ''invalid JetStream publish acknowledgement'')
         else ret \<lparr>rcp_Stream = ack_Stream ack, rcp_Sequence = ack_Sequence ack\<rparr>)))"

section \<open>Dispatching a delivered event\<close>

definition validateMessageCreated :: "message_created_event \<Rightarrow> go_error + unit" where
  "validateMessageCreated event =
     (let payload = mce_Payload event in
      if blank (mce_EventID event) \<or> mce_EventType event \<noteq> MessageCreatedEventTypeV1 \<or>
         mce_AggregateType event \<noteq> ''CHAT'' \<or> blank (mce_AggregateID event) \<or>
         mce_AggregateID event \<noteq> mcp_ChatID payload \<or> IsZero (mce_OccurredAt event) \<or>
         blank (mcp_MessageID payload) \<or> blank (mcp_SenderID payload) \<or> mcp_Sequence payload \<le> 0 \<or>
         mcp_Sequence payload > MaxSequence \<or> IsZero (mcp_CreatedAt payload) \<or>
         \<not> ValidMessageContent (mcp_Content payload)
      then Inl (portsErr ErrInvalidMessageCreatedEvent)
      else if mcp_ClientMessageID payload \<noteq> [] \<and> \<not> isOk (ParseClientMessageID (mcp_ClientMessageID payload))
      then Inl (portsErr ErrInvalidMessageCreatedEvent)
      else Inr ())"

definition public_event :: "message_created_event \<Rightarrow> realtime_message_created" where
  "public_event event =
     (let payload = mce_Payload event in
      \<lparr>rmc_Version = RealtimeProtocolVersion, rmc_Type = RealtimeMessageCreatedType,
       rmc_EventID = mce_EventID event, rmc_OccurredAt = UTC (mce_OccurredAt event),
       rmc_Data =
         \<lparr>rmd_ID = mcp_MessageID payload, rmd_ClientMessageID = mcp_ClientMessageID payload,
          rmd_ChatID = mcp_ChatID payload, rmd_Sequence = mcp_Sequence payload,
          rmd_SenderID = mcp_SenderID payload, rmd_Content = mcp_Content payload,
          rmd_CreatedAt = UTC (mcp_CreatedAt payload)\<rparr>\<rparr>)"

definition Dispatch ::
  "'w chat_repository \<Rightarrow> 'w realtime_publisher \<Rightarrow> 'w go_context \<Rightarrow> 'w message_delivery_handler" where
  "Dispatch chats realtime ctx event =
     orFail ctx (\<lambda>e. e) (\<lambda>_.
     orFail (lift (validateMessageCreated event)) (\<lambda>e. e) (\<lambda>_.
     orFail (lift (chat_ParseID (mcp_ChatID (mce_Payload event))))
       (\<lambda>_. portsErr ErrInvalidMessageCreatedEvent) (\<lambda>chatID.
     orFail (lift (user_ParseID (mcp_SenderID (mce_Payload event))))
       (\<lambda>_. portsErr ErrInvalidMessageCreatedEvent) (\<lambda>senderID.
     orFail (ChatFindByID chats chatID)
       (\<lambda>e. if errors_is e (PortsE ErrChatNotFound)
            then Wrap ''chat_not_found'' (portsErr ErrInvalidMessageCreatedEvent)
            else Wrap ''find delivery chat'' e) (\<lambda>found.
     case found of
       None \<Rightarrow> fail (NewError ''chat repository returned nil conversation'')
     | Some conversation \<Rightarrow>
         orFail (lift (RelatedUserID conversation senderID))
           (\<lambda>e. if errors_is e (ChatE Chat_ErrUserNotParticipant)
                then Wrap ''sender_not_participant'' (portsErr ErrInvalidMessageCreatedEvent)
                else Wrap ''resolve delivery recipient'' e) (\<lambda>recipientID.
         orFail (realtime recipientID (public_event event)) (Wrap ''publish recipient notification'') (\<lambda>_.
         orFail (realtime senderID (public_event event)) (Wrap ''publish sender notification'') (\<lambda>_.
         ret ()))))))))"

section \<open>The publishers of notifications and failures\<close>

text \<open>A rune of at most 32, 127 or one of the three separators is a single byte.\<close>

definition ValidRealtimeUserID :: "string \<Rightarrow> bool" where
  "ValidRealtimeUserID ident \<longleftrightarrow>
     ident \<noteq> [] \<and> length ident \<le> 256 \<and>
     list_all (\<lambda>c. \<not> (of_char c \<le> (32 :: nat) \<or> of_char c = (127 :: nat) \<or> c \<in> set ''.*>'')) ident"

definition ValidateRealtimeMessage :: "realtime_message_created \<Rightarrow> go_error + unit" where
  "ValidateRealtimeMessage event =
     (let data = rmc_Data event in
      if rmc_Version event \<noteq> RealtimeProtocolVersion \<or> rmc_Type event \<noteq> RealtimeMessageCreatedType \<or>
         blank (rmc_EventID event) \<or> IsZero (rmc_OccurredAt event) \<or> blank (rmd_ID data) \<or>
         blank (rmd_ChatID data) \<or> \<not> ValidRealtimeUserID (rmd_SenderID data) \<or> rmd_Sequence data \<le> 0 \<or>
         rmd_Sequence data > MaxSequence \<or> IsZero (rmd_CreatedAt data) \<or>
         \<not> ValidMessageContent (rmd_Content data)
      then Inl (portsErr ErrInvalidMessageCreatedEvent)
      else if rmd_ClientMessageID data \<noteq> [] \<and> \<not> isOk (ParseClientMessageID (rmd_ClientMessageID data))
      then Inl (portsErr ErrInvalidMessageCreatedEvent)
      else Inr ())"

record 'w nats_connection =
  NatsPublish :: "string \<Rightarrow> string \<Rightarrow> ('w, go_error, unit) call"
  NatsFlush :: "('w, go_error, unit) call"

definition subjectPrefix :: string where "subjectPrefix = ''realtime.user.''"

definition PublishMessageCreated ::
  "(realtime_message_created \<Rightarrow> go_error + string) \<Rightarrow> 'w nats_connection \<Rightarrow> 'w go_context
     \<Rightarrow> 'w realtime_publisher" where
  "PublishMessageCreated marshal connection ctx recipientID event =
     orFail ctx (\<lambda>e. e) (\<lambda>_.
     if \<not> ValidRealtimeUserID recipientID \<or> \<not> isOk (ValidateRealtimeMessage event)
     then fail (portsErr ErrInvalidMessageCreatedEvent)
     else
       orFail (lift (marshal event)) (Wrap ''encode realtime event'') (\<lambda>data.
       orFail (NatsPublish connection (subjectPrefix @ recipientID) data) (Wrap ''publish realtime event'') (\<lambda>_.
       orFail (NatsFlush connection) (Wrap ''flush realtime event'') (\<lambda>_.
       ret ()))))"

definition failureSubject :: string where "failureSubject = ''chat.message.delivery_failed''"
definition failureType :: string where "failureType = ''chat.message.delivery_failed.v1''"

record failure_event =
  fev_Type :: string
  fev_SourceEventID :: string
  fev_SourceStream :: string
  fev_SourceSequence :: nat
  fev_ReasonCode :: string
  fev_OccurredAt :: time

definition PublishFailure ::
  "(failure_event \<Rightarrow> go_error + string) \<Rightarrow> 'w jetstream \<Rightarrow> 'w clock \<Rightarrow> 'w delivery_failure_publisher" where
  "PublishFailure marshal js now failure =
     (if dfl_StreamSequence failure = 0 \<or> dfl_ReasonCode failure = []
      then fail (NewError ''invalid delivery failure metadata'')
      else
        reads now (\<lambda>now.
        let record = \<lparr>fev_Type = failureType, fev_SourceEventID = dfl_EventID failure,
                      fev_SourceStream = streamName, fev_SourceSequence = dfl_StreamSequence failure,
                      fev_ReasonCode = dfl_ReasonCode failure, fev_OccurredAt = UTC now\<rparr> in
        orFail (lift (marshal record)) (Wrap ''encode delivery failure'') (\<lambda>data.
        orFail (js failureSubject data (''delivery_failed:'' @ decimal (dfl_StreamSequence failure)) streamName)
          (Wrap ''publish delivery failure'') (\<lambda>answer.
        case answer of
          None \<Rightarrow> fail (NewError ''invalid delivery failure publish acknowledgement'')
        | Some ack \<Rightarrow>
            if ack_Stream ack \<noteq> streamName \<or> ack_Sequence ack = 0
            then fail (NewError ''invalid delivery failure publish acknowledgement'')
            else ret ()))))"

end
