(* ===== verification/DeliveryRunner.thy ===== *)
theory DeliveryRunner
  imports Delivery
begin

text \<open>
  The consumer of the delivery stream (\<^verbatim>\<open>internal/drivers/worker/delivery_runner/runner.go\<close>), and
  what dispatching promises: only the two participants of a chat are notified, a message of the
  stream is acknowledged only after its notifications were sent and discarded only after the failure
  was recorded, and everything else is delivered again.
\<close>

section \<open>The consumer\<close>

record msg_metadata =
  mdt_Stream :: string
  mdt_Consumer :: string
  mdt_StreamSequence :: nat
  mdt_NumDelivered :: nat

record 'w jetstream_msg =
  msg_Metadata :: "go_error + msg_metadata"
  msg_Data :: string
  msg_NakWithDelay :: "duration \<Rightarrow> ('w, go_error, unit) call"
  msg_DoubleAck :: "('w, go_error, unit) call"
  msg_TermWithReason :: "string \<Rightarrow> ('w, go_error, unit) call"

record 'w delivery_runner =
  drn_Next :: "('w, go_error, 'w jetstream_msg) call"
  drn_handler :: "'w message_delivery_handler"
  drn_failures :: "'w delivery_failure_publisher"

definition defaultErrorWait :: duration where "defaultErrorWait = 2 * second"
definition maxEventBytes :: nat where "maxEventBytes = 64 * 1024"

definition delivery_delays :: "duration list" where
  "delivery_delays = [5 * second, 10 * second, 30 * second, minute, 5 * minute]"

text \<open>\<^verbatim>\<open>deliveries\<close> is an unsigned integer; zero is tested before it is decremented.\<close>

definition delivery_retryDelay :: "nat \<Rightarrow> duration" where
  "delivery_retryDelay deliveries =
     (if deliveries = 0 then delivery_delays ! 0
      else let index = deliveries - 1;
               index = (if index \<ge> length delivery_delays then length delivery_delays - 1 else index)
           in delivery_delays ! index)"

text \<open>\<open>ignoring m k\<close> is \<^verbatim>\<open>_ = m(); k\<close>.\<close>

definition ignoring :: "('w, 'e, 'a) call \<Rightarrow> ('w, 'f, 'b) call \<Rightarrow> ('w, 'f, 'b) call" where
  "ignoring m k = attempt m (\<lambda>_. k) (\<lambda>_. k)"

lemma ignoring_iff: "ignoring m k w = r \<longleftrightarrow> k (fst (m w)) = r"
  by (cases "m w") (auto simp: ignoring_def attempt_def split: sum.splits)

definition failPermanent ::
  "'w delivery_runner \<Rightarrow> 'w jetstream_msg \<Rightarrow> msg_metadata \<Rightarrow> string \<Rightarrow> string \<Rightarrow> ('w, go_error, unit) call" where
  "failPermanent runner msg metadata eventID reasonCode =
     attempt (drn_failures runner
                \<lparr>dfl_EventID = eventID, dfl_StreamSequence = mdt_StreamSequence metadata,
                 dfl_ReasonCode = reasonCode\<rparr>)
       (\<lambda>err. ignoring (msg_NakWithDelay msg (delivery_retryDelay (mdt_NumDelivered metadata)))
                (fail (Wrap ''record permanent delivery failure'' err)))
       (\<lambda>_. orFail (msg_TermWithReason msg reasonCode) (Wrap ''terminate invalid delivery event'') ret)"

definition processMessage ::
  "(string \<Rightarrow> message_created_event option) \<Rightarrow> 'w delivery_runner \<Rightarrow> 'w jetstream_msg
     \<Rightarrow> ('w, go_error, unit) call" where
  "processMessage unmarshal runner msg =
     (case msg_Metadata msg of
        Inl err \<Rightarrow> ignoring (msg_NakWithDelay msg defaultErrorWait)
                     (fail (Wrap ''read delivery metadata'' err))
      | Inr metadata \<Rightarrow>
          if mdt_Stream metadata \<noteq> ''CHAT_EVENTS'' \<or> mdt_Consumer metadata \<noteq> ''MESSAGE_DELIVERY''
          then ignoring (msg_NakWithDelay msg defaultErrorWait)
                 (fail (NewError ''delivery message came from an unexpected stream or consumer''))
          else
            case (if length (msg_Data msg) > maxEventBytes then None else unmarshal (msg_Data msg)) of
              None \<Rightarrow> failPermanent runner msg metadata [] ''invalid_envelope''
            | Some event \<Rightarrow>
                attempt (drn_handler runner event)
                  (\<lambda>dispatchErr.
                     if errors_is dispatchErr (PortsE ErrInvalidMessageCreatedEvent)
                     then failPermanent runner msg metadata (mce_EventID event) ''invalid_event''
                     else orFail (msg_NakWithDelay msg (delivery_retryDelay (mdt_NumDelivered metadata)))
                            (Wrap ''request delayed delivery retry'') ret)
                  (\<lambda>_. orFail (msg_DoubleAck msg) (Wrap ''confirm delivery ack'') ret))"

text \<open>
  \<open>no_message err\<close> says that the fetch only timed out (\<^verbatim>\<open>nats.ErrTimeout\<close> or
  \<^verbatim>\<open>jetstream.ErrNoMessages\<close>); \<open>sleep\<close> is \<^verbatim>\<open>wait\<close>.
\<close>

fun delivery_run ::
  "nat \<Rightarrow> (string \<Rightarrow> message_created_event option) \<Rightarrow> 'w delivery_runner \<Rightarrow> 'w go_context
     \<Rightarrow> (go_error \<Rightarrow> bool) \<Rightarrow> (duration \<Rightarrow> 'w \<Rightarrow> 'w \<times> bool) \<Rightarrow> ('w, go_error, unit) call" where
  "delivery_run 0 unmarshal runner ctx no_message sleep = ret ()"
| "delivery_run (Suc fuel) unmarshal runner ctx no_message sleep =
     (let again = delivery_run fuel unmarshal runner ctx no_message sleep in
      attempt ctx (\<lambda>_. ret ()) (\<lambda>_.
      attempt (drn_Next runner)
        (\<lambda>err. attempt ctx (\<lambda>_. ret ()) (\<lambda>_.
           if no_message err then again
           else reads (sleep defaultErrorWait) (\<lambda>go_on. if \<not> go_on then ret () else again)))
        (\<lambda>msg. ignoring (processMessage unmarshal runner msg) again)))"

lemma delivery_retryDelay_bounds: "5 * second \<le> delivery_retryDelay n \<and> delivery_retryDelay n \<le> 5 * minute"
proof -
  have "k < 5 \<Longrightarrow> 5 * second \<le> delivery_delays ! k \<and> delivery_delays ! k \<le> 5 * minute" for k :: nat
    by (auto simp: delivery_delays_def less_Suc_eq numeral_eq_Suc nth_Cons')
  then show ?thesis by (auto simp: delivery_retryDelay_def Let_def delivery_delays_def)
qed

lemma delivery_retryDelay_index: "delivery_retryDelay n = delivery_delays ! min (n - 1) 4"
  by (auto simp: delivery_retryDelay_def Let_def delivery_delays_def min_def)

lemma delivery_retryDelay_mono: "m \<le> n \<Longrightarrow> delivery_retryDelay m \<le> delivery_retryDelay n"
  unfolding delivery_retryDelay_index by (rule sorted_nth_mono) (auto simp: delivery_delays_def)

section \<open>A message is settled as its dispatch ended\<close>

text \<open>
  \<open>acked\<close> and \<open>discarded\<close> observe whether the stream will deliver the message no more, because
  it was acknowledged or terminated.
\<close>

locale delivery_message =
  fixes runner :: "'w delivery_runner" and msg :: "'w jetstream_msg"
    and acked :: "'w \<Rightarrow> bool" and discarded :: "'w \<Rightarrow> bool"
  assumes handler_keeps: "keeps acked (drn_handler runner e)" "keeps discarded (drn_handler runner e)"
    and failures_keep: "keeps acked (drn_failures runner f)" "keeps discarded (drn_failures runner f)"
    and nak_keeps: "keeps acked (msg_NakWithDelay msg d)" "keeps discarded (msg_NakWithDelay msg d)"
    and ack_keeps: "keeps discarded (msg_DoubleAck msg)"
    and term_keeps: "keeps acked (msg_TermWithReason msg r)"
begin

lemma failPermanent_settles:
  assumes "failPermanent runner msg metadata eventID reason w = (w', r)"
  shows "acked w' = acked w \<and>
    (discarded w' = discarded w \<or>
      (\<exists>failure w2. drn_failures runner failure w = (w2, Inr ()) \<and> dfl_ReasonCode failure = reason))"
proof -
  let ?f = "\<lparr>dfl_EventID = eventID, dfl_StreamSequence = mdt_StreamSequence metadata, dfl_ReasonCode = reason\<rparr>"
  obtain w1 q where f: "drn_failures runner ?f w = (w1, q)" by fastforce
  have v1: "acked w1 = acked w" "discarded w1 = discarded w" using keepsD [OF failures_keep(1) f]
      keepsD [OF failures_keep(2) f] by simp_all
  show ?thesis
  proof (cases q)
    case (Inl e)
    obtain w2 q2 where n: "msg_NakWithDelay msg (delivery_retryDelay (mdt_NumDelivered metadata)) w1 = (w2, q2)" by fastforce
    have "w' = w2" using assms f Inl n by (simp add: failPermanent_def ignoring_def attempt_def split: sum.splits)
    then show ?thesis using v1 keepsD [OF nak_keeps(1) n] keepsD [OF nak_keeps(2) n] by simp
  next
    case (Inr u)
    obtain w2 q2 where t: "msg_TermWithReason msg reason w1 = (w2, q2)" by fastforce
    then have "w' = w2" using assms f Inr by (cases q2) (auto simp: failPermanent_def)
    then have "acked w' = acked w" using v1 keepsD [OF term_keeps t] by simp
    moreover have "drn_failures runner ?f w = (w1, Inr ())" using f Inr by simp
    moreover have "dfl_ReasonCode ?f = reason" by simp
    ultimately show ?thesis by blast
  qed
qed

lemma processMessage_settles:
  assumes "processMessage unmarshal runner msg w = (w', r)"
  shows "(acked w' \<longrightarrow> acked w \<or>
      (\<exists>event w1. unmarshal (msg_Data msg) = Some event \<and> drn_handler runner event w = (w1, Inr ()))) \<and>
    (discarded w' \<longrightarrow> discarded w \<or> (\<exists>failure w1 w2. drn_failures runner failure w1 = (w2, Inr ())))"
proof (cases "msg_Metadata msg")
  case (Inl e)
  then have "w' = fst (msg_NakWithDelay msg defaultErrorWait w)"
    using assms by (auto simp: processMessage_def ignoring_iff)
  then show ?thesis using nak_keeps by (auto simp: keeps_def)
next
  case (Inr m)
  show ?thesis
  proof (cases "mdt_Stream m \<noteq> ''CHAT_EVENTS'' \<or> mdt_Consumer m \<noteq> ''MESSAGE_DELIVERY''")
    case True
    then have "w' = fst (msg_NakWithDelay msg defaultErrorWait w)"
      using assms Inr by (auto simp: processMessage_def ignoring_iff)
    then show ?thesis using nak_keeps by (auto simp: keeps_def)
  next
    case here: False
    show ?thesis
    proof (cases "if length (msg_Data msg) > maxEventBytes then None else unmarshal (msg_Data msg)")
      case None
      then have "failPermanent runner msg m [] ''invalid_envelope'' w = (w', r)"
        using assms Inr here by (simp add: processMessage_def)
      from failPermanent_settles [OF this] show ?thesis by blast
    next
      case (Some event)
      then have ev: "unmarshal (msg_Data msg) = Some event" by (simp split: if_splits)
      obtain w1 q where h: "drn_handler runner event w = (w1, q)" by fastforce
      have v1: "acked w1 = acked w" "discarded w1 = discarded w"
        using keepsD [OF handler_keeps(1) h] keepsD [OF handler_keeps(2) h] by simp_all
      show ?thesis
      proof (cases q)
        case (Inr u)
        obtain w2 q2 where a: "msg_DoubleAck msg w1 = (w2, q2)" by fastforce
        then have "w' = w2" using assms \<open>msg_Metadata msg = Inr m\<close> here Some h Inr
          by (cases q2) (auto simp: processMessage_def)
        then show ?thesis using ev h Inr v1 keepsD [OF ack_keeps a] by auto
      next
        case (Inl e)
        show ?thesis
        proof (cases "errors_is e (PortsE ErrInvalidMessageCreatedEvent)")
          case True
          then have "failPermanent runner msg m (mce_EventID event) ''invalid_event'' w1 = (w', r)"
            using assms \<open>msg_Metadata msg = Inr m\<close> here Some h Inl by (simp add: processMessage_def)
          from failPermanent_settles [OF this] v1 show ?thesis by blast
        next
          case False
          obtain w2 q2 where n: "msg_NakWithDelay msg (delivery_retryDelay (mdt_NumDelivered m)) w1 = (w2, q2)" by fastforce
          then have "w' = w2" using assms \<open>msg_Metadata msg = Inr m\<close> here Some h Inl False
            by (cases q2) (auto simp: processMessage_def)
          then show ?thesis using v1 keepsD [OF nak_keeps(1) n] keepsD [OF nak_keeps(2) n] by simp
        qed
      qed
    qed
  qed
qed

end

end
