(* ===== verification/DeliverySafety.thy ===== *)
theory DeliverySafety
  imports DeliveryRunner Messages MessageHistory
begin

text \<open>
  Delivery, from the stored message to the notifications: an event that belongs to a readable
  message passes every check on its way; a published event is in the stream; dispatching notifies
  only the two participants of the chat, and both of them when it returns.
\<close>

section \<open>Subjects\<close>

text \<open>A chat always uses the same subject, one of the configured partitions.\<close>

lemma partition_bound: "partitions \<noteq> 0 \<Longrightarrow> unat (fnv32a c mod partitions) < unat partitions"
  by (metis unat_mod unat_gt_0 mod_less_divisor)

lemma subjectForChat_partition:
  assumes "NewPublisher js partitions = Inr (js', n)"
  shows "\<exists>k < unat n. subjectForChat c n = messageCreatedSubjectPrefix @ ''.'' @ decimal k"
  using assms partition_bound [of n c]
  by (auto simp: NewPublisher_def subjectForChat_def split: option.splits if_splits)

section \<open>The events of readable messages are accepted\<close>

lemma accepted_event:
  assumes item: "stored_item_toDomain x = Inr y" and e: "event_for x e"
    and type: "mcd_Type (mdd_Content (tld_Message x)) \<in> {ContentTypeText, ContentTypeImage}"
    and id: "\<not> blank (obd_ID e)"
  shows "validateEvent (event_toPort e) = Inr () \<and>
    validateMessageCreated (event_envelope (event_toPort e)) = Inr ()"
proof -
  let ?content = "mdd_Content (tld_Message x)"
  note ok = item [unfolded stored_item_toDomain_def timeline_toDomain_ok]
  from ok obtain cid content where "ParseClientMessageID (decoded_clientMessageID x) = Inr cid"
    and "RestoreContent (ToUpper (TrimSpace (mcd_Type ?content))) (mcd_Value ?content) (mcd_ImageID ?content)
      (mcd_Caption ?content) = Inr content"
    by (auto simp: ParseContentType_ok)
  moreover have "ToUpper (TrimSpace (mcd_Type ?content)) = mcd_Type ?content" using type by auto
  ultimately show ?thesis using ok e id
    by (simp add: validateEvent_def validateMessageCreated_def event_envelope_def event_toPort_def event_for_def
        Let_def aggregateTypeChat_def messageCreatedEventType_def MessageCreatedEventTypeV1_def IsZero_def
        ValidMessageContent_def)
qed

lemma event_content_toPort:
  assumes "event_content d' = event_content d"
  shows "oev_Payload (event_toPort d') = oev_Payload (event_toPort d)"
    "validateEvent (event_toPort d') = validateEvent (event_toPort d)"
    "event_envelope (event_toPort d') = event_envelope (event_toPort d)"
  using assms by (simp_all add: event_content_def event_toPort_def Let_def validateEvent_def event_envelope_def)

lemma new_item_accepted:
  assumes "stored_item_toDomain (newTimelineItemDocument p n) = Inr x" and "prec (cmp_CreatedAt p) \<noteq> 0"
    and "content_Valid (msg_content (cmp_Message p))" and "\<not> blank (cmp_EventID p)"
    and e: "event_content e = event_content (bson_event prec (newOutboxEventDocument p n))"
  shows "validateEvent (event_toPort e) = Inr () \<and>
    validateMessageCreated (event_envelope (event_toPort e)) = Inr ()"
proof -
  let ?item = "bson_item prec (newTimelineItemDocument p n)" and ?event = "bson_event prec (newOutboxEventDocument p n)"
  have "\<exists>y. stored_item_toDomain ?item = Inr y"
    using assms(1,2) unfolding stored_item_toDomain_def timeline_toDomain_ok
    by (auto simp: bson_item_def newTimelineItemDocument_def Let_def decoded_sequence_def decoded_clientMessageID_def)
  moreover have "mcd_Type (mdd_Content (tld_Message ?item)) \<in> {ContentTypeText, ContentTypeImage}"
    using assms(3) by (auto simp: content_Valid_restore RestoreContent_ok)
  moreover have "\<not> blank (obd_ID ?event)"
    using assms(4) by (simp add: bson_event_def newOutboxEventDocument_def Let_def)
  ultimately show ?thesis
    using accepted_event [OF _ new_event_for] event_content_toPort [OF e] by metis
qed

section \<open>The stream\<close>

text \<open>
  \<open>stream\<close> observes the messages of the stream: subject, data and message identifier.  A publication
  adds at most that message; when it is confirmed, the stream holds a message with its identifier
  (this one or, within the deduplication window, an earlier one).
\<close>

locale jetstream_client =
  fixes js :: "'w jetstream" and stream :: "'w \<Rightarrow> (string \<times> string \<times> string) set"
  assumes Publish: "js subject data i expected w = (w', r) \<Longrightarrow>
      stream w \<subseteq> stream w' \<and> stream w' \<subseteq> insert (subject, data, i) (stream w) \<and>
      (\<forall>ack. r = Inr (Some ack) \<longrightarrow> ack_Stream ack = expected \<and> (\<exists>s d. (s, d, i) \<in> stream w'))"
begin

lemma Publish_ok:
  assumes "publisher_Publish marshal js partitions event w = (w', Inr receipt)"
  shows "validateEvent event = Inr () \<and> rcp_Stream receipt = streamName \<and> 0 < rcp_Sequence receipt \<and>
    (\<exists>s d. (s, d, oev_ID event) \<in> stream w') \<and>
    (\<exists>data. marshal (event_envelope event) = Inr data \<and>
      stream w' \<subseteq> insert (subjectForChat (mcp_ChatID (oev_Payload event)) partitions, data, oev_ID event) (stream w))"
proof -
  from assms obtain data ack where "validateEvent event = Inr ()" "marshal (event_envelope event) = Inr data"
    and p: "js (subjectForChat (mcp_ChatID (oev_Payload event)) partitions) data (oev_ID event) streamName w
      = (w', Inr (Some ack))"
    and "ack_Stream ack = streamName" "ack_Sequence ack \<noteq> 0" "receipt = \<lparr>rcp_Stream = ack_Stream ack, rcp_Sequence = ack_Sequence ack\<rparr>"
    by (auto simp: publisher_Publish_def run_iff split: option.splits if_splits)
  with Publish [OF p] show ?thesis by auto
qed

text \<open>
  An event that is refused as invalid never reaches the stream; any other failure may have
  published it, and only it.
\<close>

lemma Publish_err:
  assumes "publisher_Publish marshal js partitions event w = (w', Inl e)"
  shows "(validateEvent event \<noteq> Inr () \<longrightarrow> w' = w \<and> errors_is e (PortsE ErrInvalidOutboxEvent)) \<and>
    (\<exists>s d. stream w' \<subseteq> insert (s, d, oev_ID event) (stream w))"
proof (cases "validateEvent event")
  case (Inl x)
  then have "x = portsErr ErrInvalidOutboxEvent" by (simp add: validateEvent_def Let_def split: if_splits)
  then show ?thesis using assms Inl by (auto simp: publisher_Publish_def)
next
  case (Inr u)
  show ?thesis
  proof (cases "marshal (event_envelope event)")
    case (Inl x)
    then show ?thesis using assms Inr by (auto simp: publisher_Publish_def)
  next
    case mi: (Inr data)
    obtain w1 r where p: "js (subjectForChat (mcp_ChatID (oev_Payload event)) partitions) data (oev_ID event) streamName w
      = (w1, r)" by fastforce
    then have "w' = w1" using assms Inr mi
      by (cases r) (auto simp: publisher_Publish_def split: option.splits if_splits)
    moreover have "validateEvent event = Inr ()" using Inr by simp
    ultimately show ?thesis using Publish [OF p] by blast
  qed
qed

lemma Failure_ok:
  assumes "PublishFailure marshal js clock failure w = (w', Inr ())" and "keeps stream clock"
  shows "\<exists>s d. (s, d, ''delivery_failed:'' @ decimal (dfl_StreamSequence failure)) \<in> stream w'"
proof -
  from assms(1) obtain w1 data ack where
    p: "js failureSubject data (''delivery_failed:'' @ decimal (dfl_StreamSequence failure)) streamName w1 = (w', Inr (Some ack))"
    by (auto simp: PublishFailure_def run_iff Let_def split: option.splits if_splits)
  with Publish [OF p] show ?thesis by auto
qed

end

section \<open>Notifications\<close>

text \<open>
  \<open>sent\<close> observes the notifications that were published, as the user and the encoded event.
\<close>

locale realtime_port =
  fixes publish :: "'w realtime_publisher" and sent :: "'w \<Rightarrow> (user_ID \<times> 'x) set"
    and enc :: "realtime_message_created \<Rightarrow> 'x"
  assumes Sent: "publish u ev w = (w', r) \<Longrightarrow>
      sent w \<subseteq> sent w' \<and> sent w' \<subseteq> insert (u, enc ev) (sent w) \<and> (r = Inr () \<longrightarrow> (u, enc ev) \<in> sent w')"

locale nats_client =
  fixes connection :: "'w nats_connection" and ctx :: "'w go_context"
    and published :: "'w \<Rightarrow> (string \<times> string) set"
    and marshal :: "realtime_message_created \<Rightarrow> go_error + string"
  assumes NatsPublish: "NatsPublish connection subject data w = (w', r) \<Longrightarrow>
      published w \<subseteq> published w' \<and> published w' \<subseteq> insert (subject, data) (published w) \<and>
      (r = Inr () \<longrightarrow> (subject, data) \<in> published w')"
    and flush_keeps: "keeps published (NatsFlush connection)"
    and ctx_keeps: "keeps published ctx"
begin

definition notified :: "'w \<Rightarrow> (user_ID \<times> (go_error + string)) set" where
  "notified w = {(u, x). \<exists>data. x = Inr data \<and> (subjectPrefix @ u, data) \<in> published w}"

sublocale realtime_port "PublishMessageCreated marshal connection ctx" notified marshal
proof
  fix u ev w w' r
  assume run: "PublishMessageCreated marshal connection ctx u ev w = (w', r)"
  obtain w1 q where c: "ctx w = (w1, q)" by fastforce
  have v1: "notified w1 = notified w" using keepsD [OF ctx_keeps c] by (simp add: notified_def)
  show "notified w \<subseteq> notified w' \<and> notified w' \<subseteq> insert (u, marshal ev) (notified w) \<and>
    (r = Inr () \<longrightarrow> (u, marshal ev) \<in> notified w')"
  proof (cases "isOk q \<and> ValidRealtimeUserID u \<and> isOk (ValidateRealtimeMessage ev) \<and> isOk (marshal ev)")
    case False
    then have "w' = w1 \<and> (\<exists>e. r = Inl e)"
      using run c by (cases q) (auto simp: PublishMessageCreated_def orFail_iff isOk_iff split: if_splits)
    then show ?thesis using v1 by auto
  next
    case True
    then obtain data where m: "marshal ev = Inr data" by (auto simp: isOk_iff)
    obtain w2 q2 where p: "NatsPublish connection (subjectPrefix @ u) data w1 = (w2, q2)" by fastforce
    obtain w3 q3 where f: "NatsFlush connection w2 = (w3, q3)" by fastforce
    note laws = NatsPublish [OF p] keepsD [OF flush_keeps f]
    have "notified w1 \<subseteq> notified w2" "notified w2 \<subseteq> insert (u, marshal ev) (notified w1)"
      using laws(1) m by (auto simp: notified_def)
    moreover have "notified w' = notified w2"
      using run c True m p f laws(2)
      by (cases q2; cases q3) (auto simp: PublishMessageCreated_def isOk_iff notified_def)
    moreover have "(u, marshal ev) \<in> notified w2" if "r = Inr ()"
      using run c True m p that laws(1)
      by (cases q2) (auto simp: PublishMessageCreated_def isOk_iff notified_def)
    ultimately show ?thesis using v1 by blast
  qed
qed

lemma publisher_contract: "realtime_port (PublishMessageCreated marshal connection ctx) notified marshal"
  by (rule realtime_port_axioms)

end

section \<open>Dispatching\<close>

locale dispatch_ports =
  chat_store R chats prec + realtime_port publish sent enc
  for R :: "'w chat_repository" and chats :: "'w \<Rightarrow> chat_ID \<rightharpoonup> chat" and prec :: "time \<Rightarrow> time"
    and publish :: "'w realtime_publisher" and sent :: "'w \<Rightarrow> (user_ID \<times> 'x) set"
    and enc :: "realtime_message_created \<Rightarrow> 'x" +
  fixes ctx :: "'w go_context"
  assumes ctx_keeps: "keeps sent ctx" "keeps chats ctx"
    and find_keeps: "keeps sent (ChatFindByID R i)"
begin

text \<open>The two participants that a dispatch may notify, read from the stored chat.\<close>

definition participants :: "'w \<Rightarrow> message_created_event \<Rightarrow> user_ID \<Rightarrow> user_ID \<Rightarrow> bool" where
  "participants w event sender recipient \<longleftrightarrow>
     (\<exists>y. chats w (TrimSpace (mcp_ChatID (mce_Payload event))) = Some y \<and>
        sender = TrimSpace (mcp_SenderID (mce_Payload event)) \<and> chat_wf (chat_restored y) \<and>
        RelatedUserID (chat_restored y) sender = Inr recipient)"

lemma Dispatch_cases:
  assumes "Dispatch R publish ctx event w = (w', r)"
  shows "sent w' = sent w \<and> (\<exists>e. r = Inl e) \<or>
    (\<exists>sender recipient w1 w2. participants w event sender recipient \<and>
       validateMessageCreated event = Inr () \<and> sent w1 = sent w \<and>
       (publish recipient (public_event event) w1 = (w2, Inr ()) \<and>
          (\<exists>q. publish sender (public_event event) w2 = (w', q) \<and> (r = Inr () \<longrightarrow> q = Inr ())) \<or>
        (\<exists>e. publish recipient (public_event event) w1 = (w', Inl e)) \<and> (\<exists>e. r = Inl e)))"
proof -
  obtain w1 q1 where c: "ctx w = (w1, q1)" by fastforce
  have v1: "sent w1 = sent w" "chats w1 = chats w"
    using keepsD [OF ctx_keeps(1) c] keepsD [OF ctx_keeps(2) c] by simp_all
  let ?p = "mce_Payload event"
  let ?chat = "TrimSpace (mcp_ChatID ?p)" and ?sender = "TrimSpace (mcp_SenderID ?p)"
  show ?thesis
  proof (cases "isOk q1 \<and> isOk (validateMessageCreated event) \<and> isOk (chat_ParseID (mcp_ChatID ?p)) \<and>
      isOk (user_ParseID (mcp_SenderID ?p))")
    case False
    then have "w' = w1 \<and> (\<exists>e. r = Inl e)"
      using assms c unfolding Dispatch_def orFail_iff [of ctx] orFail_iff [of "lift _"] lift_run
      by (auto simp: isOk_iff simp del: code_checks)
    then show ?thesis using v1 by simp
  next
    case True
    then have ok: "q1 = Inr ()" "validateMessageCreated event = Inr ()"
      and ids: "chat_ParseID (mcp_ChatID ?p) = Inr ?chat" "user_ParseID (mcp_SenderID ?p) = Inr ?sender"
      by (auto simp: isOk_iff code_checks)
    obtain w2 q2 where f: "ChatFindByID R ?chat w1 = (w2, q2)" by fastforce
    have v2: "sent w2 = sent w" using keepsD [OF find_keeps f] v1 by simp
    have run: "orFail (ChatFindByID R ?chat)
       (\<lambda>e. if errors_is e (PortsE ErrChatNotFound)
            then Wrap ''chat_not_found'' (portsErr ErrInvalidMessageCreatedEvent)
            else Wrap ''find delivery chat'' e) (\<lambda>found.
       case found of
         None \<Rightarrow> fail (NewError ''chat repository returned nil conversation'')
       | Some conversation \<Rightarrow>
           orFail (lift (RelatedUserID conversation ?sender))
             (\<lambda>e. if errors_is e (ChatE Chat_ErrUserNotParticipant)
                  then Wrap ''sender_not_participant'' (portsErr ErrInvalidMessageCreatedEvent)
                  else Wrap ''resolve delivery recipient'' e) (\<lambda>recipientID.
           orFail (publish recipientID (public_event event)) (Wrap ''publish recipient notification'') (\<lambda>_.
           orFail (publish ?sender (public_event event)) (Wrap ''publish sender notification'') (\<lambda>_.
           ret ())))) w1 = (w', r)"
      using assms c ok ids by (simp add: Dispatch_def del: code_checks cong del: option.case_cong_weak)
    show ?thesis
    proof (cases "\<exists>z v. q2 = Inr (Some z) \<and> RelatedUserID z ?sender = Inr v")
      case False
      then have "w' = w2 \<and> (\<exists>e. r = Inl e)"
        using run f by (cases q2) (auto simp: orFail_iff split: option.splits)
      then show ?thesis using v2 by simp
    next
      case True
      then obtain z v where z: "q2 = Inr (Some z)" "RelatedUserID z ?sender = Inr v" by blast
      from ChatFindByID_ok [OF f [unfolded z(1)]] v1(2) have part: "participants w event ?sender v"
        using z(2) by (auto simp: participants_def)
      have rest: "orFail (publish v (public_event event)) (Wrap ''publish recipient notification'') (\<lambda>_.
         orFail (publish ?sender (public_event event)) (Wrap ''publish sender notification'') (\<lambda>_.
         ret ())) w2 = (w', r)"
        using run f z by simp
      obtain w3 q3 where p: "publish v (public_event event) w2 = (w3, q3)" by fastforce
      obtain w4 q4 where p2: "publish ?sender (public_event event) w3 = (w4, q4)" by fastforce
      have "(q3 = Inr () \<and> w' = w4 \<and> (r = Inr () \<longrightarrow> q4 = Inr ())) \<or> (\<exists>e. q3 = Inl e) \<and> w' = w3 \<and> (\<exists>e. r = Inl e)"
        using rest p p2 by (cases q3; cases q4) auto
      then show ?thesis using p p2 part v2 ok(2) by blast
    qed
  qed
qed

text \<open>
  Whatever the outcome, only the sender and the other participant of the chat can be notified, and
  only of this event; when it returns, both were.
\<close>

lemma Dispatch_confidential:
  assumes "Dispatch R publish ctx event w = (w', r)"
  shows "sent w' = sent w \<or> (\<exists>sender recipient. participants w event sender recipient \<and>
    sent w' \<subseteq> sent w \<union> {(recipient, enc (public_event event)), (sender, enc (public_event event))})"
  using Dispatch_cases [OF assms]
proof (elim disjE exE conjE)
  fix s u w1 w2 q
  assume part: "participants w event s u" and v: "sent w1 = sent w"
    and p1: "publish u (public_event event) w1 = (w2, Inr ())" and p2: "publish s (public_event event) w2 = (w', q)"
  have "sent w' \<subseteq> sent w \<union> {(u, enc (public_event event)), (s, enc (public_event event))}"
    using Sent [OF p1] Sent [OF p2] v by auto
  with part show ?thesis by blast
next
  fix s u w1 w2 e
  assume part: "participants w event s u" and v: "sent w1 = sent w"
    and p1: "publish u (public_event event) w1 = (w', Inl e)"
  have "sent w' \<subseteq> sent w \<union> {(u, enc (public_event event)), (s, enc (public_event event))}"
    using Sent [OF p1] v by auto
  with part show ?thesis by blast
qed simp

lemma Dispatch_ok:
  assumes "Dispatch R publish ctx event w = (w', Inr ())"
  shows "validateMessageCreated event = Inr () \<and> (\<exists>sender recipient. participants w event sender recipient \<and>
    sent w' = sent w \<union> {(recipient, enc (public_event event)), (sender, enc (public_event event))})"
  using Dispatch_cases [OF assms]
proof (elim disjE exE conjE)
  fix s u w1 w2 q
  assume part: "participants w event s u" and v: "sent w1 = sent w" and ok: "validateMessageCreated event = Inr ()"
    and p1: "publish u (public_event event) w1 = (w2, Inr ())"
    and p2: "publish s (public_event event) w2 = (w', q)" "Inr () = Inr () \<longrightarrow> q = Inr ()"
  have "sent w' = sent w \<union> {(u, enc (public_event event)), (s, enc (public_event event))}"
    using Sent [OF p1] Sent [OF p2(1)] p2(2) v by auto
  with part ok show ?thesis by blast
qed simp_all

end

end
