(* ===== verification/MessageWorld.thy ===== *)
theory MessageWorld
  imports Images DeliverySafety OutboxWorker MongoMemory JwtMemory
begin

text \<open>
  One world in which the messaging stack runs: chats, timeline items, outbox events and images in
  in-memory collections with injected faults, transactions that are rolled back by restoring the
  collections, an in-memory object storage, stream and broker.  It interprets the locales of the
  messaging theories on the model's definitions, and the witnesses run on it.
\<close>

record message_world =
  mw_faults :: "fault list"
  mw_cancelled :: bool
  mw_clock :: time
  mw_entropy :: nat
  mw_chats :: "chat_document list"
  mw_items :: "timeline_document list"
  mw_events :: "outbox_document list"
  mw_images :: "image_document list"
  mw_objects :: "(string \<times> string) list"
  mw_deleted :: "(string \<times> string) list"
  mw_stream :: "(string \<times> string \<times> string) list"
  mw_published :: "(string \<times> string) list"
  mw_acked :: bool
  mw_discarded :: bool
  mw_checked :: bool

definition mw_pop :: "message_world \<Rightarrow> message_world \<times> fault" where
  "mw_pop w = (case mw_faults w of [] \<Rightarrow> (w, NoFault) | f # fs \<Rightarrow> (w\<lparr>mw_faults := fs\<rparr>, f))"

definition mw_ctx :: "message_world go_context" where
  "mw_ctx = (\<lambda>w. if mw_cancelled w then (w, Inl (Sentinel ContextCanceled)) else (w, Inr ()))"

definition mw_now :: "message_world clock" where
  "mw_now w = (w\<lparr>mw_clock := mw_clock w + millisecond\<rparr>, mw_clock w)"

definition mw_id :: "message_world id_generator" where
  "mw_id w = (w\<lparr>mw_entropy := mw_entropy w + 1\<rparr>, Inr (''id'' @ [char_of (97 + mw_entropy w mod 26)]))"

definition mw_rand :: "int \<Rightarrow> message_world \<Rightarrow> message_world \<times> int" where
  "mw_rand n w = (w\<lparr>mw_entropy := mw_entropy w + 1\<rparr>, int (mw_entropy w) mod n)"

section \<open>The collections and their repositories\<close>

definition mw_chat_collection :: "(message_world, chat_document) collection" where
  "mw_chat_collection =
     mem_collection mw_chats (\<lambda>ds w. w\<lparr>mw_chats := ds\<rparr>) mw_pop cd_ID participants_clash"

definition mw_item_collection :: "(message_world, timeline_document) collection" where
  "mw_item_collection =
     mem_collection mw_items (\<lambda>ds w. w\<lparr>mw_items := ds\<rparr>) mw_pop tld_ID timeline_clash"

definition mw_event_collection :: "(message_world, outbox_document) collection" where
  "mw_event_collection =
     mem_collection mw_events (\<lambda>ds w. w\<lparr>mw_events := ds\<rparr>) mw_pop obd_ID no_clash"

definition mw_image_collection :: "(message_world, image_document) collection" where
  "mw_image_collection =
     mem_collection mw_images (\<lambda>ds w. w\<lparr>mw_images := ds\<rparr>) mw_pop img_ID upload_clash"

text \<open>
  A transaction restores the four collections when its operation fails or its commit is lost; a
  lost reply leaves it committed, with an error.
\<close>

definition mw_restore :: "message_world \<Rightarrow> message_world \<Rightarrow> message_world" where
  "mw_restore w w' = w'\<lparr>mw_chats := mw_chats w, mw_items := mw_items w, mw_events := mw_events w,
     mw_images := mw_images w\<rparr>"

definition mw_transaction :: "(message_world, go_error, int) call \<Rightarrow> (message_world, go_error, int) call" where
  "mw_transaction op w =
     (case op w of
        (w1, Inl e) \<Rightarrow> (mw_restore w w1, Inl e)
      | (w1, Inr n) \<Rightarrow>
          (case mw_pop w1 of
             (w2, NoFault) \<Rightarrow> (w2, Inr n)
           | (w2, LostRequest) \<Rightarrow> (mw_restore w w2, Inl (DriverError ''commit lost''))
           | (w2, LostReply) \<Rightarrow> (w2, Inl (DriverError ''commit unknown''))))"

definition mw_client :: "message_world mongo_client" where
  "mw_client = \<lparr>StartSession = ret (), WithTransaction = mw_transaction\<rparr>"

definition mw_repository :: "message_world message_repository" where
  "mw_repository =
     \<lparr>mr_transactions = RunInTransaction (Some mw_client) mw_ctx, mr_chats = mw_chat_collection,
      mr_timeline = mw_item_collection, mr_outbox = mw_event_collection,
      mr_images = Some mw_image_collection\<rparr>"

abbreviation mw_view :: "message_world \<Rightarrow> store_view" where
  "mw_view \<equiv> store_view mw_repository"

abbreviation mw_stored_chats :: "message_world \<Rightarrow> chat_ID \<rightharpoonup> chat" where
  "mw_stored_chats \<equiv> stored_chats mw_chat_collection"

abbreviation mw_event_docs :: "message_world \<Rightarrow> outbox_document documents" where
  "mw_event_docs \<equiv> docs mw_event_collection"

abbreviation mw_image_docs :: "message_world \<Rightarrow> image_document documents" where
  "mw_image_docs \<equiv> docs mw_image_collection"

lemmas mw_collection_defs = mw_chat_collection_def mw_item_collection_def mw_event_collection_def
  mw_image_collection_def

lemma mw_view_eq: "mw_view w =
    \<lparr>sv_chats = as_map cd_ID (norm_docs cd_ID (mw_chats w)), sv_items = as_map tld_ID (norm_docs tld_ID (mw_items w)),
     sv_events = as_map obd_ID (norm_docs obd_ID (mw_events w)), sv_images = as_map img_ID (norm_docs img_ID (mw_images w))\<rparr>"
  by (simp add: store_view_def mw_repository_def mw_collection_defs mem_collection_def)

lemma mw_docs_eq:
  "mw_event_docs w = as_map obd_ID (norm_docs obd_ID (mw_events w))"
  "mw_image_docs w = as_map img_ID (norm_docs img_ID (mw_images w))"
  "mw_stored_chats w = map_option stored_chat \<circ> as_map cd_ID (norm_docs cd_ID (mw_chats w))"
  by (simp_all add: stored_chats_def mw_collection_defs mem_collection_def)

lemma mw_pop_sel [simp]:
  "mw_chats (fst (mw_pop w)) = mw_chats w" "mw_items (fst (mw_pop w)) = mw_items w"
  "mw_events (fst (mw_pop w)) = mw_events w" "mw_images (fst (mw_pop w)) = mw_images w"
  "mw_objects (fst (mw_pop w)) = mw_objects w" "mw_deleted (fst (mw_pop w)) = mw_deleted w"
  "mw_stream (fst (mw_pop w)) = mw_stream w" "mw_published (fst (mw_pop w)) = mw_published w"
  by (simp_all add: mw_pop_def split: list.splits)

interpretation mw_chats: chat_collection mw_chat_collection
proof -
  have "collection mw_chat_collection cd_ID participants_clash"
    unfolding mw_chat_collection_def
    by (rule mem_collection_laws) (auto simp: mw_pop_def split: list.splits)
  then show "chat_collection mw_chat_collection" by (rule chat_collection.intro)
qed

interpretation mw_items: collection mw_item_collection tld_ID timeline_clash
  unfolding mw_item_collection_def
  by (rule mem_collection_laws) (auto simp: mw_pop_def split: list.splits)

interpretation mw_events: outbox_collection mw_event_collection
proof -
  have "collection mw_event_collection obd_ID no_clash"
    unfolding mw_event_collection_def
    by (rule mem_collection_laws) (auto simp: mw_pop_def split: list.splits)
  then show "outbox_collection mw_event_collection" by (rule outbox_collection.intro)
qed

interpretation mw_images: image_collection mw_image_collection
proof -
  have "collection mw_image_collection img_ID upload_clash"
    unfolding mw_image_collection_def
    by (rule mem_collection_laws) (auto simp: mw_pop_def split: list.splits)
  then show "image_collection mw_image_collection" by (rule image_collection.intro)
qed

section \<open>The message store\<close>

interpretation mw_session: mongo_session mw_client mw_ctx mw_view "(=)"
proof
  show "keeps mw_view mw_ctx" by (simp add: keeps_def mw_ctx_def)
  show "keeps mw_view (StartSession mw_client)" by (simp add: mw_client_def frame)
  show "infrastructure_error e" if "mw_ctx s = (s', Inl e)" for s s' e
    using that by (auto simp: mw_ctx_def infrastructure_error_def split: if_splits)
  show "infrastructure_error e" if "StartSession mw_client s = (s', Inl e)" for s s' e
    using that by (simp add: mw_client_def)
  have pop: "mw_view w2 = mw_view w" if "mw_pop w = (w2, f)" for w w2 f
    using mw_pop_sel [of w] that by (simp add: mw_view_eq)
  have restored: "mw_view (mw_restore s w) = mw_view s" for s w
    by (simp add: mw_view_eq mw_restore_def)
  show "committed (=) mw_view op n s s'" if "WithTransaction mw_client op s = (s', Inr n)" for op n s s'
    using that pop
    by (auto simp: mw_client_def mw_transaction_def committed_def split: prod.splits sum.splits fault.splits)
  show "aborted (=) mw_view op e s s' \<or> infrastructure_error e \<and> (\<exists>n. committed (=) mw_view op n s s')"
    if run: "WithTransaction mw_client op s = (s', Inl e)" for op e s s'
  proof -
    obtain w1 q where o: "op s = (w1, q)" by fastforce
    show ?thesis
    proof (cases q)
      case (Inl e0)
      then have "s' = mw_restore s w1" "e = e0" using run o by (simp_all add: mw_client_def mw_transaction_def)
      then have "aborted (=) mw_view op e s s'"
        using o Inl restored unfolding aborted_def same_error_def by metis
      then show ?thesis ..
    next
      case (Inr n)
      obtain w2 f where p: "mw_pop w1 = (w2, f)" by fastforce
      from run o Inr p consider "f = LostRequest" "s' = mw_restore s w2" "e = DriverError ''commit lost''"
        | "f = LostReply" "s' = w2" "e = DriverError ''commit unknown''"
        by (cases f) (auto simp: mw_client_def mw_transaction_def)
      then show ?thesis
      proof cases
        case 1
        then show ?thesis using restored by (simp add: aborted_def infrastructure_error_def)
      next
        case 2
        then have "committed (=) mw_view op n s s'" using o Inr pop [OF p] by (auto simp: committed_def)
        then show ?thesis using 2 by (auto simp: infrastructure_error_def)
      qed
    qed
  qed
qed simp

interpretation mw: message_backend mw_repository "(=)" floor_ms
proof -
  have sel: "mr_chats mw_repository = mw_chat_collection" "mr_timeline mw_repository = mw_item_collection"
    "mr_outbox mw_repository = mw_event_collection" by (simp_all add: mw_repository_def)
  show "message_backend mw_repository (=) floor_ms"
  proof (intro message_backend.intro message_backend_axioms.intro)
    show "chat_collection (mr_chats mw_repository)" by (simp add: mw_repository_def mw_chats.chat_collection_axioms)
    show "collection (mr_timeline mw_repository) tld_ID timeline_clash"
      by (simp add: mw_repository_def mw_items.collection_axioms)
    show "outbox_collection (mr_outbox mw_repository)"
      by (simp add: mw_repository_def mw_events.outbox_collection_axioms)
    show "transaction_runner (mr_transactions mw_repository) mw_view (=)"
      using mw_session.runner_contract by (simp add: mw_repository_def)
    show "image_collection I \<and> DateTime I = floor_ms" if "mr_images mw_repository = Some I" for I
      using that mw_images.image_collection_axioms
      by (auto simp: mw_repository_def mw_image_collection_def mem_collection_def)
    show "DateTime (mr_chats mw_repository) = floor_ms" "DateTime (mr_timeline mw_repository) = floor_ms"
      "DateTime (mr_outbox mw_repository) = floor_ms"
      by (simp_all add: mw_repository_def mw_collection_defs mem_collection_def)
    show "keeps (\<lambda>s. (mw_view s)\<lparr>sv_chats := Map.empty\<rparr>) (FindOneAndUpdate (mr_chats mw_repository) cf cu le)" for cf cu le
      unfolding sel mw_chat_collection_def by (rule mem_collection_keeps) (simp_all add: mw_view_eq)
    show "keeps (\<lambda>s. (mw_view s)\<lparr>sv_items := Map.empty\<rparr>) (InsertOne (mr_timeline mw_repository) item)" for item
      unfolding sel mw_item_collection_def by (rule mem_collection_keeps) (simp_all add: mw_view_eq)
    show "keeps (\<lambda>s. (mw_view s)\<lparr>sv_items := Map.empty\<rparr>) (FindOne (mr_timeline mw_repository) tf le)" for tf le
      unfolding sel mw_item_collection_def by (rule mem_collection_keeps) (simp_all add: mw_view_eq)
    show "keeps (\<lambda>s. (mw_view s)\<lparr>sv_events := Map.empty\<rparr>) (InsertOne (mr_outbox mw_repository) event)" for event
      unfolding sel mw_event_collection_def by (rule mem_collection_keeps) (simp_all add: mw_view_eq)
    show "keeps (\<lambda>s. (mw_view s)\<lparr>sv_images := Map.empty\<rparr>) (UpdateOne I imf imu)"
      if "mr_images mw_repository = Some I" for I imf imu
    proof -
      have I: "I = mw_image_collection" using that by (simp add: mw_repository_def)
      show ?thesis unfolding I mw_image_collection_def
        by (rule mem_collection_keeps) (simp_all add: mw_view_eq)
    qed
  qed
qed

lemma mw_view_quiet [simp]:
  "mw_view (w\<lparr>mw_clock := t\<rparr>) = mw_view w" "mw_view (w\<lparr>mw_entropy := n\<rparr>) = mw_view w"
  by (simp_all add: mw_view_eq)

lemma mw_ctx_keeps: "keeps g mw_ctx"
  by (simp add: keeps_def mw_ctx_def)

lemma mw_now_keeps: "(\<And>w t. g (w\<lparr>mw_clock := t\<rparr>) = g w) \<Longrightarrow> keeps g mw_now"
  by (simp add: keeps_def mw_now_def)

lemma mw_id_keeps: "(\<And>w n. g (w\<lparr>mw_entropy := n\<rparr>) = g w) \<Longrightarrow> keeps g mw_id"
  by (simp add: keeps_def mw_id_def)

lemma mw_rand_keeps: "(\<And>w k. g (w\<lparr>mw_entropy := k\<rparr>) = g w) \<Longrightarrow> keeps g (mw_rand n)"
  by (simp add: keeps_def mw_rand_def)

section \<open>Creating messages\<close>

definition mw_create :: "message_world create_dependencies" where
  "mw_create =
     \<lparr>crd_ChatRepository = mongo_chat_repository mw_chat_collection,
      crd_MessageStore = CreateWithOutbox mw_repository, crd_IDGenerator = mw_id, crd_Clock = mw_now\<rparr>"

lemma mw_view_chats: "view_chats \<circ> mw_view = mw_stored_chats"
  by (rule ext) (simp add: view_chats_def stored_chats_def mw_repository_def store_view_def)

lemma mw_find_chat_keeps:
  assumes "\<And>ds w. g (w\<lparr>mw_chats := ds\<rparr>) = g w" "\<And>w. g (fst (mw_pop w)) = g w"
  shows "keeps g (FindOne mw_chat_collection f le)"
  unfolding mw_chat_collection_def by (rule mem_collection_keeps) (use assms in simp_all)

interpretation mw_creating: create_ports mw_create mw_view "(=)" floor_ms
proof -
  have "keeps mw_view (FindOne mw_chat_collection f le)" if "linear le" for f le
  proof (rule keepsI)
    fix w w' r assume run: "FindOne mw_chat_collection f le w = (w', r)"
    have "keeps (\<lambda>w. (mw_view w)\<lparr>sv_chats := Map.empty\<rparr>) (FindOne mw_chat_collection f le)"
      by (rule mw_find_chat_keeps) (simp_all add: mw_view_eq)
    from keepsD [OF this run] have "(mw_view w')\<lparr>sv_chats := Map.empty\<rparr> = (mw_view w)\<lparr>sv_chats := Map.empty\<rparr>" .
    moreover have "docs mw_chat_collection w' = docs mw_chat_collection w"
      using keepsD [OF mw_chats.readers(1) [OF that] run] .
    ultimately show "mw_view w' = mw_view w" by (simp add: store_view_def mw_repository_def)
  qed
  then have "keeps mw_view (chats_FindByID mw_chat_collection i)" for i
    unfolding chats_FindByID_def
    by (auto intro!: frame simp: linear_unsorted split: option.splits)
  moreover have "chat_store (mongo_chat_repository mw_chat_collection) mw_stored_chats floor_ms"
    using mw_chats.repository_contract by (simp add: mw_chat_collection_def mem_collection_def)
  moreover have "message_contract (CreateWithOutbox mw_repository) mw_view (=) floor_ms"
    by (rule mw.store_contract)
  ultimately show "create_ports mw_create mw_view (=) floor_ms"
    unfolding create_ports_def create_ports_axioms_def mw_view_chats
    by (auto simp: mw_create_def mongo_chat_repository_def intro!: mw_id_keeps mw_now_keeps)
qed

section \<open>Publishing events\<close>

definition mw_js :: "message_world jetstream" where
  "mw_js subject data i expected =
     faulty mw_pop (\<lambda>w.
       (if \<exists>m \<in> set (mw_stream w). snd (snd m) = i then w
        else w\<lparr>mw_stream := mw_stream w @ [(subject, data, i)]\<rparr>,
        Inr (Some \<lparr>ack_Stream = expected, ack_Sequence = Suc (length (mw_stream w))\<rparr>)))"

lemma mw_js_code [code]:
  "mw_js subject data i expected w =
     faulty mw_pop (\<lambda>w.
       (if list_ex (\<lambda>m. snd (snd m) = i) (mw_stream w) then w
        else w\<lparr>mw_stream := mw_stream w @ [(subject, data, i)]\<rparr>,
        Inr (Some \<lparr>ack_Stream = expected, ack_Sequence = Suc (length (mw_stream w))\<rparr>))) w"
  by (simp add: mw_js_def list_ex_iff)

definition mw_marshal :: "message_created_event \<Rightarrow> go_error + string" where
  "mw_marshal event = Inr (mce_EventID event)"

abbreviation mw_stream_set :: "message_world \<Rightarrow> (string \<times> string \<times> string) set" where
  "mw_stream_set w \<equiv> set (mw_stream w)"

interpretation mw_stream: jetstream_client mw_js mw_stream_set
proof
  fix subject data i expected w w' r
  assume "mw_js subject data i expected w = (w', r)"
  moreover have "mw_stream (fst (mw_pop w)) = mw_stream w" by simp
  ultimately show "mw_stream_set w \<subseteq> mw_stream_set w' \<and>
      mw_stream_set w' \<subseteq> insert (subject, data, i) (mw_stream_set w) \<and>
      (\<forall>ack. r = Inr (Some ack) \<longrightarrow> ack_Stream ack = expected \<and> (\<exists>s d. (s, d, i) \<in> mw_stream_set w'))"
    by (cases "mw_pop w") (auto simp: mw_js_def faulty_def split: fault.splits if_splits; blast)
qed

lemma mw_js_keeps:
  assumes "\<And>w ms. g (w\<lparr>mw_stream := ms\<rparr>) = g w" "\<And>w. g (fst (mw_pop w)) = g w"
  shows "keeps g (mw_js subject data i expected)"
proof (rule keepsI)
  fix w w' r assume run: "mw_js subject data i expected w = (w', r)"
  obtain w1 f where p: "mw_pop w = (w1, f)" by fastforce
  with assms(2) [of w] have "g w1 = g w" by simp
  then show "g w' = g w" using run p assms(1)
    by (cases f) (auto simp: mw_js_def faulty_def split: if_splits)
qed

definition mw_publisher :: "message_world publish_one" where
  "mw_publisher =
     \<lparr>pub_Store = mongo_outbox_store mw_event_collection,
      pub_Publisher = publisher_Publish mw_marshal mw_js 4, pub_IDGenerator = mw_id, pub_Clock = mw_now,
      pub_WorkerID = ''worker'', pub_LeaseDuration = minute, pub_PublishTimeout = 10 * second,
      pub_FinishTimeout = 10 * second\<rparr>"

interpretation mw_publishing: publisher_ports mw_publisher mw_event_docs floor_ms mw_ctx mw_rand
proof -
  have port: "outbox_port (mongo_outbox_store mw_event_collection) mw_event_docs floor_ms"
    using mw_events.repository_contract by (simp add: mw_event_collection_def mem_collection_def)
  have "keeps mw_event_docs (publisher_Publish mw_marshal mw_js 4 event)" for event
    unfolding publisher_Publish_def
    by (auto intro!: frame mw_js_keeps simp: mw_docs_eq split: option.splits)
  moreover have "0 < n \<Longrightarrow> mw_rand n w = (w', k) \<Longrightarrow> 0 \<le> k \<and> k < n" for n w w' k
    by (auto simp: mw_rand_def)
  ultimately show "publisher_ports mw_publisher mw_event_docs floor_ms mw_ctx mw_rand"
    unfolding publisher_ports_def publisher_ports_axioms_def
    using port by (auto simp: mw_publisher_def mw_docs_eq intro!: mw_ctx_keeps mw_id_keeps mw_now_keeps mw_rand_keeps)
qed

end
