(* ===== verification/DeliveryWorld.thy ===== *)
theory DeliveryWorld
  imports MessageWorld
begin

text \<open>
  The image service, the dispatcher and the consumer of the delivery stream in the world of
  \<open>MessageWorld\<close>: an object storage and a broker that are lists, with the same injected faults.
\<close>

section \<open>Images\<close>

definition mw_body :: "message_world read_seeker" where
  "mw_body = \<lparr>rs_Read = (\<lambda>n. ret ''img''), rs_Seek = (\<lambda>offset whence. ret offset)\<rparr>"

definition mw_storage :: "message_world image_storage" where
  "mw_storage =
     \<lparr>StoragePut = (\<lambda>a body. faulty mw_pop (\<lambda>w.
        (w\<lparr>mw_objects := (ast_Bucket a, ast_ObjectKey a) # mw_objects w\<rparr>, Inr ()))),
      StorageDelete = (\<lambda>b k. faulty mw_pop (\<lambda>w. (w\<lparr>mw_deleted := (b, k) # mw_deleted w\<rparr>, Inr ()))),
      StoragePresignGet = (\<lambda>a ttl. ret (''https://objects/'' @ ast_ObjectKey a))\<rparr>"

lemma faulty_code [code]:
  "faulty pop eff s = (case pop s of (s1, f) \<Rightarrow>
     case f of NoFault \<Rightarrow> eff s1
     | LostRequest \<Rightarrow> (s1, Inl (DriverError ''request lost''))
     | LostReply \<Rightarrow> (fst (eff s1), Inl (DriverError ''reply lost'')))"
  by (simp add: faulty_def split: prod.splits fault.splits)

definition mw_image_service :: "message_world image_service" where
  "mw_image_service =
     \<lparr>svc_images = mongo_image_repository mw_image_collection, svc_storage = mw_storage,
      svc_chats = mongo_chat_repository mw_chat_collection, svc_ids = mw_id, svc_clock = mw_now,
      svc_bucket = ''images''\<rparr>"

abbreviation mw_deleted_set :: "message_world \<Rightarrow> (string \<times> string) set" where
  "mw_deleted_set w \<equiv> set (mw_deleted w)"

lemma mw_pop_keeps:
  "mw_event_docs (fst (mw_pop w)) = mw_event_docs w" "mw_image_docs (fst (mw_pop w)) = mw_image_docs w"
  "mw_stored_chats (fst (mw_pop w)) = mw_stored_chats w"
  by (simp_all add: mw_docs_eq)

lemma faulty_keeps:
  assumes "\<And>w. g (fst (mw_pop w)) = g w" "keeps g eff"
  shows "keeps g (faulty mw_pop eff)"
proof (rule keepsI)
  fix w w' r assume run: "faulty mw_pop eff w = (w', r)"
  obtain w1 f where p: "mw_pop w = (w1, f)" by fastforce
  with assms(1) [of w] have "g w1 = g w" by simp
  moreover have "g (fst (eff w1)) = g w1" using assms(2) by (simp add: keeps_def)
  ultimately show "g w' = g w" using run p by (cases f) (auto simp: faulty_def)
qed

lemma mw_storage_keeps:
  assumes "\<And>w. g (fst (mw_pop w)) = g w"
  shows "(\<And>w xs. g (w\<lparr>mw_objects := xs\<rparr>) = g w) \<Longrightarrow> keeps g (StoragePut mw_storage a body)"
    and "(\<And>w xs. g (w\<lparr>mw_deleted := xs\<rparr>) = g w) \<Longrightarrow> keeps g (StorageDelete mw_storage b k)"
    and "keeps g (StoragePresignGet mw_storage a ttl)"
  unfolding mw_storage_def image_storage.simps
  using assms by (auto intro!: faulty_keeps frame) (simp_all add: keeps_def)

lemma mw_find_by_id_keeps:
  assumes "\<And>ds w. g (w\<lparr>mw_chats := ds\<rparr>) = g w" "\<And>w. g (fst (mw_pop w)) = g w"
  shows "keeps g (ChatFindByID (mongo_chat_repository mw_chat_collection) i)"
  by (intro mongo_chat_repository_keeps mw_find_chat_keeps assms)

lemma mw_image_ops_keep:
  assumes "\<And>ds w. g (w\<lparr>mw_images := ds\<rparr>) = g w" "\<And>w. g (fst (mw_pop w)) = g w"
  shows "keeps g (ImageFindByID (mongo_image_repository mw_image_collection) i)"
    and "keeps g (ImageClaimAbandoned (mongo_image_repository mw_image_collection) now token)"
    and "keeps g (ImageCompleteDeletion (mongo_image_repository mw_image_collection) a now)"
  unfolding mongo_image_repository_def image_repository.simps images_FindByID_def
    images_ClaimAbandoned_def images_CompleteDeletion_def mw_image_collection_def
  by (auto intro!: frame mem_collection_keeps assms split: option.splits)

interpretation mw_imaging: image_ports mw_image_service mw_image_docs mw_stored_chats floor_ms mw_deleted_set
proof -
  have store: "image_store (mongo_image_repository mw_image_collection) mw_image_docs floor_ms"
    using mw_images.repository_contract by (simp add: mw_image_collection_def mem_collection_def)
  have chats: "chat_store (mongo_chat_repository mw_chat_collection) mw_stored_chats floor_ms"
    using mw_chats.repository_contract by (simp add: mw_chat_collection_def mem_collection_def)
  have delete: "set (mw_deleted w') \<subseteq> insert (b, k) (set (mw_deleted w))"
    if "StorageDelete mw_storage b k w = (w', r)" for b k w w' r
  proof -
    obtain w1 f where p: "mw_pop w = (w1, f)" by fastforce
    then have "mw_deleted w1 = mw_deleted w" using mw_pop_sel(6) [of w] by simp
    then show ?thesis using that p by (cases f) (auto simp: mw_storage_def faulty_def)
  qed
  show "image_ports mw_image_service mw_image_docs mw_stored_chats floor_ms mw_deleted_set"
    unfolding image_ports_def image_ports_axioms_def
  proof (intro conjI allI impI)
    show "image_store (svc_images mw_image_service) mw_image_docs floor_ms" using store by (simp add: mw_image_service_def)
    show "chat_store (svc_chats mw_image_service) mw_stored_chats floor_ms" using chats by (simp add: mw_image_service_def)
    show "set (mw_deleted w') \<subseteq> insert (b, k) (set (mw_deleted w))"
      if "StorageDelete (svc_storage mw_image_service) b k w = (w', r)" for b k w w' r
      using that delete by (simp add: mw_image_service_def)
    show "floor_ms (floor_ms t) = floor_ms t" for t by (rule floor_ms_laws)
  qed (auto simp: mw_image_service_def mw_docs_eq
      intro!: mw_id_keeps mw_now_keeps mw_find_by_id_keeps mw_image_ops_keep mw_storage_keeps frame)
qed

section \<open>Notifications\<close>

definition mw_nats :: "message_world nats_connection" where
  "mw_nats =
     \<lparr>NatsPublish = (\<lambda>subject data. faulty mw_pop (\<lambda>w.
        (w\<lparr>mw_published := (subject, data) # mw_published w\<rparr>, Inr ()))),
      NatsFlush = ret ()\<rparr>"

definition mw_marshal_notice :: "realtime_message_created \<Rightarrow> go_error + string" where
  "mw_marshal_notice ev = Inr (rmc_EventID ev @ CHR '':'' # rmd_ID (rmc_Data ev))"

abbreviation mw_published_set :: "message_world \<Rightarrow> (string \<times> string) set" where
  "mw_published_set w \<equiv> set (mw_published w)"

lemma mw_nats_publish:
  assumes "NatsPublish mw_nats subject data w = (w', r)"
  shows "mw_published_set w \<subseteq> mw_published_set w' \<and>
    mw_published_set w' \<subseteq> insert (subject, data) (mw_published_set w) \<and>
    (r = Inr () \<longrightarrow> (subject, data) \<in> mw_published_set w')"
proof -
  obtain w1 f where p: "mw_pop w = (w1, f)" by fastforce
  then have "mw_published w1 = mw_published w" using mw_pop_sel(8) [of w] by simp
  then show ?thesis using assms p by (cases f) (auto simp: mw_nats_def faulty_def)
qed

interpretation mw_broker: nats_client mw_nats mw_ctx mw_published_set mw_marshal_notice
  by unfold_locales (use mw_nats_publish in \<open>auto simp: mw_nats_def frame mw_ctx_keeps\<close>)

definition mw_notify :: "message_world realtime_publisher" where
  "mw_notify = PublishMessageCreated mw_marshal_notice mw_nats mw_ctx"

interpretation mw_dispatching: dispatch_ports "mongo_chat_repository mw_chat_collection" mw_stored_chats floor_ms
  mw_notify mw_broker.notified mw_marshal_notice mw_ctx
proof -
  have "keeps mw_broker.notified (ChatFindByID (mongo_chat_repository mw_chat_collection) i)" for i
    by (rule mw_find_by_id_keeps) (simp_all add: mw_broker.notified_def)
  moreover have "chat_store (mongo_chat_repository mw_chat_collection) mw_stored_chats floor_ms"
    using mw_chats.repository_contract by (simp add: mw_chat_collection_def mem_collection_def)
  ultimately show "dispatch_ports (mongo_chat_repository mw_chat_collection) mw_stored_chats floor_ms
      mw_notify mw_broker.notified mw_marshal_notice mw_ctx"
    unfolding dispatch_ports_def dispatch_ports_axioms_def
    using mw_broker.publisher_contract by (simp add: mw_notify_def mw_ctx_keeps)
qed

section \<open>The consumer\<close>

definition mw_event :: message_created_event where
  "mw_event =
     \<lparr>mce_EventID = ''e1'', mce_EventType = ''chat.message.created.v1'', mce_AggregateType = ''CHAT'',
      mce_AggregateID = ''c1'', mce_OccurredAt = hour,
      mce_Payload =
        \<lparr>mcp_MessageID = ''m1'', mcp_ClientMessageID = [], mcp_ChatID = ''c1'', mcp_Sequence = 1,
         mcp_SenderID = ''u1'',
         mcp_Content = \<lparr>oc_Type = ''TEXT'', oc_Value = ''hi'', oc_ImageID = [], oc_Caption = []\<rparr>,
         mcp_CreatedAt = hour\<rparr>\<rparr>"

definition mw_unmarshal :: "string \<Rightarrow> message_created_event option" where
  "mw_unmarshal data = (if data = ''e1'' then Some mw_event else None)"

definition mw_msg :: "string \<Rightarrow> message_world jetstream_msg" where
  "mw_msg data =
     \<lparr>msg_Metadata = Inr \<lparr>mdt_Stream = ''CHAT_EVENTS'', mdt_Consumer = ''MESSAGE_DELIVERY'',
                          mdt_StreamSequence = 1, mdt_NumDelivered = 1\<rparr>,
      msg_Data = data, msg_NakWithDelay = (\<lambda>d. ret ()),
      msg_DoubleAck = (\<lambda>w. (w\<lparr>mw_acked := True\<rparr>, Inr ())),
      msg_TermWithReason = (\<lambda>r w. (w\<lparr>mw_discarded := True\<rparr>, Inr ()))\<rparr>"

definition mw_consumer :: "string \<Rightarrow> message_world delivery_runner" where
  "mw_consumer data =
     \<lparr>drn_Next = ret (mw_msg data),
      drn_handler = Dispatch (mongo_chat_repository mw_chat_collection) mw_notify mw_ctx,
      drn_failures = PublishFailure (\<lambda>ev. Inr (fev_ReasonCode ev)) mw_js mw_now\<rparr>"

lemma mw_notify_keeps:
  assumes "\<And>w xs. g (w\<lparr>mw_published := xs\<rparr>) = g w" "\<And>w. g (fst (mw_pop w)) = g w"
  shows "keeps g (mw_notify u ev)"
proof -
  have "keeps g (NatsPublish mw_nats s d)" "keeps g (NatsFlush mw_nats)" for s d
    using assms by (auto simp: mw_nats_def intro!: faulty_keeps frame) (simp add: keeps_def)
  then show ?thesis
    unfolding mw_notify_def PublishMessageCreated_def by (auto intro!: frame mw_ctx_keeps)
qed

lemma mw_dispatch_keeps:
  assumes "\<And>w xs. g (w\<lparr>mw_published := xs\<rparr>) = g w" "\<And>w. g (fst (mw_pop w)) = g w"
    "\<And>ds w. g (w\<lparr>mw_chats := ds\<rparr>) = g w"
  shows "keeps g (Dispatch (mongo_chat_repository mw_chat_collection) mw_notify mw_ctx event)"
  unfolding Dispatch_def
  by (auto intro!: frame mw_ctx_keeps mw_notify_keeps mw_find_by_id_keeps assms split: option.splits)

lemma mw_failure_keeps:
  assumes "\<And>w ms. g (w\<lparr>mw_stream := ms\<rparr>) = g w" "\<And>w. g (fst (mw_pop w)) = g w"
    "\<And>w t. g (w\<lparr>mw_clock := t\<rparr>) = g w"
  shows "keeps g (PublishFailure marshal mw_js mw_now failure)"
  unfolding PublishFailure_def Let_def
  by (auto intro!: frame mw_js_keeps mw_now_keeps assms split: option.splits)

lemma mw_pop_settled [simp]:
  "mw_acked (fst (mw_pop w)) = mw_acked w" "mw_discarded (fst (mw_pop w)) = mw_discarded w"
  by (simp_all add: mw_pop_def split: list.splits)

interpretation mw_delivery: delivery_message "mw_consumer data" "mw_msg data" mw_acked mw_discarded
  by unfold_locales
    (auto simp: mw_consumer_def mw_msg_def frame intro!: mw_dispatch_keeps mw_failure_keeps, auto simp: keeps_def)

section \<open>A chat with two users\<close>

definition mw_image_doc :: "string \<Rightarrow> time \<Rightarrow> image_document" where
  "mw_image_doc status expires =
     \<lparr>img_ID = ''i1'', img_UploadedBy = ''u1'', img_ChatID = ''c1'', img_ClientUploadID = ''k'',
      img_Bucket = ''images'', img_ObjectKey = ''images/i1'', img_ContentType = ''image/png'',
      img_Checksum = ''x'', img_SizeBytes = 1, img_Width = 1, img_Height = 1, img_Status = status,
      img_MessageID = None, img_UploadToken = None, img_DeleteToken = None, img_CreatedAt = hour,
      img_ExpiresAt = expires, img_LockedUntil = 0, img_CleanupAfter = 0, img_DeleteStartedAt = 0,
      img_DeletedAt = None\<rparr>"

definition mw_start :: message_world where
  "mw_start =
     \<lparr>mw_faults = [], mw_cancelled = False, mw_clock = 2 * hour, mw_entropy = 1,
      mw_chats = [\<lparr>cd_ID = ''c1'', cd_ParticipantOneID = ''u1'', cd_ParticipantTwoID = ''u2'',
        cd_ParticipantIDs = [''u1'', ''u2''], cd_CreatedAt = hour, cd_UpdatedAt = hour,
        cd_SummarySortAt = hour, cd_LastSequence = 0\<rparr>],
      mw_items = [], mw_events = [], mw_images = [mw_image_doc image_Ready (3 * hour)], mw_objects = [],
      mw_deleted = [], mw_stream = [], mw_published = [], mw_acked = False, mw_discarded = False, mw_checked = False\<rparr>"

definition mw_client_id :: string where "mw_client_id = ''11111111-1111-4111-8111-111111111111''"

definition mw_input :: "string \<Rightarrow> create_input" where
  "mw_input user = \<lparr>cin_CurrentUserID = user, cin_ChatID = ''c1'', cin_ClientMessageID = mw_client_id,
     cin_Content = \<lparr>cci_Type = ''text'', cci_Value = ''hello'', cci_ImageID = [], cci_Caption = []\<rparr>\<rparr>"

definition mw_posted :: message_world where
  "mw_posted = fst (CreateMessage mw_create (mw_input ''u1'') mw_start)"

lemma mw_create_runs: "isOk (snd (CreateMessage mw_create (mw_input ''u1'') mw_start))"
  by code_simp

lemma mw_publish_runs: "isOk (snd (RunOnce mw_publisher mw_ctx mw_rand mw_posted))"
  by code_simp

lemma mw_dispatch_runs:
  "isOk (snd (Dispatch (mongo_chat_repository mw_chat_collection) mw_notify mw_ctx mw_event mw_start))"
  by code_simp

lemma mw_settled: "mw_acked (fst (processMessage mw_unmarshal (mw_consumer ''e1'') (mw_msg ''e1'') mw_start))"
proof -
  from run_ok [OF mw_dispatch_runs] obtain w' u where
    "Dispatch (mongo_chat_repository mw_chat_collection) mw_notify mw_ctx mw_event mw_start = (w', Inr u)" by blast
  then show ?thesis
    by (simp add: processMessage_def mw_msg_def mw_consumer_def mw_unmarshal_def maxEventBytes_def attempt_def orFail_def ret_def)
qed

lemma mw_access_runs: "isOk (snd (AccessImage mw_image_service ''u1'' ''i1'' mw_start))"
  by code_simp

definition mw_params :: create_message_params where
  "mw_params = \<lparr>cmp_MessageID = ''m1'', cmp_EventID = ''e1'', cmp_ChatID = ''c1'',
     cmp_Message = \<lparr>msg_clientMessageID = mw_client_id, msg_senderID = ''u1'',
       msg_content = \<lparr>mct_contentType = ''TEXT'', mct_value = ''hello'', mct_imageID = [], mct_caption = []\<rparr>\<rparr>,
     cmp_CreatedAt = 2 * hour\<rparr>"

lemma mw_store_runs: "isOk (snd (CreateWithOutbox mw_repository mw_params mw_start))"
  by code_simp

lemma mw_store_created:
  "snd (CreateWithOutbox mw_repository mw_params mw_start) = Inr result \<Longrightarrow> cmr_Created result"
proof -
  have "(case snd (CreateWithOutbox mw_repository mw_params mw_start) of Inr r \<Rightarrow> cmr_Created r | Inl e \<Rightarrow> True)"
    by code_simp
  then show "snd (CreateWithOutbox mw_repository mw_params mw_start) = Inr result \<Longrightarrow> cmr_Created result" by simp
qed

text \<open>The same world without the image, which satisfies the invariants of the stored data.\<close>

definition mw_start_text :: message_world where "mw_start_text = mw_start\<lparr>mw_images := []\<rparr>"

definition mw_posted_text :: message_world where
  "mw_posted_text = fst (CreateMessage mw_create (mw_input ''u1'') mw_start_text)"

end
