(* ===== verification/MessageProperties.thy ===== *)
theory MessageProperties
  imports DeliveryWorld
begin

text \<open>
  The properties of messaging: creating messages, the stored history, the chats and their pages,
  each with a run of the stack of \<open>MessageWorld\<close> as its witness.
\<close>

section \<open>Creating a message\<close>

text \<open>
  C15. The message store keeps its contract on every outcome, whatever other clients do before
  its transaction: a message that is reported as created was posted atomically (its image
  attached, the next sequence of its chat taken, the timeline item and the outbox event inserted);
  a replayed one changes nothing and returns the stored message; an error other than a failure of
  the infrastructure means that nothing was written.
\<close>

theorem message_store_contract:
  assumes "message_backend R env prec" and "CreateWithOutbox R p s = (s', r)"
  shows "create_outcome env prec p (store_view R s) (store_view R s') r"
  by (rule message_contract.Create [OF message_backend.store_contract [OF assms(1)] assms(2)])

theorem message_store_contract_witness:
  "\<exists>w' result. CreateWithOutbox mw_repository mw_params mw_start = (w', Inr result) \<and>
     create_outcome (=) floor_ms mw_params (mw_view mw_start) (mw_view w') (Inr result)"
proof -
  from run_ok [OF mw_store_runs] obtain w' result
    where run: "CreateWithOutbox mw_repository mw_params mw_start = (w', Inr result)" by blast
  with message_store_contract [OF mw.message_backend_axioms run] show ?thesis by blast
qed

text \<open>
  C16. A message that the use case reports as created was posted with the next sequence of its
  chat, for a participant, with the parsed identifiers and content, and the returned identifier
  and sequence are the stored ones; otherwise the caller gets the identifier and sequence of the
  message it had sent before, and nothing was written.
\<close>

theorem create_message_posts:
  assumes "create_ports D view env prec" and "CreateMessage D input w = (w', Inr out)"
  shows "\<exists>p y. view_chats (view w) (cmp_ChatID p) = Some y \<and> HasParticipant (chat_restored y) (sender_of p) \<and>
    cmp_ChatID p = TrimSpace (cin_ChatID input) \<and> sender_of p = TrimSpace (cin_CurrentUserID input) \<and>
    ParseClientMessageID (cin_ClientMessageID input) = Inr (msg_clientMessageID (cmp_Message p)) \<and>
    parseContent (cin_Content input) = Inr (msg_content (cmp_Message p)) \<and>
    (if cou_Created out
     then not_stored p (view w) \<and>
       (\<exists>n. create_posts env prec p n (view w) (view w') \<and> cou_Sequence out = n \<and> cou_ID out = cmp_MessageID p)
     else env (view w) (view w') \<and>
       (\<exists>x. existing_item p (view w') x \<and> cou_Sequence out = itm_sequence x \<and> cou_ID out = itm_id x))"
  by (rule create_ports.CreateMessage_posts [OF assms])

theorem create_message_posts_witness:
  "\<exists>w' out p. CreateMessage mw_create (mw_input ''u1'') mw_start = (w', Inr out) \<and>
     sender_of p = TrimSpace ''u1'' \<and>
     (if cou_Created out then not_stored p (mw_view mw_start) else mw_view mw_start = mw_view w')"
proof -
  from run_ok [OF mw_create_runs] obtain w' out
    where run: "CreateMessage mw_create (mw_input ''u1'') mw_start = (w', Inr out)" by blast
  with create_message_posts [OF mw_creating.create_ports_axioms run] show ?thesis
    by (fastforce simp: mw_input_def)
qed

text \<open>
  C17. Someone who is not a participant of the chat, or who names a chat that does not exist,
  changes nothing and gets an error.
\<close>

theorem create_message_stranger:
  assumes "create_ports D view env prec" and "CreateMessage D input w = (w', r)"
    and "\<And>y. view_chats (view w) (TrimSpace (cin_ChatID input)) = Some y \<Longrightarrow>
      \<not> HasParticipant (chat_restored y) (TrimSpace (cin_CurrentUserID input))"
  shows "view w' = view w \<and> (\<exists>e. r = Inl e)"
  by (rule create_ports.CreateMessage_stranger [OF assms])

theorem create_message_stranger_witness:
  "mw_view (fst (CreateMessage mw_create (mw_input ''u3'') mw_start)) = mw_view mw_start"
proof -
  have "\<not> HasParticipant (chat_restored y) (TrimSpace (cin_CurrentUserID (mw_input ''u3'')))"
    if "view_chats (mw_view mw_start) (TrimSpace (cin_ChatID (mw_input ''u3''))) = Some y" for y
  proof -
    have "TrimSpace ''c1'' = ''c1''" "TrimSpace ''u1'' = ''u1''" "TrimSpace ''u2'' = ''u2''" "TrimSpace ''u3'' = ''u3''"
      by code_simp+
    with that show ?thesis
      by (auto simp: view_chats_def mw_view_eq mw_start_def mw_input_def as_map_def chat_restored_def
          stored_chat_def HasParticipant_def)
  qed
  from create_message_stranger [OF mw_creating.create_ports_axioms prod.collapse [symmetric] this]
  show ?thesis by simp
qed

text \<open>
  C18. Retries are idempotent: once the message store reported a message as created, whatever every
  client does to the stored data afterwards, sending a message with the same sender and client
  identifier again, to any chat and with any content, creates nothing.
\<close>

theorem message_retry_idempotent:
  assumes "message_backend R env prec" and "\<And>V V'. env V V' \<Longrightarrow> store_steps prec V V'"
    and "CreateWithOutbox R p w = (w1, Inr answer)" and "cmr_Created answer"
    and "store_steps prec (store_view R w1) (store_view R w2)"
    and "sender_of q = sender_of p" "msg_clientMessageID (cmp_Message q) = msg_clientMessageID (cmp_Message p)"
    and "CreateWithOutbox R q w2 = (w3, r)"
  shows "env (store_view R w2) (store_view R w3) \<and> (\<forall>result. r = Inr result \<longrightarrow> \<not> cmr_Created result)"
proof -
  note contract = message_backend.store_contract [OF assms(1)]
  from message_contract.Create [OF contract assms(3)] assms(4) obtain n V0
    where "posted prec p n V0 (store_view R w1)" by (auto simp: create_outcome_def create_posts_def)
  from message_contract.retry_not_created [OF contract assms(2) this assms(5-8)] show ?thesis .
qed

theorem message_retry_idempotent_witness:
  "\<exists>w1. fst (CreateWithOutbox mw_repository mw_params mw_start) = w1 \<and>
     mw_view (fst (CreateWithOutbox mw_repository mw_params w1)) = mw_view w1"
proof -
  have steps: "V = V' \<Longrightarrow> store_steps floor_ms V V'" for V V' by simp
  from run_ok [OF mw_store_runs] obtain w1 result
    where run: "CreateWithOutbox mw_repository mw_params mw_start = (w1, Inr result)" by blast
  then have created: "cmr_Created result" using mw_store_created by simp
  obtain w2 r where again: "CreateWithOutbox mw_repository mw_params w1 = (w2, r)"
    by (cases "CreateWithOutbox mw_repository mw_params w1")
  from message_retry_idempotent [OF mw.message_backend_axioms steps run created rtranclp.rtrancl_refl refl refl again]
  show ?thesis using run again by simp
qed

section \<open>The history of the stored data\<close>

text \<open>
  C19. In every history of the stored data (chats opened, messages posted, outbox events and
  images going through their state machines, in any order, from an empty store) the messages of a
  chat are numbered from 1 to its last sequence without gaps or repetitions and were sent by
  participants, messages and outbox events correspond one to one, and every image message owns its
  image.
\<close>

theorem store_history:
  assumes "store_steps prec empty_store V" and "store_steps prec V V'"
  shows "store_ok V' \<and> (\<forall>i x. sv_items V i = Some x \<longrightarrow> sv_items V' i = Some x)"
  using store_steps_ok [OF _ empty_store_ok, of prec] store_steps_items [OF assms(2)] assms
  by (meson rtranclp_trans)

theorem store_history_witness:
  "\<exists>d V. cd_ID d = ''c1'' \<and> store_steps floor_ms empty_store V \<and> sv_chats V ''c1'' = Some d \<and> store_ok V"
proof -
  define d where "d = (hd (mw_chats mw_start))"
  have d: "cd_ID d = ''c1''" "cd_LastSequence d = 0" by (simp_all add: d_def mw_start_def)
  define V where "V = empty_store\<lparr>sv_chats := (sv_chats empty_store)(cd_ID d \<mapsto> d)\<rparr>"
  have "store_step floor_ms empty_store V"
    unfolding V_def by (rule store_step.open_chat) (simp_all add: empty_store_def d)
  then have steps: "store_steps floor_ms empty_store V" by simp
  from store_history [OF steps rtranclp.rtrancl_refl] have "store_ok V" by blast
  moreover have "sv_chats V ''c1'' = Some d" by (simp add: V_def d)
  ultimately show ?thesis using steps d by blast
qed

text \<open>
  C20. The use case that creates messages keeps these invariants on every outcome, provided that
  the other clients do.
\<close>

theorem create_message_keeps_store:
  assumes "create_ports D view env prec" and "\<And>V V'. env V V' \<Longrightarrow> store_steps prec V V'"
    and "CreateMessage D input w = (w', r)" and "store_ok (view w)"
  shows "store_ok (view w')"
  using store_steps_ok followsD [OF create_ports.CreateMessage_steps [OF assms(1,2)] assms(3)] assms(4) by blast

theorem create_message_keeps_store_witness:
  "store_ok (mw_view mw_posted_text)"
proof -
  have "store_ok (mw_view mw_start_text)"
    by (auto simp: store_ok_def sequences_ok_def events_ok_def images_ok_def mw_view_eq mw_start_text_def
        mw_start_def as_map_def)
  then show ?thesis
    unfolding mw_posted_text_def
    by (intro create_message_keeps_store [OF mw_creating.create_ports_axioms _ prod.collapse [symmetric]]) simp_all
qed

end
