(* ===== verification/DeliveryProperties.thy ===== *)
theory DeliveryProperties
  imports DeliveryWorld
begin

text \<open>
  The properties of chats, images, the outbox and the delivery of messages, each with a run of the
  stack of \<open>MessageWorld\<close> as its witness.
\<close>

section \<open>Chats\<close>

text \<open>
  C21. Opening a direct chat finds the chat of the same two users, or adds the candidate when there
  is none and no other chat has its identifier; two users never have two chats, a failure adds at
  most the candidate, and looking up a chat returns the stored one.
\<close>

theorem chat_repository_contract:
  assumes "chat_collection C"
  shows "chat_store (mongo_chat_repository C) (stored_chats C) (DateTime C)"
  by (rule chat_collection.repository_contract [OF assms])

theorem chat_repository_contract_witness:
  "chat_store (mongo_chat_repository mw_chat_collection) mw_stored_chats (DateTime mw_chat_collection)"
  by (rule chat_repository_contract [OF mw_chats.chat_collection_axioms])

text \<open>
  C22. Following the cursors, the pages of a user's chats are consecutive slices of one list, the
  chats of the user by descending time of the last message: the page after the first \<open>n\<close> chats holds
  the next \<open>Limit\<close> ones, says whether more follow, and its cursor names its last chat.
\<close>

theorem chat_pages:
  assumes "chat_collection C" and "\<And>d. d \<in> ran (docs C s) \<Longrightarrow> chat_canonical (DateTime C) d"
    and "listing (buildListChatsFilter (DateTime C) (params\<lparr>lcp_After := None\<rparr>)) chats_order (docs C s) ds"
    and "n \<le> length ds"
    and "lcp_After params = (if n = 0 then None else Some (cursor_of (ds ! (n - 1))))"
    and "chats_ListByParticipant C params s = (s', Inr page)"
  shows "list_all2 (\<lambda>d c. chat_toDomain d = Inr c) (take (nat (lcp_Limit params)) (drop n ds)) (lcr_Chats page) \<and>
    lcr_HasNext page = (n + nat (lcp_Limit params) < length ds) \<and>
    lcr_NextCursor page =
      (if lcr_HasNext page then Some (cursor_of (ds ! (n + nat (lcp_Limit params) - 1))) else None) \<and>
    lcr_TotalItems page = int (length ds)"
  by (rule chat_collection.page_at [OF assms])

definition mw_list :: list_chats_params where
  "mw_list = \<lparr>lcp_ParticipantID = ''u1'', lcp_Limit = 5, lcp_After = None\<rparr>"

theorem chat_pages_witness:
  "\<exists>s' page. chats_ListByParticipant mw_chat_collection mw_list mw_start = (s', Inr page) \<and>
     \<not> lcr_HasNext page \<and> lcr_TotalItems page = 1"
proof -
  let ?d = "hd (mw_chats mw_start)"
  have docs: "docs mw_chat_collection mw_start = [''c1'' \<mapsto> ?d]"
    by (simp add: mw_chat_collection_def mem_collection_def mw_start_def as_map_def)
  have canon: "chat_canonical (DateTime mw_chat_collection) d" if "d \<in> ran (docs mw_chat_collection mw_start)" for d
  proof -
    have "TrimSpace ''c1'' = ''c1''" by code_simp
    moreover have "d = ?d" using that docs by simp
    ultimately show ?thesis
      by (simp add: chat_canonical_def mw_chat_collection_def mem_collection_def floor_ms_def mw_start_def)
  qed
  have ds: "listing (buildListChatsFilter (DateTime mw_chat_collection) (mw_list\<lparr>lcp_After := None\<rparr>)) chats_order
      (docs mw_chat_collection mw_start) [?d]"
    unfolding listing_def docs
    by (auto simp: matching_def buildListChatsFilter_def mw_list_def mw_start_def)
  have "isOk (snd (chats_ListByParticipant mw_chat_collection mw_list mw_start))" by code_simp
  from run_ok [OF this] obtain s' page
    where run: "chats_ListByParticipant mw_chat_collection mw_list mw_start = (s', Inr page)" by blast
  with chat_pages [OF mw_chats.chat_collection_axioms canon ds _ _ run, of 0] show ?thesis
    by (simp add: mw_list_def)
qed

section \<open>Images\<close>

text \<open>
  C23. The image repository keeps its contract: an upload is reserved, taken over or found by its
  identity, is confirmed only under its lease, an abandoned image is claimed for deletion, and every
  operation, whatever its outcome, is a step of the state machine of the assets.
\<close>

theorem image_repository_contract:
  assumes "image_collection C"
  shows "image_store (mongo_image_repository C) (docs C) (DateTime C)"
  by (rule image_collection.repository_contract [OF assms])

theorem image_repository_contract_witness:
  "image_store (mongo_image_repository mw_image_collection) mw_image_docs (DateTime mw_image_collection)"
  by (rule image_repository_contract [OF mw_images.image_collection_axioms])

text \<open>
  C24. Whatever all clients do, an asset keeps its identity, an attached image stays attached to its
  message, a deleted one stays deleted, and one that is being deleted is never used again.
\<close>

theorem image_lifecycle:
  assumes "image_steps dt m m'" and "m i = Some d"
  shows "\<exists>d'. m' i = Some d' \<and> image_identity d' = image_identity d \<and>
    (img_Status d \<in> {image_Attached, image_Deleted} \<longrightarrow> d' = d) \<and>
    (img_Status d \<in> {image_Deleting, image_Deleted} \<longrightarrow> img_Status d' \<in> {image_Deleting, image_Deleted})"
  by (rule image_steps_keep [OF assms])

theorem image_lifecycle_witness:
  "\<exists>d'. ([''i1'' \<mapsto> attach_update ''m1'' (mw_image_doc image_Ready (3 * hour))]) ''i1'' = Some d' \<and>
     image_identity d' = image_identity (mw_image_doc image_Ready (3 * hour))"
proof -
  let ?d = "mw_image_doc image_Ready (3 * hour)" and ?m = "[''i1'' \<mapsto> mw_image_doc image_Ready (3 * hour)]"
  have f: "attach_filter floor_ms ''i1'' ''u1'' ''c1'' (2 * hour) ?d" "?m (img_ID ?d) = Some ?d"
    by (simp_all add: attach_filter_def mw_image_doc_def floor_ms_def)
  have "image_step floor_ms ?m (?m(img_ID ?d \<mapsto> attach_update ''m1'' ?d))"
    using image_step.edit [where m = ?m and d = ?d, OF image_edit.attach _ f(1)] f(2) by blast
  then have steps: "image_steps floor_ms ?m [''i1'' \<mapsto> attach_update ''m1'' ?d]"
    by (simp add: mw_image_doc_def)
  have "?m ''i1'' = Some ?d" by simp
  from image_lifecycle [OF steps this] show ?thesis by blast
qed





text \<open>
  C26. An image is shown only to a participant of its chat, and only when it is attached to a
  message or is the caller's own upload that has not expired.
\<close>

theorem access_sound:
  assumes "image_ports S images chats prec deleted" and "AccessImage S userID i w = (w', Inr access)"
  shows "\<exists>d y. images w i = Some d \<and> acc_Metadata access = metadata (document_asset d) \<and>
    (img_Status d = image_Attached \<or>
      img_Status d = image_Ready \<and> img_UploadedBy d = userID \<and>
      (\<exists>u u' now. svc_clock S u = (u', now) \<and> now < img_ExpiresAt d)) \<and>
    chats w (TrimSpace (img_ChatID d)) = Some y \<and> HasParticipant (chat_restored y) (TrimSpace userID)"
  by (rule image_ports.Access_ok [OF assms])

theorem access_sound_witness:
  "\<exists>w' access d. AccessImage mw_image_service ''u1'' ''i1'' mw_start = (w', Inr access) \<and>
     mw_image_docs mw_start ''i1'' = Some d \<and> acc_Metadata access = metadata (document_asset d)"
proof -
  from run_ok [OF mw_access_runs] obtain w' access
    where run: "AccessImage mw_image_service ''u1'' ''i1'' mw_start = (w', Inr access)" by blast
  with access_sound [OF mw_imaging.image_ports_axioms run] show ?thesis by blast
qed





section \<open>The outbox\<close>

text \<open>
  C28. The outbox repository keeps its contract: a claim leases the first event that is due, a
  finishing call writes exactly when the event is being processed under the given lease and tells so,
  and every operation, whatever its outcome, makes steps of the lease machine.
\<close>

theorem outbox_repository_contract:
  assumes "outbox_collection C"
  shows "outbox_port (mongo_outbox_store C) (docs C) (DateTime C)"
  by (rule outbox_collection.repository_contract [OF assms])

theorem outbox_repository_contract_witness:
  "outbox_port (mongo_outbox_store mw_event_collection) mw_event_docs (DateTime mw_event_collection)"
  by (rule outbox_repository_contract [OF mw_events.outbox_collection_axioms])

text \<open>
  C29. Whatever all workers do, an event keeps its content, its attempts never decrease, and a
  published or failed event never changes again.
\<close>

theorem outbox_event_final:
  assumes "outbox_steps dt m m'" and "m i = Some d"
  shows "\<exists>d'. m' i = Some d' \<and> event_content d' = event_content d \<and> obd_Attempts d \<le> obd_Attempts d' \<and>
    (obd_Status d \<in> {statusPublished, statusFailed} \<longrightarrow> d' = d)"
  by (rule outbox_steps_keep [OF assms])

theorem outbox_event_final_witness:
  "\<exists>w' out d d'. RunOnce mw_publisher mw_ctx mw_rand mw_posted = (w', Inr out) \<and>
     mw_event_docs mw_posted ''idc'' = Some d \<and> mw_event_docs w' ''idc'' = Some d' \<and> event_content d' = event_content d"
proof -
  from run_ok [OF mw_publish_runs] obtain w' out
    where run: "RunOnce mw_publisher mw_ctx mw_rand mw_posted = (w', Inr out)" by blast
  have "map obd_ID (mw_events mw_posted) = [''idc'']" unfolding mw_posted_def by code_simp
  then obtain d where "mw_events mw_posted = [d]" "obd_ID d = ''idc''" by auto
  then have d: "mw_event_docs mw_posted ''idc'' = Some d" by (simp add: mw_docs_eq as_map_def)
  from outbox_event_final [OF followsD [OF mw_publishing.RunOnce_steps run] d] run d show ?thesis by blast
qed

text \<open>
  C30. A worker whose lease on an event ended (it was recovered, or the event was finished) cannot
  mark the event as published, whatever the other workers did since, as long as nobody is given the
  same lease again; it is told so.
\<close>

theorem lost_lease_publishes_nothing:
  assumes "outbox_collection C" and "\<not> holds_lease i lease m"
    and "outbox_steps_without (DateTime C) i lease m (docs C w)"
    and "OutboxMarkPublished (mongo_outbox_store C) i lease receipt at w = (w', Inr b)"
  shows "\<not> b \<and> docs C w' = docs C w"
  using outbox_port.Published_ok [OF outbox_collection.repository_contract [OF assms(1)] assms(4)]
    lease_stays_lost [OF assms(3,2)]
  by (auto simp: finished_def holds_lease_def ownedProcessingFilter_def split: if_splits)

theorem lost_lease_publishes_nothing_witness:
  "\<exists>w' b. OutboxMarkPublished (mongo_outbox_store mw_event_collection) ''idc'' ''old'' \<lparr>rcp_Stream = ''S'', rcp_Sequence = 1\<rparr>
     hour mw_posted = (w', Inr b) \<and> \<not> b"
proof -
  have "map (\<lambda>d. (obd_ID d, obd_LeaseID d)) (mw_events mw_posted) = [(''idc'', None)]"
    unfolding mw_posted_def by code_simp
  then obtain d where "mw_events mw_posted = [d]" "obd_ID d = ''idc''" "obd_LeaseID d = None" by auto
  then have no: "\<not> holds_lease ''idc'' ''old'' (mw_event_docs mw_posted)"
    by (simp add: holds_lease_def mw_docs_eq as_map_def)
  have "isOk (snd (OutboxMarkPublished (mongo_outbox_store mw_event_collection) ''idc'' ''old''
      \<lparr>rcp_Stream = ''S'', rcp_Sequence = 1\<rparr> hour mw_posted))"
    unfolding mw_posted_def by code_simp
  from run_ok [OF this] obtain w' b where run: "OutboxMarkPublished (mongo_outbox_store mw_event_collection) ''idc'' ''old''
      \<lparr>rcp_Stream = ''S'', rcp_Sequence = 1\<rparr> hour mw_posted = (w', Inr b)" by blast
  with lost_lease_publishes_nothing [OF mw_events.outbox_collection_axioms no outbox_steps_without.none run] show ?thesis by blast
qed



text \<open>
  C32. Retry delays are bounded: those of the outbox lie between one second and six minutes and
  their base does not decrease with the attempts; those of the delivery consumer lie between five
  seconds and five minutes and do not decrease with the number of deliveries.
\<close>

theorem retry_delays_bounded:
  assumes "\<And>n w w' k. 0 < n \<Longrightarrow> int64N n w = (w', k) \<Longrightarrow> 0 \<le> k \<and> k < n"
    and "retryDelay int64N attempts w = (w', d)" and "attempts \<le> attempts'" and "m \<le> n"
  shows "second \<le> d \<and> d \<le> 6 * minute \<and> retry_base attempts \<le> retry_base attempts' \<and>
    5 * second \<le> delivery_retryDelay m \<and> delivery_retryDelay m \<le> delivery_retryDelay n \<and>
    delivery_retryDelay n \<le> 5 * minute"
proof -
  have "retry_base attempts \<le> d \<and> 5 * d \<le> 6 * retry_base attempts"
    by (rule retryDelay_bounds [OF _ assms(2)]) (rule assms(1))
  with retry_base_bounds [of attempts] have "second \<le> d" "5 * d \<le> 30 * minute" by linarith+
  then show ?thesis
    using retry_base_mono [OF assms(3)] delivery_retryDelay_bounds [of m] delivery_retryDelay_bounds [of n]
      delivery_retryDelay_mono [OF assms(4)]
    by simp
qed

theorem retry_delays_bounded_witness:
  "second \<le> snd (retryDelay mw_rand 3 mw_start) \<and> delivery_retryDelay 1 \<le> delivery_retryDelay 2"
  using retry_delays_bounded [where int64N = mw_rand and attempts = 3 and w = mw_start and
      w' = "fst (retryDelay mw_rand 3 mw_start)" and d = "snd (retryDelay mw_rand 3 mw_start)" and
      attempts' = 4 and m = 1 and n = 2]
  by (simp add: mw_rand_def)

section \<open>Delivery\<close>



text \<open>
  C34. A message of the delivery stream is acknowledged only after its dispatch returned, and
  discarded only after a permanent failure was recorded; in every other case, failures of the
  broker included, the stream delivers it again.
\<close>

theorem delivery_settled:
  assumes "delivery_message runner msg acked discarded"
    and "processMessage unmarshal runner msg w = (w', r)"
  shows "(acked w' \<longrightarrow> acked w \<or>
      (\<exists>event w1. unmarshal (msg_Data msg) = Some event \<and> drn_handler runner event w = (w1, Inr ()))) \<and>
    (discarded w' \<longrightarrow> discarded w \<or> (\<exists>failure w1 w2. drn_failures runner failure w1 = (w2, Inr ())))"
  by (rule delivery_message.processMessage_settles [OF assms])

theorem delivery_settled_witness:
  "mw_acked (fst (processMessage mw_unmarshal (mw_consumer ''e1'') (mw_msg ''e1'') mw_start)) \<and>
   (\<exists>event w1 w2. drn_handler (mw_consumer ''e1'') event w1 = (w2, Inr ()))"
proof -
  obtain w' r where run: "processMessage mw_unmarshal (mw_consumer ''e1'') (mw_msg ''e1'') mw_start = (w', r)"
    by (cases "processMessage mw_unmarshal (mw_consumer ''e1'') (mw_msg ''e1'') mw_start")
  have acked: "mw_acked w'" using mw_settled run by simp
  have not_yet: "\<not> mw_acked mw_start" by (simp add: mw_start_def)
  from mp [OF conjunct1 [OF delivery_settled [OF mw_delivery.delivery_message_axioms run]] acked]
  have "\<exists>event w1. drn_handler (mw_consumer ''e1'') event mw_start = (w1, Inr ())"
    by (elim disjE exE conjE) (simp add: not_yet, intro exI, assumption)
  then have "\<exists>event w1 w2. drn_handler (mw_consumer ''e1'') event w1 = (w2, Inr ())" by (elim exE) (intro exI)
  moreover have "mw_acked (fst (processMessage mw_unmarshal (mw_consumer ''e1'') (mw_msg ''e1'') mw_start))"
    using acked by (simp only: run fst_conv)
  ultimately show ?thesis by (rule conjI [rotated])
qed

text \<open>
  C35. The outbox event of a message that the store reports as created passes the checks of the
  publisher and of the dispatcher, whatever the outbox workers did to it in between: it is never
  rejected as invalid on its way.
\<close>

theorem created_event_accepted:
  assumes "message_backend R env prec" and "CreateWithOutbox R p w = (w', Inr result)" and "cmr_Created result"
    and "content_Valid (msg_content (cmp_Message p))" and "\<not> blank (cmp_EventID p)"
    and "prec (cmp_CreatedAt p) \<noteq> 0" and "outbox_steps dt (sv_events (store_view R w')) m"
  shows "\<exists>e. m (cmp_EventID p) = Some e \<and> validateEvent (event_toPort e) = Inr () \<and>
    validateMessageCreated (event_envelope (event_toPort e)) = Inr ()"
proof -
  from message_contract.Create [OF message_backend.store_contract [OF assms(1)] assms(2)] assms(3) obtain n V0 x
    where posted: "posted prec p n V0 (store_view R w')" and x: "stored_item_toDomain (newTimelineItemDocument p n) = Inr x"
    by (auto simp: create_outcome_def create_posts_def)
  have "sv_events (store_view R w') (cmp_EventID p) = Some (bson_event prec (newOutboxEventDocument p n))"
    using posted by (simp add: posted_def Let_def)
  from outbox_steps_keep [OF assms(7) this] obtain e where "m (cmp_EventID p) = Some e"
    "event_content e = event_content (bson_event prec (newOutboxEventDocument p n))" by blast
  with new_item_accepted [of p n x prec e] x assms(4-6) show ?thesis by blast
qed

theorem created_event_accepted_witness:
  "\<exists>w' result e. CreateWithOutbox mw_repository mw_params mw_start = (w', Inr result) \<and>
     mw_event_docs w' ''e1'' = Some e \<and> validateEvent (event_toPort e) = Inr ()"
proof -
  from run_ok [OF mw_store_runs] obtain w' result
    where run: "CreateWithOutbox mw_repository mw_params mw_start = (w', Inr result)" by blast
  then have c: "cmr_Created result" using mw_store_created by simp
  have valid: "content_Valid (msg_content (cmp_Message mw_params))" "\<not> blank (cmp_EventID mw_params)"
    "floor_ms (cmp_CreatedAt mw_params) \<noteq> 0"
    by code_simp+
  from created_event_accepted [OF mw.message_backend_axioms run c valid rtranclp.rtrancl_refl] run show ?thesis
    by (auto simp: mw_params_def mw_repository_def)
qed

end
