(* ===== verification/TimelineStore.thy ===== *)
theory TimelineStore
  imports TimelineDocs ChatStore
begin

text \<open>
  The timeline repository (\<^verbatim>\<open>internal/resources/mongodb/timeline_repository\<close>): listing the messages
  of a chat by creation time or by sequence, and the audit of the sequences that must pass before
  the service starts.  A listing by sequence and the audit run in a snapshot transaction, which is
  a parameter: its operation sees one state of the collections.
\<close>

record timeline_cursor =
  tlc_ItemID :: timeline_ID
  tlc_CreatedAt :: time

record list_timeline_params =
  ltp_ChatID :: chat_ID
  ltp_Limit :: int
  ltp_Before :: "timeline_cursor option"
  ltp_SequenceOrder :: bool
  ltp_BeforeSequence :: "int option"
  ltp_AfterSequence :: "int option"
  ltp_ThroughSequence :: "int option"

record list_timeline_result =
  ltr_Items :: "item list"
  ltr_HasNext :: bool
  ltr_NextCursor :: "timeline_cursor option"
  ltr_SnapshotThroughSequence :: "int option"
  ltr_NextBeforeSequence :: "int option"
  ltr_NextAfterSequence :: "int option"

type_synonym 'w timeline_repository = "list_timeline_params \<Rightarrow> ('w, go_error, list_timeline_result) call"

text \<open>
  The session of the driver: \<open>SnapshotRead\<close> runs a reading operation in a snapshot transaction.
  Pipelines of \<^verbatim>\<open>Aggregate\<close> are functions of the documents of the two collections; the source only
  asks whether they have a result.
\<close>

record 's timeline_reader =
  tlr_collection :: "'s timeline_collection"
  tlr_StartSession :: "('s, go_error, unit) call"
  tlr_SnapshotRead :: "('s, go_error, list_timeline_result) call \<Rightarrow> ('s, go_error, list_timeline_result) call"
  tlr_SnapshotCheck :: "('s, go_error, unit) call \<Rightarrow> ('s, go_error, unit) call"
  tlr_Aggregate :: "(timeline_document list \<Rightarrow> chat_document list \<Rightarrow> string list) \<Rightarrow> ('s, go_error, string option) call"
  tlr_sequenceDataChecked :: "'s \<Rightarrow> bool"
  tlr_StoreChecked :: "bool \<Rightarrow> 's \<Rightarrow> 's"

section \<open>Listing by creation time\<close>

definition validateListTimelineParams :: "list_timeline_params \<Rightarrow> go_error + unit" where
  "validateListTimelineParams params =
     require (ltp_ChatID params \<noteq> []) (storeErr Store_ErrInvalidListChat) (
     require (ltp_Limit params > 0) (storeErr Store_ErrInvalidListLimit) (
     require (\<not> (case ltp_Before params of
                   None \<Rightarrow> False
                 | Some before \<Rightarrow> tlc_ItemID before = [] \<or> IsZero (tlc_CreatedAt before)))
       (storeErr Store_ErrInvalidListCursor) (
     Inr ())))"

definition buildListTimelineFilter ::
  "(time \<Rightarrow> time) \<Rightarrow> list_timeline_params \<Rightarrow> timeline_document \<Rightarrow> bool" where
  "buildListTimelineFilter dt params d \<longleftrightarrow>
     tld_ChatID d = ltp_ChatID params \<and>
     (case ltp_Before params of
        None \<Rightarrow> True
      | Some before \<Rightarrow>
          let createdAt = dt (UTC (tlc_CreatedAt before)) in
          tld_CreatedAt d < createdAt \<or> tld_CreatedAt d = createdAt \<and> tld_ID d < tlc_ItemID before)"

definition created_order :: "timeline_document \<Rightarrow> timeline_document \<Rightarrow> bool" where
  "created_order x y \<longleftrightarrow>
     tld_CreatedAt y < tld_CreatedAt x \<or> tld_CreatedAt x = tld_CreatedAt y \<and> tld_ID y \<le> tld_ID x"

definition buildListTimelineResult :: "item list \<Rightarrow> int \<Rightarrow> list_timeline_result" where
  "buildListTimelineResult items limit =
     (let hasNext = int (length items) > limit;
          items = (if hasNext then take (nat limit) items else items);
          nextCursor =
            (if hasNext \<and> items \<noteq> []
             then Some \<lparr>tlc_ItemID = itm_id (last items), tlc_CreatedAt = itm_createdAt (last items)\<rparr>
             else None)
      in \<lparr>ltr_Items = rev items, ltr_HasNext = hasNext, ltr_NextCursor = nextCursor,
          ltr_SnapshotThroughSequence = None, ltr_NextBeforeSequence = None, ltr_NextAfterSequence = None\<rparr>)"

section \<open>Listing by sequence\<close>

text \<open>A missing sequence comes before every number, as in the order of BSON values.\<close>

definition sequence_le :: "timeline_document \<Rightarrow> timeline_document \<Rightarrow> bool" where
  "sequence_le x y \<longleftrightarrow>
     (case tld_Sequence x of
        None \<Rightarrow> True
      | Some a \<Rightarrow> (case tld_Sequence y of None \<Rightarrow> False | Some b \<Rightarrow> a \<le> b))"

definition legacy_filter :: "list_timeline_params \<Rightarrow> timeline_document \<Rightarrow> bool" where
  "legacy_filter params d \<longleftrightarrow>
     tld_ChatID d = ltp_ChatID params \<and>
     (case tld_Sequence d of None \<Rightarrow> True | Some n \<Rightarrow> n \<le> 0 \<or> n > MaxSequence) \<or>
     tld_ChatID d = ltp_ChatID params \<and> mdd_ClientMessageID (tld_Message d) = None"

definition sequence_bounds :: "list_timeline_params \<Rightarrow> int \<Rightarrow> timeline_document \<Rightarrow> bool" where
  "sequence_bounds params upper d \<longleftrightarrow>
     tld_ChatID d = ltp_ChatID params \<and>
     (case tld_Sequence d of
        None \<Rightarrow> False
      | Some n \<Rightarrow> n \<le> upper \<and>
          (case ltp_AfterSequence params of None \<Rightarrow> True | Some after \<Rightarrow> n > after) \<and>
          (case ltp_BeforeSequence params of None \<Rightarrow> True | Some before \<Rightarrow> n < before))"

text \<open>\<^verbatim>\<open>upper\<close>: the sequence of the last message, or the snapshot the client asks for.\<close>

definition snapshot_upper :: "list_timeline_params \<Rightarrow> int \<Rightarrow> go_error + int" where
  "snapshot_upper params tail =
     andThen
       (case ltp_ThroughSequence params of
          None \<Rightarrow> Inr tail
        | Some through \<Rightarrow>
            if through > tail then Inl (portsErr ErrInvalidTimelinePagination) else Inr through)
       (\<lambda>e. e) (\<lambda>upper.
     case ltp_AfterSequence params of
       None \<Rightarrow> Inr upper
     | Some after \<Rightarrow>
         if after > upper then Inl (portsErr ErrInvalidTimelinePagination) else Inr upper)"

definition sequence_page :: "list_timeline_params \<Rightarrow> int \<Rightarrow> item list \<Rightarrow> list_timeline_result" where
  "sequence_page params upper items =
     (let hasNext = int (length items) > ltp_Limit params;
          items = (if hasNext then take (nat (ltp_Limit params)) items else items);
          next_sequence = (if hasNext \<and> items \<noteq> [] then Some (itm_sequence (last items)) else None)
      in if ltp_AfterSequence params \<noteq> None
         then \<lparr>ltr_Items = items, ltr_HasNext = hasNext, ltr_NextCursor = None,
               ltr_SnapshotThroughSequence = Some upper, ltr_NextBeforeSequence = None,
               ltr_NextAfterSequence = next_sequence\<rparr>
         else \<lparr>ltr_Items = rev items, ltr_HasNext = hasNext, ltr_NextCursor = None,
               ltr_SnapshotThroughSequence = Some upper, ltr_NextBeforeSequence = next_sequence,
               ltr_NextAfterSequence = None\<rparr>)"

definition read_snapshot ::
  "'s timeline_reader \<Rightarrow> list_timeline_params \<Rightarrow> ('s, go_error, list_timeline_result) call" where
  "read_snapshot R params = (\<lambda>s.
     (let C = tlr_collection R in
      orFail (if \<not> tlr_sequenceDataChecked R s
              then orFail (CountDocuments C (legacy_filter params)) (\<lambda>e. e) (\<lambda>count.
                if min 1 count \<noteq> 0
                then fail (Wrap ''legacy timeline requires migration'' (storeErr Store_ErrInvalidDocument))
                else ret ())
              else ret ()) (\<lambda>e. e) (\<lambda>_.
      orFail (FindOne C (\<lambda>d. tld_ChatID d = ltp_ChatID params) (\<lambda>x y. sequence_le y x)) (\<lambda>e. e) (\<lambda>tail.
      orFail (lift (snapshot_upper params (case tail of None \<Rightarrow> 0 | Some d \<Rightarrow> decoded_sequence d))) (\<lambda>e. e) (\<lambda>upper.
      orFail (Find C (sequence_bounds params upper)
                (if ltp_AfterSequence params \<noteq> None then sequence_le else (\<lambda>x y. sequence_le y x))
                (Some (nat (ltp_Limit params + 1)))) (\<lambda>e. e) (\<lambda>found.
      orFail (lift (decode_all listed_item_toDomain found)) (\<lambda>e. e) (\<lambda>items.
      ret (sequence_page params upper items))))))) s)"

definition listBySequence ::
  "'s timeline_reader \<Rightarrow> list_timeline_params \<Rightarrow> ('s, go_error, list_timeline_result) call" where
  "listBySequence R params =
     orFail (tlr_StartSession R) (\<lambda>e. e) (\<lambda>_.
     orFail (tlr_SnapshotRead R (read_snapshot R params)) (Wrap ''read timeline snapshot'') ret)"

definition ListByChat :: "'s timeline_reader \<Rightarrow> 's timeline_repository" where
  "ListByChat R params =
     orFail (lift (validateListTimelineParams params)) (\<lambda>e. e) (\<lambda>_.
     if ltp_SequenceOrder params \<or> ltp_AfterSequence params \<noteq> None then listBySequence R params
     else
       orFail (Find (tlr_collection R) (buildListTimelineFilter (DateTime (tlr_collection R)) params)
                 created_order (Some (nat (ltp_Limit params + 1))))
         (Wrap ''find timeline documents'') (\<lambda>found.
       orFail (lift (decode_all listed_item_toDomain found))
         (Wrap ''convert timeline document to domain'') (\<lambda>items.
       ret (buildListTimelineResult items (ltp_Limit params)))))"

section \<open>The audit\<close>

definition valid_sequence_document :: "timeline_document \<Rightarrow> bool" where
  "valid_sequence_document d \<longleftrightarrow>
     (case tld_Sequence d of None \<Rightarrow> False | Some n \<Rightarrow> n > 0 \<and> n \<le> MaxSequence) \<and>
     (case mdd_ClientMessageID (tld_Message d) of None \<Rightarrow> False | Some c \<Rightarrow> c \<noteq> [])"

text \<open>
  \<^verbatim>\<open>$group\<close> by chat: the items of each chat; \<^verbatim>\<open>$min\<close> and \<^verbatim>\<open>$max\<close> skip missing fields and are null
  when there is none.
\<close>

definition known_sequences :: "timeline_document list \<Rightarrow> int list" where
  "known_sequences items = concat (map (\<lambda>d. case tld_Sequence d of None \<Rightarrow> [] | Some n \<Rightarrow> [n]) items)"

definition group_min :: "timeline_document list \<Rightarrow> int option" where
  "group_min items = (case known_sequences items of [] \<Rightarrow> None | n # ns \<Rightarrow> Some (fold min ns n))"

definition group_max :: "timeline_document list \<Rightarrow> int option" where
  "group_max items = (case known_sequences items of [] \<Rightarrow> None | n # ns \<Rightarrow> Some (fold max ns n))"

definition inconsistent_group :: "timeline_document list \<Rightarrow> chat_document list \<Rightarrow> bool" where
  "inconsistent_group items chats \<longleftrightarrow>
     group_min items \<noteq> Some 1 \<or> group_max items \<noteq> Some (int (length items)) \<or>
     length (filter valid_sequence_document items) \<noteq> length items \<or>
     length chats \<noteq> 1 \<or>
     (case chats of [] \<Rightarrow> None | c # _ \<Rightarrow> Some (cd_LastSequence c)) \<noteq> group_max items"

definition inconsistent_timelines :: "timeline_document list \<Rightarrow> chat_document list \<Rightarrow> string list" where
  "inconsistent_timelines items chats =
     filter (\<lambda>c. inconsistent_group (filter (\<lambda>d. tld_ChatID d = c) items) (filter (\<lambda>d. cd_ID d = c) chats))
       (remdups (map tld_ChatID items))"

definition wrong_counters :: "timeline_document list \<Rightarrow> chat_document list \<Rightarrow> string list" where
  "wrong_counters items chats =
     map cd_ID (filter (\<lambda>c. cd_LastSequence c \<noteq>
        (case group_max (filter (\<lambda>d. tld_ChatID d = cd_ID c) items) of None \<Rightarrow> 0 | Some n \<Rightarrow> n)) chats)"

definition checkRealtimeSnapshot :: "'s timeline_reader \<Rightarrow> ('s, go_error, unit) call" where
  "checkRealtimeSnapshot R =
     orFail (tlr_Aggregate R inconsistent_timelines) (\<lambda>e. e) (\<lambda>found.
     if found \<noteq> None then fail (NewError ''legacy or non-contiguous timeline detected'')
     else
       orFail (tlr_Aggregate R wrong_counters) (\<lambda>e. e) (\<lambda>found.
       if found \<noteq> None
       then fail (NewError ''chat sequence counter does not match its persisted tail'')
       else ret ()))"

definition CheckRealtimeData :: "'s timeline_reader \<Rightarrow> ('s, go_error, unit) call" where
  "CheckRealtimeData R =
     orFail (tlr_StartSession R) (\<lambda>e. e) (\<lambda>_ s.
       case tlr_SnapshotCheck R (checkRealtimeSnapshot R) s of
         (s', err) \<Rightarrow> (tlr_StoreChecked R (isOk err) s', err))"

end
