(* ===== verification/TimelineSync.thy ===== *)
theory TimelineSync
  imports TimelineStore MessageHistory
begin

text \<open>
  What a client sees that reads a chat by sequence numbers.  In a store that keeps \<open>sequences_ok\<close>
  the messages of a chat are numbered \<open>1..n\<close>; a page is then an interval of these numbers, and the
  cursor of a page continues it, whatever is posted between two pages.
\<close>

definition numbered :: "timeline_document documents \<Rightarrow> chat_ID \<Rightarrow> int \<Rightarrow> bool" where
  "numbered m c n \<longleftrightarrow> 0 \<le> n \<and>
     (\<forall>x \<in> ran m. tld_ChatID x = c \<longrightarrow> (\<exists>k. tld_Sequence x = Some k \<and> 1 \<le> k \<and> k \<le> n)) \<and>
     (\<forall>k. 1 \<le> k \<longrightarrow> k \<le> n \<longrightarrow> (\<exists>x \<in> ran m. in_chat c k x)) \<and>
     (\<forall>x \<in> ran m. \<forall>y \<in> ran m. \<forall>k. in_chat c k x \<longrightarrow> in_chat c k y \<longrightarrow> x = y)"

lemma sequences_numbered: "sequences_ok V \<Longrightarrow> \<exists>n. numbered (sv_items V) c n"
proof -
  assume ok: "sequences_ok V"
  have items: "\<exists>d k. sv_chats V (tld_ChatID x) = Some d \<and> tld_Sequence x = Some k \<and> 1 \<le> k \<and> k \<le> cd_LastSequence d"
    if "x \<in> ran (sv_items V)" for x
    using ok that unfolding sequences_ok_def by blast
  have counter: "0 \<le> cd_LastSequence d \<and> (\<forall>k. 1 \<le> k \<longrightarrow> k \<le> cd_LastSequence d \<longrightarrow> (\<exists>x \<in> ran (sv_items V). in_chat i k x))"
    if "sv_chats V i = Some d" for i d
    using ok that unfolding sequences_ok_def by blast
  have one: "\<forall>x \<in> ran (sv_items V). \<forall>y \<in> ran (sv_items V). \<forall>k. in_chat c k x \<longrightarrow> in_chat c k y \<longrightarrow> x = y"
  proof (intro ballI allI impI)
    fix x y k assume xy: "x \<in> ran (sv_items V)" "y \<in> ran (sv_items V)" "in_chat c k x" "in_chat c k y"
    then have "timeline_clash x y" by (simp add: in_chat_def timeline_clash_def sequence_clash_def)
    with ok xy(1,2) show "x = y" unfolding sequences_ok_def by blast
  qed
  show ?thesis
  proof (cases "sv_chats V c")
    case None
    then have "tld_ChatID x \<noteq> c" if "x \<in> ran (sv_items V)" for x
      using items [OF that] by auto
    then have "numbered (sv_items V) c 0" using one unfolding numbered_def by auto
    then show ?thesis ..
  next
    case (Some d)
    have "\<exists>k. tld_Sequence x = Some k \<and> 1 \<le> k \<and> k \<le> cd_LastSequence d"
      if "x \<in> ran (sv_items V)" "tld_ChatID x = c" for x
      using items [OF that(1)] that(2) Some by auto
    then have "numbered (sv_items V) c (cd_LastSequence d)"
      using counter [OF Some] one unfolding numbered_def by blast
    then show ?thesis ..
  qed
qed

section \<open>Sorted by sequence\<close>

definition between :: "chat_ID \<Rightarrow> int \<Rightarrow> int \<Rightarrow> timeline_document \<Rightarrow> bool" where
  "between c lo hi x \<longleftrightarrow> tld_ChatID x = c \<and> (\<exists>k. tld_Sequence x = Some k \<and> lo < k \<and> k \<le> hi)"

definition seq_of :: "timeline_document \<Rightarrow> int" where
  "seq_of x = decoded_sequence x"

lemma linear_sequence_le: "linear sequence_le" "linear (\<lambda>x y. sequence_le y x)"
  by (auto simp: linear_def sequence_le_def split: option.splits)

text \<open>The documents of a chat with their numbers in an interval are listed by their numbers.\<close>

lemma listing_numbers:
  assumes "numbered m c n" "listing (between c lo hi) le m ds" "linear le"
    and le: "\<And>x y. x \<in> set ds \<Longrightarrow> y \<in> set ds \<Longrightarrow> le x y \<Longrightarrow> R (seq_of x) (seq_of y)"
    and "0 \<le> lo" "hi \<le> n"
  shows "distinct (map seq_of ds)" and "set (map seq_of ds) = {lo + 1..hi}" and "sorted_wrt R (map seq_of ds)"
proof -
  have set: "set ds = {x \<in> ran m. between c lo hi x}" and dist: "distinct ds" and sorted: "sorted_wrt le ds"
    using assms(2) by (auto simp: listing_def matching_def)
  have in_c: "in_chat c (seq_of x) x" if "x \<in> set ds" for x
    using that set by (auto simp: between_def in_chat_def seq_of_def decoded_sequence_def)
  have "inj_on seq_of (set ds)"
  proof (rule inj_onI)
    fix x y assume "x \<in> set ds" "y \<in> set ds" "seq_of x = seq_of y"
    then show "x = y" using in_c [of x] in_c [of y] set assms(1) by (auto simp: numbered_def)
  qed
  then show "distinct (map seq_of ds)" using dist by (simp add: distinct_map)
  show "set (map seq_of ds) = {lo + 1..hi}"
  proof (intro set_eqI iffI)
    fix k assume "k \<in> set (map seq_of ds)"
    then show "k \<in> {lo + 1..hi}" using set by (auto simp: between_def seq_of_def decoded_sequence_def)
  next
    fix k assume k: "k \<in> {lo + 1..hi}"
    then obtain x where "x \<in> ran m" "in_chat c k x" using assms(1,5,6) by (auto simp: numbered_def dest!: spec [of _ k])
    then have "x \<in> set ds" "seq_of x = k" using k set by (auto simp: between_def in_chat_def seq_of_def decoded_sequence_def)
    then show "k \<in> set (map seq_of ds)" by force
  qed
  show "sorted_wrt R (map seq_of ds)"
    using sorted le unfolding sorted_wrt_map by (rule sorted_wrt_mono_rel [rotated])
qed

lemma listing_up:
  assumes "numbered m c n" "listing (between c lo hi) sequence_le m ds"
    and "0 \<le> lo" "hi \<le> n"
  shows "map seq_of ds = [lo + 1..hi]"
proof -
  have le: "seq_of x \<le> seq_of y" if "x \<in> set ds" "y \<in> set ds" "sequence_le x y" for x y
    using that assms(2) by (auto simp: between_def listing_def matching_def sequence_le_def seq_of_def decoded_sequence_def)
  note L = listing_numbers [where R = "(\<le>)", OF assms(1,2) linear_sequence_le(1) le assms(3,4)]
  show ?thesis
    by (rule sorted_distinct_set_unique) (use L in \<open>auto simp del: set_map\<close>)
qed

lemma listing_down:
  assumes "numbered m c n" "listing (between c lo hi) (\<lambda>x y. sequence_le y x) m ds"
    and "0 \<le> lo" "hi \<le> n"
  shows "map seq_of ds = rev [lo + 1..hi]"
proof -
  have le: "seq_of x \<ge> seq_of y" if "x \<in> set ds" "y \<in> set ds" "sequence_le y x" for x y
    using that assms(2) by (auto simp: between_def listing_def matching_def sequence_le_def seq_of_def decoded_sequence_def)
  note L = listing_numbers [where R = "\<lambda>a b. b \<le> a", OF assms(1,2) linear_sequence_le(2) le assms(3,4)]
  have "rev (map seq_of ds) = [lo + 1..hi]"
    by (rule sorted_distinct_set_unique) (use L in \<open>auto simp: sorted_wrt_rev simp del: set_map\<close>)
  then show ?thesis by (metis rev_rev_ident)
qed


section \<open>Intervals\<close>

lemma length_upto_int: "length [i..j] = nat (j - i + 1)"
  by simp

lemma take_upto: "take n [i..j] = [i..min j (i + int n - 1)]"
proof (induction n arbitrary: i)
  case (Suc n)
  show ?case
  proof (cases "i \<le> j")
    case True
    have "take (Suc n) [i..j] = i # take n [i + 1..j]" using True by (simp add: upto_rec1)
    also have "\<dots> = i # [i + 1..min j (i + int (Suc n) - 1)]" using Suc.IH [of "i + 1"] by (simp add: add_ac)
    also have "\<dots> = [i..min j (i + int (Suc n) - 1)]" using True by (intro upto_rec1 [symmetric]) auto
    finally show ?thesis .
  qed simp
qed simp

lemma drop_upto: "drop n [i..j] = [i + int n..j]"
proof (induction n arbitrary: i)
  case (Suc n)
  show ?case
  proof (cases "i \<le> j")
    case True
    have "drop (Suc n) [i..j] = drop n [i + 1..j]" using True by (simp add: upto_rec1)
    then show ?thesis using Suc.IH [of "i + 1"] by (simp add: add_ac)
  qed simp
qed simp

lemma take_rev_upto: "take n (rev [1..j]) = rev [max 1 (j - int n + 1)..j]"
proof -
  have "take n (rev [1..j]) = rev (drop (nat j - n) [1..j])" by (simp add: take_rev)
  also have "drop (nat j - n) [1..j] = [1 + int (nat j - n)..j]" by (rule drop_upto)
  also have "[1 + int (nat j - n)..j] = [max 1 (j - int n + 1)..j]"
    by (cases "int n \<le> j") (auto simp: algebra_simps intro!: arg_cong2 [where f = upto])
  finally show ?thesis .
qed

section \<open>One page\<close>

text \<open>The messages of the chat with these numbers, in this order.\<close>

definition page_shows :: "timeline_document documents \<Rightarrow> chat_ID \<Rightarrow> int list \<Rightarrow> item list \<Rightarrow> bool" where
  "page_shows m c ks items \<longleftrightarrow>
     list_all2 (\<lambda>k x. \<exists>d \<in> ran m. in_chat c k d \<and> listed_item_toDomain d = Inr x) ks items"

lemma page_shows_take: "page_shows m c ks items \<Longrightarrow> page_shows m c (take n ks) (take n items)"
  unfolding page_shows_def by (rule list_all2_takeI)

lemma page_shows_rev: "page_shows m c ks items \<Longrightarrow> page_shows m c (rev ks) (rev items)"
  by (simp add: page_shows_def list_all2_rev)

lemma page_shows_length: "page_shows m c ks items \<Longrightarrow> length items = length ks"
  unfolding page_shows_def by (simp add: list_all2_lengthD)

lemma listed_sequence: "listed_item_toDomain d = Inr x \<Longrightarrow> itm_sequence x = decoded_sequence d"
  by (auto simp: listed_item_toDomain_def timeline_toDomain_ok document_item_def)

lemma page_shows_sequences: "page_shows m c ks items \<Longrightarrow> map itm_sequence items = ks"
  unfolding page_shows_def
  by (induction ks items rule: list_all2_induct) (auto simp: in_chat_def decoded_sequence_def dest!: listed_sequence)

lemma listing_page_shows:
  assumes "set ds \<subseteq> ran m" "\<And>d. d \<in> set ds \<Longrightarrow> in_chat c (seq_of d) d"
    and "list_all2 (\<lambda>d x. listed_item_toDomain d = Inr x) (take n ds) items"
  shows "page_shows m c (take n (map seq_of ds)) items"
  unfolding page_shows_def take_map list_all2_map1
  using assms(3) by (rule list.rel_mono_strong) (use assms(1,2) in \<open>blast dest: in_set_takeD\<close>)


locale timeline_snapshot =
  fixes R :: "'s timeline_reader"
    and env :: "timeline_document documents \<Rightarrow> timeline_document documents \<Rightarrow> bool"
  assumes timeline_laws: "collection (tlr_collection R) tld_ID timeline_clash"
    and Start_keeps: "keeps (docs (tlr_collection R)) (tlr_StartSession R)"
    and Read_ok: "tlr_SnapshotRead R op s = (s', Inr r) \<Longrightarrow>
      \<exists>s0 s1. env (docs (tlr_collection R) s) (docs (tlr_collection R) s0) \<and> op s0 = (s1, Inr r) \<and>
        env (docs (tlr_collection R) s1) (docs (tlr_collection R) s')"
begin

abbreviation items_of :: "'s \<Rightarrow> timeline_document documents" where
  "items_of s \<equiv> docs (tlr_collection R) s"

lemma read_snapshot_ok:
  assumes "read_snapshot R params s = (s', Inr page)"
  shows "items_of s' = items_of s \<and>
    (\<exists>ts upper ds items.
       listing (\<lambda>d. tld_ChatID d = ltp_ChatID params) (\<lambda>x y. sequence_le y x) (items_of s) ts \<and>
       snapshot_upper params (case first ts of None \<Rightarrow> 0 | Some d \<Rightarrow> decoded_sequence d) = Inr upper \<and>
       listing (sequence_bounds params upper)
         (if ltp_AfterSequence params \<noteq> None then sequence_le else (\<lambda>x y. sequence_le y x)) (items_of s) ds \<and>
       list_all2 (\<lambda>d x. listed_item_toDomain d = Inr x) (take (nat (ltp_Limit params + 1)) ds) items \<and>
       page = sequence_page params upper items)"
proof -
  let ?C = "tlr_collection R"
  note laws = timeline_laws
  have lin: "linear (if ltp_AfterSequence params \<noteq> None then sequence_le else (\<lambda>x y. sequence_le y x))"
    using linear_sequence_le by simp
  from assms obtain s1 s2 tail upper found items where
    c: "items_of s1 = items_of s"
    and t: "FindOne ?C (\<lambda>d. tld_ChatID d = ltp_ChatID params) (\<lambda>x y. sequence_le y x) s1 = (s2, Inr tail)"
    and u: "snapshot_upper params (case tail of None \<Rightarrow> 0 | Some d \<Rightarrow> decoded_sequence d) = Inr upper"
    and f: "Find ?C (sequence_bounds params upper)
        (if ltp_AfterSequence params \<noteq> None then sequence_le else (\<lambda>x y. sequence_le y x))
        (Some (nat (ltp_Limit params + 1))) s2 = (s', Inr found)"
    and i: "decode_all listed_item_toDomain found = Inr items" "page = sequence_page params upper items"
    by (auto simp: read_snapshot_def Let_def run_iff decode_all_ok [symmetric] simp del: decode_all_ok split: if_splits
        dest!: collection.CountDocuments_ok [OF laws])
  from collection.FindOne_ok [OF laws linear_sequence_le(2) t] obtain ts where ts: "items_of s2 = items_of s1"
    "listing (\<lambda>d. tld_ChatID d = ltp_ChatID params) (\<lambda>x y. sequence_le y x) (items_of s1) ts" "tail = first ts" by blast
  from collection.Find_ok [OF laws lin f] obtain ds where "items_of s' = items_of s2"
    "listing (sequence_bounds params upper)
      (if ltp_AfterSequence params \<noteq> None then sequence_le else (\<lambda>x y. sequence_le y x)) (items_of s2) ds"
    "found = take (nat (ltp_Limit params + 1)) ds" by (auto simp: limited_def)
  with ts c u i show ?thesis
    unfolding decode_all_ok
    by (intro conjI exI [of _ ts] exI [of _ upper] exI [of _ ds] exI [of _ items]) simp_all
qed

text \<open>The tail of a numbered chat is its last number.\<close>

lemma tail_number:
  assumes "numbered m c n" "listing (\<lambda>d. tld_ChatID d = c) (\<lambda>x y. sequence_le y x) m ts"
  shows "(case first ts of None \<Rightarrow> 0 | Some d \<Rightarrow> decoded_sequence d) = n"
proof -
  have "matching (\<lambda>d. tld_ChatID d = c) m = matching (between c 0 n) m"
    using assms(1) by (fastforce simp: matching_def between_def numbered_def)
  then have "listing (between c 0 n) (\<lambda>x y. sequence_le y x) m ts" using assms(2) by (simp add: listing_def)
  from listing_down [OF assms(1) this] have ts: "map seq_of ts = rev [1..n]" by simp
  have n: "0 \<le> n" using assms(1) by (simp add: numbered_def)
  show ?thesis
  proof (cases "n = 0")
    case True
    then show ?thesis using ts by simp
  next
    case False
    then have "rev [1..n] = n # rev [1..n - 1]" using n by (simp add: upto_rec2)
    then show ?thesis using ts by (cases ts) (auto simp: seq_of_def)
  qed
qed

text \<open>A page after a given number.\<close>

lemma page_after:
  assumes run: "ListByChat R params s = (s', Inr page)"
    and after: "ltp_AfterSequence params = Some a" "ltp_BeforeSequence params = None" "0 \<le> a"
    and ok: "\<And>m. env (items_of s) m \<Longrightarrow> \<exists>n. numbered m (ltp_ChatID params) n"
  shows "\<exists>m n upper. env (items_of s) m \<and> env m (items_of s') \<and> numbered m (ltp_ChatID params) n \<and> a \<le> upper \<and> upper \<le> n \<and>
    upper = (case ltp_ThroughSequence params of None \<Rightarrow> n | Some through \<Rightarrow> through) \<and>
    page_shows m (ltp_ChatID params) [a + 1..min upper (a + ltp_Limit params)] (ltr_Items page) \<and>
    ltr_HasNext page = (a + ltp_Limit params < upper) \<and>
    ltr_NextAfterSequence page = (if a + ltp_Limit params < upper then Some (a + ltp_Limit params) else None) \<and>
    ltr_SnapshotThroughSequence page = Some upper"
proof -
  let ?c = "ltp_ChatID params" and ?L = "ltp_Limit params"
  from run after have L: "0 < ?L" and list: "listBySequence R params s = (s', Inr page)"
    by (auto simp: ListByChat_def validateListTimelineParams_def run_iff)
  then obtain s1 where st: "tlr_StartSession R s = (s1, Inr ())"
    and rd: "tlr_SnapshotRead R (read_snapshot R params) s1 = (s', Inr page)"
    by (auto simp: listBySequence_def run_iff)
  from Read_ok [OF rd] obtain s2 s3 where e: "env (items_of s) (items_of s2)" "env (items_of s3) (items_of s')"
    and op: "read_snapshot R params s2 = (s3, Inr page)"
    using keepsD [OF Start_keeps st] by auto
  from read_snapshot_ok [OF op] obtain ts upper ds items where s3: "items_of s3 = items_of s2"
    and ts: "listing (\<lambda>d. tld_ChatID d = ?c) (\<lambda>x y. sequence_le y x) (items_of s2) ts"
    and u: "snapshot_upper params (case first ts of None \<Rightarrow> 0 | Some d \<Rightarrow> decoded_sequence d) = Inr upper"
    and ds: "listing (sequence_bounds params upper) sequence_le (items_of s2) ds"
    and cv: "list_all2 (\<lambda>d x. listed_item_toDomain d = Inr x) (take (nat (?L + 1)) ds) items"
    and page: "page = sequence_page params upper items"
    using after(1) by auto
  obtain n where n: "numbered (items_of s2) ?c n" using ok [OF e(1)] by blast
  have upper: "a \<le> upper" "upper \<le> n" "upper = (case ltp_ThroughSequence params of None \<Rightarrow> n | Some through \<Rightarrow> through)"
    using u after(1) tail_number [OF n ts]
    by (auto simp: snapshot_upper_def run_iff split: option.splits if_splits)
  have "sequence_bounds params upper = between ?c a upper"
    using after by (auto simp: fun_eq_iff sequence_bounds_def between_def split: option.splits)
  with ds have up: "listing (between ?c a upper) sequence_le (items_of s2) ds" by simp
  have nums: "map seq_of ds = [a + 1..upper]" by (rule listing_up [OF n up after(3) upper(2)])
  have "set ds \<subseteq> ran (items_of s2)" "\<And>d. d \<in> set ds \<Longrightarrow> in_chat ?c (seq_of d) d"
    using up by (auto simp: listing_def matching_def between_def in_chat_def seq_of_def decoded_sequence_def)
  from listing_page_shows [OF this cv] have sh: "page_shows (items_of s2) ?c (take (nat (?L + 1)) [a + 1..upper]) items"
    by (simp add: nums)
  have len: "length items = nat (min (upper - a) (?L + 1))"
    using page_shows_length [OF sh] L upper by auto
  have more: "(int (length items) > ?L) = (a + ?L < upper)" using len L upper by auto
  have cut: "(if int (length items) > ?L then take (nat ?L) items else items) = take (nat ?L) items" using L by auto
  have shown: "page_shows (items_of s2) ?c [a + 1..min upper (a + ?L)] (take (nat ?L) items)"
  proof -
    have "take (nat ?L) (take (nat (?L + 1)) [a + 1..upper]) = take (nat ?L) [a + 1..upper]" using L by (simp add: min_def)
    also have "\<dots> = [a + 1..min upper (a + ?L)]" using L by (simp add: take_upto)
    finally show ?thesis using page_shows_take [OF sh, of "nat ?L"] by simp
  qed
  have last: "itm_sequence (last (take (nat ?L) items)) = a + ?L" if "a + ?L < upper"
  proof -
    have "map itm_sequence (take (nat ?L) items) = [a + 1..a + ?L]"
      using page_shows_sequences [OF shown] that by (simp add: min_def)
    moreover have "[a + 1..a + ?L] = [a + 1..a + ?L - 1] @ [a + ?L]" using L by (simp add: upto_rec2)
    ultimately have "last (map itm_sequence (take (nat ?L) items)) = a + ?L" by simp
    moreover have "take (nat ?L) items \<noteq> []" using L len that upper by auto
    ultimately show ?thesis by (simp add: last_map)
  qed
  have ne: "take (nat ?L) items \<noteq> []" if "a + ?L < upper" using L len that upper by auto
  have "ltr_Items page = take (nat ?L) items" "ltr_HasNext page = (a + ?L < upper)"
    "ltr_NextAfterSequence page = (if a + ?L < upper then Some (a + ?L) else None)"
    "ltr_SnapshotThroughSequence page = Some upper"
    using page after(1) more cut last ne by (auto simp: sequence_page_def Let_def)
  then show ?thesis using e s3 n upper shown
    by (intro exI [of _ "items_of s2"] exI [of _ n] exI [of _ upper]) auto
qed

text \<open>The newest page, or the page before a given number: the latest messages, oldest first.\<close>

lemma page_before:
  assumes run: "ListByChat R params s = (s', Inr page)"
    and before: "ltp_SequenceOrder params" "ltp_AfterSequence params = None" "ltp_ThroughSequence params = None"
      "\<forall>b. ltp_BeforeSequence params = Some b \<longrightarrow> 0 < b"
    and ok: "\<And>m. env (items_of s) m \<Longrightarrow> \<exists>n. numbered m (ltp_ChatID params) n"
  shows "\<exists>m n hi. env (items_of s) m \<and> env m (items_of s') \<and> numbered m (ltp_ChatID params) n \<and>
    hi = (case ltp_BeforeSequence params of None \<Rightarrow> n | Some b \<Rightarrow> min n (b - 1)) \<and>
    page_shows m (ltp_ChatID params) [max 1 (hi - ltp_Limit params + 1)..hi] (ltr_Items page) \<and>
    ltr_HasNext page = (ltp_Limit params < hi) \<and>
    ltr_NextBeforeSequence page = (if ltp_Limit params < hi then Some (hi - ltp_Limit params + 1) else None) \<and>
    ltr_SnapshotThroughSequence page = Some n"
proof -
  let ?c = "ltp_ChatID params" and ?L = "ltp_Limit params"
  from run before have L: "0 < ?L" and list: "listBySequence R params s = (s', Inr page)"
    by (auto simp: ListByChat_def validateListTimelineParams_def run_iff)
  then obtain s1 where st: "tlr_StartSession R s = (s1, Inr ())"
    and rd: "tlr_SnapshotRead R (read_snapshot R params) s1 = (s', Inr page)"
    by (auto simp: listBySequence_def run_iff)
  from Read_ok [OF rd] obtain s2 s3 where e: "env (items_of s) (items_of s2)" "env (items_of s3) (items_of s')"
    and op: "read_snapshot R params s2 = (s3, Inr page)"
    using keepsD [OF Start_keeps st] by auto
  from read_snapshot_ok [OF op] obtain ts upper ds items where s3: "items_of s3 = items_of s2"
    and ts: "listing (\<lambda>d. tld_ChatID d = ?c) (\<lambda>x y. sequence_le y x) (items_of s2) ts"
    and u: "snapshot_upper params (case first ts of None \<Rightarrow> 0 | Some d \<Rightarrow> decoded_sequence d) = Inr upper"
    and ds: "listing (sequence_bounds params upper) (\<lambda>x y. sequence_le y x) (items_of s2) ds"
    and cv: "list_all2 (\<lambda>d x. listed_item_toDomain d = Inr x) (take (nat (?L + 1)) ds) items"
    and page: "page = sequence_page params upper items"
    using before(2) by auto
  obtain n where n: "numbered (items_of s2) ?c n" using ok [OF e(1)] by blast
  have upper: "upper = n" using u before(2,3) tail_number [OF n ts] by (auto simp: snapshot_upper_def)
  define hi where "hi = (case ltp_BeforeSequence params of None \<Rightarrow> n | Some b \<Rightarrow> min n (b - 1))"
  have hi: "hi \<le> n" "0 \<le> hi" using before(4) n by (auto simp: hi_def numbered_def split: option.splits)
  have "matching (sequence_bounds params upper) (items_of s2) = matching (between ?c 0 hi) (items_of s2)"
    using n before(2) upper
    by (fastforce simp: matching_def sequence_bounds_def between_def hi_def numbered_def split: option.splits)
  with ds have down: "listing (between ?c 0 hi) (\<lambda>x y. sequence_le y x) (items_of s2) ds" by (simp add: listing_def)
  have nums: "map seq_of ds = rev [1..hi]" using listing_down [OF n down _ hi(1)] by simp
  have "set ds \<subseteq> ran (items_of s2)" "\<And>d. d \<in> set ds \<Longrightarrow> in_chat ?c (seq_of d) d"
    using down by (auto simp: listing_def matching_def between_def in_chat_def seq_of_def decoded_sequence_def)
  from listing_page_shows [OF this cv] have sh: "page_shows (items_of s2) ?c (take (nat (?L + 1)) (rev [1..hi])) items"
    by (simp add: nums)
  have len: "length items = nat (min hi (?L + 1))" using page_shows_length [OF sh] L hi by auto
  have more: "(int (length items) > ?L) = (?L < hi)" using len L hi by auto
  have cut: "(if int (length items) > ?L then take (nat ?L) items else items) = take (nat ?L) items" using L by auto
  have "take (nat ?L) (take (nat (?L + 1)) (rev [1..hi])) = take (nat ?L) (rev [1..hi])" using L by (simp add: min_def)
  also have "\<dots> = rev [max 1 (hi - ?L + 1)..hi]" using L by (simp add: take_rev_upto)
  finally have shown: "page_shows (items_of s2) ?c (rev [max 1 (hi - ?L + 1)..hi]) (take (nat ?L) items)"
    using page_shows_take [OF sh, of "nat ?L"] by simp
  then have shown': "page_shows (items_of s2) ?c [max 1 (hi - ?L + 1)..hi] (rev (take (nat ?L) items))"
    using page_shows_rev by fastforce
  have ne: "take (nat ?L) items \<noteq> []" if "?L < hi" using L len that by auto
  have last: "itm_sequence (last (take (nat ?L) items)) = hi - ?L + 1" if "?L < hi"
  proof -
    have "map itm_sequence (take (nat ?L) items) = rev [hi - ?L + 1..hi]"
      using page_shows_sequences [OF shown] that by (simp add: max_def)
    moreover have "[hi - ?L + 1..hi] = (hi - ?L + 1) # [hi - ?L + 1 + 1..hi]" using L by (simp add: upto_rec1)
    ultimately have "last (map itm_sequence (take (nat ?L) items)) = hi - ?L + 1" by simp
    then show ?thesis using ne [OF that] by (simp add: last_map)
  qed
  have "ltr_Items page = rev (take (nat ?L) items)" "ltr_HasNext page = (?L < hi)"
    "ltr_NextBeforeSequence page = (if ?L < hi then Some (hi - ?L + 1) else None)"
    "ltr_SnapshotThroughSequence page = Some n"
    using page before(2) more cut last ne upper by (auto simp: sequence_page_def Let_def)
  then show ?thesis using e s3 n upper shown' hi_def
    by (intro exI [of _ "items_of s2"] exI [of _ n] exI [of _ hi]) auto
qed

end

section \<open>The audit\<close>

text \<open>
  The audit passes exactly when every chat is numbered from 1 to its counter by valid messages:
  the counting is right because two messages of a chat never have the same number.
\<close>

definition audited :: "timeline_document list \<Rightarrow> chat_document list \<Rightarrow> bool" where
  "audited items chats \<longleftrightarrow> inconsistent_timelines items chats = [] \<and> wrong_counters items chats = []"

lemma known_sequences_all:
  "list_all valid_sequence_document items \<Longrightarrow> known_sequences items = map seq_of items"
  by (induction items) (auto simp: known_sequences_def valid_sequence_document_def seq_of_def decoded_sequence_def
      split: option.splits)

lemma fold_max: "fold max ns (n :: int) = Max (set (n # ns))"
  by (rule Max.set_eq_fold [symmetric])

lemma group_max_all:
  "list_all valid_sequence_document items \<Longrightarrow> items \<noteq> [] \<Longrightarrow> group_max items = Some (Max (seq_of ` set items))"
  by (cases items) (auto simp: group_max_def known_sequences_all fold_max)

lemma audited_numbered:
  assumes audit: "audited items chats"
    and ids: "distinct (map cd_ID chats)" and dist: "distinct items"
    and unique: "\<And>x y. x \<in> set items \<Longrightarrow> y \<in> set items \<Longrightarrow> x \<noteq> y \<Longrightarrow> \<not> sequence_clash x y"
    and c: "c \<in> set chats"
  shows "seq_of ` {x \<in> set items. tld_ChatID x = cd_ID c} = {1..cd_LastSequence c} \<and>
    (\<forall>x \<in> set items. tld_ChatID x = cd_ID c \<longrightarrow> tld_Sequence x = Some (seq_of x)) \<and>
    (\<forall>x \<in> set items. \<exists>d \<in> set chats. tld_ChatID x = cd_ID d)"
proof -
  let ?G = "\<lambda>i. filter (\<lambda>d. tld_ChatID d = i) items"
  have group: "\<not> inconsistent_group (?G (tld_ChatID x)) (filter (\<lambda>d. cd_ID d = tld_ChatID x) chats)" if "x \<in> set items" for x
    using audit that by (auto simp: audited_def inconsistent_timelines_def filter_empty_conv)
  have valid: "list_all valid_sequence_document (?G (cd_ID c))"
  proof (cases "?G (cd_ID c)")
    case (Cons x xs)
    then have "x \<in> set (?G (cd_ID c))" by simp
    then have "length (filter valid_sequence_document (?G (cd_ID c))) = length (?G (cd_ID c))"
      using group [of x] by (simp add: inconsistent_group_def)
    then show ?thesis by (metis filter_id_conv length_filter_less less_irrefl list_all_iff)
  qed simp
  have seqs: "tld_Sequence x = Some (seq_of x) \<and> 1 \<le> seq_of x" if "x \<in> set (?G (cd_ID c))" for x
  proof -
    have "valid_sequence_document x" using that valid by (simp add: list_all_iff)
    then show ?thesis by (auto simp: valid_sequence_document_def seq_of_def decoded_sequence_def split: option.splits)
  qed
  have counter: "cd_LastSequence c = (case group_max (?G (cd_ID c)) of None \<Rightarrow> 0 | Some n \<Rightarrow> n)"
    using audit c by (auto simp: audited_def wrong_counters_def filter_empty_conv)
  have "seq_of ` set (?G (cd_ID c)) = {1..cd_LastSequence c}"
  proof (cases "?G (cd_ID c) = []")
    case True
    then show ?thesis using counter by (simp add: group_max_def known_sequences_def)
  next
    case False
    then obtain x where x: "x \<in> set (?G (cd_ID c))" by (meson last_in_set)
    have n: "group_max (?G (cd_ID c)) = Some (int (length (?G (cd_ID c))))"
      using group [of x] x by (auto simp: inconsistent_group_def)
    then have last: "cd_LastSequence c = int (length (?G (cd_ID c)))" using counter by simp
    have max: "Max (seq_of ` set (?G (cd_ID c))) = int (length (?G (cd_ID c)))"
      using n group_max_all [OF valid False] by simp
    have inj: "inj_on seq_of (set (?G (cd_ID c)))"
    proof (rule inj_onI, rule ccontr)
      fix x y assume xy: "x \<in> set (?G (cd_ID c))" "y \<in> set (?G (cd_ID c))" "seq_of x = seq_of y" "x \<noteq> y"
      then have "sequence_clash x y" using seqs [of x] seqs [of y] by (auto simp: sequence_clash_def)
      with unique xy show False by auto
    qed
    have sub: "seq_of ` set (?G (cd_ID c)) \<subseteq> {1..cd_LastSequence c}"
    proof
      fix k assume k: "k \<in> seq_of ` set (?G (cd_ID c))"
      then have "k \<le> Max (seq_of ` set (?G (cd_ID c)))" by (intro Max_ge) auto
      then show "k \<in> {1..cd_LastSequence c}" using k seqs max last by auto
    qed
    have "card (seq_of ` set (?G (cd_ID c))) = card {1..cd_LastSequence c}"
      using card_image [OF inj] distinct_card [of "?G (cd_ID c)"] dist last by simp
    then show ?thesis using sub by (intro card_subset_eq) auto
  qed
  moreover have "\<exists>d \<in> set chats. tld_ChatID x = cd_ID d" if "x \<in> set items" for x
  proof -
    have "length (filter (\<lambda>d. cd_ID d = tld_ChatID x) chats) = 1" using group [OF that] by (simp add: inconsistent_group_def)
    then have "filter (\<lambda>d. cd_ID d = tld_ChatID x) chats \<noteq> []" by auto
    then obtain d where "d \<in> set (filter (\<lambda>d. cd_ID d = tld_ChatID x) chats)" by (meson last_in_set)
    then have "d \<in> set chats" "tld_ChatID x = cd_ID d" by simp_all
    then show ?thesis ..
  qed
  ultimately show ?thesis using seqs by auto
qed


text \<open>The number of a chat as its counter says, in the stored data.\<close>

definition counters_right :: "timeline_document documents \<Rightarrow> chat_document documents \<Rightarrow> bool" where
  "counters_right m cs \<longleftrightarrow>
     (\<forall>i c. cs i = Some c \<longrightarrow> numbered m i (cd_LastSequence c)) \<and> (\<forall>x \<in> ran m. tld_ChatID x \<in> dom cs)"

lemma audited_right:
  assumes "audited items chats" "set items = ran m" "distinct items" "set chats = ran cs" "distinct (map cd_ID chats)"
    and keyed: "\<And>i c. cs i = Some c \<Longrightarrow> cd_ID c = i"
    and unique: "\<And>x y. x \<in> ran m \<Longrightarrow> y \<in> ran m \<Longrightarrow> x \<noteq> y \<Longrightarrow> \<not> sequence_clash x y"
  shows "counters_right m cs"
  unfolding counters_right_def
proof (intro conjI allI impI ballI)
  fix i c assume c: "cs i = Some c"
  then have i: "cd_ID c = i" and mem: "c \<in> set chats" using keyed assms(4) by (auto simp: ran_def)
  have A: "seq_of ` {x \<in> ran m. tld_ChatID x = i} = {1..cd_LastSequence c}"
    "\<forall>x \<in> ran m. tld_ChatID x = i \<longrightarrow> tld_Sequence x = Some (seq_of x)"
    using audited_numbered [OF assms(1,5,3) _ mem] unique assms(2) i by auto
  have one: "x = y" if "x \<in> ran m" "y \<in> ran m" "in_chat i k x" "in_chat i k y" for x y k
    using unique [OF that(1,2)] that(3,4) by (auto simp: in_chat_def sequence_clash_def)
  have ex: "\<exists>x \<in> ran m. in_chat i k x" if "1 \<le> k" "k \<le> cd_LastSequence c" for k
  proof -
    have "k \<in> seq_of ` {x \<in> ran m. tld_ChatID x = i}" using A(1) that by simp
    then show ?thesis using A(2) by (auto simp: in_chat_def)
  qed
  have bounds: "\<exists>k. tld_Sequence x = Some k \<and> 1 \<le> k \<and> k \<le> cd_LastSequence c"
    if "x \<in> ran m" "tld_ChatID x = i" for x
  proof -
    have "seq_of x \<in> {1..cd_LastSequence c}" using A(1) that by blast
    then show ?thesis using A(2) that by auto
  qed
  have "0 \<le> cd_LastSequence c"
  proof (rule ccontr)
    assume "\<not> 0 \<le> cd_LastSequence c"
    moreover have "cd_LastSequence c = (case group_max (filter (\<lambda>d. tld_ChatID d = cd_ID c) items) of None \<Rightarrow> 0 | Some n \<Rightarrow> n)"
      using assms(1) mem by (auto simp: audited_def wrong_counters_def filter_empty_conv)
    ultimately have "filter (\<lambda>d. tld_ChatID d = cd_ID c) items \<noteq> []"
      by (auto simp: group_max_def known_sequences_def)
    then obtain x where "x \<in> set (filter (\<lambda>d. tld_ChatID d = cd_ID c) items)" by (meson last_in_set)
    then have "x \<in> ran m" "tld_ChatID x = i" using assms(2) i by auto
    with bounds [of x] \<open>\<not> 0 \<le> cd_LastSequence c\<close> show False by auto
  qed
  with one ex bounds show "numbered m i (cd_LastSequence c)" unfolding numbered_def by blast
next
  fix x assume x: "x \<in> ran m"
  have "x \<in> set items" using x assms(2) by simp
  then have "\<not> inconsistent_group (filter (\<lambda>d. tld_ChatID d = tld_ChatID x) items) (filter (\<lambda>d. cd_ID d = tld_ChatID x) chats)"
    using assms(1) by (auto simp: audited_def inconsistent_timelines_def filter_empty_conv)
  then have "length (filter (\<lambda>d. cd_ID d = tld_ChatID x) chats) = 1" by (simp add: inconsistent_group_def)
  then have "filter (\<lambda>d. cd_ID d = tld_ChatID x) chats \<noteq> []" by auto
  then obtain d where "d \<in> set (filter (\<lambda>d. cd_ID d = tld_ChatID x) chats)" by (meson last_in_set)
  then have "d \<in> ran cs" "cd_ID d = tld_ChatID x" using assms(4) by auto
  then show "tld_ChatID x \<in> dom cs" using keyed by (auto simp: ran_def dom_def)
qed

text \<open>The second pipeline does not depend on the order of the documents.\<close>

lemma set_known_sequences: "set (known_sequences items) = {n. \<exists>d \<in> set items. tld_Sequence d = Some n}"
  by (induction items) (auto simp: known_sequences_def split: option.splits)

lemma group_max_set:
  "group_max items = (if set (known_sequences items) = {} then None else Some (Max (set (known_sequences items))))"
  by (cases "known_sequences items") (simp_all add: group_max_def fold_max del: set_simps add: list.set)

lemma wrong_counters_set:
  assumes "set items = set items2" "set cs = set cs2"
  shows "wrong_counters items cs = [] \<longleftrightarrow> wrong_counters items2 cs2 = []"
proof -
  have "set (known_sequences (filter (\<lambda>d. tld_ChatID d = i) items)) = set (known_sequences (filter (\<lambda>d. tld_ChatID d = i) items2))" for i
    using assms(1) by (simp add: set_known_sequences)
  then have "group_max (filter (\<lambda>d. tld_ChatID d = i) items) = group_max (filter (\<lambda>d. tld_ChatID d = i) items2)" for i
    by (simp add: group_max_set)
  then show ?thesis using assms(2) by (simp add: wrong_counters_def filter_empty_conv)
qed

text \<open>The audit on the stored data.\<close>

locale timeline_audit = timeline_snapshot R env
  for R :: "'s timeline_reader" and env +
  fixes chats :: "'s chats_collection"
  assumes chat_laws: "chat_collection chats"
    and Aggregate_ok: "tlr_Aggregate R q s = (s', Inr r) \<Longrightarrow>
      docs (tlr_collection R) s' = docs (tlr_collection R) s \<and> docs chats s' = docs chats s \<and>
      (\<exists>items cs. set items = ran (docs (tlr_collection R) s) \<and> distinct items \<and>
         set cs = ran (docs chats s) \<and> distinct (map cd_ID cs) \<and> r = first (q items cs))"
    and Check_ok: "tlr_SnapshotCheck R op s = (s', Inr ()) \<Longrightarrow>
      \<exists>s0 s1. env (docs (tlr_collection R) s) (docs (tlr_collection R) s0) \<and> op s0 = (s1, Inr ())"
begin

lemma checkRealtimeSnapshot_right:
  assumes "checkRealtimeSnapshot R s = (s', Inr ok)"
    and unique: "\<And>x y. x \<in> ran (items_of s) \<Longrightarrow> y \<in> ran (items_of s) \<Longrightarrow> x \<noteq> y \<Longrightarrow> \<not> sequence_clash x y"
  shows "counters_right (items_of s) (docs chats s)"
proof -
  from assms(1) obtain s1 where a: "tlr_Aggregate R inconsistent_timelines s = (s1, Inr None)"
    and b: "tlr_Aggregate R wrong_counters s1 = (s', Inr None)"
    by (auto simp: checkRealtimeSnapshot_def run_iff split: if_splits)
  from Aggregate_ok [OF a] obtain items cs where
    A: "items_of s1 = items_of s" "docs chats s1 = docs chats s" "set items = ran (items_of s)" "distinct items"
      "set cs = ran (docs chats s)" "distinct (map cd_ID cs)" "inconsistent_timelines items cs = []"
    by (auto simp: eq_commute [of None])
  from Aggregate_ok [OF b] A(1,2) obtain items2 cs2 where
    B: "set items2 = ran (items_of s)" "set cs2 = ran (docs chats s)" "wrong_counters items2 cs2 = []"
    by (auto simp: eq_commute [of None])
  have "audited items cs" using A B wrong_counters_set [of items items2 cs cs2] by (simp add: audited_def)
  then show ?thesis
  proof (rule audited_right [OF _ A(3,4,5,6)])
    show "cd_ID c = i" if "docs chats s i = Some c" for i c
      using collection.keyed [OF chat_collection.axioms(1) [OF chat_laws] that] .
    show "\<not> sequence_clash x y" if "x \<in> ran (items_of s)" "y \<in> ran (items_of s)" "x \<noteq> y" for x y
      using unique [OF that] .
  qed
qed

lemma CheckRealtimeData_right:
  assumes "CheckRealtimeData R s = (s', Inr ok)"
    and unique: "\<And>m x y. env (items_of s) m \<Longrightarrow> x \<in> ran m \<Longrightarrow> y \<in> ran m \<Longrightarrow> x \<noteq> y \<Longrightarrow> \<not> sequence_clash x y"
  shows "\<exists>s0. env (items_of s) (items_of s0) \<and> counters_right (items_of s0) (docs chats s0)"
proof -
  from assms(1) obtain s1 where st: "tlr_StartSession R s = (s1, Inr ())"
    and k: "(case tlr_SnapshotCheck R (checkRealtimeSnapshot R) s1 of
      (s2, err) \<Rightarrow> (tlr_StoreChecked R (isOk err) s2, err)) = (s', Inr ok)"
    by (auto simp: CheckRealtimeData_def run_iff)
  obtain s2 err where c0: "tlr_SnapshotCheck R (checkRealtimeSnapshot R) s1 = (s2, err)"
    by (cases "tlr_SnapshotCheck R (checkRealtimeSnapshot R) s1")
  with k have c: "tlr_SnapshotCheck R (checkRealtimeSnapshot R) s1 = (s2, Inr ())" by simp
  from Check_ok [OF c] obtain s3 s4 where e: "env (items_of s) (items_of s3)" and op: "checkRealtimeSnapshot R s3 = (s4, Inr ())"
    using keepsD [OF Start_keeps st] by auto
  have "counters_right (items_of s3) (docs chats s3)"
    by (rule checkRealtimeSnapshot_right [OF op]) (rule unique [OF e])
  with e show ?thesis by blast
qed

end

end
