(* ===== verification/Conversations.thy ===== *)
theory Conversations
  imports TimelineSync UserStore
begin

text \<open>
  The use cases that open and list conversations: \<^verbatim>\<open>internal/application/chats\<close>,
  \<^verbatim>\<open>internal/application/timeline\<close> and \<^verbatim>\<open>internal/application/users\<close>.
  \<open>parseTime\<close> is \<^verbatim>\<open>time.Parse(time.RFC3339Nano, \<dots>)\<close>.  The repositories of the model return
  lists of values, so the checks for nil elements have no counterpart.
\<close>

abbreviation chatsErr :: "chats_error \<Rightarrow> go_error" where
  "chatsErr e \<equiv> Sentinel (ChatsE e)"

abbreviation timelineListErr :: "timeline_list_error \<Rightarrow> go_error" where
  "timelineListErr e \<equiv> Sentinel (TimelineListE e)"

abbreviation usersErr :: "users_error \<Rightarrow> go_error" where
  "usersErr e \<equiv> Sentinel (UsersE e)"

section \<open>Opening a direct chat\<close>

record direct_output =
  dco_ID :: string
  dco_RelatedUser :: string
  dco_CreatedAt :: time
  dco_UpdatedAt :: time
  dco_SummarySortAt :: time
  dco_Created :: bool

record 'w direct_dependencies =
  dcd_ChatRepository :: "'w chat_repository"
  dcd_UserRepository :: "'w user_repository"
  dcd_IDGenerator :: "'w id_generator"
  dcd_Clock :: "'w clock"

definition CreateDirect ::
  "'w direct_dependencies \<Rightarrow> string \<Rightarrow> string \<Rightarrow> ('w, go_error, direct_output) call" where
  "CreateDirect D rawCurrentUserID rawRelatedUserID =
     orFail (lift (user_ParseID rawCurrentUserID))
       (\<lambda>_. Wrap ''invalid current user id'' (chatsErr Chats_ErrInvalidCurrentUserID)) (\<lambda>currentUserID.
     orFail (lift (user_ParseID rawRelatedUserID))
       (\<lambda>_. Wrap ''invalid related user id'' (chatsErr Chats_ErrInvalidRelatedUserID)) (\<lambda>relatedUserID.
     if currentUserID = relatedUserID then fail (chatsErr Chats_ErrSelfDirectChat)
     else
       orFail (UserFindByID (dcd_UserRepository D) relatedUserID)
         (\<lambda>e. if errors_is e (PortsE ErrUserNotFound) then chatsErr Chats_ErrRelatedUserNotFound
              else Wrap ''find related user'' e) (\<lambda>_.
       orFail (dcd_IDGenerator D) (Wrap ''generate chat id'') (\<lambda>rawChatID.
       orFail (lift (chat_ParseID rawChatID)) (Wrap ''parse generated chat id'') (\<lambda>chatID.
       reads (dcd_Clock D) (\<lambda>now.
       orFail (lift (NewDirect chatID currentUserID relatedUserID (UTC now)))
         (Wrap ''create direct chat entity'') (\<lambda>candidate.
       orFail (ChatGetOrCreateDirect (dcd_ChatRepository D) (Some candidate))
         (Wrap ''get or create direct chat'') (\<lambda>(stored, created).
       case stored of
         None \<Rightarrow> fail (Panic ''nil pointer'')
       | Some storedChat \<Rightarrow>
           orFail (lift (RelatedUserID storedChat currentUserID))
             (Wrap ''resolve related user from stored chat'') (\<lambda>storedRelatedUserID.
           ret \<lparr>dco_ID = cht_id storedChat, dco_RelatedUser = storedRelatedUserID,
                dco_CreatedAt = cht_createdAt storedChat, dco_UpdatedAt = cht_updatedAt storedChat,
                dco_SummarySortAt = cht_summarySortAt storedChat, dco_Created = created\<rparr>)))))))))"

section \<open>Listing chats\<close>

definition defaultChatPageSize :: int where "defaultChatPageSize = 30"
definition maxChatPageSize :: int where "maxChatPageSize = 100"

record list_cursor_input =
  lci_ID :: string
  lci_At :: string

record list_cursor_output =
  lco_ID :: string
  lco_At :: time

record listed_chat =
  lch_LastSequence :: int
  lch_ID :: string
  lch_RelatedUser :: string
  lch_RelatedUserEmail :: string
  lch_CreatedAt :: time
  lch_UpdatedAt :: time
  lch_SummarySortAt :: time

record list_pagination =
  lpg_HasNext :: bool
  lpg_NextCursor :: "list_cursor_output option"
  lpg_Page :: int
  lpg_PageSize :: int
  lpg_TotalItems :: int
  lpg_TotalPages :: int

record list_chats_output =
  lcho_Chats :: "listed_chat list"
  lcho_Pagination :: list_pagination

definition normalizeListPagination :: "int \<Rightarrow> int \<Rightarrow> go_error + int \<times> int" where
  "normalizeListPagination requestedPage requestedPageSize =
     (let page = (if requestedPage = 0 then 1 else requestedPage) in
      if page < 1 then Inl (chatsErr Chats_ErrInvalidPage)
      else
        let pageSize = (if requestedPageSize = 0 then defaultChatPageSize else requestedPageSize) in
        if pageSize < 1 \<or> pageSize > maxChatPageSize then Inl (chatsErr Chats_ErrInvalidPageSize)
        else Inr (page, pageSize))"

definition parseListCursor ::
  "(string \<Rightarrow> time option) \<Rightarrow> list_cursor_input option \<Rightarrow> go_error + chat_list_cursor option" where
  "parseListCursor parseTime input =
     (case input of
        None \<Rightarrow> Inr None
      | Some input \<Rightarrow>
          andThen (chat_ParseID (lci_ID input))
            (\<lambda>_. Wrap ''id'' (chatsErr Chats_ErrInvalidCursor)) (\<lambda>chatID.
          let rawSortAt = TrimSpace (lci_At input) in
          if rawSortAt = [] then Inl (Wrap ''sortAt is required'' (chatsErr Chats_ErrInvalidCursor))
          else
            case parseTime rawSortAt of
              None \<Rightarrow> Inl (Wrap ''sortAt must be RFC 3339'' (chatsErr Chats_ErrInvalidCursor))
            | Some sortAt \<Rightarrow> Inr (Some \<lparr>clc_ChatID = chatID, clc_SummarySortAt = UTC sortAt\<rparr>)))"

definition validateCursorForPage :: "int \<Rightarrow> 'c option \<Rightarrow> bool" where
  "validateCursorForPage page cursor \<longleftrightarrow> \<not> (page = 1 \<and> cursor \<noteq> None) \<and> \<not> (page > 1 \<and> cursor = None)"

definition mapNextChatCursor :: "list_chats_result \<Rightarrow> go_error + list_cursor_output option" where
  "mapNextChatCursor result =
     (if \<not> lcr_HasNext result then Inr None
      else
        case lcr_NextCursor result of
          None \<Rightarrow> Inl (NewError ''chat repository returned hasNext without a next cursor'')
        | Some c \<Rightarrow> Inr (Some \<lparr>lco_ID = clc_ChatID c, lco_At = UTC (clc_SummarySortAt c)\<rparr>))"

definition calculateTotalPages :: "int \<Rightarrow> int \<Rightarrow> int" where
  "calculateTotalPages totalItems pageSize =
     (if totalItems = 0 then 0 else go_div (wrap64 (wrap64 (totalItems + pageSize) - 1)) pageSize)"

text \<open>The loop that lists a chat with the other participant of each conversation.\<close>

fun list_chats_of :: "user_ID \<Rightarrow> chat list \<Rightarrow> go_error + listed_chat list" where
  "list_chats_of currentUserID [] = Inr []"
| "list_chats_of currentUserID (conversation # rest) =
     andThen (RelatedUserID conversation currentUserID)
       (Wrap ''resolve related user from listed chat'') (\<lambda>relatedUserID.
     andThen (list_chats_of currentUserID rest) (\<lambda>e. e) (\<lambda>listed.
     Inr (\<lparr>lch_LastSequence = cht_lastSequence conversation, lch_ID = cht_id conversation,
           lch_RelatedUser = relatedUserID, lch_RelatedUserEmail = [],
           lch_CreatedAt = cht_createdAt conversation, lch_UpdatedAt = cht_updatedAt conversation,
           lch_SummarySortAt = cht_summarySortAt conversation\<rparr> # listed)))"

text \<open>\<^verbatim>\<open>emailsByID\<close>: the last account with an identifier wins; a missing one reads as the empty string.\<close>

definition emailsByID :: "user list \<Rightarrow> string \<Rightarrow> string" where
  "emailsByID accounts ident =
     (case map_of (rev (map (\<lambda>a. (usr_id a, usr_email a)) accounts)) ident of None \<Rightarrow> [] | Some e \<Rightarrow> e)"

definition ListChats ::
  "(string \<Rightarrow> time option) \<Rightarrow> 'w chat_repository \<Rightarrow> 'w user_repository \<Rightarrow> string \<Rightarrow> int \<Rightarrow> int
     \<Rightarrow> list_cursor_input option \<Rightarrow> ('w, go_error, list_chats_output) call" where
  "ListChats parseTime chats users rawCurrentUserID requestedPage requestedPageSize inputCursor =
     orFail (lift (user_ParseID rawCurrentUserID))
       (\<lambda>_. Wrap ''invalid current user id'' (chatsErr Chats_ErrInvalidCurrentUserID)) (\<lambda>currentUserID.
     orFail (lift (normalizeListPagination requestedPage requestedPageSize)) (\<lambda>e. e) (\<lambda>(page, pageSize).
     orFail (lift (parseListCursor parseTime inputCursor)) (\<lambda>e. e) (\<lambda>cursor.
     if \<not> validateCursorForPage page cursor then fail (chatsErr Chats_ErrInconsistentPagination)
     else
       orFail (ChatListByParticipant chats
                 \<lparr>lcp_ParticipantID = currentUserID, lcp_Limit = pageSize, lcp_After = cursor\<rparr>)
         (Wrap ''list chats by participant'') (\<lambda>result.
       orFail (lift (list_chats_of currentUserID (lcr_Chats result))) (\<lambda>e. e) (\<lambda>listedChats.
       orFail (UserFindByIDs users (map lch_RelatedUser listedChats))
         (Wrap ''find chat participants'') (\<lambda>relatedUsers.
       orFail (lift (mapNextChatCursor result)) (\<lambda>e. e) (\<lambda>nextCursor.
       ret \<lparr>lcho_Chats =
              map (\<lambda>l. l\<lparr>lch_RelatedUserEmail := emailsByID relatedUsers (lch_RelatedUser l)\<rparr>) listedChats,
            lcho_Pagination =
              \<lparr>lpg_HasNext = lcr_HasNext result, lpg_NextCursor = nextCursor, lpg_Page = page,
               lpg_PageSize = pageSize, lpg_TotalItems = lcr_TotalItems result,
               lpg_TotalPages = calculateTotalPages (lcr_TotalItems result) pageSize\<rparr>\<rparr>)))))))"

section \<open>Listing users\<close>

definition defaultUserPageSize :: int where "defaultUserPageSize = 30"
definition maxUserPageSize :: int where "maxUserPageSize = 100"

record listed_user =
  lus_ID :: string
  lus_Email :: string
  lus_CreatedAt :: time

record list_users_output =
  luso_Users :: "listed_user list"
  luso_Pagination :: list_pagination

definition parseUserCursor ::
  "(string \<Rightarrow> time option) \<Rightarrow> list_cursor_input option \<Rightarrow> go_error + user_cursor option" where
  "parseUserCursor parseTime input =
     (case input of
        None \<Rightarrow> Inr None
      | Some input \<Rightarrow>
          andThen (user_ParseID (lci_ID input)) (\<lambda>_. usersErr Users_ErrInvalidCursor) (\<lambda>ident.
          case parseTime (TrimSpace (lci_At input)) of
            None \<Rightarrow> Inl (usersErr Users_ErrInvalidCursor)
          | Some createdAt \<Rightarrow> Inr (Some \<lparr>uc_ID = ident, uc_CreatedAt = UTC createdAt\<rparr>)))"

definition ListUsers ::
  "(string \<Rightarrow> time option) \<Rightarrow> 'w user_repository \<Rightarrow> int \<Rightarrow> int \<Rightarrow> list_cursor_input option
     \<Rightarrow> ('w, go_error, list_users_output) call" where
  "ListUsers parseTime users requestedPage requestedPageSize inputCursor =
     (let page = (if requestedPage = 0 then 1 else requestedPage) in
      if page < 1 then fail (usersErr Users_ErrInvalidPage)
      else
        let pageSize = (if requestedPageSize = 0 then defaultUserPageSize else requestedPageSize) in
        if pageSize < 1 \<or> pageSize > maxUserPageSize then fail (usersErr Users_ErrInvalidPageSize)
        else
          orFail (lift (parseUserCursor parseTime inputCursor)) (\<lambda>e. e) (\<lambda>cursor.
          if page = 1 \<and> cursor \<noteq> None \<or> page > 1 \<and> cursor = None
          then fail (usersErr Users_ErrInconsistentPagination)
          else
            orFail (UserList users pageSize cursor) (Wrap ''list users'') (\<lambda>result.
            orFail (lift (if \<not> up_HasNext result then Inr None
                          else
                            case up_NextCursor result of
                              None \<Rightarrow> Inl (NewError ''user repository returned hasNext without a next cursor'')
                            | Some c \<Rightarrow> Inr (Some \<lparr>lco_ID = uc_ID c, lco_At = UTC (uc_CreatedAt c)\<rparr>)))
              (\<lambda>e. e) (\<lambda>nextCursor.
            ret \<lparr>luso_Users = map (\<lambda>account. \<lparr>lus_ID = usr_id account, lus_Email = usr_email account,
                   lus_CreatedAt = usr_createdAt account\<rparr>) (up_Users result),
                 luso_Pagination =
                   \<lparr>lpg_HasNext = up_HasNext result, lpg_NextCursor = nextCursor, lpg_Page = page,
                    lpg_PageSize = pageSize, lpg_TotalItems = up_TotalItems result,
                    lpg_TotalPages =
                      (if up_TotalItems result > 0
                       then go_div (wrap64 (wrap64 (up_TotalItems result + pageSize) - 1)) pageSize
                       else 0)\<rparr>\<rparr>))))"

section \<open>Listing the timeline of a chat\<close>

definition defaultPageSize :: int where "defaultPageSize = 50"
definition maxPageSize :: int where "maxPageSize = 100"

record timeline_input =
  tli_CurrentUserID :: string
  tli_ChatID :: string
  tli_PageSize :: int
  tli_Cursor :: "list_cursor_input option"
  tli_SequenceOrder :: bool
  tli_BeforeSequence :: "int option"
  tli_AfterSequence :: "int option"
  tli_ThroughSequence :: "int option"

record listed_content =
  lct_Type :: string
  lct_Value :: string
  lct_ImageID :: string
  lct_Caption :: string

record listed_message =
  lms_ClientMessageID :: string
  lms_SenderID :: string
  lms_IsMine :: bool
  lms_Content :: listed_content

record listed_item =
  lit_Sequence :: int
  lit_ID :: string
  lit_Kind :: string
  lit_CreatedAt :: time
  lit_UpdatedAt :: time
  lit_Message :: listed_message

record timeline_pagination =
  tpg_NextBeforeSequence :: "int option"
  tpg_NextAfterSequence :: "int option"
  tpg_HasNext :: bool
  tpg_NextCursor :: "list_cursor_output option"
  tpg_PageSize :: int

record timeline_output =
  tlo_SnapshotThroughSequence :: "int option"
  tlo_Items :: "listed_item list"
  tlo_Pagination :: timeline_pagination

definition validateSequenceInput :: "timeline_input \<Rightarrow> bool" where
  "validateSequenceInput input \<longleftrightarrow>
     \<not> ((tli_SequenceOrder input \<or> tli_AfterSequence input \<noteq> None \<or> tli_BeforeSequence input \<noteq> None \<or>
         tli_ThroughSequence input \<noteq> None) \<and> tli_Cursor input \<noteq> None) \<and>
     \<not> (tli_BeforeSequence input \<noteq> None \<and> (\<not> tli_SequenceOrder input \<or> tli_AfterSequence input \<noteq> None)) \<and>
     \<not> (tli_AfterSequence input \<noteq> None \<and> tli_SequenceOrder input) \<and>
     \<not> (tli_ThroughSequence input \<noteq> None \<and> tli_AfterSequence input = None) \<and>
     list_all (\<lambda>value. case value of None \<Rightarrow> True | Some v \<Rightarrow> \<not> (v < 0 \<or> v > MaxSequence))
       [tli_BeforeSequence input, tli_AfterSequence input, tli_ThroughSequence input] \<and>
     tli_BeforeSequence input \<noteq> Some 0 \<and>
     (case (tli_AfterSequence input, tli_ThroughSequence input) of
        (Some after, Some through) \<Rightarrow> \<not> after > through
      | _ \<Rightarrow> True)"

definition normalizePageSize :: "int \<Rightarrow> go_error + int" where
  "normalizePageSize requested =
     (if requested = 0 then Inr defaultPageSize
      else if requested < 1 \<or> requested > maxPageSize then Inl (timelineListErr TimelineList_ErrInvalidPageSize)
      else Inr requested)"

definition parseTimelineCursor ::
  "(string \<Rightarrow> time option) \<Rightarrow> list_cursor_input option \<Rightarrow> go_error + timeline_cursor option" where
  "parseTimelineCursor parseTime input =
     (case input of
        None \<Rightarrow> Inr None
      | Some input \<Rightarrow>
          andThen (timeline_ParseID (lci_ID input))
            (\<lambda>_. Wrap ''id'' (timelineListErr TimelineList_ErrInvalidCursor)) (\<lambda>itemID.
          let rawCreatedAt = TrimSpace (lci_At input) in
          case (if rawCreatedAt = [] then None else parseTime rawCreatedAt) of
            None \<Rightarrow> Inl (Wrap ''createdAt must be RFC 3339'' (timelineListErr TimelineList_ErrInvalidCursor))
          | Some createdAt \<Rightarrow> Inr (Some \<lparr>tlc_ItemID = itemID, tlc_CreatedAt = UTC createdAt\<rparr>)))"

definition mapNextTimelineCursor :: "list_timeline_result \<Rightarrow> go_error + list_cursor_output option" where
  "mapNextTimelineCursor result =
     (if \<not> ltr_HasNext result then Inr None
      else
        case ltr_NextCursor result of
          None \<Rightarrow> Inl (NewError ''timeline repository returned hasNext without a next cursor'')
        | Some c \<Rightarrow> Inr (Some \<lparr>lco_ID = tlc_ItemID c, lco_At = UTC (tlc_CreatedAt c)\<rparr>))"

definition listed_of :: "user_ID \<Rightarrow> item \<Rightarrow> listed_item" where
  "listed_of currentUserID item =
     (let message = itm_message item; content = msg_content message in
      \<lparr>lit_Sequence = itm_sequence item, lit_ID = itm_id item, lit_Kind = itm_kind item,
       lit_CreatedAt = itm_createdAt item, lit_UpdatedAt = itm_updatedAt item,
       lit_Message =
         \<lparr>lms_ClientMessageID = msg_clientMessageID message, lms_SenderID = msg_senderID message,
          lms_IsMine = (msg_senderID message = currentUserID),
          lms_Content = \<lparr>lct_Type = mct_contentType content, lct_Value = mct_value content,
            lct_ImageID = mct_imageID content, lct_Caption = mct_caption content\<rparr>\<rparr>\<rparr>)"

text \<open>The loop over the items of a page, with its checks.\<close>

fun list_items_of :: "chat \<Rightarrow> chat_ID \<Rightarrow> user_ID \<Rightarrow> item list \<Rightarrow> go_error + listed_item list" where
  "list_items_of conversation chatID currentUserID [] = Inr []"
| "list_items_of conversation chatID currentUserID (item # rest) =
     (if itm_chatID item \<noteq> chatID then Inl (NewError ''timeline repository returned an item from another chat'')
      else if \<not> HasParticipant conversation (msg_senderID (itm_message item))
        then Inl (NewError ''timeline repository returned a message from a non-participant'')
      else
        andThen (list_items_of conversation chatID currentUserID rest) (\<lambda>e. e) (\<lambda>items.
        Inr (listed_of currentUserID item # items)))"

definition ListTimeline ::
  "(string \<Rightarrow> time option) \<Rightarrow> 'w chat_repository \<Rightarrow> 'w timeline_repository \<Rightarrow> timeline_input
     \<Rightarrow> ('w, go_error, timeline_output) call" where
  "ListTimeline parseTime chats timelines input =
     orFail (lift (user_ParseID (tli_CurrentUserID input)))
       (\<lambda>_. Wrap ''current user'' (timelineListErr TimelineList_ErrInvalidCurrentUserID)) (\<lambda>currentUserID.
     orFail (lift (chat_ParseID (tli_ChatID input)))
       (\<lambda>_. Wrap ''chat'' (timelineListErr TimelineList_ErrInvalidChatID)) (\<lambda>chatID.
     orFail (lift (normalizePageSize (tli_PageSize input))) (\<lambda>e. e) (\<lambda>pageSize.
     orFail (lift (parseTimelineCursor parseTime (tli_Cursor input))) (\<lambda>e. e) (\<lambda>cursor.
     if \<not> validateSequenceInput input then fail (timelineListErr TimelineList_ErrInvalidCursor)
     else
       orFail (ChatFindByID chats chatID)
         (\<lambda>e. if errors_is e (PortsE ErrChatNotFound) then timelineListErr TimelineList_ErrChatNotFound
              else Wrap ''find chat'' e) (\<lambda>found.
       case found of
         None \<Rightarrow> fail (NewError ''chat repository returned a nil chat'')
       | Some conversation \<Rightarrow>
           if \<not> HasParticipant conversation currentUserID
           then fail (timelineListErr TimelineList_ErrChatNotFound)
           else
             orFail (timelines
                 \<lparr>ltp_ChatID = chatID, ltp_Limit = pageSize, ltp_Before = cursor,
                  ltp_SequenceOrder = tli_SequenceOrder input, ltp_BeforeSequence = tli_BeforeSequence input,
                  ltp_AfterSequence = tli_AfterSequence input, ltp_ThroughSequence = tli_ThroughSequence input\<rparr>)
               (\<lambda>e. if errors_is e (PortsE ErrInvalidTimelinePagination)
                    then timelineListErr TimelineList_ErrInvalidCursor
                    else Wrap ''list timeline by chat'' e) (\<lambda>result.
             orFail (lift (list_items_of conversation chatID currentUserID (ltr_Items result))) (\<lambda>e. e) (\<lambda>items.
             orFail (lift (if \<not> tli_SequenceOrder input \<and> tli_AfterSequence input = None
                           then mapNextTimelineCursor result else Inr None)) (\<lambda>e. e) (\<lambda>nextCursor.
             ret \<lparr>tlo_SnapshotThroughSequence = ltr_SnapshotThroughSequence result, tlo_Items = items,
                  tlo_Pagination =
                    \<lparr>tpg_NextBeforeSequence = ltr_NextBeforeSequence result,
                     tpg_NextAfterSequence = ltr_NextAfterSequence result, tpg_HasNext = ltr_HasNext result,
                     tpg_NextCursor = nextCursor, tpg_PageSize = pageSize\<rparr>\<rparr>))))))))"

section \<open>What the use cases return\<close>

lemma list_items_of_ok [code_checks]:
  "list_items_of conversation chatID u items = Inr out \<longleftrightarrow>
     (\<forall>x \<in> set items. itm_chatID x = chatID \<and> HasParticipant conversation (msg_senderID (itm_message x))) \<and>
     out = map (listed_of u) items"
  by (induction items arbitrary: out) (auto simp: run_iff)

lemma list_chats_of_ok [code_checks]:
  "list_chats_of u cs = Inr out \<longleftrightarrow>
     list_all2 (\<lambda>c l. RelatedUserID c u = Inr (lch_RelatedUser l) \<and> l =
       \<lparr>lch_LastSequence = cht_lastSequence c, lch_ID = cht_id c, lch_RelatedUser = lch_RelatedUser l,
        lch_RelatedUserEmail = [], lch_CreatedAt = cht_createdAt c, lch_UpdatedAt = cht_updatedAt c,
        lch_SummarySortAt = cht_summarySortAt c\<rparr>) cs out"
  by (induction cs arbitrary: out) (auto simp: run_iff list_all2_Cons1)

lemma page_size_bounds: "normalizePageSize n = Inr k \<Longrightarrow> 1 \<le> k \<and> k \<le> maxPageSize"
  by (auto simp: normalizePageSize_def defaultPageSize_def maxPageSize_def split: if_splits)

lemma total_pages:
  assumes "1 \<le> pageSize" "pageSize \<le> maxChatPageSize" "0 \<le> n" "n < 2 ^ 62"
  shows "calculateTotalPages n pageSize = (n + pageSize - 1) div pageSize"
proof -
  have "is_int64 (n + pageSize)" "is_int64 (n + pageSize - 1)"
    using assms by (auto simp: is_int64_def maxChatPageSize_def)
  then show ?thesis using assms by (auto simp: calculateTotalPages_def go_div_nonneg)
qed

lemma sequence_input_after:
  assumes "validateSequenceInput input" "tli_AfterSequence input = Some a"
  shows "0 \<le> a \<and> \<not> tli_SequenceOrder input \<and> tli_BeforeSequence input = None \<and> tli_Cursor input = None"
  using assms by (auto simp: validateSequenceInput_def)

text \<open>
  Catching up: the page after the number \<open>a\<close> has the messages numbered \<open>a + 1\<close> up to the page size or
  the snapshot, without gaps, and its cursor is the last of these numbers.
\<close>

definition caught_up ::
  "timeline_document documents \<Rightarrow> chat_ID \<Rightarrow> user_ID \<Rightarrow> int \<Rightarrow> int \<Rightarrow> timeline_output \<Rightarrow> bool" where
  "caught_up m c u a upper out \<longleftrightarrow>
     (let size = tpg_PageSize (tlo_Pagination out) in
      (\<exists>items. page_shows m c [a + 1..min upper (a + size)] items \<and> tlo_Items out = map (listed_of u) items) \<and>
      map lit_Sequence (tlo_Items out) = [a + 1..min upper (a + size)] \<and>
      tpg_HasNext (tlo_Pagination out) = (a + size < upper) \<and>
      tpg_NextAfterSequence (tlo_Pagination out) = (if a + size < upper then Some (a + size) else None) \<and>
      tlo_SnapshotThroughSequence out = Some upper \<and> 1 \<le> size \<and> size \<le> maxPageSize)"

locale timeline_service =
  timeline_snapshot R env + chat_store repo chats prec
  for R :: "'s timeline_reader" and env and repo :: "'s chat_repository" and chats prec +
  assumes FindChat_keeps: "keeps (docs (tlr_collection R)) (ChatFindByID repo i)"
begin

lemma ListTimeline_ok:
  assumes "ListTimeline parseTime repo timelines input s = (s', Inr out)"
  shows "\<exists>y s1 result pageSize cursor.
    let c = TrimSpace (tli_ChatID input); u = TrimSpace (tli_CurrentUserID input) in
    chats s c = Some y \<and> HasParticipant (chat_restored y) u \<and> items_of s1 = items_of s \<and>
    validateSequenceInput input \<and> 1 \<le> pageSize \<and> pageSize \<le> maxPageSize \<and>
    parseTimelineCursor parseTime (tli_Cursor input) = Inr cursor \<and>
    timelines \<lparr>ltp_ChatID = c, ltp_Limit = pageSize, ltp_Before = cursor,
        ltp_SequenceOrder = tli_SequenceOrder input, ltp_BeforeSequence = tli_BeforeSequence input,
        ltp_AfterSequence = tli_AfterSequence input, ltp_ThroughSequence = tli_ThroughSequence input\<rparr> s1 =
      (s', Inr result) \<and>
    (\<forall>x \<in> set (ltr_Items result). itm_chatID x = c \<and> HasParticipant (chat_restored y) (msg_senderID (itm_message x))) \<and>
    tlo_Items out = map (listed_of u) (ltr_Items result) \<and>
    tlo_SnapshotThroughSequence out = ltr_SnapshotThroughSequence result \<and>
    tpg_NextAfterSequence (tlo_Pagination out) = ltr_NextAfterSequence result \<and>
    tpg_NextBeforeSequence (tlo_Pagination out) = ltr_NextBeforeSequence result \<and>
    tpg_HasNext (tlo_Pagination out) = ltr_HasNext result \<and> tpg_PageSize (tlo_Pagination out) = pageSize"
proof -
  let ?c = "TrimSpace (tli_ChatID input)" and ?u = "TrimSpace (tli_CurrentUserID input)"
  from assms obtain pageSize cursor s1 conversation result items nextCursor where
    ps: "normalizePageSize (tli_PageSize input) = Inr pageSize"
    and cu: "parseTimelineCursor parseTime (tli_Cursor input) = Inr cursor" and v: "validateSequenceInput input"
    and f: "ChatFindByID repo ?c s = (s1, Inr (Some conversation))" and p: "HasParticipant conversation ?u"
    and r: "timelines \<lparr>ltp_ChatID = ?c, ltp_Limit = pageSize, ltp_Before = cursor,
        ltp_SequenceOrder = tli_SequenceOrder input, ltp_BeforeSequence = tli_BeforeSequence input,
        ltp_AfterSequence = tli_AfterSequence input, ltp_ThroughSequence = tli_ThroughSequence input\<rparr> s1 =
      (s', Inr result)"
    and i: "list_items_of conversation ?c ?u (ltr_Items result) = Inr items"
    and out: "out = \<lparr>tlo_SnapshotThroughSequence = ltr_SnapshotThroughSequence result, tlo_Items = items,
        tlo_Pagination = \<lparr>tpg_NextBeforeSequence = ltr_NextBeforeSequence result,
          tpg_NextAfterSequence = ltr_NextAfterSequence result, tpg_HasNext = ltr_HasNext result,
          tpg_NextCursor = nextCursor, tpg_PageSize = pageSize\<rparr>\<rparr>"
    unfolding ListTimeline_def run_iff
    by (auto simp: run_iff simp del: list_items_of_ok split: if_splits option.splits cong del: option.case_cong_weak)
  from ChatFindByID_ok [OF f] obtain y where "chats s ?c = Some y" "conversation = chat_restored y" by auto
  moreover have "items_of s1 = items_of s" by (rule keepsD [OF FindChat_keeps f])
  ultimately show ?thesis
    using page_size_bounds [OF ps] cu v p r i out
    unfolding Let_def by (intro exI [of _ y] exI [of _ s1] exI [of _ result] exI [of _ pageSize] exI [of _ cursor])
      (simp add: list_items_of_ok)
qed

lemma ListTimeline_after:
  assumes run: "ListTimeline parseTime repo (ListByChat R) input s = (s', Inr out)"
    and after: "tli_AfterSequence input = Some a"
    and ok: "\<And>m. env (items_of s) m \<Longrightarrow> \<exists>n. numbered m (TrimSpace (tli_ChatID input)) n"
  shows "\<exists>y m n upper.
    chats s (TrimSpace (tli_ChatID input)) = Some y \<and>
    HasParticipant (chat_restored y) (TrimSpace (tli_CurrentUserID input)) \<and>
    env (items_of s) m \<and> env m (items_of s') \<and> numbered m (TrimSpace (tli_ChatID input)) n \<and> 0 \<le> a \<and> a \<le> upper \<and> upper \<le> n \<and>
    upper = (case tli_ThroughSequence input of None \<Rightarrow> n | Some through \<Rightarrow> through) \<and>
    caught_up m (TrimSpace (tli_ChatID input)) (TrimSpace (tli_CurrentUserID input)) a upper out"
proof -
  let ?c = "TrimSpace (tli_ChatID input)" and ?u = "TrimSpace (tli_CurrentUserID input)"
  from ListTimeline_ok [OF run] obtain y s1 result pageSize cursor where
    y: "chats s ?c = Some y" "HasParticipant (chat_restored y) ?u" and s1: "items_of s1 = items_of s"
    and v: "validateSequenceInput input" and size: "1 \<le> pageSize" "pageSize \<le> maxPageSize"
    and list: "ListByChat R \<lparr>ltp_ChatID = ?c, ltp_Limit = pageSize, ltp_Before = cursor,
        ltp_SequenceOrder = tli_SequenceOrder input, ltp_BeforeSequence = tli_BeforeSequence input,
        ltp_AfterSequence = tli_AfterSequence input, ltp_ThroughSequence = tli_ThroughSequence input\<rparr> s1 =
      (s', Inr result)"
    and out: "tlo_Items out = map (listed_of ?u) (ltr_Items result)"
      "tlo_SnapshotThroughSequence out = ltr_SnapshotThroughSequence result"
      "tpg_NextAfterSequence (tlo_Pagination out) = ltr_NextAfterSequence result"
      "tpg_HasNext (tlo_Pagination out) = ltr_HasNext result" "tpg_PageSize (tlo_Pagination out) = pageSize"
    unfolding Let_def by blast
  note a = sequence_input_after [OF v after]
  from page_after [OF list] a after ok s1 obtain m n upper where
    P: "env (items_of s) m" "env m (items_of s')" "numbered m ?c n" "a \<le> upper" "upper \<le> n"
      "upper = (case tli_ThroughSequence input of None \<Rightarrow> n | Some through \<Rightarrow> through)"
      "page_shows m ?c [a + 1..min upper (a + pageSize)] (ltr_Items result)"
      "ltr_HasNext result = (a + pageSize < upper)"
      "ltr_NextAfterSequence result = (if a + pageSize < upper then Some (a + pageSize) else None)"
      "ltr_SnapshotThroughSequence result = Some upper"
    by auto
  have "map lit_Sequence (tlo_Items out) = map itm_sequence (ltr_Items result)"
    by (simp add: out listed_of_def Let_def comp_def)
  also have "\<dots> = [a + 1..min upper (a + pageSize)]" by (rule page_shows_sequences [OF P(7)])
  finally have "caught_up m ?c ?u a upper out"
    unfolding caught_up_def Let_def using P(7-10) out size by auto
  with y P(1-6) a show ?thesis by blast
qed

end

end
