(* ===== verification/TimelineWorld.thy ===== *)
theory TimelineWorld
  imports Conversations DeliveryWorld
begin

text \<open>
  The reading side of the messaging world: snapshot transactions on its collections, and the
  interpretations of the locales of the timeline.
\<close>

definition mw_reader :: "message_world timeline_reader" where
  "mw_reader =
     \<lparr>tlr_collection = mw_item_collection, tlr_StartSession = ret (), tlr_SnapshotRead = (\<lambda>op. op),
      tlr_SnapshotCheck = (\<lambda>op. op),
      tlr_Aggregate = (\<lambda>q. faulty mw_pop (\<lambda>w.
        (w, Inr (first (q (norm_docs tld_ID (mw_items w)) (norm_docs cd_ID (mw_chats w))))))),
      tlr_sequenceDataChecked = mw_checked, tlr_StoreChecked = (\<lambda>b w. w\<lparr>mw_checked := b\<rparr>)\<rparr>"

lemma mw_reader_sel [simp]: "tlr_collection mw_reader = mw_item_collection" "tlr_StartSession mw_reader = ret ()"
  "tlr_SnapshotRead mw_reader op = op" "tlr_SnapshotCheck mw_reader op2 = op2"
  by (simp_all add: mw_reader_def)

lemma mw_documents:
  "docs mw_item_collection w = as_map tld_ID (norm_docs tld_ID (mw_items w))"
  "docs mw_chat_collection w = as_map cd_ID (norm_docs cd_ID (mw_chats w))"
  by (simp_all add: mw_collection_defs mem_collection_def)

interpretation mw_timeline: timeline_audit mw_reader "(=)" mw_chat_collection
proof (intro timeline_audit.intro timeline_audit_axioms.intro timeline_snapshot.intro)
  show "collection (tlr_collection mw_reader) tld_ID timeline_clash" by (simp add: mw_items.collection_axioms)
  show "keeps (docs (tlr_collection mw_reader)) (tlr_StartSession mw_reader)" by (simp add: frame)
  show "chat_collection mw_chat_collection" by (rule mw_chats.chat_collection_axioms)
  fix q s s' r
  assume "tlr_Aggregate mw_reader q s = (s', Inr r)"
  let ?items = "norm_docs tld_ID (mw_items s)" and ?cs = "norm_docs cd_ID (mw_chats s)"
  obtain s1 f where pop: "mw_pop s = (s1, f)" by fastforce
  then have "mw_items s1 = mw_items s" "mw_chats s1 = mw_chats s" using mw_pop_sel(1,2) [of s] by simp_all
  then have run: "s' = fst (mw_pop s) \<and> r = first (q ?items ?cs)"
    using \<open>tlr_Aggregate mw_reader q s = (s', Inr r)\<close> pop by (auto simp: mw_reader_def faulty_def split: fault.splits)
  have sets: "set ?items = ran (as_map tld_ID ?items)" "set ?cs = ran (as_map cd_ID ?cs)"
    "distinct ?items" "distinct (map cd_ID ?cs)"
    by (simp_all add: ran_as_map [OF norm_docs_distinct] norm_docs_distinct conjunct1 [OF iffD1 [OF distinct_map norm_docs_distinct]])
  have same: "docs (tlr_collection mw_reader) s' = docs (tlr_collection mw_reader) s"
    "docs mw_chat_collection s' = docs mw_chat_collection s"
    using run by (simp_all add: mw_documents)
  show "docs (tlr_collection mw_reader) s' = docs (tlr_collection mw_reader) s \<and>
      docs mw_chat_collection s' = docs mw_chat_collection s \<and>
      (\<exists>items cs. set items = ran (docs (tlr_collection mw_reader) s) \<and> distinct items \<and>
         set cs = ran (docs mw_chat_collection s) \<and> distinct (map cd_ID cs) \<and> r = first (q items cs))"
    using same sets run by (intro conjI exI [of _ ?items] exI [of _ ?cs]) (simp_all add: mw_documents)
qed auto

interpretation mw_conversing:
  timeline_service mw_reader "(=)" "mongo_chat_repository mw_chat_collection" mw_stored_chats floor_ms
proof -
  have "chat_store (mongo_chat_repository mw_chat_collection) mw_stored_chats floor_ms"
    using mw_chats.repository_contract by (simp add: mw_chat_collection_def mem_collection_def)
  moreover have "keeps (docs mw_item_collection) (ChatFindByID (mongo_chat_repository mw_chat_collection) i)" for i
    by (rule mw_find_by_id_keeps) (simp_all add: mw_documents)
  ultimately show "timeline_service mw_reader (=) (mongo_chat_repository mw_chat_collection) mw_stored_chats floor_ms"
    by (intro timeline_service.intro timeline_service_axioms.intro mw_timeline.timeline_snapshot_axioms) simp_all
qed

text \<open>A client that read nothing yet catches up in the world with one message.\<close>

definition mw_sync :: timeline_input where
  "mw_sync = \<lparr>tli_CurrentUserID = ''u2'', tli_ChatID = ''c1'', tli_PageSize = 0, tli_Cursor = None,
     tli_SequenceOrder = False, tli_BeforeSequence = None, tli_AfterSequence = Some 0, tli_ThroughSequence = None\<rparr>"

abbreviation mw_list_timeline :: "timeline_input \<Rightarrow> (message_world, go_error, timeline_output) call" where
  "mw_list_timeline \<equiv> ListTimeline (\<lambda>_. None) (mongo_chat_repository mw_chat_collection) (ListByChat mw_reader)"

lemma mw_sync_runs: "isOk (snd (mw_list_timeline mw_sync mw_posted))"
  unfolding mw_posted_def by code_simp

lemma mw_audit_runs: "isOk (snd (CheckRealtimeData mw_reader mw_posted))"
  unfolding mw_posted_def by code_simp

end
