(* ===== verification/RateLimiter.thy ===== *)
theory RateLimiter
  imports GoLib
begin

text \<open>
  The message rate limiter of \<^verbatim>\<open>internal/resources/mongodb/message_rate_limiter\<close>: one document per
  user, updated by an aggregation pipeline that the server runs atomically at its own time
  \<^verbatim>\<open>$$NOW\<close>.  The stages of the pipeline are functions on the document; a field that is absent is
  \<open>None\<close>.  The locale states what the program relies on: a find-and-modify call applies the
  pipeline once, to the document of the user or, when it inserts, to one with nothing but its key.

  The lemmas relate the stored window of timestamps to the log of all accepted messages of the
  user, also when the server clock is set back and when the TTL index removes the document.
\<close>

definition burstLimit :: nat where "burstLimit = 30"
definition burstWindow :: duration where "burstWindow = 10 * second"
definition minuteLimit :: nat where "minuteLimit = 60"
definition minuteWindow :: duration where "minuteWindow = minute"

record rate_document =
  rld_ID :: string
  rld_CheckedAt :: "time option"
  rld_Timestamps :: "time list option"
  rld_BurstTimestamps :: "time list option"
  rld_RetryAt :: "time option"
  rld_ExpiresAt :: "time option"

definition new_rate_document :: "string \<Rightarrow> rate_document" where
  "new_rate_document userID =
     \<lparr>rld_ID = userID, rld_CheckedAt = None, rld_Timestamps = None, rld_BurstTimestamps = None,
      rld_RetryAt = None, rld_ExpiresAt = None\<rparr>"

section \<open>The pipeline\<close>

text \<open>\<^verbatim>\<open>$ifNull\<close>.\<close>

definition ifNull :: "'a option \<Rightarrow> 'a \<Rightarrow> 'a" where
  "ifNull x y = (case x of None \<Rightarrow> y | Some v \<Rightarrow> v)"

text \<open>
  \<^verbatim>\<open>$filter\<close> with the condition that a timestamp is after \<^verbatim>\<open>$checked_at - window\<close>.  The first
  stage sets \<^verbatim>\<open>checked_at\<close> and every later one only reads fields that are set before it, so the
  expressions below are on the values.
\<close>

definition activeTimestamps :: "time \<Rightarrow> time list \<Rightarrow> duration \<Rightarrow> time list" where
  "activeTimestamps checked_at input window = filter (\<lambda>timestamp. timestamp > checked_at - window) input"

definition windowRetryAt :: "time \<Rightarrow> time list \<Rightarrow> nat \<Rightarrow> duration \<Rightarrow> time" where
  "windowRetryAt checked_at timestamps limit window =
     (if length timestamps \<ge> limit then Min (set timestamps) + window else checked_at)"

definition set_checked_at :: "time \<Rightarrow> rate_document \<Rightarrow> rate_document" where
  "set_checked_at now d = d\<lparr>rld_CheckedAt := Some (max now (ifNull (rld_CheckedAt d) now))\<rparr>"

definition set_timestamps :: "rate_document \<Rightarrow> rate_document" where
  "set_timestamps d =
     d\<lparr>rld_Timestamps := Some (activeTimestamps (ifNull (rld_CheckedAt d) 0)
        (ifNull (rld_Timestamps d) []) minuteWindow)\<rparr>"

definition set_burst_timestamps :: "rate_document \<Rightarrow> rate_document" where
  "set_burst_timestamps d =
     d\<lparr>rld_BurstTimestamps := Some (activeTimestamps (ifNull (rld_CheckedAt d) 0)
        (ifNull (rld_Timestamps d) []) burstWindow)\<rparr>"

definition set_retry_at :: "rate_document \<Rightarrow> rate_document" where
  "set_retry_at d =
     d\<lparr>rld_RetryAt := Some (max
        (windowRetryAt (ifNull (rld_CheckedAt d) 0) (ifNull (rld_Timestamps d) []) minuteLimit minuteWindow)
        (windowRetryAt (ifNull (rld_CheckedAt d) 0) (ifNull (rld_BurstTimestamps d) []) burstLimit burstWindow))\<rparr>"

definition append_checked_at :: "rate_document \<Rightarrow> rate_document" where
  "append_checked_at d =
     d\<lparr>rld_Timestamps := Some (
        if ifNull (rld_RetryAt d) 0 \<le> ifNull (rld_CheckedAt d) 0
        then ifNull (rld_Timestamps d) [] @ [ifNull (rld_CheckedAt d) 0]
        else ifNull (rld_Timestamps d) [])\<rparr>"

text \<open>\<^verbatim>\<open>$max\<close> of an empty array is null, and so is a sum with null.\<close>

definition set_expires_at :: "rate_document \<Rightarrow> rate_document" where
  "set_expires_at d =
     d\<lparr>rld_ExpiresAt := (case ifNull (rld_Timestamps d) [] of
        [] \<Rightarrow> None | t # ts \<Rightarrow> Some (Max (set (t # ts)) + minuteWindow))\<rparr>"

definition unset_burst_timestamps :: "rate_document \<Rightarrow> rate_document" where
  "unset_burst_timestamps d = d\<lparr>rld_BurstTimestamps := None\<rparr>"

definition reservationPipeline :: "time \<Rightarrow> rate_document \<Rightarrow> rate_document" where
  "reservationPipeline now d =
     unset_burst_timestamps (set_expires_at (append_checked_at (set_retry_at
       (set_burst_timestamps (set_timestamps (set_checked_at now d))))))"

section \<open>The call\<close>

text \<open>
  The collection: \<open>FindOneAndPipeline upsert key u\<close> is \<^verbatim>\<open>FindOneAndUpdate\<close> with a pipeline,
  returning the document after the update.
\<close>

record 's rate_collection =
  rate_docs :: "'s \<Rightarrow> string \<rightharpoonup> rate_document"
  FindOneAndPipeline ::
    "bool \<Rightarrow> string \<Rightarrow> (time \<Rightarrow> rate_document \<Rightarrow> rate_document) \<Rightarrow> ('s, go_error, rate_document) call"

definition Reserve :: "'s rate_collection \<Rightarrow> string \<Rightarrow> ('s, go_error, duration) call" where
  "Reserve limiter userID =
     (if blank userID then fail (NewError ''message rate limiter user ID cannot be empty'')
      else
        let failed = Wrap ''reserve message rate limit'';
            answer = (\<lambda>result. ret (time_Sub (ifNull (rld_RetryAt result) 0) (ifNull (rld_CheckedAt result) 0)))
        in attempt (FindOneAndPipeline limiter True userID reservationPipeline)
             (\<lambda>err. if is_duplicate_key err
                    then orFail (FindOneAndPipeline limiter False userID reservationPipeline) failed answer
                    else fail (failed err))
             answer)"

section \<open>The reference: a log of accepted messages\<close>

definition within :: "time list \<Rightarrow> time \<Rightarrow> duration \<Rightarrow> nat" where
  "within log now window = length (filter (\<lambda>t. now - window < t \<and> t \<le> now) log)"

definition allowed :: "time list \<Rightarrow> time \<Rightarrow> bool" where
  "allowed log now \<longleftrightarrow> within log now minuteWindow < minuteLimit \<and> within log now burstWindow < burstLimit"

definition rate_checked :: "rate_document \<Rightarrow> time" where
  "rate_checked d = ifNull (rld_CheckedAt d) 0"

definition rate_accepted :: "rate_document \<Rightarrow> bool" where
  "rate_accepted d \<longleftrightarrow> ifNull (rld_RetryAt d) 0 \<le> rate_checked d"

definition rate_extended :: "time list \<Rightarrow> rate_document \<Rightarrow> time list" where
  "rate_extended log d = (if rate_accepted d then log @ [rate_checked d] else log)"

text \<open>
  What can happen to the document of a user, with the log of the messages accepted so far: the
  server runs the pipeline, at any time that is not before the last removal, or the TTL index
  removes the expired document.
\<close>

inductive rate_history :: "string \<Rightarrow> rate_document option \<Rightarrow> time list \<Rightarrow> time \<Rightarrow> bool" for user where
  start: "rate_history user None [] low"
| reserve: "rate_history user od log low \<Longrightarrow> low \<le> now \<Longrightarrow>
    d = reservationPipeline now (ifNull od (new_rate_document user)) \<Longrightarrow>
    rate_history user (Some d) (rate_extended log d) low"
| expire: "rate_history user (Some d) log low \<Longrightarrow> rld_ExpiresAt d = Some e \<Longrightarrow> e \<le> now \<Longrightarrow>
    rate_history user None log now"

text \<open>What the pipeline computes, with the new time \<open>c\<close> and the timestamps \<open>ts\<close> it keeps.\<close>

definition checked_after :: "time \<Rightarrow> rate_document \<Rightarrow> time" where
  "checked_after now d = max now (ifNull (rld_CheckedAt d) now)"

definition retry_after :: "time \<Rightarrow> time list \<Rightarrow> time" where
  "retry_after c log = max (windowRetryAt c (activeTimestamps c log minuteWindow) minuteLimit minuteWindow)
     (windowRetryAt c (activeTimestamps c log burstWindow) burstLimit burstWindow)"

lemma window_order: "burstWindow \<le> minuteWindow" "0 < burstWindow" "0 < minuteWindow"
  by (simp_all add: burstWindow_def minuteWindow_def)

lemma active_twice:
  "w2 \<le> w \<Longrightarrow> c \<le> c2 \<Longrightarrow> activeTimestamps c2 (activeTimestamps c xs w) w2 = activeTimestamps c2 xs w2"
  by (auto simp: activeTimestamps_def intro!: filter_cong)

lemma active_in [simp]: "t \<in> set (activeTimestamps c xs w) \<longleftrightarrow> t \<in> set xs \<and> c < t + w"
  by (auto simp: activeTimestamps_def)

lemma pipeline_fields:
  assumes "activeTimestamps c (ifNull (rld_Timestamps d) []) minuteWindow = activeTimestamps c log minuteWindow"
    and "c = checked_after now d"
  shows "rld_CheckedAt (reservationPipeline now d) = Some c"
    and "rld_RetryAt (reservationPipeline now d) = Some (retry_after c log)"
    and "rld_Timestamps (reservationPipeline now d) =
       Some (if retry_after c log \<le> c then activeTimestamps c log minuteWindow @ [c] else activeTimestamps c log minuteWindow)"
    and "rld_ExpiresAt (reservationPipeline now d) = (case the (rld_Timestamps (reservationPipeline now d)) of
           [] \<Rightarrow> None | t # ts \<Rightarrow> Some (Max (set (t # ts)) + minuteWindow))"
  using assms(1) active_twice [of burstWindow minuteWindow c c log]
  by (simp_all add: assms(2) reservationPipeline_def set_checked_at_def set_timestamps_def set_burst_timestamps_def
      set_retry_at_def append_checked_at_def set_expires_at_def unset_burst_timestamps_def ifNull_def retry_after_def
      checked_after_def window_order)

lemma active_within: "\<forall>t \<in> set log. t \<le> c \<Longrightarrow> length (activeTimestamps c log w) = within log c w"
  by (auto simp: activeTimestamps_def within_def intro!: arg_cong [where f = length] filter_cong)

text \<open>
  The earliest time at which a window has room again, when nothing more is accepted.
\<close>

lemma windowRetryAt_ge: "0 < n \<Longrightarrow> 0 < w \<Longrightarrow> c \<le> windowRetryAt c (activeTimestamps c log w) n w"
proof -
  assume "0 < n" "0 < w"
  show ?thesis
  proof (cases "n \<le> length (activeTimestamps c log w)")
    case True
    with \<open>0 < n\<close> have "Min (set (activeTimestamps c log w)) \<in> set (activeTimestamps c log w)"
      by (intro Min_in) auto
    then show ?thesis by (simp add: windowRetryAt_def)
  qed (simp add: windowRetryAt_def)
qed

lemma within_shift:
  assumes "\<forall>t \<in> set log. t \<le> c" "0 \<le> \<delta>"
  shows "within log (c + \<delta>) w = length (filter (\<lambda>t. c + \<delta> - w < t) (activeTimestamps c log w))"
  using assms by (auto simp: within_def activeTimestamps_def intro!: arg_cong [where f = length] filter_cong)

lemma windowRetryAt_exact:
  assumes old: "\<forall>t \<in> set log. t \<le> c" and cap: "within log c w \<le> n" and "0 < n" "0 < w" "0 \<le> \<delta>"
  shows "within log (c + \<delta>) w < n \<longleftrightarrow> windowRetryAt c (activeTimestamps c log w) n w \<le> c + \<delta>"
proof -
  let ?A = "activeTimestamps c log w"
  have size: "length ?A = within log c w" by (rule active_within [OF old])
  have shift: "within log (c + \<delta>) w = length (filter (\<lambda>t. c + \<delta> - w < t) ?A)"
    by (rule within_shift [OF old \<open>0 \<le> \<delta>\<close>])
  show ?thesis
  proof (cases "length ?A < n")
    case True
    have "length (filter (\<lambda>t. c + \<delta> - w < t) ?A) < n"
      using True by (rule order.strict_trans1 [OF length_filter_le])
    then show ?thesis using True assms(5) shift by (simp add: windowRetryAt_def)
  next
    case False
    then have n: "length ?A = n" using size cap by simp
    then have ne: "set ?A \<noteq> {}" using \<open>0 < n\<close> by auto
    have "length (filter (\<lambda>t. c + \<delta> - w < t) ?A) < length ?A \<longleftrightarrow> (\<exists>t \<in> set ?A. t \<le> c + \<delta> - w)"
      using length_filter_less [of _ ?A "\<lambda>t. c + \<delta> - w < t"] by (metis filter_True leD leI order_less_irrefl)
    also have "\<dots> \<longleftrightarrow> Min (set ?A) \<le> c + \<delta> - w" by (rule Min_le_iff [symmetric]) (use ne in auto)
    also have "\<dots> \<longleftrightarrow> windowRetryAt c ?A n w \<le> c + \<delta>" using n by (auto simp: windowRetryAt_def)
    finally show ?thesis using shift n by simp
  qed
qed

definition within_limits :: "time list \<Rightarrow> bool" where
  "within_limits log \<longleftrightarrow>
     (\<forall>t. within log t minuteWindow \<le> minuteLimit \<and> within log t burstWindow \<le> burstLimit)"

lemma retry_exact:
  assumes "\<forall>t \<in> set log. t \<le> c" "within_limits log" "0 \<le> \<delta>"
  shows "allowed log (c + \<delta>) \<longleftrightarrow> retry_after c log \<le> c + \<delta>"
  using windowRetryAt_exact [OF assms(1) _ _ _ assms(3), of minuteWindow minuteLimit]
    windowRetryAt_exact [OF assms(1) _ _ _ assms(3), of burstWindow burstLimit] assms(2)
  by (auto simp: allowed_def retry_after_def within_limits_def window_order minuteLimit_def burstLimit_def)

lemma within_append:
  assumes "\<forall>t \<in> set log. t \<le> c" "within log c w < n" "\<forall>t. within log t w \<le> n"
  shows "within (log @ [c]) t w \<le> n"
proof (cases "c \<le> t")
  case True
  have "within log t w \<le> within log c w"
    using within_shift [OF assms(1), of "t - c" w] True active_within [OF assms(1), of w]
    by (auto intro: order_trans [OF length_filter_le])
  then show ?thesis using assms(2) by (simp add: within_def)
next
  case False
  then have "within (log @ [c]) t w = within log t w" by (simp add: within_def)
  then show ?thesis using assms(3) by simp
qed

lemma within_none: "\<forall>t \<in> set log. t \<le> now - w \<Longrightarrow> within log now w = 0"
  by (induction log) (auto simp: within_def)

lemma limits_append:
  "\<forall>t \<in> set log. t \<le> c \<Longrightarrow> within_limits log \<Longrightarrow> allowed log c \<Longrightarrow> within_limits (log @ [c])"
  by (auto simp: within_limits_def allowed_def within_append)

text \<open>The invariant: the document keeps exactly the last minute of the log.\<close>

definition rate_invariant :: "rate_document option \<Rightarrow> time list \<Rightarrow> time \<Rightarrow> bool" where
  "rate_invariant od log low \<longleftrightarrow> within_limits log \<and>
     (case od of
        None \<Rightarrow> \<forall>t \<in> set log. t + minuteWindow \<le> low
      | Some d \<Rightarrow> \<exists>c. rld_CheckedAt d = Some c \<and> (\<forall>t \<in> set log. t \<le> c) \<and>
          (\<exists>t \<in> set log. c < t + minuteWindow) \<and>
          rld_Timestamps d = Some (activeTimestamps c log minuteWindow) \<and>
          rld_ExpiresAt d = Some (Max (set (activeTimestamps c log minuteWindow)) + minuteWindow))"

lemma active_none: "\<forall>t \<in> set log. t + w \<le> c \<Longrightarrow> activeTimestamps c log w = []"
  by (auto simp: activeTimestamps_def filter_empty_conv)

lemma rate_time:
  fixes od log low now and user :: string
  defines "c \<equiv> checked_after now (ifNull od (new_rate_document user))"
  assumes "rate_invariant od log low" "low \<le> now"
  shows "\<forall>t \<in> set log. t \<le> c" and "within_limits log"
    and "activeTimestamps c (ifNull (rld_Timestamps (ifNull od (new_rate_document user))) []) minuteWindow =
      activeTimestamps c log minuteWindow"
proof -
  show "within_limits log" using assms(2) by (simp add: rate_invariant_def)
  show "\<forall>t \<in> set log. t \<le> c"
    using assms(2,3) by (fastforce simp: rate_invariant_def c_def checked_after_def ifNull_def new_rate_document_def
        window_order minuteWindow_def split: option.splits)
  show "activeTimestamps c (ifNull (rld_Timestamps (ifNull od (new_rate_document user))) []) minuteWindow =
      activeTimestamps c log minuteWindow"
  proof (cases od)
    case None
    then have "\<forall>t \<in> set log. t + minuteWindow \<le> c"
      using assms(2,3) by (fastforce simp: rate_invariant_def c_def checked_after_def)
    then show ?thesis using None by (simp add: active_none ifNull_def new_rate_document_def activeTimestamps_def [of _ "[]"])
  next
    case (Some d)
    then obtain c0 where c0: "rld_CheckedAt d = Some c0" "rld_Timestamps d = Some (activeTimestamps c0 log minuteWindow)"
      using assms(2) by (auto simp: rate_invariant_def)
    then have "c0 \<le> c" using Some by (simp add: c_def checked_after_def ifNull_def)
    then show ?thesis using Some c0 by (simp add: ifNull_def active_twice)
  qed
qed

lemma rate_step:
  assumes inv: "rate_invariant od log low" "low \<le> now"
    and d: "d = reservationPipeline now (ifNull od (new_rate_document user))"
  shows "rate_invariant (Some d) (rate_extended log d) low \<and> (\<forall>t \<in> set log. t \<le> rate_checked d) \<and>
    rld_RetryAt d = Some (retry_after (rate_checked d) log) \<and> (rate_accepted d \<longleftrightarrow> allowed log (rate_checked d))"
proof -
  define c where "c = checked_after now (ifNull od (new_rate_document user))"
  note time = rate_time(1) [OF inv, where user = user, folded c_def] rate_time(2) [OF inv]
    rate_time(3) [OF inv, where user = user, folded c_def]
  note f = pipeline_fields [OF time(3) c_def, folded d]
  have c: "rate_checked d = c" using f(1) by (simp add: rate_checked_def ifNull_def)
  have acc: "rate_accepted d \<longleftrightarrow> retry_after c log \<le> c" using f(2) c by (simp add: rate_accepted_def ifNull_def)
  also have "\<dots> \<longleftrightarrow> allowed log c" using retry_exact [OF time(1,2), of 0] by simp
  finally have allowed: "rate_accepted d \<longleftrightarrow> allowed log c" .
  define log' where "log' = rate_extended log d"
  have ts: "rld_Timestamps d = Some (activeTimestamps c log' minuteWindow)"
    using f(3) acc c by (auto simp: log'_def rate_extended_def activeTimestamps_def window_order)
  have some: "\<exists>t \<in> set log'. c < t + minuteWindow"
  proof (cases "rate_accepted d")
    case True
    then show ?thesis using c by (auto simp: log'_def rate_extended_def window_order)
  next
    case False
    have "activeTimestamps c log minuteWindow \<noteq> []"
    proof
      assume none: "activeTimestamps c log minuteWindow = []"
      have "activeTimestamps c log burstWindow = []"
        using none window_order(1) by (fastforce simp: activeTimestamps_def filter_empty_conv)
      with none have "retry_after c log \<le> c"
        by (simp add: retry_after_def windowRetryAt_def minuteLimit_def burstLimit_def)
      with False acc show False by simp
    qed
    then obtain t where "t \<in> set (activeTimestamps c log minuteWindow)" by (meson last_in_set)
    then show ?thesis using False by (auto simp: log'_def rate_extended_def)
  qed
  then have "\<exists>t. t \<in> set (activeTimestamps c log' minuteWindow)" by auto
  then have "activeTimestamps c log' minuteWindow \<noteq> []" by (metis empty_iff empty_set)
  then have "rld_ExpiresAt d = Some (Max (set (activeTimestamps c log' minuteWindow)) + minuteWindow)"
    using f(4) ts by (simp split: list.splits)
  moreover have "within_limits log'"
    using limits_append [OF time(1,2)] time(2) allowed c by (simp add: log'_def rate_extended_def)
  moreover have "\<forall>t \<in> set log'. t \<le> c" using time(1) c by (auto simp: log'_def rate_extended_def)
  ultimately have "rate_invariant (Some d) log' low"
    using f(1) ts some by (auto simp: rate_invariant_def)
  then show ?thesis using time(1) c allowed f(2) log'_def by simp
qed

lemma rate_history_invariant: "rate_history user od log low \<Longrightarrow> rate_invariant od log low"
proof (induction rule: rate_history.induct)
  case (start low)
  show ?case by (simp add: rate_invariant_def within_limits_def within_def)
next
  case (reserve od log low now d)
  then show ?case using rate_step by blast
next
  case (expire d log low e now)
  then obtain c where c: "rld_CheckedAt d = Some c" "\<forall>t \<in> set log. t \<le> c" "\<exists>t \<in> set log. c < t + minuteWindow"
    "e = Max (set (activeTimestamps c log minuteWindow)) + minuteWindow" "within_limits log"
    by (auto simp: rate_invariant_def)
  let ?A = "set (activeTimestamps c log minuteWindow)"
  from c(3) obtain u where u: "u \<in> ?A" by auto
  have "t + minuteWindow \<le> e" if "t \<in> set log" for t
  proof (cases "t \<in> ?A")
    case True
    then show ?thesis using c(4) by simp
  next
    case False
    then have "t \<le> c - minuteWindow" using that by auto
    also have "\<dots> \<le> u" using u by simp
    also have "u \<le> Max ?A" using u by simp
    finally show ?thesis using c(4) by simp
  qed
  then show ?case using c(5) expire by (fastforce simp: rate_invariant_def)
qed

section \<open>Reserving\<close>

text \<open>
  What other clients and the TTL index may do to the document of a user: it goes on with a history
  in which some messages were accepted.
\<close>

definition rate_evolves ::
  "string \<Rightarrow> rate_document option \<times> time \<Rightarrow> rate_document option \<times> time \<Rightarrow> bool" where
  "rate_evolves user s s' \<longleftrightarrow>
     (\<forall>log. rate_history user (fst s) log (snd s) \<longrightarrow> (\<exists>more. rate_history user (fst s') (log @ more) (snd s')))"

lemma rate_evolves_refl [simp]: "rate_evolves user s s"
  by (auto simp: rate_evolves_def intro: exI [of _ "[]"])

lemma rate_evolves_trans: "rate_evolves user s s' \<Longrightarrow> rate_evolves user s' s'' \<Longrightarrow> rate_evolves user s s''"
  unfolding rate_evolves_def by (metis append.assoc)

lemma rate_evolves_step:
  assumes "low \<le> now" "d = reservationPipeline now (ifNull od (new_rate_document user))"
  shows "rate_evolves user (od, low) (Some d, low)"
proof (unfold rate_evolves_def fst_conv snd_conv, intro allI impI)
  fix log
  assume "rate_history user od log low"
  from rate_history.reserve [OF this assms] show "\<exists>more. rate_history user (Some d) (log @ more) low"
    by (cases "rate_accepted d") (auto simp: rate_extended_def intro: exI [of _ "[]"])
qed

locale rate_server =
  fixes L :: "'s rate_collection" and removed :: "'s \<Rightarrow> string \<Rightarrow> time"
  assumes Pipeline_ok: "FindOneAndPipeline L upsert key u s = (s', Inr d) \<Longrightarrow>
      \<exists>od low now. rate_evolves key (rate_docs L s key, removed s key) (od, low) \<and> low \<le> now \<and>
        (upsert \<or> od \<noteq> None) \<and> d = u now (ifNull od (new_rate_document key)) \<and>
        rate_docs L s' key = Some d \<and> removed s' key = low"
    and Pipeline_err: "FindOneAndPipeline L upsert key reservationPipeline s = (s', Inl e) \<Longrightarrow>
      rate_evolves key (rate_docs L s key, removed s key) (rate_docs L s' key, removed s' key)"
begin

abbreviation rate_state :: "'s \<Rightarrow> string \<Rightarrow> rate_document option \<times> time" where
  "rate_state s key \<equiv> (rate_docs L s key, removed s key)"

lemma Reserve_pipeline:
  assumes "Reserve L user s = (s', Inr wait)"
  shows "\<exists>od low now. rate_evolves user (rate_state s user) (od, low) \<and> low \<le> now \<and>
    (let d = reservationPipeline now (ifNull od (new_rate_document user)) in
       rate_state s' user = (Some d, low) \<and> wait = time_Sub (ifNull (rld_RetryAt d) 0) (rate_checked d))"
proof -
  have "\<not> blank user" using assms by (auto simp: Reserve_def)
  then consider d where "FindOneAndPipeline L True user reservationPipeline s = (s', Inr d)"
      "wait = time_Sub (ifNull (rld_RetryAt d) 0) (rate_checked d)"
    | s1 e d where "FindOneAndPipeline L True user reservationPipeline s = (s1, Inl e)"
      "FindOneAndPipeline L False user reservationPipeline s1 = (s', Inr d)"
      "wait = time_Sub (ifNull (rld_RetryAt d) 0) (rate_checked d)"
    using assms by (auto simp: Reserve_def Let_def attempt_iff run_iff rate_checked_def split: if_splits)
  then show ?thesis
  proof cases
    case 1
    from Pipeline_ok [OF 1(1)] 1(2) show ?thesis by (auto simp: Let_def)
  next
    case 2
    from Pipeline_err [OF 2(1)] Pipeline_ok [OF 2(2)] 2(3) show ?thesis
      by (auto simp: Let_def intro: rate_evolves_trans)
  qed
qed

lemma Reserve_decides:
  assumes "rate_history user (rate_docs L s user) log (removed s user)" "Reserve L user s = (s', Inr wait)"
  shows "\<exists>more c. (\<forall>t \<in> set (log @ more). t \<le> c) \<and> 0 \<le> wait \<and> wait \<le> minuteWindow \<and>
    (\<forall>\<delta> \<ge> 0. allowed (log @ more) (c + \<delta>) \<longleftrightarrow> wait \<le> \<delta>) \<and>
    rate_history user (rate_docs L s' user) (log @ more @ (if wait = 0 then [c] else [])) (removed s' user)"
proof -
  from Reserve_pipeline [OF assms(2)] obtain od low now d
    where ev: "rate_evolves user (rate_state s user) (od, low)" and low: "low \<le> now"
      and d: "d = reservationPipeline now (ifNull od (new_rate_document user))"
      and s': "rate_docs L s' user = Some d" "removed s' user = low"
      and wait: "wait = time_Sub (ifNull (rld_RetryAt d) 0) (rate_checked d)"
    by (auto simp: Let_def)
  from ev assms(1) obtain more where h: "rate_history user od (log @ more) low"
    by (auto simp: rate_evolves_def)
  let ?log = "log @ more" and ?c = "rate_checked d"
  note inv = rate_history_invariant [OF h]
  from rate_step [OF inv low d] have old: "\<forall>t \<in> set ?log. t \<le> ?c"
    and retry: "rld_RetryAt d = Some (retry_after ?c ?log)" by blast+
  have lim: "within_limits ?log" using inv by (simp add: rate_invariant_def)
  have ge: "?c \<le> retry_after ?c ?log"
    unfolding retry_after_def by (rule max.coboundedI1, rule windowRetryAt_ge) (simp_all add: minuteLimit_def window_order)
  have "within ?log (?c + minuteWindow) w = 0" if "w \<le> minuteWindow" for w
    using old that by (intro within_none ballI) fastforce
  then have "allowed ?log (?c + minuteWindow)"
    by (simp add: allowed_def minuteLimit_def burstLimit_def window_order)
  then have le: "retry_after ?c ?log \<le> ?c + minuteWindow"
    using retry_exact [OF old lim, of minuteWindow] by (simp add: window_order less_imp_le)
  then have w: "wait = retry_after ?c ?log - ?c"
    using wait retry ge by (simp add: time_Sub_def ifNull_def minuteWindow_def)
  have acc: "rate_accepted d \<longleftrightarrow> wait = 0"
    using w ge retry by (simp add: rate_accepted_def ifNull_def)
  have "allowed ?log (?c + \<delta>) \<longleftrightarrow> wait \<le> \<delta>" if "0 \<le> \<delta>" for \<delta>
    using retry_exact [OF old lim that] w by auto
  moreover have "rate_history user (Some d) (log @ more @ (if wait = 0 then [?c] else [])) low"
    using rate_history.reserve [OF h low d] acc by (cases "wait = 0") (simp_all add: rate_extended_def)
  ultimately show ?thesis
    using old ge le w s' by (intro exI [of _ more] exI [of _ ?c]) auto
qed

end

section \<open>An in-memory collection\<close>

record rate_world =
  rw_docs :: "string \<rightharpoonup> rate_document"
  rw_clock :: nat

definition rw_pipeline ::
  "bool \<Rightarrow> string \<Rightarrow> (time \<Rightarrow> rate_document \<Rightarrow> rate_document) \<Rightarrow> (rate_world, go_error, rate_document) call" where
  "rw_pipeline upsert key u w =
     (if rw_docs w key = None \<and> \<not> upsert then (w, Inl (DriverError ''no documents in result''))
      else let d = u (int (rw_clock w)) (ifNull (rw_docs w key) (new_rate_document key))
           in (w\<lparr>rw_docs := (rw_docs w)(key \<mapsto> d)\<rparr>, Inr d))"

definition rw_collection :: "rate_world rate_collection" where
  "rw_collection = \<lparr>rate_docs = rw_docs, FindOneAndPipeline = rw_pipeline\<rparr>"

interpretation rw: rate_server rw_collection "\<lambda>_ _. 0"
proof (unfold_locales, goal_cases)
  case (1 upsert key u s s' d)
  then show ?case
    by (intro exI [of _ "rw_docs s key"] exI [of _ 0] exI [of _ "int (rw_clock s)"])
      (auto simp: rw_collection_def rw_pipeline_def Let_def split: if_splits)
next
  case (2 upsert key s s' e)
  then show ?case by (auto simp: rw_collection_def rw_pipeline_def Let_def split: if_splits)
qed

end
