(* ===== verification/GoText.thy ===== *)
theory GoText
  imports GoLib
begin

text \<open>
  The text functions of Go's standard library that the program uses for encoded values: decimal
  numbers (\<^verbatim>\<open>%d\<close>, \<^verbatim>\<open>strconv.ParseUint\<close>, \<^verbatim>\<open>strconv.ParseInt\<close>), \<^verbatim>\<open>strings.Split\<close>, and unpadded
  base64 with strict decoding, with their round trips.
\<close>

section \<open>Decimal numbers\<close>

definition digit :: "nat \<Rightarrow> char" where
  "digit n = ''0123456789'' ! n"

definition digit_value :: "char \<Rightarrow> nat option" where
  "digit_value c = (if CHR ''0'' \<le> c \<and> c \<le> CHR ''9'' then Some (of_char c - 48) else None)"

text \<open>\<^verbatim>\<open>%d\<close> of an unsigned number.\<close>

function decimal :: "nat \<Rightarrow> string" where
  "decimal n = (if n < 10 then [digit n] else decimal (n div 10) @ [digit (n mod 10)])"
  by pat_completeness auto

termination by (relation "measure (\<lambda>n. n)") auto

declare decimal.simps [simp del]

fun digits_value :: "nat \<Rightarrow> string \<Rightarrow> nat option" where
  "digits_value acc [] = Some acc"
| "digits_value acc (c # s) = (case digit_value c of None \<Rightarrow> None | Some d \<Rightarrow> digits_value (acc * 10 + d) s)"

definition ParseUint :: "nat \<Rightarrow> string \<Rightarrow> nat option" where
  "ParseUint bitSize s =
     (if s = [] then None
      else case digits_value 0 s of None \<Rightarrow> None | Some n \<Rightarrow> if n < 2 ^ bitSize then Some n else None)"

text \<open>\<^verbatim>\<open>strconv.ParseInt(s, 10, 64)\<close>, which is also \<^verbatim>\<open>strconv.Atoi\<close>.\<close>

definition ParseInt :: "string \<Rightarrow> int option" where
  "ParseInt s =
     (case s of
        [] \<Rightarrow> None
      | c # r \<Rightarrow>
          if c = CHR ''-'' then (case ParseUint 64 r of None \<Rightarrow> None | Some n \<Rightarrow> if int n \<le> 2 ^ 63 then Some (- int n) else None)
          else (case ParseUint 64 (if c = CHR ''+'' then r else s) of
                  None \<Rightarrow> None | Some n \<Rightarrow> if int n < 2 ^ 63 then Some (int n) else None))"

lemma digit_value_digit [simp]: "n < 10 \<Longrightarrow> digit_value (digit n) = Some n"
proof -
  have "list_all (\<lambda>n. digit_value (digit n) = Some n) [0..<10]" by code_simp
  then show "n < 10 \<Longrightarrow> ?thesis" by (simp add: list_all_iff)
qed

lemma digits_value_append:
  "digits_value acc (s @ t) = (case digits_value acc s of None \<Rightarrow> None | Some n \<Rightarrow> digits_value n t)"
  by (induction acc s rule: digits_value.induct) (auto split: option.splits)

lemma digits_value_decimal [simp]: "digits_value 0 (decimal n) = Some n"
proof (induction n rule: decimal.induct)
  case (1 n)
  show ?case
    by (cases "n < 10") (simp_all add: decimal.simps [of n] digits_value_append 1)
qed

lemma decimal_nonempty [simp]: "decimal n \<noteq> []"
  by (simp add: decimal.simps [of n])

lemma ParseUint_decimal: "n < 2 ^ bitSize \<Longrightarrow> ParseUint bitSize (decimal n) = Some n"
  by (simp add: ParseUint_def)

lemma digit_plain: "n < 10 \<Longrightarrow> digit n \<in> set ''0123456789''"
  unfolding digit_def by (rule nth_mem) simp

lemma decimal_plain: "set (decimal n) \<subseteq> set ''0123456789''"
proof (induction n rule: decimal.induct)
  case (1 n)
  show ?case
    using 1 digit_plain [of n] digit_plain [of "n mod 10"] unfolding decimal.simps [of n] by auto
qed

lemma decimal_length: "n < 10 ^ k \<Longrightarrow> 0 < k \<Longrightarrow> length (decimal n) \<le> k"
proof (induction n arbitrary: k rule: decimal.induct)
  case (1 n)
  show ?case
  proof (cases "n < 10")
    case False
    then have k: "1 < k" using 1(2,3) by (cases "k = 1") auto
    then have "n div 10 < 10 ^ (k - 1)" using 1(2) by (simp add: div_less_iff_less_mult flip: power_Suc2)
    from 1(1) [OF False this] k show ?thesis using False by (simp add: decimal.simps [of n])
  qed (use 1 in \<open>simp add: decimal.simps [of n]\<close>)
qed

section \<open>Splitting\<close>

text \<open>\<^verbatim>\<open>strings.Split\<close> at a separator of one byte.\<close>

fun Split :: "char \<Rightarrow> string \<Rightarrow> string list" where
  "Split sep [] = [[]]"
| "Split sep (c # s) =
     (if c = sep then [] # Split sep s
      else case Split sep s of [] \<Rightarrow> [[c]] | part # parts \<Rightarrow> (c # part) # parts)"

lemma Split_nonempty [simp]: "Split sep s \<noteq> []"
  by (induction sep s rule: Split.induct) (auto split: list.splits)

lemma Split_plain: "sep \<notin> set s \<Longrightarrow> Split sep s = [s]"
  by (induction s) auto

lemma Split_append: "sep \<notin> set s \<Longrightarrow> Split sep (s @ sep # t) = s # Split sep t"
  by (induction s) auto

section \<open>Prefixes and suffixes\<close>

definition HasPrefix :: "string \<Rightarrow> string \<Rightarrow> bool" where
  "HasPrefix s p \<longleftrightarrow> take (length p) s = p"

definition HasSuffix :: "string \<Rightarrow> string \<Rightarrow> bool" where
  "HasSuffix s p \<longleftrightarrow> length p \<le> length s \<and> drop (length s - length p) s = p"

definition TrimPrefix :: "string \<Rightarrow> string \<Rightarrow> string" where
  "TrimPrefix s p = (if HasPrefix s p then drop (length p) s else s)"

definition TrimSuffix :: "string \<Rightarrow> string \<Rightarrow> string" where
  "TrimSuffix s p = (if HasSuffix s p then take (length s - length p) s else s)"

lemma HasPrefix_append [simp]: "HasPrefix (p @ s) p" "TrimPrefix (p @ s) p = s"
  by (simp_all add: HasPrefix_def TrimPrefix_def)

lemma HasSuffix_append [simp]: "HasSuffix (s @ p) p" "TrimSuffix (s @ p) p = s"
  by (simp_all add: HasSuffix_def TrimSuffix_def)

section \<open>Lower case\<close>

text \<open>
  \<^verbatim>\<open>strings.ToLower\<close> where the result is only compared with ASCII text: U+0130 (bytes C4 B0) gives
  \<^verbatim>\<open>i\<close> and U+212A (E2 84 AA) gives \<^verbatim>\<open>k\<close>; no other non-ASCII rune has an ASCII lower case.
\<close>

fun ToLower :: "string \<Rightarrow> string" where
  "ToLower [] = []"
| "ToLower (c # s) =
     (if c = CHR 0xC4 \<and> take 1 s = [CHR 0xB0] then CHR ''i'' # ToLower (drop 1 s)
      else if c = CHR 0xE2 \<and> take 2 s = [CHR 0x84, CHR 0xAA] then CHR ''k'' # ToLower (drop 2 s)
      else lower_char c # ToLower s)"

section \<open>Base64\<close>

definition alphabet :: string where
  "alphabet = ''ABCDEFGHIJKLMNOPQRSTUVWXYZabcdefghijklmnopqrstuvwxyz0123456789+/''"

definition sextet_value :: "char \<Rightarrow> nat option" where
  "sextet_value c = map_of (zip alphabet [0..<64]) c"

fun sextets :: "nat list \<Rightarrow> nat list" where
  "sextets [] = []"
| "sextets [a] = [a div 4, a mod 4 * 16]"
| "sextets [a, b] = [a div 4, a mod 4 * 16 + b div 16, b mod 16 * 4]"
| "sextets (a # b # c # r) = a div 4 # (a mod 4 * 16 + b div 16) # (b mod 16 * 4 + c div 64) # c mod 64 # sextets r"

text \<open>Strict decoding refuses bits that the last quantum would drop.\<close>

fun octets :: "nat list \<Rightarrow> nat list option" where
  "octets [] = Some []"
| "octets [a] = None"
| "octets [a, b] = (if b mod 16 \<noteq> 0 then None else Some [a * 4 + b div 16])"
| "octets [a, b, c] = (if c mod 4 \<noteq> 0 then None else Some [a * 4 + b div 16, b mod 16 * 16 + c div 4])"
| "octets (a # b # c # d # r) =
     map_option (\<lambda>bs. (a * 4 + b div 16) # (b mod 16 * 16 + c div 4) # (c mod 4 * 64 + d) # bs) (octets r)"

fun sextet_values :: "string \<Rightarrow> nat list option" where
  "sextet_values [] = Some []"
| "sextet_values (c # s) =
     (case sextet_value c of None \<Rightarrow> None | Some n \<Rightarrow> map_option (\<lambda>ns. n # ns) (sextet_values s))"

definition RawStd_EncodeToString :: "string \<Rightarrow> string" where
  "RawStd_EncodeToString bs = map (\<lambda>n. alphabet ! n) (sextets (map of_char bs))"

text \<open>Without strictness the dropped bits may be anything.\<close>

fun octets_lax :: "nat list \<Rightarrow> nat list option" where
  "octets_lax [] = Some []"
| "octets_lax [a] = None"
| "octets_lax [a, b] = Some [a * 4 + b div 16]"
| "octets_lax [a, b, c] = Some [a * 4 + b div 16, b mod 16 * 16 + c div 4]"
| "octets_lax (a # b # c # d # r) =
     map_option (\<lambda>bs. (a * 4 + b div 16) # (b mod 16 * 16 + c div 4) # (c mod 4 * 64 + d) # bs) (octets_lax r)"

definition skip_breaks :: "string \<Rightarrow> string" where
  "skip_breaks s = filter (\<lambda>c. c \<noteq> CHR 0x0A \<and> c \<noteq> CHR 0x0D) s"

definition RawStd_Decode :: "string \<Rightarrow> string option" where
  "RawStd_Decode s =
     (case sextet_values (skip_breaks s) of None \<Rightarrow> None | Some ns \<Rightarrow> map_option (map char_of) (octets_lax ns))"

text \<open>The decoder skips line breaks.\<close>

definition RawStd_DecodeStrict :: "string \<Rightarrow> string option" where
  "RawStd_DecodeStrict s =
     (case sextet_values (filter (\<lambda>c. c \<noteq> CHR 0x0A \<and> c \<noteq> CHR 0x0D) s) of
        None \<Rightarrow> None | Some ns \<Rightarrow> map_option (map char_of) (octets ns))"

text \<open>
  The decoder of padded base64: the padding fills the last quantum of four characters, and nothing
  follows it.
\<close>

definition unpad :: "string \<Rightarrow> string option" where
  "unpad s =
     (let t = skip_breaks s in
      if length t mod 4 \<noteq> 0 then None
      else if HasSuffix t ''=='' then Some (take (length t - 2) t)
      else if HasSuffix t ''='' then Some (take (length t - 1) t)
      else Some t)"

definition Std_DecodeStrict :: "string \<Rightarrow> string option" where
  "Std_DecodeStrict s = (case unpad s of None \<Rightarrow> None | Some t \<Rightarrow> RawStd_DecodeStrict t)"

definition Std_Decode :: "string \<Rightarrow> string option" where
  "Std_Decode s = (case unpad s of None \<Rightarrow> None | Some t \<Rightarrow> RawStd_Decode t)"

lemma sextet_value_alphabet [simp]: "n < 64 \<Longrightarrow> sextet_value (alphabet ! n) = Some n"
proof -
  have "list_all (\<lambda>n. sextet_value (alphabet ! n) = Some n) [0..<64]" by code_simp
  then show "n < 64 \<Longrightarrow> ?thesis" by (simp add: list_all_iff)
qed

lemma alphabet_plain: "n < 64 \<Longrightarrow> alphabet ! n \<notin> set [CHR 0x0A, CHR 0x0D, CHR ''$'', CHR '','']"
proof -
  have "list_all (\<lambda>n. alphabet ! n \<notin> set [CHR 0x0A, CHR 0x0D, CHR ''$'', CHR '','']) [0..<64]" by code_simp
  then show "n < 64 \<Longrightarrow> ?thesis" unfolding list_all_iff by (simp only: set_upt atLeastLessThan_iff) simp
qed

lemma sextets_bound: "\<forall>b \<in> set bs. b < 256 \<Longrightarrow> \<forall>n \<in> set (sextets bs). n < 64"
  by (induction bs rule: sextets.induct) auto

lemma octets_sextets: "\<forall>b \<in> set bs. b < 256 \<Longrightarrow> octets (sextets bs) = Some bs"
  by (induction bs rule: sextets.induct) auto

lemma sextet_values_alphabet: "\<forall>n \<in> set ns. n < 64 \<Longrightarrow> sextet_values (map (\<lambda>n. alphabet ! n) ns) = Some ns"
  by (induction ns) auto

lemma byte_bound: "\<forall>b \<in> set (map of_char (bs :: string)). b < (256 :: nat)"
  by auto

lemma encoded_plain: "c \<in> set (RawStd_EncodeToString bs) \<Longrightarrow> c \<notin> set [CHR 0x0A, CHR 0x0D, CHR ''$'', CHR '','']"
  using alphabet_plain sextets_bound [OF byte_bound] unfolding RawStd_EncodeToString_def by auto

lemma RawStd_round_trip: "RawStd_DecodeStrict (RawStd_EncodeToString bs) = Some bs"
proof -
  have "filter (\<lambda>c. c \<noteq> CHR 0x0A \<and> c \<noteq> CHR 0x0D) (RawStd_EncodeToString bs) = RawStd_EncodeToString bs"
    using encoded_plain by (intro filter_True ballI) fastforce
  then show ?thesis
    using sextet_values_alphabet [OF sextets_bound [OF byte_bound]] octets_sextets [OF byte_bound]
    by (simp add: RawStd_DecodeStrict_def RawStd_EncodeToString_def comp_def)
qed

lemma sextets_length: "3 * length (sextets bs) \<le> 4 * length bs + 2"
  by (induction bs rule: sextets.induct) auto

lemma encoded_length: "3 * length (RawStd_EncodeToString bs) \<le> 4 * length bs + 2"
  using sextets_length [of "map of_char bs"] by (simp add: RawStd_EncodeToString_def)

end
