(* ===== verification/Http.thy ===== *)
theory Http
  imports GoText
begin

text \<open>
  The ground of the HTTP drivers: requests and responses as the handlers see them, the JSON bodies
  they read (\<^verbatim>\<open>internal/drivers/http/request\<close>) and write (\<^verbatim>\<open>internal/drivers/http/response\<close>), and
  the recovery from panics (\<^verbatim>\<open>middleware/recovery\<close>).

  A handler maps a request, a world and the response so far to a world and a response.  A body is
  a JSON tree, with the field names of the struct tags; the text encoding is left out, as are the
  messages in Portuguese beside the error codes.  Header names are in their canonical form.
\<close>

section \<open>JSON trees\<close>

datatype json =
    JNull
  | JBool bool
  | JInt int
  | JString string
  | JTime time
  | JArray "json list"
  | JObject "(string \<times> json) list"

text \<open>\<^verbatim>\<open>json.Marshal\<close> fails on a time whose year is not between 0 and 9999, and on no other value.\<close>

definition year_ok :: "time \<Rightarrow> bool" where
  "year_ok t \<longleftrightarrow> - 366 * 24 * hour \<le> t \<and> t < 3652059 * 24 * hour"

fun marshals :: "json \<Rightarrow> bool" where
  "marshals (JTime t) = year_ok t"
| "marshals (JArray vs) = list_all marshals vs"
| "marshals (JObject fs) = list_all (\<lambda>f. marshals (snd f)) fs"
| "marshals _ = True"

text \<open>A field tagged \<^verbatim>\<open>omitempty\<close>.\<close>

definition json_omitempty :: "string \<Rightarrow> string \<Rightarrow> (string \<times> json) list" where
  "json_omitempty name s = (if s = [] then [] else [(name, JString s)])"

definition JOption :: "('a \<Rightarrow> json) \<Rightarrow> 'a option \<Rightarrow> json" where
  "JOption f x = (case x of None \<Rightarrow> JNull | Some a \<Rightarrow> f a)"

fun json_field :: "string \<Rightarrow> json \<Rightarrow> json option" where
  "json_field name (JObject fs) = map_of fs name"
| "json_field name _ = None"

section \<open>Requests and responses\<close>

text \<open>The identity that the authentication middleware puts into the context of a request.\<close>

record identity =
  idn_UserID :: string
  idn_SessionID :: string
  idn_AccessExpiresAt :: time
  idn_SessionExpiresAt :: time

text \<open>
  \<open>req_Header\<close> is \<^verbatim>\<open>Header.Values\<close>; \<open>req_Cookies\<close> and \<open>req_Query\<close> are what \<^verbatim>\<open>Cookies()\<close> and
  \<^verbatim>\<open>URL.Query()\<close> return, a query with one entry per key.
\<close>

record http_request =
  req_Method :: string
  req_Path :: string
  req_EscapedPath :: string
  req_Host :: string
  req_ProtoMajor :: nat
  req_Header :: "string \<Rightarrow> string list"
  req_Cookies :: "(string \<times> string) list"
  req_RawQuery :: string
  req_Query :: "(string \<times> string list) list"
  req_Body :: string
  req_Identity :: "identity option"

definition header_Get :: "http_request \<Rightarrow> string \<Rightarrow> string" where
  "header_Get req key = (case req_Header req key of [] \<Rightarrow> [] | v # _ \<Rightarrow> v)"

datatype same_site = SameSiteUnset | SameSiteDefaultMode | SameSiteLaxMode | SameSiteStrictMode | SameSiteNoneMode

record http_cookie =
  cok_Name :: string
  cok_Value :: string
  cok_Path :: string
  cok_Domain :: string
  cok_Expires :: time
  cok_MaxAge :: int
  cok_Secure :: bool
  cok_HttpOnly :: bool
  cok_SameSite :: same_site

text \<open>
  What a handler has written: the header, the cookies of \<^verbatim>\<open>http.SetCookie\<close>, the status once it is
  on the wire, and the bodies.  \<open>rsp_Panicked\<close> says that the handler ended by a panic.
\<close>

record http_response =
  rsp_Header :: "string \<Rightarrow> string list"
  rsp_Cookies :: "http_cookie list"
  rsp_Status :: "nat option"
  rsp_Body :: "json list"
  rsp_Panicked :: bool

definition new_response :: http_response where
  "new_response = \<lparr>rsp_Header = (\<lambda>_. []), rsp_Cookies = [], rsp_Status = None, rsp_Body = [], rsp_Panicked = False\<rparr>"

text \<open>Once the status is written, the header and the cookies are on the wire.\<close>

definition header_Set :: "string \<Rightarrow> string \<Rightarrow> http_response \<Rightarrow> http_response" where
  "header_Set key v r =
     (if rsp_Status r = None then r\<lparr>rsp_Header := (rsp_Header r)(key := [v])\<rparr> else r)"

definition header_Add :: "string \<Rightarrow> string \<Rightarrow> http_response \<Rightarrow> http_response" where
  "header_Add key v r =
     (if rsp_Status r = None then r\<lparr>rsp_Header := (rsp_Header r)(key := rsp_Header r key @ [v])\<rparr> else r)"

definition SetCookie :: "http_cookie \<Rightarrow> http_response \<Rightarrow> http_response" where
  "SetCookie c r = (if rsp_Status r = None then r\<lparr>rsp_Cookies := rsp_Cookies r @ [c]\<rparr> else r)"

definition WriteHeader :: "nat \<Rightarrow> http_response \<Rightarrow> http_response" where
  "WriteHeader status r = (if rsp_Status r = None then r\<lparr>rsp_Status := Some status\<rparr> else r)"

text \<open>The server answers 200 for a handler that returns without writing.\<close>

definition sent_status :: "http_response \<Rightarrow> nat" where
  "sent_status r = (case rsp_Status r of None \<Rightarrow> 200 | Some s \<Rightarrow> s)"

section \<open>Writing a response\<close>

definition WriteJSON :: "nat \<Rightarrow> json \<Rightarrow> http_response \<Rightarrow> go_error + http_response" where
  "WriteJSON status payload r =
     (if status < 100 \<or> status > 599 then Inl (NewError ''invalid HTTP status'')
      else if \<not> marshals payload then Inl (NewError ''marshal HTTP JSON response'')
      else
        let r = header_Set ''Content-Type'' ''application/json; charset=utf-8'' r;
            r = header_Set ''X-Content-Type-Options'' ''nosniff'' r;
            r = header_Set ''Cache-Control'' ''no-store'' r;
            r = WriteHeader status r
        in Inr (r\<lparr>rsp_Body := rsp_Body r @ [payload]\<rparr>))"

definition ErrorResponse :: "string \<Rightarrow> json" where
  "ErrorResponse code = JObject [(''error'', JObject [(''code'', JString code)])]"

text \<open>The message beside the code is a constant, not empty, and left out.\<close>

definition WriteError :: "nat \<Rightarrow> string \<Rightarrow> http_response \<Rightarrow> go_error + http_response" where
  "WriteError status code r =
     (if code = [] then Inl (NewError ''invalid HTTP error response'')
      else WriteJSON status (ErrorResponse code) r)"

text \<open>The handlers only log an error of these functions.\<close>

definition writePublicError :: "nat \<Rightarrow> string \<Rightarrow> http_response \<Rightarrow> http_response" where
  "writePublicError status code r = (case WriteError status code r of Inl _ \<Rightarrow> r | Inr r' \<Rightarrow> r')"

definition writePayload :: "nat \<Rightarrow> json \<Rightarrow> http_response \<Rightarrow> http_response" where
  "writePayload status payload r = (case WriteJSON status payload r of Inl _ \<Rightarrow> r | Inr r' \<Rightarrow> r')"

definition writeNoContent :: "http_response \<Rightarrow> http_response" where
  "writeNoContent r = WriteHeader 204 (header_Set ''Cache-Control'' ''no-store'' r)"

section \<open>Handlers\<close>

type_synonym 'w handler = "http_request \<Rightarrow> 'w \<times> http_response \<Rightarrow> 'w \<times> http_response"

text \<open>A step that only writes.\<close>

abbreviation writing :: "(http_response \<Rightarrow> http_response) \<Rightarrow> 'w \<times> http_response \<Rightarrow> 'w \<times> http_response" where
  "writing f \<equiv> map_prod (\<lambda>w. w) f"

fun is_panic :: "go_error \<Rightarrow> bool" where
  "is_panic (Panic _) = True"
| "is_panic _ = False"

text \<open>
  \<open>executing m h k\<close> is \<^verbatim>\<open>output, err := m(); if err != nil { h(err); return }; k(output)\<close>; a panic
  of \<open>m\<close> leaves the handler.
\<close>

definition executing ::
  "('w, go_error, 'a) call \<Rightarrow> (go_error \<Rightarrow> 'w \<times> http_response \<Rightarrow> 'w \<times> http_response)
     \<Rightarrow> ('a \<Rightarrow> 'w \<times> http_response \<Rightarrow> 'w \<times> http_response) \<Rightarrow> 'w \<times> http_response \<Rightarrow> 'w \<times> http_response" where
  "executing m h k s =
     (case m (fst s) of
        (w', Inl e) \<Rightarrow> if is_panic e then (w', (snd s)\<lparr>rsp_Panicked := True\<rparr>) else h e (w', snd s)
      | (w', Inr a) \<Rightarrow> k a (w', snd s))"

text \<open>\<^verbatim>\<open>recovery.Middleware.Wrap\<close>: a panic is answered with 500 when nothing was written yet.\<close>

definition recovered :: "http_response \<Rightarrow> http_response" where
  "recovered r =
     (if \<not> rsp_Panicked r then r
      else
        let r = r\<lparr>rsp_Panicked := False\<rparr> in
        if rsp_Status r \<noteq> None then r else writePublicError 500 ''internal_server_error'' r)"

definition recovery_Wrap :: "'w handler \<Rightarrow> 'w handler" where
  "recovery_Wrap nxt req s = writing recovered (nxt req s)"

section \<open>Reading a JSON body\<close>

text \<open>
  The scanner of \<^verbatim>\<open>encoding/json\<close> is a parameter: it reads one value from what is left of the
  body, \<open>True\<close> beside the bytes meaning that the reader ends with \<^verbatim>\<open>http.MaxBytesError\<close> and not
  with \<^verbatim>\<open>io.EOF\<close>.  Storing the value into a struct is modelled below.
\<close>

datatype json_error =
    MaxBytesError
  | EOF
  | SyntaxError nat
  | UnmarshalTypeError string
  | UnknownField string
  | ReadError go_error

type_synonym body_reader = "string \<times> bool"
type_synonym json_scanner = "body_reader \<Rightarrow> (json_error + json) \<times> body_reader"

definition MaxBytesReader :: "nat \<Rightarrow> string \<Rightarrow> body_reader" where
  "MaxBytesReader limit body = (take limit body, length body > limit)"

abbreviation requestErr :: "request_error \<Rightarrow> go_error" where
  "requestErr e \<equiv> Sentinel (RequestE e)"

definition classifyDecodeError :: "json_error \<Rightarrow> go_error" where
  "classifyDecodeError err =
     (case err of
        MaxBytesError \<Rightarrow> requestErr Request_ErrBodyTooLarge
      | EOF \<Rightarrow> requestErr Request_ErrEmptyBody
      | SyntaxError offset \<Rightarrow> Wrap (''syntax error near byte '' @ decimal offset) (requestErr Request_ErrMalformedJSON)
      | UnmarshalTypeError field \<Rightarrow> Wrap (''invalid value for field '' @ field) (requestErr Request_ErrMalformedJSON)
      | UnknownField _ \<Rightarrow> Wrap ''unknown field'' (requestErr Request_ErrMalformedJSON)
      | ReadError e \<Rightarrow> Wrap ''decode JSON request'' e)"

definition classifyTrailingJSONError :: "json_error \<Rightarrow> go_error" where
  "classifyTrailingJSONError err =
     (if err = MaxBytesError then requestErr Request_ErrBodyTooLarge
      else Wrap ''invalid trailing content'' (requestErr Request_ErrMalformedJSON))"

text \<open>\<open>mediaType\<close> is the media type that \<^verbatim>\<open>mime.ParseMediaType\<close> returns.\<close>

definition ValidateJSONContentType :: "(string \<Rightarrow> string option) \<Rightarrow> http_request \<Rightarrow> go_error + unit" where
  "ValidateJSONContentType mediaType req =
     (if mediaType (header_Get req ''Content-Type'') \<noteq> Some ''application/json''
      then Inl (requestErr Request_ErrUnsupportedMediaType) else Inr ())"

text \<open>
  The second value is decoded into an empty struct with unknown fields disallowed: \<^verbatim>\<open>null\<close> and
  an empty object are values, anything else is an error.
\<close>

definition DecodeJSON ::
  "(string \<Rightarrow> string option) \<Rightarrow> json_scanner \<Rightarrow> (json \<Rightarrow> json_error + 'a) \<Rightarrow> http_request \<Rightarrow> nat \<Rightarrow> go_error + 'a" where
  "DecodeJSON mediaType scan unmarshal req maxBytes =
     (if maxBytes = 0 then Inl (requestErr Request_ErrInvalidBodyLimit)
      else andThen (ValidateJSONContentType mediaType req) (\<lambda>e. e) (\<lambda>_.
        case scan (MaxBytesReader maxBytes (req_Body req)) of
          (Inl err, _) \<Rightarrow> Inl (classifyDecodeError err)
        | (Inr v, rest) \<Rightarrow>
            andThen (unmarshal v) classifyDecodeError (\<lambda>x.
            case fst (scan rest) of
              Inl err \<Rightarrow> if err = EOF then Inr x else Inl (classifyTrailingJSONError err)
            | Inr JNull \<Rightarrow> Inl (requestErr Request_ErrMultipleJSONValues)
            | Inr (JObject []) \<Rightarrow> Inl (requestErr Request_ErrMultipleJSONValues)
            | Inr _ \<Rightarrow> Inl (classifyTrailingJSONError (UnmarshalTypeError [])))))"

subsection \<open>Storing a value into a struct\<close>

text \<open>
  A key is matched to a field exactly, or else ignoring case; the folding of
  \<^verbatim>\<open>encoding/json\<close> takes U+017F to \<^verbatim>\<open>S\<close> and U+212A to \<^verbatim>\<open>K\<close>.
\<close>

fun foldName :: "string \<Rightarrow> string" where
  "foldName [] = []"
| "foldName (c # s) =
     (if c = CHR 0xC5 \<and> take 1 s = [CHR 0xBF] then CHR ''S'' # foldName (drop 1 s)
      else if c = CHR 0xE2 \<and> take 2 s = [CHR 0x84, CHR 0xAA] then CHR ''K'' # foldName (drop 2 s)
      else upper_char c # foldName s)"

type_synonym 'a field_decoder = "json \<Rightarrow> 'a \<Rightarrow> json_error + 'a"

definition field_for :: "(string \<times> 'a field_decoder) list \<Rightarrow> string \<Rightarrow> 'a field_decoder option" where
  "field_for table key =
     (case map_of table key of
        Some d \<Rightarrow> Some d
      | None \<Rightarrow> map_of (map (\<lambda>(name, d). (foldName name, d)) table) (foldName key))"

fun decode_fields :: "(string \<times> 'a field_decoder) list \<Rightarrow> (string \<times> json) list \<Rightarrow> 'a \<Rightarrow> json_error + 'a" where
  "decode_fields table [] x = Inr x"
| "decode_fields table ((key, v) # fs) x =
     (case field_for table key of
        None \<Rightarrow> Inl (UnknownField key)
      | Some d \<Rightarrow> andThen (d v x) (\<lambda>e. e) (decode_fields table fs))"

definition decode_struct :: "(string \<times> 'a field_decoder) list \<Rightarrow> 'a field_decoder" where
  "decode_struct table v x =
     (case v of
        JNull \<Rightarrow> Inr x
      | JObject fs \<Rightarrow> decode_fields table fs x
      | _ \<Rightarrow> Inl (UnmarshalTypeError []))"

definition string_field :: "string \<Rightarrow> (string \<Rightarrow> 'a \<Rightarrow> 'a) \<Rightarrow> string \<times> 'a field_decoder" where
  "string_field name put =
     (name, \<lambda>v x. case v of
        JNull \<Rightarrow> Inr x
      | JString s \<Rightarrow> Inr (put s x)
      | _ \<Rightarrow> Inl (UnmarshalTypeError name))"

end
