(* ===== verification/Hub.thy ===== *)
theory Hub
  imports DomainSession Delivery Http
begin

text \<open>
  The WebSocket gateway of \<^verbatim>\<open>internal/drivers/websocket\<close>: its registry of connections and of users'
  subscriptions (\<^verbatim>\<open>hub.go\<close>), the outbound queue of a connection (\<^verbatim>\<open>connection.go\<close>) and the periodic
  validation of sessions (\<^verbatim>\<open>session.go\<close>).

  Connections and user states are shared by reference, so the gateway keeps them in stores indexed
  by an address.  What the source does under one lock is one function, hence atomic; the step
  relation \<open>gateway_step\<close> interleaves them.  A channel that is only closed is a flag or an option; a
  \<^verbatim>\<open>sync.Once\<close> is the guard of its flag.  The random identifier, the health of the subscriber and the
  time are arguments of the functions that read them.
\<close>

record realtime_config =
  rtc_NATSURL :: string
  rtc_ReadyTimeout :: duration
  rtc_NATSFlushTimeout :: duration
  rtc_PingInterval :: duration
  rtc_PongTimeout :: duration
  rtc_WriteTimeout :: duration
  rtc_SessionCheckInterval :: duration
  rtc_SessionCheckTimeout :: duration
  rtc_ShutdownTimeout :: duration
  rtc_MaxMessageBytes :: int
  rtc_QueueMessages :: int
  rtc_QueueBytes :: int
  rtc_MaxConnectionsPerUser :: int
  rtc_MaxConnections :: int

definition errUnavailable :: go_error where "errUnavailable = NewError ''realtime unavailable''"
definition errConnectionLimit :: go_error where "errConnectionLimit = NewError ''realtime connection limit''"

text \<open>Status codes of the close frame.\<close>

definition StatusNormalClosure :: int where "StatusNormalClosure = 1000"
definition StatusGoingAway :: int where "StatusGoingAway = 1001"
definition StatusPolicyViolation :: int where "StatusPolicyViolation = 1008"
definition StatusTryAgainLater :: int where "StatusTryAgainLater = 1013"

text \<open>
  A connection: \<open>cnn_stop\<close> is the closed channel \<^verbatim>\<open>stop\<close> with the code and the reason;
  \<open>cnn_written\<close> is what its socket was given to send.
\<close>

record connection =
  cnn_id :: string
  cnn_identity :: identity
  cnn_user :: nat
  cnn_queue :: "string list"
  cnn_queuedBytes :: int
  cnn_ready :: bool
  cnn_stop :: "(int \<times> string) option"
  cnn_cancelled :: bool
  cnn_released :: bool
  cnn_written :: "string list"

record user_state =
  ust_id :: string
  ust_clients :: "nat list"
  ust_ready :: bool
  ust_started :: bool
  ust_failed :: bool
  ust_err :: "go_error option"
  ust_sub :: "nat option"
  ust_cancelled :: bool

record attempt_window =
  atw_at :: time
  atw_count :: int

text \<open>
  The gateway.  \<^verbatim>\<open>perUser\<close> is a function that is 0 for absent users; \<open>gw_closedSubs\<close> lists the
  subscriptions that were closed; \<open>gw_wg\<close> is the counter of the wait group.
\<close>

record gateway =
  gw_config :: realtime_config
  gw_conns :: "nat \<Rightarrow> connection option"
  gw_states :: "nat \<Rightarrow> user_state option"
  gw_next :: nat
  gw_users :: "string \<Rightarrow> nat option"
  gw_clients :: "nat list"
  gw_perUser :: "string \<Rightarrow> int"
  gw_attempts :: "(string \<times> attempt_window) list"
  gw_draining :: bool
  gw_wg :: int
  gw_closedSubs :: "nat list"
  gw_events :: int
  gw_overflows :: int

definition new_gateway :: "realtime_config \<Rightarrow> gateway" where
  "new_gateway cfg =
     \<lparr>gw_config = cfg, gw_conns = (\<lambda>_. None), gw_states = (\<lambda>_. None), gw_next = 0, gw_users = (\<lambda>_. None),
      gw_clients = [], gw_perUser = (\<lambda>_. 0), gw_attempts = [], gw_draining = False, gw_wg = 0,
      gw_closedSubs = [], gw_events = 0, gw_overflows = 0\<rparr>"

section \<open>Registering connections\<close>

definition attempts_of :: "gateway \<Rightarrow> string \<Rightarrow> attempt_window" where
  "attempts_of g userID =
     (case map_of (gw_attempts g) userID of None \<Rightarrow> \<lparr>atw_at = 0, atw_count = 0\<rparr> | Some window \<Rightarrow> window)"

definition put_attempts :: "string \<Rightarrow> attempt_window \<Rightarrow> (string \<times> attempt_window) list \<Rightarrow> (string \<times> attempt_window) list" where
  "put_attempts userID window attempts = (userID, window) # filter (\<lambda>(u, _). u \<noteq> userID) attempts"

definition new_user_state :: "string \<Rightarrow> user_state" where
  "new_user_state userID =
     \<lparr>ust_id = userID, ust_clients = [], ust_ready = False, ust_started = False, ust_failed = False,
      ust_err = None, ust_sub = None, ust_cancelled = False\<rparr>"

text \<open>\<^verbatim>\<open>state := g.users[identity.UserID]\<close>, replaced when there is none or it failed.\<close>

definition user_state_for :: "string \<Rightarrow> gateway \<Rightarrow> gateway \<times> nat" where
  "user_state_for userID g =
     (case gw_users g userID of
        Some a \<Rightarrow>
          (case gw_states g a of
             Some st \<Rightarrow> if \<not> ust_failed st then (g, a) else
               (g\<lparr>gw_states := (gw_states g)(gw_next g \<mapsto> new_user_state userID), gw_next := gw_next g + 1,
                  gw_users := (gw_users g)(userID \<mapsto> gw_next g)\<rparr>, gw_next g)
           | None \<Rightarrow>
               (g\<lparr>gw_states := (gw_states g)(gw_next g \<mapsto> new_user_state userID), gw_next := gw_next g + 1,
                  gw_users := (gw_users g)(userID \<mapsto> gw_next g)\<rparr>, gw_next g))
      | None \<Rightarrow>
          (g\<lparr>gw_states := (gw_states g)(gw_next g \<mapsto> new_user_state userID), gw_next := gw_next g + 1,
             gw_users := (gw_users g)(userID \<mapsto> gw_next g)\<rparr>, gw_next g))"

definition add_client :: "nat \<Rightarrow> user_state \<Rightarrow> user_state" where
  "add_client c st = st\<lparr>ust_clients := c # ust_clients st\<rparr>"

definition register :: "string \<Rightarrow> identity \<Rightarrow> gateway \<Rightarrow> gateway \<times> nat" where
  "register ident identity g =
     (case user_state_for (idn_UserID identity) g of
        (g, state) \<Rightarrow>
          let c = gw_next g in
          (g\<lparr>gw_conns := (gw_conns g)(c \<mapsto>
               \<lparr>cnn_id = ident, cnn_identity = identity, cnn_user = state, cnn_queue = [], cnn_queuedBytes = 0,
                cnn_ready = False, cnn_stop = None, cnn_cancelled = False, cnn_released = False,
                cnn_written = []\<rparr>),
             gw_next := c + 1,
             gw_states := (gw_states g)(state := map_option (add_client c) (gw_states g state)),
             gw_clients := c # gw_clients g,
             gw_perUser := (gw_perUser g)(idn_UserID identity := gw_perUser g (idn_UserID identity) + 1),
             gw_wg := gw_wg g + 1\<rparr>, c))"

definition reserve ::
  "go_error + string \<Rightarrow> time \<Rightarrow> bool \<Rightarrow> identity \<Rightarrow> gateway \<Rightarrow> gateway \<times> (go_error + nat)" where
  "reserve newID now healthy identity g =
     (case newID of
        Inl err \<Rightarrow> (g, Inl err)
      | Inr ident \<Rightarrow>
          let cfg = gw_config g; userID = idn_UserID identity in
          if gw_draining g \<or> \<not> healthy then (g, Inl errUnavailable)
          else if int (length (gw_clients g)) \<ge> rtc_MaxConnections cfg \<or>
                  gw_perUser g userID \<ge> rtc_MaxConnectionsPerUser cfg
            then (g, Inl errConnectionLimit)
          else
            let window = attempts_of g userID;
                window = (if time_Sub now (atw_at window) \<ge> minute then \<lparr>atw_at = now, atw_count = 0\<rparr> else window)
            in
            if atw_count window \<ge> rtc_MaxConnectionsPerUser cfg * 6 then (g, Inl errConnectionLimit)
            else if atw_count window = 0 \<and> int (length (gw_attempts g)) \<ge> rtc_MaxConnections cfg * 4
              then (g, Inl errConnectionLimit)
            else
              case register ident identity
                     (g\<lparr>gw_attempts := put_attempts userID (window\<lparr>atw_count := atw_count window + 1\<rparr>) (gw_attempts g)\<rparr>)
              of (g', c) \<Rightarrow> (g', Inr c))"

text \<open>
  \<^verbatim>\<open>release\<close>: the deletions under the lock, then the subscription of the last client is closed.
\<close>

primrec subs_of :: "nat option \<Rightarrow> nat list" where
  "subs_of None = []"
| "subs_of (Some sub) = [sub]"

definition release :: "nat \<Rightarrow> gateway \<Rightarrow> gateway" where
  "release c g =
     (case gw_conns g c of
        None \<Rightarrow> g
      | Some cn \<Rightarrow>
          if cnn_released cn then g
          else
            case gw_states g (cnn_user cn) of
              None \<Rightarrow> g
            | Some st \<Rightarrow>
                let userID = idn_UserID (cnn_identity cn);
                    clients = filter (\<lambda>x. x \<noteq> c) (ust_clients st);
                    last_one = (clients = []);
                    st' = st\<lparr>ust_clients := clients, ust_cancelled := ust_cancelled st \<or> last_one\<rparr>
                in g\<lparr>gw_conns := (gw_conns g)(c \<mapsto> cn\<lparr>cnn_cancelled := True, cnn_released := True\<rparr>),
                     gw_clients := filter (\<lambda>x. x \<noteq> c) (gw_clients g),
                     gw_perUser := (gw_perUser g)(userID := gw_perUser g userID - 1),
                     gw_states := (gw_states g)(cnn_user cn \<mapsto> st'),
                     gw_users :=
                       (if last_one \<and> gw_users g userID = Some (cnn_user cn)
                        then (gw_users g)(userID := None) else gw_users g),
                     gw_closedSubs :=
                       (if last_one then subs_of (ust_sub st) else []) @ gw_closedSubs g,
                     gw_wg := gw_wg g - 1\<rparr>)"

section \<open>The queue of a connection\<close>

definition on_conn :: "nat \<Rightarrow> (connection \<Rightarrow> connection) \<Rightarrow> gateway \<Rightarrow> gateway" where
  "on_conn c f g = g\<lparr>gw_conns := (gw_conns g)(c := map_option f (gw_conns g c))\<rparr>"

definition requestClose :: "int \<Rightarrow> string \<Rightarrow> connection \<Rightarrow> connection" where
  "requestClose code reason cn = (if cnn_stop cn = None then cn\<lparr>cnn_stop := Some (code, reason)\<rparr> else cn)"

definition queue_full :: "realtime_config \<Rightarrow> connection \<Rightarrow> string \<Rightarrow> bool" where
  "queue_full cfg cn data \<longleftrightarrow>
     int (length (cnn_queue cn)) \<ge> rtc_QueueMessages cfg \<or>
     cnn_queuedBytes cn + int (length data) > rtc_QueueBytes cfg"

definition enqueue :: "string \<Rightarrow> nat \<Rightarrow> gateway \<Rightarrow> gateway" where
  "enqueue data c g =
     (case gw_conns g c of
        None \<Rightarrow> g
      | Some cn \<Rightarrow>
          if cnn_stop cn \<noteq> None then g
          else if queue_full (gw_config g) cn data
            then on_conn c (requestClose StatusTryAgainLater ''outbound queue full'')
                   (g\<lparr>gw_overflows := gw_overflows g + 1\<rparr>)
          else on_conn c (\<lambda>cn. cn\<lparr>cnn_queue := cnn_queue cn @ [data],
                                  cnn_queuedBytes := cnn_queuedBytes cn + int (length data)\<rparr>) g)"

text \<open>\<open>ready_json\<close> marshals the greeting \<^verbatim>\<open>connection.ready\<close> from the identifier and the identity of a connection.\<close>

definition activate :: "(string \<Rightarrow> identity \<Rightarrow> string) \<Rightarrow> nat \<Rightarrow> gateway \<Rightarrow> gateway" where
  "activate ready_json c g =
     (case gw_conns g c of
        None \<Rightarrow> g
      | Some cn \<Rightarrow>
          let data = ready_json (cnn_id cn) (cnn_identity cn) in
          if queue_full (gw_config g) cn data
          then on_conn c (requestClose StatusTryAgainLater ''preparation buffer full'')
                 (g\<lparr>gw_overflows := gw_overflows g + 1\<rparr>)
          else on_conn c (\<lambda>cn. cn\<lparr>cnn_queue := data # cnn_queue cn,
                                  cnn_queuedBytes := cnn_queuedBytes cn + int (length data),
                                  cnn_ready := True\<rparr>) g)"

text \<open>
  One round of the inner loop of \<^verbatim>\<open>writeLoop\<close>: unless a close was requested, the head of the queue of
  a ready connection is taken out and given to the socket; a failing write requests a close.
\<close>

definition write_next :: "bool \<Rightarrow> nat \<Rightarrow> gateway \<Rightarrow> gateway" where
  "write_next write_fails c g =
     (case gw_conns g c of
        None \<Rightarrow> g
      | Some cn \<Rightarrow>
          if cnn_stop cn \<noteq> None then g
          else if \<not> cnn_ready cn \<or> cnn_queue cn = [] then g
          else
            let data = hd (cnn_queue cn);
                cn' = cn\<lparr>cnn_queue := tl (cnn_queue cn), cnn_queuedBytes := cnn_queuedBytes cn - int (length data),
                         cnn_written := cnn_written cn @ [data]\<rparr>
            in g\<lparr>gw_conns := (gw_conns g)(c \<mapsto>
                 if write_fails then requestClose StatusTryAgainLater ''write failed'' cn' else cn')\<rparr>)"

section \<open>Subscriptions\<close>

text \<open>\<^verbatim>\<open>prepare\<close>, up to the goroutine it starts; the flag says whether it starts one.\<close>

definition prepare :: "nat \<Rightarrow> gateway \<Rightarrow> gateway \<times> bool" where
  "prepare a g =
     (case gw_states g a of
        None \<Rightarrow> (g, False)
      | Some st \<Rightarrow>
          if ust_started st \<or> gw_draining g then (g, False)
          else (g\<lparr>gw_states := (gw_states g)(a \<mapsto> st\<lparr>ust_started := True\<rparr>), gw_wg := gw_wg g + 1\<rparr>, True))"

text \<open>The goroutine after \<^verbatim>\<open>Subscribe\<close> returned a subscription and an error.\<close>

definition prepared :: "nat \<Rightarrow> nat option \<Rightarrow> go_error option \<Rightarrow> bool \<Rightarrow> gateway \<Rightarrow> gateway" where
  "prepared a sub err healthy g =
     (case gw_states g a of
        None \<Rightarrow> g
      | Some st \<Rightarrow>
          let abandoned = (ust_clients st = [] \<or> gw_draining g \<or> ust_failed st \<or> \<not> healthy);
              err = (if err = None \<and> abandoned then Some errUnavailable else err);
              st' = (if err = None then st\<lparr>ust_sub := sub\<rparr> else st\<lparr>ust_failed := True\<rparr>)
          in g\<lparr>gw_states := (gw_states g)(a \<mapsto> st'\<lparr>ust_err := err, ust_ready := True\<rparr>),
               gw_closedSubs :=
                 (if err \<noteq> None then subs_of sub else []) @ gw_closedSubs g,
               gw_wg := gw_wg g - 1\<rparr>)"

definition failUser :: "nat \<Rightarrow> gateway \<Rightarrow> gateway" where
  "failUser a g =
     (case gw_states g a of
        None \<Rightarrow> g
      | Some st \<Rightarrow>
          fold (\<lambda>c. on_conn c (requestClose StatusTryAgainLater ''realtime unavailable'')) (ust_clients st)
            (g\<lparr>gw_states := (gw_states g)(a \<mapsto> st\<lparr>ust_failed := True\<rparr>)\<rparr>))"

text \<open>\<open>marshal\<close> is \<^verbatim>\<open>json.Marshal\<close> on events.\<close>

definition broadcast ::
  "(realtime_message_created \<Rightarrow> string option) \<Rightarrow> nat \<Rightarrow> realtime_message_created \<Rightarrow> gateway \<Rightarrow> gateway" where
  "broadcast marshal a event g =
     (if \<not> isOk (ValidateRealtimeMessage event) then failUser a g
      else
        case marshal event of
          None \<Rightarrow> failUser a g
        | Some data \<Rightarrow>
            if int (length data) > rtc_MaxMessageBytes (gw_config g) then failUser a g
            else
              case gw_states g a of
                None \<Rightarrow> g
              | Some st \<Rightarrow>
                  if ust_failed st then g
                  else fold (enqueue data) (ust_clients st) (g\<lparr>gw_events := gw_events g + 1\<rparr>))"

text \<open>\<^verbatim>\<open>Shutdown\<close>, up to the wait for the connections to end.\<close>

definition fail_registered :: "gateway \<Rightarrow> nat \<Rightarrow> user_state option" where
  "fail_registered g a =
     map_option (\<lambda>st. if gw_users g (ust_id st) = Some a
                      then st\<lparr>ust_failed := True, ust_cancelled := True\<rparr> else st) (gw_states g a)"

definition Shutdown :: "gateway \<Rightarrow> gateway" where
  "Shutdown g =
     fold (\<lambda>c. on_conn c (requestClose StatusGoingAway ''server shutdown'')) (gw_clients g)
       (g\<lparr>gw_draining := True, gw_states := fail_registered g\<rparr>)"

section \<open>Session validation\<close>

text \<open>The expired attempt windows are dropped.\<close>

definition expire_attempts :: "time \<Rightarrow> gateway \<Rightarrow> gateway" where
  "expire_attempts now g =
     g\<lparr>gw_attempts := filter (\<lambda>(_, window). \<not> time_Sub now (atw_at window) \<ge> minute) (gw_attempts g)\<rparr>"

definition close_conn :: "int \<Rightarrow> string \<Rightarrow> nat \<Rightarrow> gateway \<Rightarrow> gateway" where
  "close_conn code reason c = on_conn c (requestClose code reason)"

text \<open>
  \<open>groups\<close> are the connections by their session; \<open>answer\<close> is what \<^verbatim>\<open>FindByIDs\<close> returned and
  \<open>now c\<close> the time that is read for the connection \<open>c\<close>.
\<close>

definition validate_client ::
  "(go_error + session list) \<Rightarrow> (nat \<Rightarrow> time) \<Rightarrow> string \<Rightarrow> nat \<Rightarrow> gateway \<Rightarrow> gateway" where
  "validate_client answer now ident c g =
     (case gw_conns g c of
        None \<Rightarrow> g
      | Some cn \<Rightarrow>
          case answer of
            Inl err \<Rightarrow> close_conn StatusTryAgainLater ''session validation unavailable'' c g
          | Inr sessions \<Rightarrow>
              let stored = map_of (rev (map (\<lambda>s. (ses_id s, s)) sessions)) ident in
              if (case stored of
                    None \<Rightarrow> True
                  | Some s \<Rightarrow> \<not> isOk (EnsureActive s (UTC (now c))) \<or> ses_userID s \<noteq> idn_UserID (cnn_identity cn))
              then close_conn 4003 ''session inactive'' c g
              else g)"

definition validateSessionBatch ::
  "(string \<times> nat list) list \<Rightarrow> (go_error + session list) \<Rightarrow> (nat \<Rightarrow> time) \<Rightarrow> gateway \<Rightarrow> gateway" where
  "validateSessionBatch groups answer now g =
     (let g = fold (\<lambda>(raw, clients) g.
                if isOk (session_ParseID raw) then g
                else fold (close_conn 4003 ''invalid session'') clients g) groups g
      in fold (\<lambda>(ident, clients) g. fold (validate_client answer now ident) clients g) groups g)"

definition validateSession ::
  "string \<Rightarrow> nat list \<Rightarrow> (go_error + session option) \<Rightarrow> time \<Rightarrow> gateway \<Rightarrow> gateway" where
  "validateSession rawID clients answer now g =
     (if \<not> isOk (session_ParseID rawID) then fold (close_conn 4003 ''invalid session'') clients g
      else
        let code =
              (case answer of
                 Inl err \<Rightarrow> if errors_is err (PortsE ErrSessionNotFound) then 4003 else StatusTryAgainLater
               | Inr None \<Rightarrow> StatusTryAgainLater
               | Inr (Some stored) \<Rightarrow> if isOk (EnsureActive stored (UTC now)) then 0 else 4003)
        in fold (\<lambda>c g.
             case gw_conns g c of
               None \<Rightarrow> g
             | Some cn \<Rightarrow>
                 let actual =
                       (if code = 0
                        then (case answer of
                                Inr (Some stored) \<Rightarrow>
                                  if ses_userID stored \<noteq> idn_UserID (cnn_identity cn) then 4003 else 0
                              | _ \<Rightarrow> 0)
                        else code)
                 in if actual \<noteq> 0 then close_conn actual ''session validation ended'' c g else g) clients g)"

section \<open>Interleavings\<close>

text \<open>
  Every step the gateway can make.  A connection is activated once, by its \<^verbatim>\<open>run\<close>, and only when its
  user's state became ready without an error; the goroutine of \<^verbatim>\<open>prepare\<close> finishes once; events come
  from a subscription, so to a state that was started; \<^verbatim>\<open>release\<close> is deferred in the handler.
\<close>

inductive gateway_step ::
  "(realtime_message_created \<Rightarrow> string option) \<Rightarrow> (string \<Rightarrow> identity \<Rightarrow> string) \<Rightarrow> gateway \<Rightarrow> gateway \<Rightarrow> bool"
  for marshal ready_json where
  step_reserve: "reserve newID now healthy identity g = (g', r) \<Longrightarrow> gateway_step marshal ready_json g g'"
| step_release: "c \<in> set (gw_clients g) \<Longrightarrow> gateway_step marshal ready_json g (release c g)"
| step_prepare: "prepare a g = (g', started) \<Longrightarrow> gateway_step marshal ready_json g g'"
| step_prepared: "gw_states g a = Some st \<Longrightarrow> ust_started st \<Longrightarrow> \<not> ust_ready st \<Longrightarrow> (sub = None \<Longrightarrow> err \<noteq> None) \<Longrightarrow>
    gateway_step marshal ready_json g (prepared a sub err healthy g)"
| step_broadcast: "gw_states g a = Some st \<Longrightarrow> ust_started st \<Longrightarrow>
    gateway_step marshal ready_json g (broadcast marshal a event g)"
| step_failUser: "gateway_step marshal ready_json g (failUser a g)"
| step_activate: "gw_conns g c = Some cn \<Longrightarrow> \<not> cnn_ready cn \<Longrightarrow> gw_states g (cnn_user cn) = Some st \<Longrightarrow>
    ust_ready st \<Longrightarrow> ust_err st = None \<Longrightarrow> \<not> ust_failed st \<Longrightarrow>
    gateway_step marshal ready_json g (activate ready_json c g)"
| step_write: "gateway_step marshal ready_json g (write_next write_fails c g)"
| step_close: "gateway_step marshal ready_json g (close_conn code reason c g)"
| step_validate: "gateway_step marshal ready_json g (validateSessionBatch groups answer nows g)"
| step_expire: "gateway_step marshal ready_json g (expire_attempts now g)"
| step_shutdown: "gateway_step marshal ready_json g (Shutdown g)"

end
