(* ===== verification/HubSafety.thy ===== *)
theory HubSafety
  imports Hub
begin

text \<open>
  What every interleaving of the gateway keeps: the limits on connections, the agreement of its
  registers, the bounds of the queues, and that a connection is greeted first and then only gets the
  events of its own user.
\<close>

section \<open>Queues\<close>

definition queue_ok :: "realtime_config \<Rightarrow> (string \<Rightarrow> identity \<Rightarrow> string) \<Rightarrow> connection \<Rightarrow> bool" where
  "queue_ok cfg ready_json cn \<longleftrightarrow>
     int (length (cnn_queue cn)) \<le> rtc_QueueMessages cfg \<and>
     cnn_queuedBytes cn = sum_list (map (\<lambda>d. int (length d)) (cnn_queue cn)) \<and>
     cnn_queuedBytes cn \<le> rtc_QueueBytes cfg \<and>
     (if cnn_ready cn
      then \<exists>events. cnn_written cn @ cnn_queue cn = ready_json (cnn_id cn) (cnn_identity cn) # events
      else cnn_written cn = [])"

definition queues_ok :: "(string \<Rightarrow> identity \<Rightarrow> string) \<Rightarrow> gateway \<Rightarrow> bool" where
  "queues_ok ready_json g \<longleftrightarrow>
     0 \<le> rtc_QueueMessages (gw_config g) \<and> 0 \<le> rtc_QueueBytes (gw_config g) \<and>
     (\<forall>c cn. gw_conns g c = Some cn \<longrightarrow> queue_ok (gw_config g) ready_json cn)"

lemma on_conn_sel [simp]:
  "gw_config (on_conn c f g) = gw_config g" "gw_states (on_conn c f g) = gw_states g"
  "gw_users (on_conn c f g) = gw_users g" "gw_clients (on_conn c f g) = gw_clients g"
  "gw_perUser (on_conn c f g) = gw_perUser g" "gw_next (on_conn c f g) = gw_next g"
  "gw_wg (on_conn c f g) = gw_wg g" "gw_closedSubs (on_conn c f g) = gw_closedSubs g"
  "gw_draining (on_conn c f g) = gw_draining g"
  "gw_conns (on_conn c f g) x = (if x = c then map_option f (gw_conns g c) else gw_conns g x)"
  by (simp_all add: on_conn_def)

lemma on_conn_queues:
  "(\<And>cn. gw_conns g c = Some cn \<Longrightarrow> queue_ok (gw_config g) rj cn \<Longrightarrow> queue_ok (gw_config g) rj (f cn)) \<Longrightarrow>
   queues_ok rj g \<Longrightarrow> queues_ok rj (on_conn c f g)"
  by (auto simp: queues_ok_def)

lemma queues_same: "gw_conns g' = gw_conns g \<Longrightarrow> gw_config g' = gw_config g \<Longrightarrow> queues_ok rj g' = queues_ok rj g"
  by (simp add: queues_ok_def)

lemma requestClose_sel [simp]:
  "cnn_id (requestClose code reason cn) = cnn_id cn" "cnn_identity (requestClose code reason cn) = cnn_identity cn"
  "cnn_user (requestClose code reason cn) = cnn_user cn" "cnn_queue (requestClose code reason cn) = cnn_queue cn"
  "cnn_queuedBytes (requestClose code reason cn) = cnn_queuedBytes cn"
  "cnn_ready (requestClose code reason cn) = cnn_ready cn" "cnn_released (requestClose code reason cn) = cnn_released cn"
  "cnn_written (requestClose code reason cn) = cnn_written cn"
  by (simp_all add: requestClose_def)

lemma requestClose_queue [simp]: "queue_ok cfg rj (requestClose code reason cn) = queue_ok cfg rj cn"
  by (simp add: queue_ok_def)

lemma close_queues: "queues_ok rj g \<Longrightarrow> queues_ok rj (on_conn c (requestClose code reason) g)"
  by (rule on_conn_queues) simp_all

lemma enqueue_queues:
  assumes "queues_ok rj g"
  shows "queues_ok rj (enqueue data c g)"
proof (cases "gw_conns g c")
  case (Some cn)
  have over: "queues_ok rj (g\<lparr>gw_overflows := n\<rparr>)" for n using assms by (simp add: queues_ok_def)
  have "queue_ok (gw_config g) rj cn" using assms Some by (simp add: queues_ok_def)
  then have "\<not> queue_full (gw_config g) cn data \<Longrightarrow>
      queue_ok (gw_config g) rj (cn\<lparr>cnn_queue := cnn_queue cn @ [data], cnn_queuedBytes := cnn_queuedBytes cn + int (length data)\<rparr>)"
    by (auto simp: queue_ok_def queue_full_def) (metis append.assoc append_Cons)
  then show ?thesis
    using assms Some close_queues [OF over]
    by (auto simp: enqueue_def intro!: on_conn_queues)
qed (use assms in \<open>simp add: enqueue_def\<close>)

lemma activate_queues:
  assumes "queues_ok rj g" "gw_conns g c = Some cn" "\<not> cnn_ready cn"
  shows "queues_ok rj (activate rj c g)"
proof -
  let ?data = "rj (cnn_id cn) (cnn_identity cn)"
  have over: "queues_ok rj (g\<lparr>gw_overflows := n\<rparr>)" for n using assms by (simp add: queues_ok_def)
  have "queue_ok (gw_config g) rj cn" using assms by (simp add: queues_ok_def)
  then have "\<not> queue_full (gw_config g) cn ?data \<Longrightarrow>
      queue_ok (gw_config g) rj (cn\<lparr>cnn_queue := ?data # cnn_queue cn,
        cnn_queuedBytes := cnn_queuedBytes cn + int (length ?data), cnn_ready := True\<rparr>)"
    using assms(3) by (auto simp: queue_ok_def queue_full_def)
  then show ?thesis
    using assms close_queues [OF over] by (auto simp: activate_def Let_def intro!: on_conn_queues)
qed

lemma write_queues:
  assumes "queues_ok rj g"
  shows "queues_ok rj (write_next fails c g)"
proof (cases "gw_conns g c")
  case (Some cn)
  have q: "queue_ok (gw_config g) rj cn" using assms Some by (simp add: queues_ok_def)
  show ?thesis
  proof (cases "cnn_stop cn \<noteq> None \<or> \<not> cnn_ready cn \<or> cnn_queue cn = []")
    case True
    then show ?thesis using assms Some by (auto simp: write_next_def)
  next
    case False
    then obtain data rest where queue: "cnn_queue cn = data # rest" by (cases "cnn_queue cn") auto
    let ?cn = "cn\<lparr>cnn_queue := rest, cnn_queuedBytes := cnn_queuedBytes cn - int (length data),
      cnn_written := cnn_written cn @ [data]\<rparr>"
    have "queue_ok (gw_config g) rj ?cn" using q False queue by (auto simp: queue_ok_def)
    then show ?thesis using assms Some False queue by (auto simp: write_next_def Let_def queues_ok_def)
  qed
qed (use assms in \<open>simp add: write_next_def\<close>)


section \<open>The registers\<close>

text \<open>What the registers say, without what only the queues and the subscriptions need.\<close>

definition conn_key :: "connection \<Rightarrow> string \<times> nat \<times> bool" where
  "conn_key cn = (idn_UserID (cnn_identity cn), cnn_user cn, cnn_released cn)"

definition state_key :: "user_state \<Rightarrow> string \<times> nat list" where
  "state_key st = (ust_id st, ust_clients st)"

definition same_registers :: "gateway \<Rightarrow> gateway \<Rightarrow> bool" where
  "same_registers g g' \<longleftrightarrow>
     gw_config g' = gw_config g \<and> gw_clients g' = gw_clients g \<and> gw_perUser g' = gw_perUser g \<and>
     gw_users g' = gw_users g \<and> gw_next g' = gw_next g \<and>
     (\<forall>c. map_option conn_key (gw_conns g' c) = map_option conn_key (gw_conns g c)) \<and>
     (\<forall>a. map_option state_key (gw_states g' a) = map_option state_key (gw_states g a))"

definition clients_of :: "gateway \<Rightarrow> string \<Rightarrow> nat list" where
  "clients_of g u =
     filter (\<lambda>c. \<exists>cn. gw_conns g c = Some cn \<and> idn_UserID (cnn_identity cn) = u) (gw_clients g)"

definition registers_ok :: "gateway \<Rightarrow> bool" where
  "registers_ok g \<longleftrightarrow>
     distinct (gw_clients g) \<and>
     (\<forall>c. c \<in> set (gw_clients g) \<longleftrightarrow> (\<exists>cn. gw_conns g c = Some cn \<and> \<not> cnn_released cn)) \<and>
     (\<forall>u. gw_perUser g u = int (length (clients_of g u)) \<and> gw_perUser g u \<le> rtc_MaxConnectionsPerUser (gw_config g)) \<and>
     int (length (gw_clients g)) \<le> rtc_MaxConnections (gw_config g) \<and>
     (\<forall>a st. gw_states g a = Some st \<longrightarrow> distinct (ust_clients st) \<and>
        (\<forall>c. c \<in> set (ust_clients st) \<longleftrightarrow> c \<in> set (gw_clients g) \<and> (\<exists>cn. gw_conns g c = Some cn \<and> cnn_user cn = a))) \<and>
     (\<forall>c cn. gw_conns g c = Some cn \<longrightarrow>
        (\<exists>st. gw_states g (cnn_user cn) = Some st \<and> ust_id st = idn_UserID (cnn_identity cn))) \<and>
     (\<forall>u a. gw_users g u = Some a \<longrightarrow> (\<exists>st. gw_states g a = Some st \<and> ust_id st = u \<and> ust_clients st \<noteq> [])) \<and>
     (\<forall>c. gw_conns g c \<noteq> None \<longrightarrow> c < gw_next g) \<and> (\<forall>a. gw_states g a \<noteq> None \<longrightarrow> a < gw_next g)"

lemma same_conn:
  assumes "same_registers g g'"
  shows "gw_conns g' c = None \<longleftrightarrow> gw_conns g c = None"
    and "(\<exists>cn. gw_conns g' c = Some cn \<and> P (conn_key cn)) \<longleftrightarrow> (\<exists>cn. gw_conns g c = Some cn \<and> P (conn_key cn))"
    and "(\<forall>cn. gw_conns g' c = Some cn \<longrightarrow> P (conn_key cn)) \<longleftrightarrow> (\<forall>cn. gw_conns g c = Some cn \<longrightarrow> P (conn_key cn))"
proof -
  have key: "map_option conn_key (gw_conns g' c) = map_option conn_key (gw_conns g c)"
    using assms by (simp add: same_registers_def)
  show "gw_conns g' c = None \<longleftrightarrow> gw_conns g c = None" using key by auto
  show "(\<exists>cn. gw_conns g' c = Some cn \<and> P (conn_key cn)) \<longleftrightarrow> (\<exists>cn. gw_conns g c = Some cn \<and> P (conn_key cn))"
    "(\<forall>cn. gw_conns g' c = Some cn \<longrightarrow> P (conn_key cn)) \<longleftrightarrow> (\<forall>cn. gw_conns g c = Some cn \<longrightarrow> P (conn_key cn))"
    using key by (cases "gw_conns g' c"; cases "gw_conns g c"; simp)+
qed

lemma same_state:
  assumes "same_registers g g'"
  shows "gw_states g' a = None \<longleftrightarrow> gw_states g a = None"
    and "(\<exists>st. gw_states g' a = Some st \<and> P (state_key st)) \<longleftrightarrow> (\<exists>st. gw_states g a = Some st \<and> P (state_key st))"
    and "(\<forall>st. gw_states g' a = Some st \<longrightarrow> P (state_key st)) \<longleftrightarrow> (\<forall>st. gw_states g a = Some st \<longrightarrow> P (state_key st))"
proof -
  have key: "map_option state_key (gw_states g' a) = map_option state_key (gw_states g a)"
    using assms by (simp add: same_registers_def)
  show "gw_states g' a = None \<longleftrightarrow> gw_states g a = None" using key by auto
  show "(\<exists>st. gw_states g' a = Some st \<and> P (state_key st)) \<longleftrightarrow> (\<exists>st. gw_states g a = Some st \<and> P (state_key st))"
    "(\<forall>st. gw_states g' a = Some st \<longrightarrow> P (state_key st)) \<longleftrightarrow> (\<forall>st. gw_states g a = Some st \<longrightarrow> P (state_key st))"
    using key by (cases "gw_states g' a"; cases "gw_states g a"; simp)+
qed

text \<open>The registers as a function of the keys.\<close>

lemma registers_ok_keys:
  "registers_ok g \<longleftrightarrow>
     distinct (gw_clients g) \<and>
     (\<forall>c. c \<in> set (gw_clients g) \<longleftrightarrow> (\<exists>cn. gw_conns g c = Some cn \<and> \<not> snd (snd (conn_key cn)))) \<and>
     (\<forall>u. gw_perUser g u =
        int (length (filter (\<lambda>c. \<exists>cn. gw_conns g c = Some cn \<and> fst (conn_key cn) = u) (gw_clients g))) \<and>
        gw_perUser g u \<le> rtc_MaxConnectionsPerUser (gw_config g)) \<and>
     int (length (gw_clients g)) \<le> rtc_MaxConnections (gw_config g) \<and>
     (\<forall>a st. gw_states g a = Some st \<longrightarrow> distinct (snd (state_key st)) \<and>
        (\<forall>c. c \<in> set (snd (state_key st)) \<longleftrightarrow>
           c \<in> set (gw_clients g) \<and> (\<exists>cn. gw_conns g c = Some cn \<and> fst (snd (conn_key cn)) = a))) \<and>
     (\<forall>c cn. gw_conns g c = Some cn \<longrightarrow>
        (\<exists>st. gw_states g (fst (snd (conn_key cn))) = Some st \<and> fst (state_key st) = fst (conn_key cn))) \<and>
     (\<forall>u a. gw_users g u = Some a \<longrightarrow>
        (\<exists>st. gw_states g a = Some st \<and> fst (state_key st) = u \<and> snd (state_key st) \<noteq> [])) \<and>
     (\<forall>c. gw_conns g c \<noteq> None \<longrightarrow> c < gw_next g) \<and> (\<forall>a. gw_states g a \<noteq> None \<longrightarrow> a < gw_next g)"
  by (simp add: registers_ok_def clients_of_def conn_key_def state_key_def)

lemma same_registers_ok:
  assumes "same_registers g g'" "registers_ok g"
  shows "registers_ok g'"
proof -
  note s = assms(1)
  have eqs: "gw_config g' = gw_config g" "gw_clients g' = gw_clients g" "gw_perUser g' = gw_perUser g"
    "gw_users g' = gw_users g" "gw_next g' = gw_next g"
    using s by (simp_all add: same_registers_def)
  have pick: "(\<forall>c cn. gw_conns g' c = Some cn \<longrightarrow>
        (\<exists>st. gw_states g' (fst (snd (conn_key cn))) = Some st \<and> fst (state_key st) = fst (conn_key cn)))
    = (\<forall>c cn. gw_conns g c = Some cn \<longrightarrow>
        (\<exists>st. gw_states g (fst (snd (conn_key cn))) = Some st \<and> fst (state_key st) = fst (conn_key cn)))"
    using same_conn(3) [OF s, where P = "\<lambda>k. \<exists>st. gw_states g' (fst (snd k)) = Some st \<and> fst (state_key st) = fst k"]
      same_state(2) [OF s, where P = "\<lambda>k. fst k = x" for x] by simp
  show ?thesis
    using assms(2) unfolding registers_ok_keys eqs pick
      same_conn(2) [OF s, where P = "\<lambda>k. \<not> snd (snd k)"]
      same_conn(2) [OF s, where P = "\<lambda>k. fst k = x" for x]
      same_conn(2) [OF s, where P = "\<lambda>k. fst (snd k) = x" for x]
      same_state(2) [OF s, where P = "\<lambda>k. fst k = x \<and> snd k \<noteq> []" for x]
      same_state(3) [OF s, where P = "\<lambda>k. distinct (snd k) \<and> (\<forall>c. c \<in> set (snd k) \<longleftrightarrow>
           c \<in> set (gw_clients g) \<and> (\<exists>cn. gw_conns g c = Some cn \<and> fst (snd (conn_key cn)) = x))" for x]
      same_conn(1) [OF s] same_state(1) [OF s]
    by blast
qed


lemma same_refl [simp]: "same_registers g g"
  by (simp add: same_registers_def)

lemma same_trans: "same_registers g g1 \<Longrightarrow> same_registers g1 g2 \<Longrightarrow> same_registers g g2"
  by (simp add: same_registers_def)

lemma same_on_conn: "(\<And>cn. conn_key (f cn) = conn_key cn) \<Longrightarrow> same_registers g (on_conn c f g)"
  by (simp add: same_registers_def option.map_comp comp_def)

lemma same_close: "same_registers g (on_conn c (requestClose code reason) g)"
  by (rule same_on_conn) (simp add: conn_key_def)

lemma same_fold: "(\<And>x g. same_registers g (f x g)) \<Longrightarrow> same_registers g (fold f xs g)"
  by (induction xs arbitrary: g) (auto intro: same_trans)

lemma same_states:
  "gw_states g a = Some st \<Longrightarrow> state_key st' = state_key st \<Longrightarrow> same_registers g (g\<lparr>gw_states := (gw_states g)(a \<mapsto> st')\<rparr>)"
  by (simp add: same_registers_def)

lemma same_quiet:
  "same_registers g (g\<lparr>gw_overflows := n\<rparr>)" "same_registers g (g\<lparr>gw_events := n\<rparr>)"
  "same_registers g (g\<lparr>gw_attempts := w\<rparr>)" "same_registers g (g\<lparr>gw_draining := b\<rparr>)"
  "same_registers g (g\<lparr>gw_wg := n\<rparr>)" "same_registers g (g\<lparr>gw_closedSubs := ss\<rparr>)"
  by (simp_all add: same_registers_def)

lemma same_enqueue: "same_registers g (enqueue data c g)"
  by (auto simp: enqueue_def conn_key_def intro!: same_on_conn same_trans [OF same_quiet(1) same_close] split: option.splits)

lemma same_activate: "same_registers g (activate rj c g)"
  by (auto simp: activate_def Let_def conn_key_def intro!: same_on_conn same_trans [OF same_quiet(1) same_close]
      split: option.splits)

lemma same_write: "same_registers g (write_next fails c g)"
  by (auto simp: write_next_def Let_def same_registers_def conn_key_def split: option.splits)

lemma same_prepare: "prepare a g = (g', started) \<Longrightarrow> same_registers g g'"
  by (auto simp: prepare_def same_registers_def state_key_def split: option.splits if_splits)

lemma same_prepared: "same_registers g (prepared a sub err healthy g)"
  by (auto simp: prepared_def Let_def same_registers_def state_key_def split: option.splits)

lemma same_failUser: "same_registers g (failUser a g)"
  by (cases "gw_states g a")
    (auto simp: failUser_def state_key_def intro!: same_trans [OF same_states same_fold] same_close)

lemma same_broadcast: "same_registers g (broadcast marshal a event g)"
  by (auto simp: broadcast_def same_failUser intro!: same_trans [OF same_quiet(2) same_fold] same_enqueue
      split: option.splits)

lemma same_close_conn: "same_registers g (close_conn code reason c g)"
  by (simp add: close_conn_def same_close)

lemma same_validate_client: "same_registers g (validate_client answer now i c g)"
  by (auto simp: validate_client_def Let_def same_close_conn split: option.splits sum.splits)

lemma same_validate: "same_registers g (validateSessionBatch groups answer now g)"
proof -
  have "same_registers g (fold (\<lambda>(raw, clients) g. if isOk (session_ParseID raw) then g
      else fold (close_conn 4003 ''invalid session'') clients g) groups g)" for g
    by (rule same_fold) (auto intro: same_fold same_close_conn split: prod.splits)
  moreover have "same_registers g (fold (\<lambda>(i, clients) g. fold (validate_client answer now i) clients g) groups g)" for g
    by (rule same_fold) (auto intro: same_fold same_validate_client split: prod.splits)
  ultimately show ?thesis unfolding validateSessionBatch_def Let_def by (rule same_trans)
qed

lemma same_fail_registered: "same_registers g (g\<lparr>gw_draining := True, gw_states := fail_registered g\<rparr>)"
proof -
  have "map_option state_key (fail_registered g a) = map_option state_key (gw_states g a)" for a
    by (cases "gw_states g a") (auto simp: fail_registered_def state_key_def)
  then show ?thesis by (simp add: same_registers_def)
qed

lemma same_Shutdown: "same_registers g (Shutdown g)"
  unfolding Shutdown_def by (rule same_trans [OF same_fail_registered same_fold]) (rule same_close)

lemmas same_steps = same_prepare same_prepared same_broadcast same_failUser same_activate same_write
  same_close_conn same_validate same_Shutdown

text \<open>A connection leaves.\<close>

lemma filter_one_less:
  "distinct xs \<Longrightarrow> c \<in> set xs \<Longrightarrow> P c \<Longrightarrow> length (filter P xs) = Suc (length (filter P (filter (\<lambda>x. x \<noteq> c) xs)))"
  by (induction xs) (auto simp: filter_id_conv intro!: arg_cong [where f = length] filter_cong)

lemma release_registers:
  assumes ok: "registers_ok g" and c: "c \<in> set (gw_clients g)"
  shows "registers_ok (release c g)"
proof -
  from ok c obtain cn where cn: "gw_conns g c = Some cn" "\<not> cnn_released cn" by (auto simp: registers_ok_def)
  from ok cn(1) obtain st where st: "gw_states g (cnn_user cn) = Some st" "ust_id st = idn_UserID (cnn_identity cn)"
    unfolding registers_ok_def by blast
  let ?g = "release c g" and ?u = "idn_UserID (cnn_identity cn)"
  define clients where "clients = filter (\<lambda>x. x \<noteq> c) (ust_clients st)"
  have g: "gw_conns ?g = (gw_conns g)(c \<mapsto> cn\<lparr>cnn_cancelled := True, cnn_released := True\<rparr>)"
    "gw_clients ?g = filter (\<lambda>x. x \<noteq> c) (gw_clients g)"
    "gw_perUser ?g = (gw_perUser g)(?u := gw_perUser g ?u - 1)"
    "gw_states ?g = (gw_states g)(cnn_user cn \<mapsto> st\<lparr>ust_clients := clients, ust_cancelled := ust_cancelled st \<or> clients = []\<rparr>)"
    "gw_users ?g = (if clients = [] \<and> gw_users g ?u = Some (cnn_user cn) then (gw_users g)(?u := None) else gw_users g)"
    "gw_config ?g = gw_config g" "gw_next ?g = gw_next g"
    using cn st by (simp_all add: release_def Let_def clients_def)
  have R: "distinct (gw_clients g)"
    "\<And>c. c \<in> set (gw_clients g) \<longleftrightarrow> (\<exists>cn. gw_conns g c = Some cn \<and> \<not> cnn_released cn)"
    "\<And>u. gw_perUser g u = int (length (clients_of g u))" "\<And>u. gw_perUser g u \<le> rtc_MaxConnectionsPerUser (gw_config g)"
    "int (length (gw_clients g)) \<le> rtc_MaxConnections (gw_config g)"
    "\<And>a st. gw_states g a = Some st \<Longrightarrow> distinct (ust_clients st)"
    "\<And>a st c. gw_states g a = Some st \<Longrightarrow> c \<in> set (ust_clients st) \<longleftrightarrow> c \<in> set (gw_clients g) \<and> (\<exists>cn. gw_conns g c = Some cn \<and> cnn_user cn = a)"
    "\<And>c cn. gw_conns g c = Some cn \<Longrightarrow> \<exists>st. gw_states g (cnn_user cn) = Some st \<and> ust_id st = idn_UserID (cnn_identity cn)"
    "\<And>u a. gw_users g u = Some a \<Longrightarrow> \<exists>st. gw_states g a = Some st \<and> ust_id st = u \<and> ust_clients st \<noteq> []"
    "\<And>c. gw_conns g c \<noteq> None \<Longrightarrow> c < gw_next g" "\<And>a. gw_states g a \<noteq> None \<Longrightarrow> a < gw_next g"
    using ok unfolding registers_ok_def by blast+
  have of: "clients_of ?g u = filter (\<lambda>x. x \<noteq> c) (clients_of g u)" for u
    by (auto simp: clients_of_def g intro!: filter_cong)
  have per: "gw_perUser ?g u = int (length (clients_of ?g u))" for u
  proof (cases "u = ?u")
    case True
    have "c \<in> set (clients_of g u)" using c cn True by (simp add: clients_of_def)
    moreover have "distinct (clients_of g u)" using R(1) by (simp add: clients_of_def)
    ultimately have "length (clients_of g u) = Suc (length (clients_of ?g u))"
      using filter_one_less [of "clients_of g u" c "\<lambda>_. True"] by (simp add: of)
    then show ?thesis using R(3) [of u] True by (simp add: g)
  next
    case False
    then have "c \<notin> set (clients_of g u)" using cn by (auto simp: clients_of_def)
    then have "filter (\<lambda>x. x \<noteq> c) (clients_of g u) = clients_of g u" by (auto simp: filter_id_conv)
    then show ?thesis using R(3) [of u] False by (simp add: g of)
  qed
  have lim: "gw_perUser ?g u \<le> rtc_MaxConnectionsPerUser (gw_config ?g)" for u
    using R(4) [of u] R(4) [of ?u] by (simp add: g)
  have len: "int (length (gw_clients ?g)) \<le> rtc_MaxConnections (gw_config ?g)"
    unfolding g using R(5) length_filter_le [of "\<lambda>x. x \<noteq> c" "gw_clients g"] by linarith
  have mem: "x \<in> set (gw_clients ?g) \<longleftrightarrow> (\<exists>cn. gw_conns ?g x = Some cn \<and> \<not> cnn_released cn)" for x
    using R(2) [of x] by (auto simp: g)
  have state: "distinct (ust_clients s) \<and> (\<forall>x. x \<in> set (ust_clients s) \<longleftrightarrow>
      x \<in> set (gw_clients ?g) \<and> (\<exists>cn. gw_conns ?g x = Some cn \<and> cnn_user cn = a))" if "gw_states ?g a = Some s" for a s
  proof (cases "a = cnn_user cn")
    case True
    then have "ust_clients s = clients" using that by (auto simp: g)
    then show ?thesis using R(6,7) [OF st(1)] True by (auto simp: g clients_def)
  next
    case False
    then have "gw_states g a = Some s" using that by (simp add: g)
    then show ?thesis using R(6,7) False cn by (auto simp: g)
  qed
  have owner: "\<exists>s. gw_states ?g (cnn_user x) = Some s \<and> ust_id s = idn_UserID (cnn_identity x)"
    if "gw_conns ?g i = Some x" for i x
    using that R(8) [of i] st by (cases "i = c") (auto simp: g)
  have users: "\<exists>s. gw_states ?g a = Some s \<and> ust_id s = u \<and> ust_clients s \<noteq> []" if u: "gw_users ?g u = Some a" for u a
  proof -
    have old: "gw_users g u = Some a" using u by (auto simp: g split: if_splits)
    from R(9) [OF old] obtain s where s: "gw_states g a = Some s" "ust_id s = u" "ust_clients s \<noteq> []" by blast
    show ?thesis
    proof (cases "a = cnn_user cn")
      case True
      then have "u = ?u" using s st by simp
      then have "clients \<noteq> []" using u old True by (auto simp: g split: if_splits)
      then show ?thesis using True s st by (simp add: g)
    qed (use s in \<open>simp add: g\<close>)
  qed
  have fresh: "x < gw_next ?g" if "gw_conns ?g x \<noteq> None" for x
    using that R(10) [of x] R(10) [of c] cn by (auto simp: g split: if_splits)
  have fresh': "a < gw_next ?g" if "gw_states ?g a \<noteq> None" for a
    using that R(11) [of a] R(11) [of "cnn_user cn"] st by (auto simp: g split: if_splits)
  have "distinct (gw_clients ?g)" using R(1) by (simp add: g)
  then show ?thesis
    using mem per lim len state owner users fresh fresh' unfolding registers_ok_def by blast
qed


text \<open>A connection arrives: first its user's state, then itself.\<close>

lemma user_state_for_ok:
  assumes ok: "registers_ok g" and run: "user_state_for u g = (g1, a)"
  shows "gw_clients g1 = gw_clients g \<and> gw_perUser g1 = gw_perUser g \<and> gw_config g1 = gw_config g \<and>
    gw_conns g1 = gw_conns g \<and> gw_next g \<le> gw_next g1 \<and> a < gw_next g1 \<and>
    (\<exists>st. gw_states g1 = (gw_states g)(a \<mapsto> st) \<and> ust_id st = u \<and> \<not> ust_failed st \<and>
       (gw_states g a = Some st \<or> gw_states g a = None \<and> a = gw_next g \<and> st = new_user_state u)) \<and>
    gw_users g1 = (gw_users g)(u \<mapsto> a) \<and> gw_wg g1 = gw_wg g \<and> gw_closedSubs g1 = gw_closedSubs g \<and>
    gw_draining g1 = gw_draining g"
proof -
  have fresh: "gw_states g (gw_next g) = None"
  proof (rule ccontr)
    assume some: "gw_states g (gw_next g) \<noteq> None"
    have "\<And>a. gw_states g a \<noteq> None \<Longrightarrow> a < gw_next g" using ok unfolding registers_ok_def by blast
    from this [OF some] show False by simp
  qed
  let ?new = "(g\<lparr>gw_states := (gw_states g)(gw_next g \<mapsto> new_user_state u), gw_next := gw_next g + 1,
      gw_users := (gw_users g)(u \<mapsto> gw_next g)\<rparr>, gw_next g)"
  have new: ?thesis if "user_state_for u g = ?new"
  proof -
    have g1: "g1 = fst ?new" and a: "a = gw_next g" using that run by simp_all
    show ?thesis unfolding g1 a
      using fresh by (intro conjI exI [of _ "new_user_state u"]) (simp_all add: new_user_state_def)
  qed
  show ?thesis
  proof (cases "gw_users g u")
    case None
    then show ?thesis by (intro new) (simp add: user_state_for_def)
  next
    case (Some b)
    have "\<And>a. gw_states g a \<noteq> None \<Longrightarrow> a < gw_next g"
      "\<And>u a. gw_users g u = Some a \<Longrightarrow> \<exists>st. gw_states g a = Some st \<and> ust_id st = u"
      using ok unfolding registers_ok_def by blast+
    from this(1) [of b] this(2) [OF Some] obtain st where st: "gw_states g b = Some st" "ust_id st = u" "b < gw_next g"
      by auto
    show ?thesis
    proof (cases "ust_failed st")
      case True
      then show ?thesis using Some st by (intro new) (simp add: user_state_for_def)
    next
      case False
      then have g1: "g1 = g" and a: "a = b" using run Some st by (simp_all add: user_state_for_def)
      have "gw_states g = (gw_states g)(b \<mapsto> st)" "gw_users g = (gw_users g)(u \<mapsto> b)"
        using Some st by auto
      then show ?thesis unfolding g1 a using st False by (intro conjI exI [of _ st]) simp_all
    qed
  qed
qed

lemma register_registers:
  assumes ok: "registers_ok g" and run: "register i idn g = (g', c)"
    and room: "int (length (gw_clients g)) < rtc_MaxConnections (gw_config g)"
      "gw_perUser g (idn_UserID idn) < rtc_MaxConnectionsPerUser (gw_config g)"
  shows "registers_ok g'"
proof -
  let ?u = "idn_UserID idn"
  obtain g1 a where us: "user_state_for ?u g = (g1, a)" by fastforce
  from user_state_for_ok [OF ok us] obtain st where g1: "gw_clients g1 = gw_clients g" "gw_perUser g1 = gw_perUser g"
      "gw_config g1 = gw_config g" "gw_conns g1 = gw_conns g" "gw_next g \<le> gw_next g1" "a < gw_next g1"
      "gw_states g1 = (gw_states g)(a \<mapsto> st)" "gw_users g1 = (gw_users g)(?u \<mapsto> a)"
    and st: "ust_id st = ?u" "gw_states g a = Some st \<or> gw_states g a = None \<and> a = gw_next g \<and> st = new_user_state ?u"
    by blast
  define cn where "cn = \<lparr>cnn_id = i, cnn_identity = idn, cnn_user = a, cnn_queue = [], cnn_queuedBytes = 0,
    cnn_ready = False, cnn_stop = None, cnn_cancelled = False, cnn_released = False, cnn_written = []\<rparr>"
  have c: "c = gw_next g1" and g': "gw_conns g' = (gw_conns g)(c \<mapsto> cn)" "gw_next g' = c + 1"
    "gw_states g' = (gw_states g)(a \<mapsto> add_client c st)" "gw_clients g' = c # gw_clients g"
    "gw_perUser g' = (gw_perUser g)(?u := gw_perUser g ?u + 1)" "gw_config g' = gw_config g"
    "gw_users g' = (gw_users g)(?u \<mapsto> a)"
    using run us g1 by (auto simp: register_def Let_def cn_def)
  have R: "distinct (gw_clients g)"
    "\<And>c. c \<in> set (gw_clients g) \<longleftrightarrow> (\<exists>cn. gw_conns g c = Some cn \<and> \<not> cnn_released cn)"
    "\<And>u. gw_perUser g u = int (length (clients_of g u))" "\<And>u. gw_perUser g u \<le> rtc_MaxConnectionsPerUser (gw_config g)"
    "\<And>a st. gw_states g a = Some st \<Longrightarrow> distinct (ust_clients st)"
    "\<And>a st c. gw_states g a = Some st \<Longrightarrow> c \<in> set (ust_clients st) \<longleftrightarrow> c \<in> set (gw_clients g) \<and> (\<exists>cn. gw_conns g c = Some cn \<and> cnn_user cn = a)"
    "\<And>c cn. gw_conns g c = Some cn \<Longrightarrow> \<exists>st. gw_states g (cnn_user cn) = Some st \<and> ust_id st = idn_UserID (cnn_identity cn)"
    "\<And>u a. gw_users g u = Some a \<Longrightarrow> \<exists>st. gw_states g a = Some st \<and> ust_id st = u \<and> ust_clients st \<noteq> []"
    "\<And>c. gw_conns g c \<noteq> None \<Longrightarrow> c < gw_next g" "\<And>a. gw_states g a \<noteq> None \<Longrightarrow> a < gw_next g"
    using ok unfolding registers_ok_def by blast+
  have none: "gw_conns g c = None"
  proof (rule ccontr)
    assume "gw_conns g c \<noteq> None"
    from R(9) [OF this] g1(5) c show False by simp
  qed
  then have out: "c \<notin> set (gw_clients g)" using R(2) by simp
  have of: "clients_of g' u = (if u = ?u then c # clients_of g u else clients_of g u)" for u
  proof -
    have f: "filter (\<lambda>x. \<exists>cn. gw_conns g' x = Some cn \<and> idn_UserID (cnn_identity cn) = u) (gw_clients g) = clients_of g u"
      unfolding clients_of_def by (rule filter_cong) (use out in \<open>auto simp: g'\<close>)
    have e: "(\<exists>cn. gw_conns g' c = Some cn \<and> idn_UserID (cnn_identity cn) = u) \<longleftrightarrow> u = ?u"
      by (auto simp: g' cn_def)
    show ?thesis unfolding clients_of_def [of g'] g'(4) filter.simps e f ..
  qed
  have per: "gw_perUser g' u = int (length (clients_of g' u))" for u
    using R(3) [of u] by (cases "u = ?u") (simp_all add: g' of)
  have lim: "gw_perUser g' u \<le> rtc_MaxConnectionsPerUser (gw_config g')" for u
    using R(4) [of u] room(2) by (simp add: g')
  have mem: "x \<in> set (gw_clients g') \<longleftrightarrow> (\<exists>cn. gw_conns g' x = Some cn \<and> \<not> cnn_released cn)" for x
    using R(2) [of x] by (auto simp: g' cn_def)
  have stc: "distinct (ust_clients st)"
      "\<And>x. x \<in> set (ust_clients st) \<longleftrightarrow> x \<in> set (gw_clients g) \<and> (\<exists>cn. gw_conns g x = Some cn \<and> cnn_user cn = a)"
  proof -
    have "x \<notin> set (gw_clients g) \<or> \<not> (\<exists>cn. gw_conns g x = Some cn \<and> cnn_user cn = a)" if "gw_states g a = None" for x
      using R(7) that by (metis option.distinct(1))
    then show "distinct (ust_clients st)"
      "\<And>x. x \<in> set (ust_clients st) \<longleftrightarrow> x \<in> set (gw_clients g) \<and> (\<exists>cn. gw_conns g x = Some cn \<and> cnn_user cn = a)"
      using st(2) R(5,6) by (auto simp: new_user_state_def)
  qed
  have state: "distinct (ust_clients s) \<and> (\<forall>x. x \<in> set (ust_clients s) \<longleftrightarrow>
      x \<in> set (gw_clients g') \<and> (\<exists>cn. gw_conns g' x = Some cn \<and> cnn_user cn = b))" if "gw_states g' b = Some s" for b s
  proof (cases "b = a")
    case True
    then have "s = add_client c st" using that by (simp add: g')
    then have "ust_clients s = c # ust_clients st" by (simp add: add_client_def)
    then show ?thesis using stc True out none by (auto simp: g' cn_def)
  next
    case False
    then have "gw_states g b = Some s" using that by (simp add: g')
    then show ?thesis using R(5,6) False out none by (auto simp: g' cn_def)
  qed
  have owner: "\<exists>s. gw_states g' (cnn_user x) = Some s \<and> ust_id s = idn_UserID (cnn_identity x)"
    if "gw_conns g' j = Some x" for j x
  proof (cases "j = c")
    case True
    then have "x = cn" using that by (simp add: g')
    then have "cnn_user x = a" "idn_UserID (cnn_identity x) = ?u" by (simp_all add: cn_def)
    then show ?thesis using st by (simp add: g' add_client_def)
  next
    case False
    then have "gw_conns g j = Some x" using that by (simp add: g')
    from R(7) [OF this] obtain s where s: "gw_states g (cnn_user x) = Some s" "ust_id s = idn_UserID (cnn_identity x)"
      by blast
    then show ?thesis using st by (auto simp: g' add_client_def)
  qed
  have users: "\<exists>s. gw_states g' b = Some s \<and> ust_id s = u \<and> ust_clients s \<noteq> []" if u: "gw_users g' u = Some b" for u b
  proof (cases "u = ?u")
    case True
    then show ?thesis using u st by (simp add: g' add_client_def)
  next
    case False
    then have "gw_users g u = Some b" using u by (simp add: g')
    from R(8) [OF this] obtain s where "gw_states g b = Some s" "ust_id s = u" "ust_clients s \<noteq> []" by blast
    then show ?thesis using st by (auto simp: g' add_client_def)
  qed
  have fresh: "x < gw_next g'" if "gw_conns g' x \<noteq> None" for x
    using that R(9) [of x] g1(5) c by (auto simp: g' split: if_splits)
  have fresh': "b < gw_next g'" if "gw_states g' b \<noteq> None" for b
    using that R(10) [of b] g1(5,6) c by (auto simp: g' split: if_splits)
  have "distinct (gw_clients g')" "int (length (gw_clients g')) \<le> rtc_MaxConnections (gw_config g')"
    using R(1) out room(1) by (simp_all add: g')
  then show ?thesis
    using mem per lim state owner users fresh fresh' unfolding registers_ok_def by blast
qed

lemma reserve_registers:
  assumes "registers_ok g" "reserve newID now healthy idn g = (g', r)"
  shows "registers_ok g'"
proof (cases "g' = g")
  case False
  let ?window = "attempts_of g (idn_UserID idn)"
  define window where "window = (if time_Sub now (atw_at ?window) \<ge> minute then \<lparr>atw_at = now, atw_count = 0\<rparr> else ?window)"
  define g0 where "g0 = g\<lparr>gw_attempts := put_attempts (idn_UserID idn) (window\<lparr>atw_count := atw_count window + 1\<rparr>) (gw_attempts g)\<rparr>"
  from assms(2) False obtain i c where room: "\<not> rtc_MaxConnections (gw_config g) \<le> int (length (gw_clients g))"
    "\<not> rtc_MaxConnectionsPerUser (gw_config g) \<le> gw_perUser g (idn_UserID idn)"
    and reg: "register i idn g0 = (g', c)"
    by (auto simp: reserve_def Let_def g0_def window_def split: sum.splits if_splits prod.splits)
  have "registers_ok g0" unfolding g0_def by (rule same_registers_ok [OF same_quiet(3) assms(1)])
  from register_registers [OF this reg] room show ?thesis by (simp add: g0_def)
qed (use assms in simp)

lemma step_registers: "gateway_step marshal rj g g' \<Longrightarrow> registers_ok g \<Longrightarrow> registers_ok g'"
  by (induction rule: gateway_step.induct)
    (auto intro: reserve_registers release_registers same_registers_ok [OF same_steps(1)]
      same_registers_ok [OF same_steps(2)] same_registers_ok [OF same_steps(3)] same_registers_ok [OF same_steps(4)]
      same_registers_ok [OF same_steps(5)] same_registers_ok [OF same_steps(6)] same_registers_ok [OF same_steps(7)]
      same_registers_ok [OF same_steps(8)] same_registers_ok [OF same_steps(9)] same_registers_ok [OF same_quiet(3)]
      simp: expire_attempts_def)


text \<open>Every step keeps the queues.\<close>

lemma fold_queues: "(\<And>x g. queues_ok rj g \<Longrightarrow> queues_ok rj (f x g)) \<Longrightarrow> queues_ok rj g \<Longrightarrow> queues_ok rj (fold f xs g)"
  by (induction xs arbitrary: g) auto

lemma close_conn_queues: "queues_ok rj g \<Longrightarrow> queues_ok rj (close_conn code reason c g)"
  by (simp add: close_conn_def close_queues)

lemma validate_client_queues: "queues_ok rj g \<Longrightarrow> queues_ok rj (validate_client answer now i c g)"
  by (auto simp: validate_client_def Let_def close_conn_queues split: option.splits sum.splits)

lemma validate_queues:
  assumes "queues_ok rj g"
  shows "queues_ok rj (validateSessionBatch groups answer now g)"
proof -
  have "queues_ok rj (fold (\<lambda>(raw, clients) g. if isOk (session_ParseID raw) then g
      else fold (close_conn 4003 ''invalid session'') clients g) groups g)" if "queues_ok rj g" for g
    by (rule fold_queues [OF _ that]) (auto intro: fold_queues close_conn_queues split: prod.splits)
  moreover have "queues_ok rj (fold (\<lambda>(i, clients) g. fold (validate_client answer now i) clients g) groups g)"
    if "queues_ok rj g" for g
    by (rule fold_queues [OF _ that]) (auto intro: fold_queues validate_client_queues split: prod.splits)
  ultimately show ?thesis using assms unfolding validateSessionBatch_def Let_def by blast
qed

lemma user_state_for_conns:
  "user_state_for u g = (g', a) \<Longrightarrow> gw_conns g' = gw_conns g \<and> gw_config g' = gw_config g"
  by (auto simp: user_state_for_def split: option.splits if_splits)

definition fresh_queue :: "connection \<Rightarrow> bool" where
  "fresh_queue cn \<longleftrightarrow> cnn_queue cn = [] \<and> cnn_queuedBytes cn = 0 \<and> \<not> cnn_ready cn \<and> cnn_written cn = []"

lemma register_conns:
  assumes "register i idn g = (g', c)"
  shows "\<exists>cn. gw_conns g' = (gw_conns g)(c \<mapsto> cn) \<and> gw_config g' = gw_config g \<and> fresh_queue cn"
proof -
  obtain g1 a where g1: "user_state_for (idn_UserID idn) g = (g1, a)" by (cases "user_state_for (idn_UserID idn) g")
  from user_state_for_conns [OF this] assms g1 show ?thesis
    by (auto simp: register_def Let_def fresh_queue_def intro!: exI)
qed

lemma reserve_conns:
  assumes "reserve newID now healthy idn g = (g', r)" "g' \<noteq> g"
  shows "\<exists>c cn. gw_conns g' = (gw_conns g)(c \<mapsto> cn) \<and> gw_config g' = gw_config g \<and> fresh_queue cn"
proof -
  from assms obtain i atts c where "register i idn (g\<lparr>gw_attempts := atts\<rparr>) = (g', c)"
    by (auto simp: reserve_def Let_def split: sum.splits if_splits prod.splits)
  from register_conns [OF this] show ?thesis by auto
qed

lemma failUser_queues: "queues_ok rj g \<Longrightarrow> queues_ok rj (failUser a g)"
  unfolding failUser_def
  by (split option.split, intro conjI impI allI fold_queues close_queues) (simp_all add: queues_ok_def)

lemma release_conn_cases:
  "gw_conns (release c g) = gw_conns g \<or>
   (\<exists>cn. gw_conns g c = Some cn \<and> gw_conns (release c g) = (gw_conns g)(c \<mapsto> cn\<lparr>cnn_cancelled := True, cnn_released := True\<rparr>))"
  by (simp add: release_def Let_def split: option.splits)

lemma release_config [simp]: "gw_config (release c g) = gw_config g"
  by (simp add: release_def Let_def split: option.splits)

lemma release_queues:
  assumes "queues_ok rj g"
  shows "queues_ok rj (release c g)"
  using release_conn_cases [of c g]
proof
  assume "gw_conns (release c g) = gw_conns g"
  then show ?thesis using assms queues_same [of "release c g" g rj] by simp
next
  assume "\<exists>cn. gw_conns g c = Some cn \<and> gw_conns (release c g) = (gw_conns g)(c \<mapsto> cn\<lparr>cnn_cancelled := True, cnn_released := True\<rparr>)"
  then obtain cn where cn: "gw_conns g c = Some cn"
    "gw_conns (release c g) = (gw_conns g)(c \<mapsto> cn\<lparr>cnn_cancelled := True, cnn_released := True\<rparr>)" by blast
  have "queue_ok (gw_config g) rj cn" using assms cn by (simp add: queues_ok_def)
  then have "queue_ok (gw_config g) rj (cn\<lparr>cnn_cancelled := True, cnn_released := True\<rparr>)" by (simp add: queue_ok_def)
  then show ?thesis using assms unfolding queues_ok_def cn(2) by simp
qed

lemma step_queues:
  assumes "gateway_step marshal rj g g'" "queues_ok rj g"
  shows "queues_ok rj g'"
  using assms
proof (cases rule: gateway_step.cases)
  case (step_reserve newID now healthy idn r)
  show ?thesis
  proof (cases "g' = g")
    case False
    from reserve_conns [OF step_reserve(1) False] obtain c cn where
      new: "gw_conns g' = (gw_conns g)(c \<mapsto> cn)" "gw_config g' = gw_config g" "fresh_queue cn" by blast
    have "0 \<le> rtc_QueueMessages (gw_config g)" "0 \<le> rtc_QueueBytes (gw_config g)"
      using assms(2) by (simp_all add: queues_ok_def)
    then have "queue_ok (gw_config g) rj cn" using new(3) by (simp add: queue_ok_def fresh_queue_def)
    then show ?thesis using assms(2) new by (simp add: queues_ok_def)
  qed (use assms in simp)
next
  case (step_release c)
  then show ?thesis using assms(2) release_queues by simp
next
  case (step_prepare a started)
  then show ?thesis using assms(2)
    by (auto simp: prepare_def queues_ok_def split: option.splits if_splits)
next
  case (step_prepared a st sub err healthy)
  then show ?thesis using assms(2)
    by (auto simp: prepared_def Let_def queues_ok_def split: option.splits)
next
  case (step_broadcast a st event)
  have "queues_ok rj (g\<lparr>gw_events := n\<rparr>)" for n using assms(2) by (simp add: queues_ok_def)
  then show ?thesis using step_broadcast(1) assms(2)
    by (auto simp: broadcast_def failUser_queues intro!: fold_queues enqueue_queues split: option.splits)
next
  case (step_failUser a)
  then show ?thesis using assms(2) failUser_queues by simp
next
  case (step_activate c cn st)
  then show ?thesis using activate_queues assms(2) by simp
next
  case (step_write fails c)
  then show ?thesis using write_queues assms(2) by simp
next
  case (step_close code reason c)
  then show ?thesis using close_conn_queues assms(2) by simp
next
  case (step_validate groups answer nows)
  then show ?thesis using validate_queues assms(2) by simp
next
  case (step_expire now)
  then show ?thesis using assms(2) by (simp add: expire_attempts_def queues_ok_def)
next
  case step_shutdown
  have "queues_ok rj (g\<lparr>gw_draining := True, gw_states := fail_registered g\<rparr>)"
    using assms(2) by (simp add: queues_ok_def)
  then show ?thesis using step_shutdown by (auto simp: Shutdown_def intro!: fold_queues close_queues)
qed

end
