(* ===== verification/HubSubscriptions.thy ===== *)
theory HubSubscriptions
  imports HubSafety
begin

text \<open>
  The subscriptions of the gateway: one that nobody needs is closed, and the wait group counts the
  connections and the subscriptions that are being made.
\<close>

section \<open>Subscriptions and the wait group\<close>

definition preparing :: "gateway \<Rightarrow> nat set" where
  "preparing g = {a. \<exists>st. gw_states g a = Some st \<and> ust_started st \<and> \<not> ust_ready st}"

definition subs_ok :: "gateway \<Rightarrow> bool" where
  "subs_ok g \<longleftrightarrow>
     (\<forall>a st sub. gw_states g a = Some st \<longrightarrow> ust_sub st = Some sub \<longrightarrow>
        ust_clients st \<noteq> [] \<or> sub \<in> set (gw_closedSubs g)) \<and>
     (\<forall>a st. gw_states g a = Some st \<longrightarrow> (ust_ready st \<longrightarrow> ust_started st) \<and> (\<not> ust_ready st \<longrightarrow> ust_sub st = None)) \<and>
     finite (preparing g) \<and> gw_wg g = int (length (gw_clients g)) + int (card (preparing g))"

definition state_run :: "user_state \<Rightarrow> nat list \<times> bool \<times> bool \<times> nat option" where
  "state_run st = (ust_clients st, ust_started st, ust_ready st, ust_sub st)"

definition same_runs :: "gateway \<Rightarrow> gateway \<Rightarrow> bool" where
  "same_runs g g' \<longleftrightarrow>
     gw_closedSubs g' = gw_closedSubs g \<and> gw_wg g' = gw_wg g \<and> gw_clients g' = gw_clients g \<and>
     (\<forall>a. map_option state_run (gw_states g' a) = map_option state_run (gw_states g a))"

lemma same_runs_state:
  assumes "same_runs g g'" "gw_states g' a = Some st'"
  obtains st where "gw_states g a = Some st" "state_run st' = state_run st"
proof -
  have "map_option state_run (gw_states g a) = Some (state_run st')"
  proof -
    have "map_option state_run (gw_states g a) = map_option state_run (gw_states g' a)"
      using assms(1) unfolding same_runs_def by simp
    then show ?thesis using assms(2) by simp
  qed
  then show thesis using that by (cases "gw_states g a") auto
qed

lemma same_runs_sym: "same_runs g g' \<Longrightarrow> same_runs g' g"
  by (simp add: same_runs_def)

lemma same_runs_preparing: "same_runs g g' \<Longrightarrow> preparing g' = preparing g"
proof -
  have sub: "preparing g' \<subseteq> preparing g" if "same_runs g g'" for g g'
    using that by (auto simp: preparing_def state_run_def elim: same_runs_state)
  show "same_runs g g' \<Longrightarrow> preparing g' = preparing g" using sub same_runs_sym by blast
qed

lemma same_runs_ok:
  assumes "same_runs g g'" "subs_ok g"
  shows "subs_ok g'"
proof -
  have eqs: "gw_closedSubs g' = gw_closedSubs g" "gw_wg g' = gw_wg g" "gw_clients g' = gw_clients g"
    using assms(1) by (simp_all add: same_runs_def)
  have S: "\<And>a st sub. gw_states g a = Some st \<Longrightarrow> ust_sub st = Some sub \<Longrightarrow> ust_clients st \<noteq> [] \<or> sub \<in> set (gw_closedSubs g)"
    "\<And>a st. gw_states g a = Some st \<Longrightarrow> (ust_ready st \<longrightarrow> ust_started st) \<and> (\<not> ust_ready st \<longrightarrow> ust_sub st = None)"
    using assms(2) unfolding subs_ok_def by blast+
  have "ust_clients st \<noteq> [] \<or> sub \<in> set (gw_closedSubs g)" if st: "gw_states g' a = Some st" "ust_sub st = Some sub" for a st sub
  proof -
    from same_runs_state [OF assms(1) st(1)] obtain st0 where st0: "gw_states g a = Some st0" "state_run st = state_run st0" .
    then show ?thesis using S(1) [OF st0(1), of sub] st(2) by (simp add: state_run_def)
  qed
  moreover have "(ust_ready st \<longrightarrow> ust_started st) \<and> (\<not> ust_ready st \<longrightarrow> ust_sub st = None)"
    if st: "gw_states g' a = Some st" for a st
  proof -
    from same_runs_state [OF assms(1) st] obtain st0 where st0: "gw_states g a = Some st0" "state_run st = state_run st0" .
    then show ?thesis using S(2) [OF st0(1)] by (simp add: state_run_def)
  qed
  moreover have "finite (preparing g)" "gw_wg g = int (length (gw_clients g)) + int (card (preparing g))"
    using assms(2) by (simp_all add: subs_ok_def)
  ultimately show ?thesis unfolding subs_ok_def eqs same_runs_preparing [OF assms(1)] by blast
qed


lemma runs_refl [simp]: "same_runs g g"
  by (simp add: same_runs_def)

lemma runs_trans: "same_runs g g1 \<Longrightarrow> same_runs g1 g2 \<Longrightarrow> same_runs g g2"
  by (simp add: same_runs_def)

lemma runs_fold: "(\<And>x g. same_runs g (f x g)) \<Longrightarrow> same_runs g (fold f xs g)"
  by (induction xs arbitrary: g) (auto intro: runs_trans)

lemma runs_on_conn: "same_runs g (on_conn c f g)"
  by (simp add: same_runs_def)

lemma runs_quiet:
  "same_runs g (g\<lparr>gw_overflows := n\<rparr>)" "same_runs g (g\<lparr>gw_events := n\<rparr>)"
  "same_runs g (g\<lparr>gw_attempts := w\<rparr>)" "same_runs g (g\<lparr>gw_conns := cs\<rparr>)"
  by (simp_all add: same_runs_def)

lemma runs_states:
  "gw_states g a = Some st \<Longrightarrow> state_run st' = state_run st \<Longrightarrow> same_runs g (g\<lparr>gw_states := (gw_states g)(a \<mapsto> st')\<rparr>)"
  by (simp add: same_runs_def)

lemma runs_enqueue: "same_runs g (enqueue data c g)"
  by (auto simp: enqueue_def intro!: runs_on_conn runs_trans [OF runs_quiet(1) runs_on_conn] split: option.splits)

lemma runs_activate: "same_runs g (activate rj c g)"
  by (auto simp: activate_def Let_def intro!: runs_on_conn runs_trans [OF runs_quiet(1) runs_on_conn] split: option.splits)

lemma runs_write: "same_runs g (write_next fails c g)"
  by (auto simp: write_next_def Let_def same_runs_def split: option.splits)

lemma runs_failUser: "same_runs g (failUser a g)"
  by (cases "gw_states g a")
    (auto simp: failUser_def state_run_def intro!: runs_trans [OF runs_states runs_fold] runs_on_conn)

lemma runs_broadcast: "same_runs g (broadcast marshal a event g)"
  by (auto simp: broadcast_def runs_failUser intro!: runs_trans [OF runs_quiet(2) runs_fold] runs_enqueue
      split: option.splits)

lemma runs_close_conn: "same_runs g (close_conn code reason c g)"
  by (simp add: close_conn_def runs_on_conn)

lemma runs_validate_client: "same_runs g (validate_client answer now i c g)"
  by (auto simp: validate_client_def Let_def runs_close_conn split: option.splits sum.splits)

lemma runs_validate: "same_runs g (validateSessionBatch groups answer now g)"
proof -
  have "same_runs g (fold (\<lambda>(raw, clients) g. if isOk (session_ParseID raw) then g
      else fold (close_conn 4003 ''invalid session'') clients g) groups g)" for g
    by (rule runs_fold) (auto intro: runs_fold runs_close_conn split: prod.splits)
  moreover have "same_runs g (fold (\<lambda>(i, clients) g. fold (validate_client answer now i) clients g) groups g)" for g
    by (rule runs_fold) (auto intro: runs_fold runs_validate_client split: prod.splits)
  ultimately show ?thesis unfolding validateSessionBatch_def Let_def by (rule runs_trans)
qed

lemma runs_Shutdown: "same_runs g (Shutdown g)"
proof -
  have "map_option state_run (fail_registered g a) = map_option state_run (gw_states g a)" for a
    by (cases "gw_states g a") (auto simp: fail_registered_def state_run_def)
  then have "same_runs g (g\<lparr>gw_draining := True, gw_states := fail_registered g\<rparr>)" by (simp add: same_runs_def)
  then show ?thesis unfolding Shutdown_def by (rule runs_trans) (rule runs_fold [OF runs_on_conn])
qed

lemmas runs_steps = runs_broadcast runs_failUser runs_activate runs_write runs_close_conn runs_validate runs_Shutdown

lemma subs_intro:
  assumes "\<And>a st sub. gw_states g a = Some st \<Longrightarrow> ust_sub st = Some sub \<Longrightarrow> ust_clients st \<noteq> [] \<or> sub \<in> set (gw_closedSubs g)"
    and "\<And>a st. gw_states g a = Some st \<Longrightarrow> (ust_ready st \<longrightarrow> ust_started st) \<and> (\<not> ust_ready st \<longrightarrow> ust_sub st = None)"
    and "finite (preparing g)" "gw_wg g = int (length (gw_clients g)) + int (card (preparing g))"
  shows "subs_ok g"
  using assms unfolding subs_ok_def by blast

lemma subs_elim:
  assumes "subs_ok g"
  shows "\<And>a st sub. gw_states g a = Some st \<Longrightarrow> ust_sub st = Some sub \<Longrightarrow> ust_clients st \<noteq> [] \<or> sub \<in> set (gw_closedSubs g)"
    and "\<And>a st. gw_states g a = Some st \<Longrightarrow> (ust_ready st \<longrightarrow> ust_started st) \<and> (\<not> ust_ready st \<longrightarrow> ust_sub st = None)"
    and "finite (preparing g)" "gw_wg g = int (length (gw_clients g)) + int (card (preparing g))"
  using assms unfolding subs_ok_def by blast+

lemma prepare_subs:
  assumes ok: "subs_ok g" and run: "prepare a g = (g', started)"
  shows "subs_ok g'"
proof (cases started)
  case False
  then show ?thesis using ok run by (auto simp: prepare_def split: option.splits if_splits)
next
  case True
  then obtain st where st: "gw_states g a = Some st" "\<not> ust_started st"
    and g': "g' = g\<lparr>gw_states := (gw_states g)(a \<mapsto> st\<lparr>ust_started := True\<rparr>), gw_wg := gw_wg g + 1\<rparr>"
    using run by (auto simp: prepare_def split: option.splits if_splits)
  have nr: "\<not> ust_ready st" using subs_elim(2) [OF ok st(1)] st(2) by blast
  have out: "a \<notin> preparing g" using st by (simp add: preparing_def)
  have ins: "preparing g' = insert a (preparing g)" using st nr by (auto simp: preparing_def g' split: if_splits)
  show ?thesis
  proof (rule subs_intro)
    show "ust_clients s \<noteq> [] \<or> sub \<in> set (gw_closedSubs g')" if "gw_states g' b = Some s" "ust_sub s = Some sub" for b s sub
      using that subs_elim(1) [OF ok, of b] subs_elim(1) [OF ok st(1), of sub] by (auto simp: g' split: if_splits)
    show "(ust_ready s \<longrightarrow> ust_started s) \<and> (\<not> ust_ready s \<longrightarrow> ust_sub s = None)" if "gw_states g' b = Some s" for b s
      using that subs_elim(2) [OF ok, of b] subs_elim(2) [OF ok st(1)] by (auto simp: g' split: if_splits)
    show "finite (preparing g')" using subs_elim(3) [OF ok] ins by simp
    show "gw_wg g' = int (length (gw_clients g')) + int (card (preparing g'))"
      using subs_elim(3,4) [OF ok] out ins by (simp add: g')
  qed
qed

lemma prepared_subs:
  assumes ok: "subs_ok g" and st: "gw_states g a = Some st" "ust_started st" "\<not> ust_ready st"
  shows "subs_ok (prepared a sub err healthy g)"
proof -
  let ?g = "prepared a sub err healthy g"
  define err' where "err' = (if err = None \<and> (ust_clients st = [] \<or> gw_draining g \<or> ust_failed st \<or> \<not> healthy)
    then Some errUnavailable else err)"
  define st' where "st' = (if err' = None then st\<lparr>ust_sub := sub\<rparr> else st\<lparr>ust_failed := True\<rparr>)\<lparr>ust_err := err', ust_ready := True\<rparr>"
  have g_eq: "?g = g\<lparr>gw_states := (gw_states g)(a \<mapsto> st'),
      gw_closedSubs := (if err' \<noteq> None then subs_of sub else []) @ gw_closedSubs g,
      gw_wg := gw_wg g - 1\<rparr>"
    unfolding prepared_def st(1) option.case Let_def err'_def [symmetric] st'_def [symmetric] ..
  have g: "gw_states ?g = (gw_states g)(a \<mapsto> st')" "gw_clients ?g = gw_clients g" "gw_wg ?g = gw_wg g - 1"
    "set (gw_closedSubs g) \<subseteq> set (gw_closedSubs ?g)"
    unfolding g_eq by simp_all
  have st'_sel: "ust_clients st' = ust_clients st" "ust_started st'" "ust_ready st'"
    "ust_sub st' = (if err' = None then sub else None)"
    using st subs_elim(2) [OF ok st(1)] by (auto simp: st'_def)
  have some: "err' = None \<Longrightarrow> ust_clients st \<noteq> []" by (auto simp: err'_def split: if_splits)
  have inn: "a \<in> preparing g" using st by (simp add: preparing_def)
  have del: "preparing ?g = preparing g - {a}" using st'_sel by (auto simp: preparing_def g split: if_splits)
  show ?thesis
  proof (rule subs_intro)
    show "ust_clients s \<noteq> [] \<or> u \<in> set (gw_closedSubs ?g)" if "gw_states ?g b = Some s" "ust_sub s = Some u" for b s u
    proof (cases "b = a")
      case True
      then show ?thesis using that some st'_sel by (auto simp: g split: if_splits)
    next
      case False
      then show ?thesis using that subs_elim(1) [OF ok, of b s u] g(4) by (auto simp: g(1))
    qed
    show "(ust_ready s \<longrightarrow> ust_started s) \<and> (\<not> ust_ready s \<longrightarrow> ust_sub s = None)" if "gw_states ?g b = Some s" for b s
      using that subs_elim(2) [OF ok, of b] st'_sel by (auto simp: g split: if_splits)
    show "finite (preparing ?g)" using subs_elim(3) [OF ok] del by simp
    have "card (preparing g) = Suc (card (preparing ?g))"
      using inn subs_elim(3) [OF ok] unfolding del by (rule card.remove [rotated])
    then show "gw_wg ?g = int (length (gw_clients ?g)) + int (card (preparing ?g))"
      using subs_elim(4) [OF ok] by (simp add: g)
  qed
qed

lemma release_subs:
  assumes ok: "subs_ok g" and reg: "registers_ok g" and c: "c \<in> set (gw_clients g)"
  shows "subs_ok (release c g)"
proof -
  from reg c obtain cn where cn: "gw_conns g c = Some cn" "\<not> cnn_released cn" by (auto simp: registers_ok_def)
  from reg cn(1) obtain st where st: "gw_states g (cnn_user cn) = Some st" unfolding registers_ok_def by blast
  let ?g = "release c g"
  define clients where "clients = filter (\<lambda>x. x \<noteq> c) (ust_clients st)"
  define st' where "st' = st\<lparr>ust_clients := clients, ust_cancelled := ust_cancelled st \<or> clients = []\<rparr>"
  have g: "gw_clients ?g = filter (\<lambda>x. x \<noteq> c) (gw_clients g)" "gw_wg ?g = gw_wg g - 1"
    "gw_states ?g = (gw_states g)(cnn_user cn \<mapsto> st')"
    "gw_closedSubs ?g = (if clients = [] then subs_of (ust_sub st) else []) @ gw_closedSubs g"
    using cn st by (simp_all add: release_def Let_def clients_def st'_def)
  have sel: "ust_clients st' = clients" "ust_started st' = ust_started st" "ust_ready st' = ust_ready st"
    "ust_sub st' = ust_sub st" by (simp_all add: st'_def)
  have same: "preparing ?g = preparing g" using st sel by (auto simp: preparing_def g split: if_splits)
  have "distinct (gw_clients g)" using reg unfolding registers_ok_def by blast
  then have len: "length (gw_clients g) = Suc (length (gw_clients ?g))"
    using filter_one_less [of "gw_clients g" c "\<lambda>_. True"] c by (simp add: g)
  show ?thesis
  proof (rule subs_intro)
    show "ust_clients s \<noteq> [] \<or> u \<in> set (gw_closedSubs ?g)" if "gw_states ?g b = Some s" "ust_sub s = Some u" for b s u
    proof (cases "b = cnn_user cn")
      case True
      then have s: "s = st'" using that(1) by (simp add: g(3))
      then have "ust_sub st = Some u" using that(2) sel(4) by simp
      then show ?thesis unfolding s sel(1) g(4) by simp
    next
      case False
      then have "gw_states g b = Some s" using that(1) by (simp add: g(3))
      from subs_elim(1) [OF ok this that(2)] show ?thesis unfolding g(4) by auto
    qed
    show "(ust_ready s \<longrightarrow> ust_started s) \<and> (\<not> ust_ready s \<longrightarrow> ust_sub s = None)" if "gw_states ?g b = Some s" for b s
      using that subs_elim(2) [OF ok, of b] subs_elim(2) [OF ok st] sel by (auto simp: g split: if_splits)
    show "finite (preparing ?g)" using subs_elim(3) [OF ok] same by simp
    show "gw_wg ?g = int (length (gw_clients ?g)) + int (card (preparing ?g))"
      using subs_elim(4) [OF ok] len by (simp add: g same)
  qed
qed

lemma register_subs:
  assumes ok: "subs_ok g" and reg: "registers_ok g" and run: "register i idn g = (g', c)"
  shows "subs_ok g'"
proof -
  let ?u = "idn_UserID idn"
  obtain g1 a where us: "user_state_for ?u g = (g1, a)" by fastforce
  from user_state_for_ok [OF reg us] obtain st where g1: "gw_clients g1 = gw_clients g" "gw_wg g1 = gw_wg g"
      "gw_closedSubs g1 = gw_closedSubs g" "gw_states g1 = (gw_states g)(a \<mapsto> st)"
    and st: "gw_states g a = Some st \<or> gw_states g a = None \<and> st = new_user_state ?u"
    by blast
  have g': "gw_states g' = (gw_states g)(a \<mapsto> add_client c st)" "length (gw_clients g') = Suc (length (gw_clients g))"
    "gw_wg g' = gw_wg g + 1" "gw_closedSubs g' = gw_closedSubs g"
    using run us g1 by (auto simp: register_def Let_def)
  have sel: "ust_clients (add_client c st) \<noteq> []" "ust_started (add_client c st) = ust_started st"
    "ust_ready (add_client c st) = ust_ready st" "ust_sub (add_client c st) = ust_sub st"
    by (simp_all add: add_client_def)
  have stok: "(ust_ready st \<longrightarrow> ust_started st) \<and> (\<not> ust_ready st \<longrightarrow> ust_sub st = None)"
    using st subs_elim(2) [OF ok, of a st] by (auto simp: new_user_state_def)
  have same: "preparing g' = preparing g" using st sel by (auto simp: preparing_def g' new_user_state_def split: if_splits)
  show ?thesis
  proof (rule subs_intro)
    show "ust_clients s \<noteq> [] \<or> u \<in> set (gw_closedSubs g')" if "gw_states g' b = Some s" "ust_sub s = Some u" for b s u
      using that sel subs_elim(1) [OF ok, of b s u] by (cases "b = a") (auto simp: g')
    show "(ust_ready s \<longrightarrow> ust_started s) \<and> (\<not> ust_ready s \<longrightarrow> ust_sub s = None)" if "gw_states g' b = Some s" for b s
      using that subs_elim(2) [OF ok, of b s] sel stok by (cases "b = a") (auto simp: g')
    show "finite (preparing g')" using subs_elim(3) [OF ok] same by simp
    show "gw_wg g' = int (length (gw_clients g')) + int (card (preparing g'))"
      using subs_elim(4) [OF ok] by (simp add: g' same)
  qed
qed

lemma reserve_subs:
  assumes "subs_ok g" "registers_ok g" "reserve newID now healthy idn g = (g', r)"
  shows "subs_ok g'"
proof (cases "g' = g")
  case False
  with assms(3) obtain i atts c where run: "register i idn (g\<lparr>gw_attempts := atts\<rparr>) = (g', c)"
    by (auto simp: reserve_def Let_def split: sum.splits if_splits prod.splits)
  have "registers_ok (g\<lparr>gw_attempts := atts\<rparr>)" by (rule same_registers_ok [OF same_quiet(3) assms(2)])
  from register_subs [OF same_runs_ok [OF runs_quiet(3) assms(1)] this run] show ?thesis .
qed (use assms in simp)

lemma step_subs: "gateway_step marshal rj g g' \<Longrightarrow> registers_ok g \<Longrightarrow> subs_ok g \<Longrightarrow> subs_ok g'"
  by (induction rule: gateway_step.induct)
    (auto intro: reserve_subs release_subs prepare_subs prepared_subs same_runs_ok [OF runs_steps(1)]
      same_runs_ok [OF runs_steps(2)] same_runs_ok [OF runs_steps(3)] same_runs_ok [OF runs_steps(4)]
      same_runs_ok [OF runs_steps(5)] same_runs_ok [OF runs_steps(6)] same_runs_ok [OF runs_steps(7)]
      same_runs_ok [OF runs_quiet(3)] simp: expire_attempts_def)

section \<open>Every reachable gateway\<close>

definition gateway_reachable ::
  "(realtime_message_created \<Rightarrow> string option) \<Rightarrow> (string \<Rightarrow> identity \<Rightarrow> string) \<Rightarrow> realtime_config \<Rightarrow> gateway \<Rightarrow> bool" where
  "gateway_reachable marshal ready_json cfg = (gateway_step marshal ready_json)\<^sup>*\<^sup>* (new_gateway cfg)"

definition limits_ok :: "realtime_config \<Rightarrow> bool" where
  "limits_ok cfg \<longleftrightarrow> 0 \<le> rtc_MaxConnections cfg \<and> 0 \<le> rtc_MaxConnectionsPerUser cfg \<and>
     0 \<le> rtc_QueueMessages cfg \<and> 0 \<le> rtc_QueueBytes cfg"

lemma new_gateway_ok:
  assumes "limits_ok cfg"
  shows "registers_ok (new_gateway cfg)" "queues_ok rj (new_gateway cfg)" "subs_ok (new_gateway cfg)"
  using assms
  by (auto simp: limits_ok_def new_gateway_def registers_ok_def clients_of_def queues_ok_def subs_ok_def preparing_def)

lemma step_config: "gateway_step marshal rj g g' \<Longrightarrow> gw_config g' = gw_config g"
proof (induction rule: gateway_step.induct)
  case (step_reserve newID now healthy identity g g' r)
  then show ?case using reserve_conns by (cases "g' = g") blast+
next
  case (step_prepare a g g' started)
  then show ?case using same_prepare unfolding same_registers_def by blast
next
  case (step_expire now g)
  then show ?case by (simp add: expire_attempts_def)
qed (use same_steps in \<open>auto simp: same_registers_def\<close>)

lemma reachable_ok:
  assumes "limits_ok cfg" "gateway_reachable marshal rj cfg g"
  shows "registers_ok g" "queues_ok rj g" "subs_ok g" "gw_config g = cfg"
proof -
  have "registers_ok g \<and> queues_ok rj g \<and> subs_ok g \<and> gw_config g = cfg"
    using assms(2) unfolding gateway_reachable_def
  proof (induction rule: rtranclp_induct)
    case base
    show ?case using new_gateway_ok [OF assms(1)] by (simp add: new_gateway_def)
  next
    case (step g g')
    then show ?case
      using step_registers [OF step(2)] step_queues [OF step(2)] step_subs [OF step(2)] step_config [OF step(2)] by simp
  qed
  then show "registers_ok g" "queues_ok rj g" "subs_ok g" "gw_config g = cfg" by blast+
qed

end
