(* ===== verification/HubDelivery.thy ===== *)
theory HubDelivery
  imports HubSubscriptions
begin

text \<open>
  What the gateway does for its clients: an event reaches every connection of its user, or that
  connection is closed, and no other connection; a shutdown ends.
\<close>

section \<open>Broadcasting\<close>

text \<open>\<^verbatim>\<open>enqueue\<close> as seen by the connection.\<close>

definition enqueued :: "realtime_config \<Rightarrow> string \<Rightarrow> connection \<Rightarrow> connection" where
  "enqueued cfg data cn =
     (if cnn_stop cn \<noteq> None then cn
      else if queue_full cfg cn data then requestClose StatusTryAgainLater ''outbound queue full'' cn
      else cn\<lparr>cnn_queue := cnn_queue cn @ [data], cnn_queuedBytes := cnn_queuedBytes cn + int (length data)\<rparr>)"

lemma enqueue_conns:
  "gw_conns (enqueue data c g) x = (if x = c then map_option (enqueued (gw_config g) data) (gw_conns g c) else gw_conns g x)"
  "gw_config (enqueue data c g) = gw_config g"
  by (auto simp: enqueue_def enqueued_def split: option.splits)

lemma fold_enqueue_conns:
  "distinct cs \<Longrightarrow> gw_conns (fold (enqueue data) cs g) x =
     (if x \<in> set cs then map_option (enqueued (gw_config g) data) (gw_conns g x) else gw_conns g x)"
  by (induction cs arbitrary: g) (auto simp: enqueue_conns)

lemma fold_close_conns:
  "gw_conns (fold (\<lambda>c. on_conn c (requestClose code reason)) cs g) x =
     (if x \<in> set cs then map_option (requestClose code reason) (gw_conns g x) else gw_conns g x)"
proof (induction cs arbitrary: g)
  case (Cons c cs)
  have "requestClose code reason (requestClose code reason cn) = requestClose code reason cn" for cn
    by (simp add: requestClose_def)
  then show ?case using Cons by (cases "gw_conns g c") auto
qed simp

text \<open>A connection of the user received the event, or was asked to close.\<close>

definition served :: "string \<Rightarrow> connection \<Rightarrow> connection \<Rightarrow> bool" where
  "served data cn cn' \<longleftrightarrow>
     cnn_stop cn' \<noteq> None \<and> cnn_queue cn' = cnn_queue cn \<or>
     cnn_stop cn' = None \<and> cnn_queue cn' = cnn_queue cn @ [data]"

lemma enqueued_served: "served data cn (enqueued cfg data cn)"
  by (auto simp: served_def enqueued_def requestClose_def)

lemma requestClose_stops: "cnn_stop (requestClose code reason cn) \<noteq> None"
  by (simp add: requestClose_def)

lemma failUser_conns:
  assumes "gw_states g a = Some st"
  shows "gw_conns (failUser a g) x =
    (if x \<in> set (ust_clients st) then map_option (requestClose StatusTryAgainLater ''realtime unavailable'') (gw_conns g x)
     else gw_conns g x)"
  using assms by (simp add: failUser_def fold_close_conns)

lemma broadcast_conns:
  assumes "registers_ok g" "gw_states g a = Some st"
  shows "x \<notin> set (ust_clients st) \<Longrightarrow> gw_conns (broadcast marshal a event g) x = gw_conns g x"
    and "\<not> ust_failed st \<Longrightarrow> x \<in> set (ust_clients st) \<Longrightarrow> gw_conns g x = Some cn \<Longrightarrow>
      \<exists>cn'. gw_conns (broadcast marshal a event g) x = Some cn' \<and>
        (cnn_stop cn' \<noteq> None \<and> cnn_queue cn' = cnn_queue cn \<or>
         (\<exists>data. ValidateRealtimeMessage event = Inr () \<and> marshal event = Some data \<and> served data cn cn'))"
proof -
  have d: "distinct (ust_clients st)" using assms unfolding registers_ok_def by blast
  have fails: "\<exists>cn'. gw_conns (failUser a g) x = Some cn' \<and> cnn_stop cn' \<noteq> None \<and> cnn_queue cn' = cnn_queue cn"
    if "x \<in> set (ust_clients st)" "gw_conns g x = Some cn"
    using that requestClose_stops by (simp only: failUser_conns [OF assms(2)] if_True option.map option.inject)
      (simp add: requestClose_stops del: not_None_eq)
  show "x \<notin> set (ust_clients st) \<Longrightarrow> gw_conns (broadcast marshal a event g) x = gw_conns g x"
    using d assms(2) by (auto simp: broadcast_def failUser_conns [OF assms(2)] fold_enqueue_conns split: option.splits)
  assume open_st: "\<not> ust_failed st" and x: "x \<in> set (ust_clients st)" "gw_conns g x = Some cn"
  show "\<exists>cn'. gw_conns (broadcast marshal a event g) x = Some cn' \<and>
        (cnn_stop cn' \<noteq> None \<and> cnn_queue cn' = cnn_queue cn \<or>
         (\<exists>data. ValidateRealtimeMessage event = Inr () \<and> marshal event = Some data \<and> served data cn cn'))"
  proof (cases "isOk (ValidateRealtimeMessage event) \<and> (\<exists>data. marshal event = Some data \<and> \<not> int (length data) > rtc_MaxMessageBytes (gw_config g))")
    case True
    then obtain data where data: "ValidateRealtimeMessage event = Inr ()" "marshal event = Some data"
      "\<not> int (length data) > rtc_MaxMessageBytes (gw_config g)"
      by (auto simp: isOk_def split: sum.splits)
    then have "gw_conns (broadcast marshal a event g) x = Some (enqueued (gw_config g) data cn)"
      using True assms(2) open_st x d by (simp add: broadcast_def fold_enqueue_conns)
    then show ?thesis using data enqueued_served [of data cn "gw_config g"] by blast
  next
    case False
    then have "broadcast marshal a event g = failUser a g" by (auto simp: broadcast_def split: option.splits)
    then show ?thesis using fails [OF x] by auto
  qed
qed

section \<open>Shutting down\<close>

lemma releases:
  assumes "registers_ok g" "subs_ok g" "distinct cs" "set cs \<subseteq> set (gw_clients g)"
  shows "registers_ok (fold release cs g) \<and> subs_ok (fold release cs g) \<and> preparing (fold release cs g) = preparing g \<and>
    gw_clients (fold release cs g) = filter (\<lambda>c. c \<notin> set cs) (gw_clients g) \<and> gw_draining (fold release cs g) = gw_draining g"
  using assms
proof (induction cs arbitrary: g)
  case (Cons c cs)
  then have c: "c \<in> set (gw_clients g)" by simp
  from Cons.prems(1) c obtain cn where cn: "gw_conns g c = Some cn" "\<not> cnn_released cn" by (auto simp: registers_ok_def)
  from Cons.prems(1) cn(1) obtain st where st: "gw_states g (cnn_user cn) = Some st" unfolding registers_ok_def by blast
  have sel: "gw_clients (release c g) = filter (\<lambda>x. x \<noteq> c) (gw_clients g)" "gw_draining (release c g) = gw_draining g"
    "gw_states (release c g) = (gw_states g)(cnn_user cn \<mapsto> st\<lparr>ust_clients := filter (\<lambda>x. x \<noteq> c) (ust_clients st),
        ust_cancelled := ust_cancelled st \<or> filter (\<lambda>x. x \<noteq> c) (ust_clients st) = []\<rparr>)"
    using cn st by (simp_all add: release_def Let_def)
  have "preparing (release c g) = preparing g" using st by (auto simp: preparing_def sel(3) split: if_splits)
  moreover have "set cs \<subseteq> set (gw_clients (release c g))" using Cons.prems(3,4) by (auto simp: sel)
  moreover note Cons.IH [OF release_registers [OF Cons.prems(1) c] release_subs [OF Cons.prems(2,1) c]]
  ultimately show ?case using Cons.prems(3) by (simp add: sel filter_filter conj_commute)
qed simp

lemma filter_own [simp]: "filter (\<lambda>c. c \<notin> set cs) cs = []"
  by (auto simp: filter_empty_conv)

lemma Shutdown_sel:
  "gw_clients (Shutdown g) = gw_clients g" "gw_draining (Shutdown g)"
  "x \<in> set (gw_clients g) \<Longrightarrow> gw_conns g x = Some cn \<Longrightarrow>
     gw_conns (Shutdown g) x = Some (requestClose StatusGoingAway ''server shutdown'' cn)"
proof -
  have keep: "gw_clients (fold (\<lambda>c. on_conn c f) cs g) = gw_clients g \<and> gw_draining (fold (\<lambda>c. on_conn c f) cs g) = gw_draining g"
    for f cs and g :: gateway by (induction cs arbitrary: g) simp_all
  show "gw_clients (Shutdown g) = gw_clients g" "gw_draining (Shutdown g)" by (simp_all add: Shutdown_def keep)
  show "x \<in> set (gw_clients g) \<Longrightarrow> gw_conns g x = Some cn \<Longrightarrow>
     gw_conns (Shutdown g) x = Some (requestClose StatusGoingAway ''server shutdown'' cn)"
    by (simp add: Shutdown_def fold_close_conns)
qed

lemma Shutdown_drains:
  assumes "registers_ok g" "subs_ok g" "preparing g = {}"
  defines "g' \<equiv> fold release (gw_clients (Shutdown g)) (Shutdown g)"
  shows "gw_clients g' = []" "gw_wg g' = 0" "gw_draining g'"
    "\<And>a st sub. gw_states g' a = Some st \<Longrightarrow> ust_sub st = Some sub \<Longrightarrow> sub \<in> set (gw_closedSubs g')"
proof -
  have reg: "registers_ok (Shutdown g)" by (rule same_registers_ok [OF same_Shutdown assms(1)])
  have subs: "subs_ok (Shutdown g)" by (rule same_runs_ok [OF runs_Shutdown assms(2)])
  have "distinct (gw_clients (Shutdown g))" using reg unfolding registers_ok_def by blast
  from releases [OF reg subs this subset_refl] have R: "registers_ok g'" "subs_ok g'" "preparing g' = {}" "gw_clients g' = []"
    "gw_draining g'"
    unfolding g'_def using same_runs_preparing [OF runs_Shutdown, of g] assms(3) Shutdown_sel(2) by simp_all
  show "gw_clients g' = []" "gw_draining g'" by (rule R(4), rule R(5))
  show "gw_wg g' = 0" using subs_elim(4) [OF R(2)] R(3,4) by simp
  fix a st sub
  assume st: "gw_states g' a = Some st" "ust_sub st = Some sub"
  have "\<forall>c. c \<in> set (ust_clients st) \<longrightarrow> c \<in> set (gw_clients g')" using R(1) st(1) unfolding registers_ok_def by blast
  then have "ust_clients st = []" using R(4) by (cases "ust_clients st") auto
  then show "sub \<in> set (gw_closedSubs g')" using subs_elim(1) [OF R(2) st] by simp
qed

section \<open>A gateway\<close>

text \<open>A user connects, is subscribed, greeted and told of a message.\<close>

definition hub_config :: realtime_config where
  "hub_config =
     \<lparr>rtc_NATSURL = ''nats'', rtc_ReadyTimeout = second, rtc_NATSFlushTimeout = second, rtc_PingInterval = minute,
      rtc_PongTimeout = second, rtc_WriteTimeout = second, rtc_SessionCheckInterval = minute,
      rtc_SessionCheckTimeout = second, rtc_ShutdownTimeout = second, rtc_MaxMessageBytes = 1024,
      rtc_QueueMessages = 2, rtc_QueueBytes = 1024, rtc_MaxConnectionsPerUser = 1, rtc_MaxConnections = 2\<rparr>"

definition hub_identity :: identity where
  "hub_identity = \<lparr>idn_UserID = ''u1'', idn_SessionID = ''s1'', idn_AccessExpiresAt = hour, idn_SessionExpiresAt = hour\<rparr>"

definition hub_event :: realtime_message_created where
  "hub_event =
     \<lparr>rmc_Version = RealtimeProtocolVersion, rmc_Type = RealtimeMessageCreatedType, rmc_EventID = ''e1'',
      rmc_OccurredAt = hour,
      rmc_Data = \<lparr>rmd_ID = ''m1'', rmd_ClientMessageID = [], rmd_ChatID = ''c1'', rmd_Sequence = 1, rmd_SenderID = ''u2'',
        rmd_Content = \<lparr>oc_Type = ''TEXT'', oc_Value = ''hi'', oc_ImageID = [], oc_Caption = []\<rparr>, rmd_CreatedAt = hour\<rparr>\<rparr>"

definition hub_marshal :: "realtime_message_created \<Rightarrow> string option" where
  "hub_marshal event = Some (rmd_ID (rmc_Data event))"

definition hub_greeting :: "string \<Rightarrow> identity \<Rightarrow> string" where
  "hub_greeting ident identity = ident @ idn_UserID identity"

definition hub_connected :: gateway where
  "hub_connected = fst (reserve (Inr ''k1'') hour True hub_identity (new_gateway hub_config))"

definition hub_ready :: gateway where
  "hub_ready = activate hub_greeting 1 (prepared 0 (Some 7) None True (fst (prepare 0 hub_connected)))"

lemma hub_limits: "limits_ok hub_config"
  by (simp add: limits_ok_def hub_config_def)

lemma hub_state: "gw_states hub_ready 0 \<noteq> None" "map_option ust_id (gw_states hub_ready 0) = Some ''u1''"
  "map_option ust_clients (gw_states hub_ready 0) = Some [1]" "map_option ust_failed (gw_states hub_ready 0) = Some False"
  "map_option cnn_queue (gw_conns hub_ready 1) = Some [''k1u1'']" "gw_clients hub_ready = [1]"
  by code_simp+

lemma hub_reachable: "gateway_reachable hub_marshal hub_greeting hub_config hub_ready"
proof -
  let ?g1 = "hub_connected" and ?g2 = "fst (prepare 0 hub_connected)"
  let ?g3 = "prepared 0 (Some 7) None True ?g2"
  obtain r where "reserve (Inr ''k1'') hour True hub_identity (new_gateway hub_config) = (?g1, r)"
    unfolding hub_connected_def by (metis prod.collapse)
  then have s1: "gateway_step hub_marshal hub_greeting (new_gateway hub_config) ?g1" by (rule step_reserve)
  obtain b where "prepare 0 ?g1 = (?g2, b)" by (metis prod.collapse)
  then have s2: "gateway_step hub_marshal hub_greeting ?g1 ?g2" by (rule step_prepare)
  have "map_option (\<lambda>st. (ust_started st, ust_ready st)) (gw_states ?g2 0) = Some (True, False)" by code_simp
  then obtain st where st: "gw_states ?g2 0 = Some st" "ust_started st" "\<not> ust_ready st" by auto
  have s3: "gateway_step hub_marshal hub_greeting ?g2 ?g3" by (rule step_prepared [OF st]) simp
  have "map_option (\<lambda>cn. (cnn_ready cn, cnn_user cn)) (gw_conns ?g3 1) = Some (False, 0)"
    "map_option (\<lambda>st. (ust_ready st, ust_err st, ust_failed st)) (gw_states ?g3 0) = Some (True, None, False)" by code_simp+
  then obtain cn st where "gw_conns ?g3 1 = Some cn" "\<not> cnn_ready cn" "gw_states ?g3 (cnn_user cn) = Some st"
    "ust_ready st" "ust_err st = None" "\<not> ust_failed st" by auto
  then have s4: "gateway_step hub_marshal hub_greeting ?g3 hub_ready" unfolding hub_ready_def by (rule step_activate)
  show ?thesis
    unfolding gateway_reachable_def using s1 s2 s3 s4 by (meson rtranclp.rtrancl_refl rtranclp.rtrancl_into_rtrancl)
qed

end
