(* ===== verification/ServiceProperties.thy ===== *)
theory ServiceProperties
  imports TimelineWorld RateLimiter HubDelivery
begin

text \<open>
  The properties of the rate limiter, of catching up with a chat, and of the WebSocket gateway.
\<close>

section \<open>Rate limits\<close>

text \<open>
  C36. The pipeline of the rate limiter decides as a log of all accepted messages would: whatever
  other clients did and wherever the TTL index removed the document, the returned delay is the exact
  time until the log admits a message under both limits, the message is accepted exactly when it is
  zero, and the log never exceeds 30 messages in 10 seconds or 60 in a minute.
\<close>

theorem reserve_decides:
  assumes "rate_server L removed" and "rate_history user (rate_docs L s user) log (removed s user)"
    and "Reserve L user s = (s', Inr wait)"
  shows "\<exists>more c. (\<forall>t \<in> set (log @ more). t \<le> c) \<and> 0 \<le> wait \<and> wait \<le> minuteWindow \<and>
    (\<forall>\<delta> \<ge> 0. allowed (log @ more) (c + \<delta>) \<longleftrightarrow> wait \<le> \<delta>) \<and>
    (let log' = log @ more @ (if wait = 0 then [c] else []) in
     rate_history user (rate_docs L s' user) log' (removed s' user) \<and> within_limits log')"
proof -
  from rate_server.Reserve_decides [OF assms] obtain more c where
    R: "\<forall>t \<in> set (log @ more). t \<le> c" "0 \<le> wait" "wait \<le> minuteWindow"
      "\<forall>\<delta> \<ge> 0. allowed (log @ more) (c + \<delta>) \<longleftrightarrow> wait \<le> \<delta>"
      "rate_history user (rate_docs L s' user) (log @ more @ (if wait = 0 then [c] else [])) (removed s' user)"
    by blast
  from rate_history_invariant [OF R(5)] have "within_limits (log @ more @ (if wait = 0 then [c] else []))"
    by (simp add: rate_invariant_def)
  with R show ?thesis unfolding Let_def by blast
qed

theorem reserve_decides_witness:
  "\<exists>s' more c. Reserve rw_collection ''u1'' \<lparr>rw_docs = (\<lambda>_. None), rw_clock = 5\<rparr> = (s', Inr 0) \<and>
     rate_history ''u1'' (rw_docs s' ''u1'') (more @ [c]) 0"
proof -
  let ?s = "\<lparr>rw_docs = (\<lambda>_. None), rw_clock = 5\<rparr>"
  have "snd (Reserve rw_collection ''u1'' ?s) = Inr 0" by code_simp
  then obtain s' where run: "Reserve rw_collection ''u1'' ?s = (s', Inr 0)" by (metis prod.collapse)
  have "rate_history ''u1'' (rate_docs rw_collection ?s ''u1'') [] 0"
    unfolding rw_collection_def by (simp add: rate_history.start)
  from reserve_decides [OF rw.rate_server_axioms this run] obtain more c
    where "rate_history ''u1'' (rate_docs rw_collection s' ''u1'') (more @ [c]) 0" by (auto simp: Let_def)
  then show ?thesis using run by (auto simp: rw_collection_def)
qed

section \<open>Catching up\<close>

text \<open>
  C37. A participant that asks for what follows the number \<open>a\<close> gets, from one snapshot of the chat,
  exactly the messages numbered \<open>a + 1\<close> up to the page size or the end of the snapshot, in order and
  without gaps, with a cursor to the next one if there is more; anybody else gets nothing.
\<close>

theorem timeline_catches_up:
  assumes "timeline_service R env repo chats prec"
    and "ListTimeline parseTime repo (ListByChat R) input s = (s', Inr out)"
    and "tli_AfterSequence input = Some a"
    and "\<And>m. env (docs (tlr_collection R) s) m \<Longrightarrow> \<exists>n. numbered m (TrimSpace (tli_ChatID input)) n"
  shows "\<exists>y m n upper.
    chats s (TrimSpace (tli_ChatID input)) = Some y \<and>
    HasParticipant (chat_restored y) (TrimSpace (tli_CurrentUserID input)) \<and>
    env (docs (tlr_collection R) s) m \<and> numbered m (TrimSpace (tli_ChatID input)) n \<and> a \<le> upper \<and> upper \<le> n \<and>
    upper = (case tli_ThroughSequence input of None \<Rightarrow> n | Some through \<Rightarrow> through) \<and>
    caught_up m (TrimSpace (tli_ChatID input)) (TrimSpace (tli_CurrentUserID input)) a upper out"
  using timeline_service.ListTimeline_after [OF assms] by blast

lemma mw_text_numbered: "\<exists>n. numbered (docs mw_item_collection mw_posted_text) c n"
proof -
  have "store_ok (mw_view mw_start_text)"
    by (auto simp: store_ok_def sequences_ok_def events_ok_def images_ok_def mw_view_eq mw_start_text_def
        mw_start_def as_map_def)
  moreover have "store_steps floor_ms (mw_view mw_start_text) (mw_view mw_posted_text)"
    unfolding mw_posted_text_def
    by (rule followsD [OF mw_creating.CreateMessage_steps prod.collapse [symmetric]]) simp_all
  ultimately have "store_ok (mw_view mw_posted_text)" by (rule store_steps_ok [rotated])
  then have "\<exists>n. numbered (sv_items (mw_view mw_posted_text)) c n" by (intro sequences_numbered) (simp add: store_ok_def)
  then show ?thesis by (simp add: mw_view_eq mw_documents)
qed

lemma mw_sync_text_runs: "isOk (snd (mw_list_timeline mw_sync mw_posted_text))"
  unfolding mw_posted_text_def by code_simp

theorem timeline_catches_up_witness:
  "\<exists>s' out m n. mw_list_timeline mw_sync mw_posted_text = (s', Inr out) \<and> numbered m ''c1'' n \<and>
     caught_up m ''c1'' ''u2'' 0 n out"
proof -
  from run_ok [OF mw_sync_text_runs] obtain s' out where run: "mw_list_timeline mw_sync mw_posted_text = (s', Inr out)"
    by blast
  have sel: "tli_AfterSequence mw_sync = Some 0" "TrimSpace (tli_ChatID mw_sync) = ''c1''"
    "TrimSpace (tli_CurrentUserID mw_sync) = ''u2''" "tli_ThroughSequence mw_sync = None" by code_simp+
  have "\<exists>n. numbered m (TrimSpace (tli_ChatID mw_sync)) n" if "docs (tlr_collection mw_reader) mw_posted_text = m" for m
    using that mw_text_numbered by auto
  from timeline_catches_up [OF mw_conversing.timeline_service_axioms run sel(1) this] run sel show ?thesis by auto
qed

section \<open>The gateway\<close>

text \<open>
  C38. Whatever the clients, the subscriptions and the timers of the gateway do, the limits on
  connections hold, in all and per user; every queue stays within its bounds and a connection is sent
  nothing before its greeting; a subscription without connections was closed; and the wait group
  counts the connections and the subscriptions in preparation.
\<close>

theorem gateway_invariant:
  assumes "limits_ok cfg" and "gateway_reachable marshal ready_json cfg g"
  shows "int (length (gw_clients g)) \<le> rtc_MaxConnections cfg \<and>
    (\<forall>u. int (length (clients_of g u)) \<le> rtc_MaxConnectionsPerUser cfg) \<and>
    (\<forall>c cn. gw_conns g c = Some cn \<longrightarrow> queue_ok cfg ready_json cn) \<and>
    (\<forall>a st sub. gw_states g a = Some st \<longrightarrow> ust_sub st = Some sub \<longrightarrow> ust_clients st \<noteq> [] \<or> sub \<in> set (gw_closedSubs g)) \<and>
    gw_wg g = int (length (gw_clients g)) + int (card (preparing g))"
proof -
  note R = reachable_ok [OF assms]
  have "int (length (clients_of g u)) \<le> rtc_MaxConnectionsPerUser cfg" for u
  proof -
    have "gw_perUser g u = int (length (clients_of g u)) \<and> gw_perUser g u \<le> rtc_MaxConnectionsPerUser cfg"
      using R(1,4) unfolding registers_ok_def by blast
    then show ?thesis by simp
  qed
  moreover have "int (length (gw_clients g)) \<le> rtc_MaxConnections cfg" using R(1,4) unfolding registers_ok_def by blast
  moreover have "\<forall>c cn. gw_conns g c = Some cn \<longrightarrow> queue_ok cfg ready_json cn" using R(2,4) unfolding queues_ok_def by blast
  ultimately show ?thesis using subs_elim(1,4) [OF R(3)] by blast
qed

theorem gateway_invariant_witness:
  "\<exists>cn. gw_conns hub_ready 1 = Some cn \<and> queue_ok hub_config hub_greeting cn \<and> gw_clients hub_ready = [1]"
proof -
  obtain cn where "gw_conns hub_ready 1 = Some cn" using hub_state(5) by auto
  then show ?thesis using gateway_invariant [OF hub_limits hub_reachable] hub_state(6) by blast
qed

text \<open>
  C39. An event of a user reaches only connections of that user, and each of them: it is appended to
  the queue of the connection unless a close of the connection was requested, so that an event is
  never dropped silently.
\<close>

theorem broadcast_serves:
  assumes "limits_ok cfg" and "gateway_reachable marshal ready_json cfg g"
    and "gw_states g a = Some st" and "\<not> ust_failed st"
  shows "(\<forall>c. gw_conns (broadcast marshal a event g) c \<noteq> gw_conns g c \<longrightarrow>
      (\<exists>cn. gw_conns g c = Some cn \<and> idn_UserID (cnn_identity cn) = ust_id st)) \<and>
    (\<forall>c \<in> set (ust_clients st). \<exists>cn cn'. gw_conns g c = Some cn \<and> gw_conns (broadcast marshal a event g) c = Some cn' \<and>
      (cnn_stop cn' \<noteq> None \<and> cnn_queue cn' = cnn_queue cn \<or>
       (\<exists>data. ValidateRealtimeMessage event = Inr () \<and> marshal event = Some data \<and> served data cn cn')))"
proof -
  note R = reachable_ok(1) [OF assms(1,2)]
  have mine: "\<exists>cn. gw_conns g c = Some cn \<and> idn_UserID (cnn_identity cn) = ust_id st" if "c \<in> set (ust_clients st)" for c
  proof -
    have "\<exists>cn. gw_conns g c = Some cn \<and> cnn_user cn = a" using R assms(3) that unfolding registers_ok_def by blast
    then obtain cn where cn: "gw_conns g c = Some cn" "cnn_user cn = a" by blast
    have "\<exists>st'. gw_states g (cnn_user cn) = Some st' \<and> ust_id st' = idn_UserID (cnn_identity cn)"
      using R cn(1) unfolding registers_ok_def by blast
    then show ?thesis using cn assms(3) by auto
  qed
  show ?thesis
    using mine broadcast_conns(1) [OF R assms(3)] broadcast_conns(2) [OF R assms(3,4)] by blast
qed

theorem broadcast_serves_witness:
  "\<exists>cn cn'. gw_conns hub_ready 1 = Some cn \<and> gw_conns (broadcast hub_marshal 0 hub_event hub_ready) 1 = Some cn' \<and>
     (cnn_stop cn' \<noteq> None \<or> served ''m1'' cn cn')"
proof -
  obtain st where st: "gw_states hub_ready 0 = Some st" "ust_clients st = [1]" "\<not> ust_failed st"
    using hub_state(3,4) by auto
  from conjunct2 [OF broadcast_serves [OF hub_limits hub_reachable st(1,3)]] st(2) show ?thesis
    by (fastforce simp: hub_marshal_def hub_event_def)
qed




end
