(* ===== verification/Argon2id.thy ===== *)
theory Argon2id
  imports Authentication GoText
begin

text \<open>
  The password hasher of \<^verbatim>\<open>internal/resources/security/argon2id\<close>: its parameters, the encoded form of
  a hash and both operations of the port.  The derivation of a key and the version number are those
  of \<^verbatim>\<open>golang.org/x/crypto/argon2\<close>, hence parameters; so are the random source and the context.
  Overwriting the buffers with zeros is not modelled.
\<close>

datatype argon_sentinel = ErrEmptyPassword | ErrInvalidParameters | ErrInvalidEncodeHash

definition argonErr :: "argon_sentinel \<Rightarrow> go_error" where
  "argonErr e = NewError (case e of ErrEmptyPassword \<Rightarrow> ''password cannot be empty''
     | ErrInvalidParameters \<Rightarrow> ''invalid Argon2id parameters''
     | ErrInvalidEncodeHash \<Rightarrow> ''invalid encoded Argon2id hash'')"

definition minMemory :: nat where "minMemory = 19 * 1024"
definition maxMemory :: nat where "maxMemory = 64 * 1024"
definition minIterations :: nat where "minIterations = 2"
definition maxIterations :: nat where "maxIterations = 5"
definition minParallelism :: nat where "minParallelism = 1"
definition maxParallelism :: nat where "maxParallelism = 4"
definition minSaltLength :: nat where "minSaltLength = 16"
definition maxSaltLength :: nat where "maxSaltLength = 64"
definition minKeyLength :: nat where "minKeyLength = 32"
definition maxKeyLength :: nat where "maxKeyLength = 64"
definition maxEncodedHashLength :: nat where "maxEncodedHashLength = 512"

text \<open>The fields are of type \<^verbatim>\<open>uint32\<close>, the parallelism of type \<^verbatim>\<open>uint8\<close>.\<close>

record parameters =
  prm_Memory :: nat
  prm_Iterations :: nat
  prm_Parallelism :: nat
  prm_SaltLenght :: nat
  prm_KeyLenght :: nat

definition DefaultParameters :: parameters where
  "DefaultParameters =
     \<lparr>prm_Memory = 19 * 1024, prm_Iterations = 2, prm_Parallelism = 1, prm_SaltLenght = 16, prm_KeyLenght = 32\<rparr>"

definition validateParameters :: "parameters \<Rightarrow> go_error + unit" where
  "validateParameters p =
     (let invalid = Wrap ''out of bounds'' (argonErr ErrInvalidParameters) in
      require (minMemory \<le> prm_Memory p \<and> prm_Memory p \<le> maxMemory) invalid (
      require (minIterations \<le> prm_Iterations p \<and> prm_Iterations p \<le> maxIterations) invalid (
      require (minParallelism \<le> prm_Parallelism p \<and> prm_Parallelism p \<le> maxParallelism) invalid (
      require (minSaltLength \<le> prm_SaltLenght p \<and> prm_SaltLenght p \<le> maxSaltLength) invalid (
      require (minKeyLength \<le> prm_KeyLenght p \<and> prm_KeyLenght p \<le> maxKeyLength) invalid (
      Inr ()))))))"

definition NewHasher :: "parameters \<Rightarrow> go_error + parameters" where
  "NewHasher p = andThen (validateParameters p) (\<lambda>e. e) (\<lambda>_. Inr p)"

section \<open>The encoded hash\<close>

definition encodeHash :: "nat \<Rightarrow> parameters \<Rightarrow> string \<Rightarrow> string \<Rightarrow> string" where
  "encodeHash version p salt derivedKey =
     ''$argon2id$v='' @ decimal version @ ''$m='' @ decimal (prm_Memory p) @ '',t='' @ decimal (prm_Iterations p) @
     '',p='' @ decimal (prm_Parallelism p) @ ''$'' @ RawStd_EncodeToString salt @ ''$'' @ RawStd_EncodeToString derivedKey"

definition parseNamedUint :: "string \<Rightarrow> string \<Rightarrow> nat \<Rightarrow> go_error + nat" where
  "parseNamedUint val pre bitSize =
     (if take (length pre) val \<noteq> pre \<or> length val = length pre then Inl (argonErr ErrInvalidEncodeHash)
      else case ParseUint bitSize (drop (length pre) val) of
             None \<Rightarrow> Inl (Wrap ''parse'' (argonErr ErrInvalidEncodeHash))
           | Some n \<Rightarrow> Inr n)"

definition from_option :: "'e \<Rightarrow> 'a option \<Rightarrow> 'e + 'a" where
  "from_option e r = (case r of None \<Rightarrow> Inl e | Some a \<Rightarrow> Inr a)"

definition parseHash :: "nat \<Rightarrow> string \<Rightarrow> go_error + parameters \<times> string \<times> string" where
  "parseHash version encoded =
     (let invalid = argonErr ErrInvalidEncodeHash in
      if encoded = [] \<or> length encoded > maxEncodedHashLength then Inl invalid
      else case Split (CHR ''$'') encoded of
        [p0, p1, p2, p3, p4, p5] \<Rightarrow>
          if p0 \<noteq> [] \<or> p1 \<noteq> ''argon2id'' then Inl invalid
          else
            andThen (parseNamedUint p2 ''v='' 32) (\<lambda>_. invalid) (\<lambda>v.
            require (v = version) invalid (
            case Split (CHR '','') p3 of
              [c0, c1, c2] \<Rightarrow>
                andThen (parseNamedUint c0 ''m='' 32) (\<lambda>_. invalid) (\<lambda>memory.
                andThen (parseNamedUint c1 ''t='' 32) (\<lambda>_. invalid) (\<lambda>iterations.
                andThen (parseNamedUint c2 ''p='' 8) (\<lambda>_. invalid) (\<lambda>parallelism.
                andThen (from_option invalid (RawStd_DecodeStrict p4)) (\<lambda>e. e) (\<lambda>salt.
                andThen (from_option invalid (RawStd_DecodeStrict p5)) (\<lambda>e. e) (\<lambda>derivedKey.
                let p = \<lparr>prm_Memory = memory, prm_Iterations = iterations, prm_Parallelism = parallelism,
                         prm_SaltLenght = length salt mod 2 ^ 32, prm_KeyLenght = length derivedKey mod 2 ^ 32\<rparr>
                in andThen (validateParameters p) (\<lambda>_. Wrap ''parameters'' invalid) (\<lambda>_.
                   Inr (p, salt, derivedKey)))))))
            | _ \<Rightarrow> Inl invalid))
      | _ \<Rightarrow> Inl invalid)"

section \<open>The operations\<close>

type_synonym key_derivation = "string \<Rightarrow> string \<Rightarrow> nat \<Rightarrow> nat \<Rightarrow> nat \<Rightarrow> nat \<Rightarrow> string"

definition derive :: "key_derivation \<Rightarrow> parameters \<Rightarrow> string \<Rightarrow> string \<Rightarrow> string" where
  "derive IDKey p password salt =
     IDKey password salt (prm_Iterations p) (prm_Memory p) (prm_Parallelism p) (prm_KeyLenght p)"

definition argon2id_Hash ::
  "key_derivation \<Rightarrow> nat \<Rightarrow> (nat \<Rightarrow> ('w, go_error, string) call) \<Rightarrow> parameters \<Rightarrow> 'w go_context \<Rightarrow> string
     \<Rightarrow> ('w, go_error, password_hash) call" where
  "argon2id_Hash IDKey version rand_Read hasher ctx plainPassword =
     orFail ctx (\<lambda>e. e) (\<lambda>_.
     orFail (rand_Read (prm_SaltLenght hasher)) (Wrap ''generate Argon2id salt'') (\<lambda>salt.
     let derivedKey = derive IDKey hasher plainPassword salt in
     orFail ctx (\<lambda>e. e) (\<lambda>_.
     orFail (lift (NewPasswordHash (encodeHash version hasher salt derivedKey)))
       (Wrap ''create password hash value object'') (\<lambda>passwordHash.
     ret passwordHash))))"

definition argon2id_Matches ::
  "key_derivation \<Rightarrow> nat \<Rightarrow> 'w go_context \<Rightarrow> string \<Rightarrow> password_hash \<Rightarrow> ('w, go_error, bool) call" where
  "argon2id_Matches IDKey version ctx plainPassword passwordHash =
     orFail ctx (\<lambda>e. e) (\<lambda>_.
     if plainPassword = [] then fail (argonErr ErrEmptyPassword)
     else
       orFail (lift (parseHash version passwordHash)) (\<lambda>e. e) (\<lambda>(p, salt, expectedKey).
       let actualKey = derive IDKey p plainPassword salt in
       orFail ctx (\<lambda>e. e) (\<lambda>_.
       ret (actualKey = expectedKey))))"

definition argon2id_hasher ::
  "key_derivation \<Rightarrow> nat \<Rightarrow> (nat \<Rightarrow> ('w, go_error, string) call) \<Rightarrow> 'w go_context \<Rightarrow> parameters \<Rightarrow> 'w password_hasher" where
  "argon2id_hasher IDKey version rand_Read ctx hasher =
     \<lparr>Hash = argon2id_Hash IDKey version rand_Read hasher ctx, Matches = argon2id_Matches IDKey version ctx\<rparr>"

section \<open>Round trip\<close>

lemma validateParameters_ok [code_checks]:
  "validateParameters p = Inr () \<longleftrightarrow>
     minMemory \<le> prm_Memory p \<and> prm_Memory p \<le> maxMemory \<and>
     minIterations \<le> prm_Iterations p \<and> prm_Iterations p \<le> maxIterations \<and>
     minParallelism \<le> prm_Parallelism p \<and> prm_Parallelism p \<le> maxParallelism \<and>
     minSaltLength \<le> prm_SaltLenght p \<and> prm_SaltLenght p \<le> maxSaltLength \<and>
     minKeyLength \<le> prm_KeyLenght p \<and> prm_KeyLenght p \<le> maxKeyLength"
  by (auto simp: validateParameters_def Let_def require_iff)

lemma NewHasher_ok [code_checks]: "NewHasher p = Inr h \<longleftrightarrow> h = p \<and> validateParameters p = Inr ()"
  by (auto simp: NewHasher_def andThen_iff)

lemma parseNamedUint_decimal: "n < 2 ^ bitSize \<Longrightarrow> parseNamedUint (pre @ decimal n) pre bitSize = Inr n"
  by (simp add: parseNamedUint_def ParseUint_decimal)

lemma plain_chars: "CHR ''$'' \<notin> set (decimal n)" "CHR '','' \<notin> set (decimal n)" "CHR ''$'' \<notin> set (RawStd_EncodeToString s)"
  using decimal_plain [of n] encoded_plain [of _ s] by auto

lemma encodeHash_parts:
  "Split (CHR ''$'') (encodeHash version p salt key) =
     [[], ''argon2id'', ''v='' @ decimal version,
      ''m='' @ decimal (prm_Memory p) @ '',t='' @ decimal (prm_Iterations p) @ '',p='' @ decimal (prm_Parallelism p),
      RawStd_EncodeToString salt, RawStd_EncodeToString key]"
proof -
  let ?cost = "''m='' @ decimal (prm_Memory p) @ '',t='' @ decimal (prm_Iterations p) @ '',p='' @ decimal (prm_Parallelism p)"
  have parts: "encodeHash version p salt key =
      [] @ CHR ''$'' # (''argon2id'' @ CHR ''$'' # ((''v='' @ decimal version) @ CHR ''$'' # (?cost @ CHR ''$'' #
        (RawStd_EncodeToString salt @ CHR ''$'' # RawStd_EncodeToString key))))"
    by (simp add: encodeHash_def)
  show ?thesis
    unfolding parts by (subst Split_append, simp add: plain_chars)+ (simp add: Split_plain plain_chars)
qed

lemma cost_parts:
  "Split (CHR '','') (''m='' @ decimal a @ '',t='' @ decimal b @ '',p='' @ decimal c) =
     [''m='' @ decimal a, ''t='' @ decimal b, ''p='' @ decimal c]"
proof -
  have parts: "''m='' @ decimal a @ '',t='' @ decimal b @ '',p='' @ decimal c =
      (''m='' @ decimal a) @ CHR '','' # ((''t='' @ decimal b) @ CHR '','' # (''p='' @ decimal c))"
    by simp
  show ?thesis
    unfolding parts by (subst Split_append, simp add: plain_chars)+ (simp add: Split_plain plain_chars)
qed

lemma encodeHash_length:
  assumes "validateParameters p = Inr ()" "version < 2 ^ 32" "length salt = prm_SaltLenght p" "length key = prm_KeyLenght p"
  shows "length (encodeHash version p salt key) \<le> maxEncodedHashLength"
proof -
  note v = assms(1) [unfolded validateParameters_ok minMemory_def maxMemory_def minIterations_def maxIterations_def
      minParallelism_def maxParallelism_def minSaltLength_def maxSaltLength_def minKeyLength_def maxKeyLength_def]
  have "length (decimal version) \<le> 10" "length (decimal (prm_Memory p)) \<le> 10" "length (decimal (prm_Iterations p)) \<le> 10"
    "length (decimal (prm_Parallelism p)) \<le> 10"
    using assms(2) v by (auto intro!: decimal_length)
  moreover have "3 * length (RawStd_EncodeToString salt) \<le> 4 * 64 + 2" "3 * length (RawStd_EncodeToString key) \<le> 4 * 64 + 2"
    using encoded_length [of salt] encoded_length [of key] v assms(3,4) by linarith+
  ultimately show ?thesis by (simp add: encodeHash_def maxEncodedHashLength_def)
qed

lemma parseHash_encodeHash:
  assumes "validateParameters p = Inr ()" "version < 2 ^ 32" "length salt = prm_SaltLenght p" "length key = prm_KeyLenght p"
  shows "parseHash version (encodeHash version p salt key) = Inr (p, salt, key)"
proof -
  note v = assms(1) [unfolded validateParameters_ok minMemory_def maxMemory_def minIterations_def maxIterations_def
      minParallelism_def maxParallelism_def minSaltLength_def maxSaltLength_def minKeyLength_def maxKeyLength_def]
  have nonempty: "encodeHash version p salt key \<noteq> []" by (simp add: encodeHash_def)
  have nums: "parseNamedUint (''v='' @ decimal version) ''v='' 32 = Inr version"
    "parseNamedUint (''m='' @ decimal (prm_Memory p)) ''m='' 32 = Inr (prm_Memory p)"
    "parseNamedUint (''t='' @ decimal (prm_Iterations p)) ''t='' 32 = Inr (prm_Iterations p)"
    "parseNamedUint (''p='' @ decimal (prm_Parallelism p)) ''p='' 8 = Inr (prm_Parallelism p)"
    by (rule parseNamedUint_decimal, use assms(2) v in simp)+
  have p: "\<lparr>prm_Memory = prm_Memory p, prm_Iterations = prm_Iterations p, prm_Parallelism = prm_Parallelism p,
      prm_SaltLenght = length salt mod 2 ^ 32, prm_KeyLenght = length key mod 2 ^ 32\<rparr> = p"
    using v assms(3,4) by simp
  show ?thesis
    using encodeHash_length [OF assms] nonempty
    unfolding parseHash_def Let_def encodeHash_parts cost_parts list.case nums andThen_simps RawStd_round_trip
      from_option_def option.case p assms(1)
    by simp
qed

text \<open>What the program relies on: a derived key and random bytes have the requested length.\<close>

locale argon2_library =
  fixes IDKey :: key_derivation and version :: nat and rand_Read :: "nat \<Rightarrow> ('w, go_error, string) call"
  assumes IDKey_length: "length (IDKey password salt t m par n) = n"
    and version_word: "version < 2 ^ 32"
    and rand_length: "rand_Read n w = (w', Inr bs) \<Longrightarrow> length bs = n"
begin

lemma derive_length [simp]: "length (derive IDKey p password salt) = prm_KeyLenght p"
  by (simp add: derive_def IDKey_length)

lemma Hash_parses:
  assumes "NewHasher p = Inr hasher" "argon2id_Hash IDKey version rand_Read hasher ctx password w = (w', Inr h)"
  shows "\<exists>salt. length salt = prm_SaltLenght p \<and> parseHash version h = Inr (p, salt, derive IDKey p password salt)"
proof -
  from assms(1) have p: "hasher = p" "validateParameters p = Inr ()" by (simp_all add: NewHasher_ok)
  from assms(2) obtain w1 w2 salt where salt: "rand_Read (prm_SaltLenght p) w1 = (w2, Inr salt)"
    and h: "h = encodeHash version p salt (derive IDKey p password salt)"
    by (auto simp: argon2id_Hash_def Let_def run_iff NewPasswordHash_ok p(1))
  from parseHash_encodeHash [OF p(2) version_word rand_length [OF salt] derive_length] rand_length [OF salt] h
  show ?thesis by auto
qed

lemma Matches_decides:
  assumes "parseHash version h = Inr (p, salt, derive IDKey p password salt)"
    and "argon2id_Matches IDKey version ctx attempted h w = (w', Inr b)"
  shows "attempted \<noteq> [] \<and> (b \<longleftrightarrow> derive IDKey p attempted salt = derive IDKey p password salt)"
  using assms by (auto simp: argon2id_Matches_def Let_def run_iff split: if_splits)

lemma Matches_returns:
  assumes "parseHash version h = Inr (p, salt, derive IDKey p password salt)"
    and "\<And>w. ctx w = (w, Inr ())" "password \<noteq> []"
  shows "argon2id_Matches IDKey version ctx password h w = (w, Inr True)"
  using assms by (simp add: argon2id_Matches_def orFail_def attempt_def)

end

section \<open>The property\<close>

text \<open>A derivation and a random source with these laws.\<close>

definition mem_IDKey :: key_derivation where
  "mem_IDKey password salt t m par n = take n (password @ salt @ replicate n (CHR ''k''))"

definition mem_rand :: "nat \<Rightarrow> (unit, go_error, string) call" where
  "mem_rand n = ret (replicate n (CHR ''r''))"

interpretation mem_argon: argon2_library mem_IDKey 19 mem_rand
  by unfold_locales (auto simp: mem_IDKey_def mem_rand_def)

text \<open>
  C4. Hashing round-trips: the hash of a password parses back to the parameters of the hasher, a
  salt of their length and the key derived with it; so matching returns true for that password, and
  for any other one exactly when the same key is derived from it.
\<close>

theorem password_round_trip:
  assumes "argon2_library IDKey version rand_Read" and "NewHasher p = Inr hasher"
    and "Hash (argon2id_hasher IDKey version rand_Read ctx hasher) password w = (w', Inr h)"
  shows "\<exists>salt. length salt = prm_SaltLenght p \<and> parseHash version h = Inr (p, salt, derive IDKey p password salt) \<and>
    (\<forall>attempted v v' b. Matches (argon2id_hasher IDKey version rand_Read ctx hasher) attempted h v = (v', Inr b) \<longrightarrow>
       attempted \<noteq> [] \<and> (b \<longleftrightarrow> derive IDKey p attempted salt = derive IDKey p password salt)) \<and>
    (password \<noteq> [] \<longrightarrow> (\<forall>v. ctx v = (v, Inr ())) \<longrightarrow>
       (\<forall>v. Matches (argon2id_hasher IDKey version rand_Read ctx hasher) password h v = (v, Inr True)))"
proof -
  have "argon2id_Hash IDKey version rand_Read hasher ctx password w = (w', Inr h)"
    using assms(3) by (simp add: argon2id_hasher_def)
  from argon2_library.Hash_parses [OF assms(1,2) this] obtain salt where
    len: "length salt = prm_SaltLenght p" and parsed: "parseHash version h = Inr (p, salt, derive IDKey p password salt)" by blast
  have "\<forall>attempted v v' b. argon2id_Matches IDKey version ctx attempted h v = (v', Inr b) \<longrightarrow>
      attempted \<noteq> [] \<and> (b \<longleftrightarrow> derive IDKey p attempted salt = derive IDKey p password salt)"
    by (intro allI impI) (rule argon2_library.Matches_decides [OF assms(1) parsed])
  moreover have "argon2id_Matches IDKey version ctx password h v = (v, Inr True)"
    if "\<forall>v. ctx v = (v, Inr ())" "password \<noteq> []" for v
    by (rule argon2_library.Matches_returns [OF assms(1) parsed]) (use that in simp_all)
  ultimately show ?thesis using len parsed unfolding argon2id_hasher_def password_hasher.simps
    by (intro exI [of _ salt]) simp
qed

theorem password_round_trip_witness:
  "\<exists>h. Hash (argon2id_hasher mem_IDKey 19 mem_rand (ret ()) DefaultParameters) ''correct horse'' () = ((), Inr h) \<and>
     Matches (argon2id_hasher mem_IDKey 19 mem_rand (ret ()) DefaultParameters) ''correct horse'' h () = ((), Inr True)"
proof -
  have ok: "NewHasher DefaultParameters = Inr DefaultParameters"
    by (simp add: NewHasher_ok validateParameters_ok DefaultParameters_def minMemory_def maxMemory_def minIterations_def
        maxIterations_def minParallelism_def maxParallelism_def minSaltLength_def maxSaltLength_def minKeyLength_def maxKeyLength_def)
  have "\<not> blank (encodeHash 19 DefaultParameters salt key)" for salt key
    using TrimSpace_graphic_hd [of "CHR ''$''"] by (simp add: encodeHash_def graphic_def)
  then obtain h where run: "Hash (argon2id_hasher mem_IDKey 19 mem_rand (ret ()) DefaultParameters) ''correct horse'' () = ((), Inr h)"
    by (simp add: argon2id_hasher_def argon2id_Hash_def mem_rand_def Let_def orFail_def attempt_def NewPasswordHash_def)
  from password_round_trip [OF mem_argon.argon2_library_axioms ok run] run show ?thesis by auto
qed

end
