(* ===== verification/ServeMux.thy ===== *)
theory ServeMux
  imports Http
begin

text \<open>
  What the program uses of \<^verbatim>\<open>http.ServeMux\<close>: patterns without method and host, literal segments,
  one-segment wildcards and subtrees; the cleaning of paths; the search of the tree of patterns, in
  which a literal segment is tried before a wildcard and that before a subtree.
\<close>

section \<open>Paths\<close>

text \<open>\<^verbatim>\<open>path.Clean\<close> of a rooted path, as its list of segments.\<close>

definition clean_segment :: "string list \<Rightarrow> string \<Rightarrow> string list" where
  "clean_segment acc part =
     (if part = [] \<or> part = ''.'' then acc else if part = ''..'' then butlast acc else acc @ [part])"

definition clean_segments :: "string list \<Rightarrow> string list" where
  "clean_segments parts = foldl clean_segment [] parts"

definition join_segments :: "string list \<Rightarrow> string" where
  "join_segments parts = concat (map (\<lambda>part. CHR ''/'' # part) parts)"

definition cleanPath :: "string \<Rightarrow> string" where
  "cleanPath p =
     (let parts = clean_segments (Split (CHR ''/'') p) in
      if parts = [] then ''/''
      else join_segments parts @ (if HasSuffix p ''/'' then ''/'' else []))"

text \<open>\<^verbatim>\<open>url.PathUnescape\<close> of a segment; one that is not well-formed is left alone.\<close>

definition hex_value :: "char \<Rightarrow> nat option" where
  "hex_value c =
     (if CHR ''0'' \<le> c \<and> c \<le> CHR ''9'' then Some (of_char c - 48)
      else if CHR ''a'' \<le> c \<and> c \<le> CHR ''f'' then Some (of_char c - 87)
      else if CHR ''A'' \<le> c \<and> c \<le> CHR ''F'' then Some (of_char c - 55) else None)"

fun percent_decode :: "string \<Rightarrow> string option" where
  "percent_decode [] = Some []"
| "percent_decode [c] = (if c = CHR ''%'' then None else Some [c])"
| "percent_decode [c, d] = (if c = CHR ''%'' then None else map_option (\<lambda>s. c # s) (percent_decode [d]))"
| "percent_decode (c # d # e # s) =
     (if c = CHR ''%'' then
        (case (hex_value d, hex_value e) of
           (Some m, Some n) \<Rightarrow> map_option (\<lambda>s. char_of (16 * m + n) # s) (percent_decode s)
         | _ \<Rightarrow> None)
      else map_option (\<lambda>s. c # s) (percent_decode (d # e # s)))"

definition pathUnescape :: "string \<Rightarrow> string" where
  "pathUnescape s = (case percent_decode s of None \<Rightarrow> s | Some t \<Rightarrow> t)"

text \<open>The segments after the first slash; the last one is empty when the path ends with a slash.\<close>

definition path_segments :: "string \<Rightarrow> string list" where
  "path_segments p = map pathUnescape (tl (Split (CHR ''/'') p))"

section \<open>Patterns\<close>

datatype segment = Lit string | Wild

type_synonym 'h mux_entry = "segment list \<times> bool \<times> 'h"

definition parse_segment :: "string \<Rightarrow> segment" where
  "parse_segment s = (if take 1 s = ''{'' then Wild else Lit s)"

text \<open>A pattern that ends with a slash stands for a subtree.\<close>

definition mux_Handle :: "string \<Rightarrow> 'h \<Rightarrow> 'h mux_entry" where
  "mux_Handle pattern h =
     (let parts = tl (Split (CHR ''/'') pattern) in
      if last parts = [] then (map parse_segment (butlast parts), True, h) else (map parse_segment parts, False, h))"

definition descend :: "segment \<Rightarrow> 'h mux_entry list \<Rightarrow> 'h mux_entry list" where
  "descend s entries =
     List.map_filter (\<lambda>(segs, sub, h). case segs of [] \<Rightarrow> None | t # r \<Rightarrow> if t = s then Some (r, sub, h) else None) entries"

definition entry_at :: "bool \<Rightarrow> 'h mux_entry list \<Rightarrow> 'h option" where
  "entry_at subtree entries =
     map_option (\<lambda>e. snd (snd e)) (find (\<lambda>(segs, sub, _). segs = [] \<and> sub = subtree) entries)"

definition orElse :: "'a option \<Rightarrow> 'a option \<Rightarrow> 'a option" where
  "orElse a b = (case a of None \<Rightarrow> b | Some _ \<Rightarrow> a)"

fun mux_match :: "'h mux_entry list \<Rightarrow> string list \<Rightarrow> 'h option" where
  "mux_match entries [] = entry_at False entries"
| "mux_match entries (p # rest) =
     orElse (mux_match (descend (Lit p) entries) rest)
       (orElse (if p = [] then None else mux_match (descend Wild entries) rest) (entry_at True entries))"

section \<open>Serving\<close>

text \<open>
  A path that is not clean is redirected to the clean one; the status depends on the Go version, and
  the \<^verbatim>\<open>Location\<close> is left out.  The redirection from \<^verbatim>\<open>/tree\<close> to \<^verbatim>\<open>/tree/\<close> does not arise, because the
  program registers both patterns.  Without a match the answer is 404 with a text body.
\<close>

definition ServeMux_ServeHTTP :: "nat \<Rightarrow> 'w handler mux_entry list \<Rightarrow> 'w handler" where
  "ServeMux_ServeHTTP redirectStatus entries req =
     (if req_Method req \<noteq> ''CONNECT'' \<and> cleanPath (req_EscapedPath req) \<noteq> req_EscapedPath req
      then writing (WriteHeader redirectStatus)
      else
        case mux_match entries (path_segments (req_EscapedPath req)) of
          None \<Rightarrow> writing (WriteHeader 404)
        | Some h \<Rightarrow> h req)"

section \<open>What a match is\<close>

text \<open>\<open>segments_match\<close> says which paths a pattern stands for.\<close>

fun segments_match :: "segment list \<Rightarrow> bool \<Rightarrow> string list \<Rightarrow> bool" where
  "segments_match [] subtree ps \<longleftrightarrow> (if subtree then ps \<noteq> [] else ps = [])"
| "segments_match (s # ss) subtree [] \<longleftrightarrow> False"
| "segments_match (s # ss) subtree (p # ps) \<longleftrightarrow>
     (case s of Lit l \<Rightarrow> p = l | Wild \<Rightarrow> p \<noteq> []) \<and> segments_match ss subtree ps"

lemma orElse_Some: "orElse a b = Some x \<longleftrightarrow> a = Some x \<or> a = None \<and> b = Some x"
  by (cases a) (auto simp: orElse_def)

lemma orElse_None [simp]: "orElse a b = None \<longleftrightarrow> a = None \<and> b = None"
  by (cases a) (auto simp: orElse_def)

lemma descend_iff: "(segs, sub, h) \<in> set (descend s entries) \<longleftrightarrow> (s # segs, sub, h) \<in> set entries"
  unfolding descend_def by (force simp: map_filter_def split: list.splits option.splits if_splits)

lemma entry_at_Some: "entry_at subtree entries = Some h \<Longrightarrow> ([], subtree, h) \<in> set entries"
  by (auto simp: entry_at_def find_Some_iff) (metis nth_mem)

lemma entry_at_None: "entry_at subtree entries = None \<longleftrightarrow> (\<forall>h. ([], subtree, h) \<notin> set entries)"
  by (auto simp: entry_at_def find_None_iff)

lemma mux_match_Some:
  "mux_match entries ps = Some h \<Longrightarrow> \<exists>segs sub. (segs, sub, h) \<in> set entries \<and> segments_match segs sub ps"
proof (induction entries ps rule: mux_match.induct)
  case (1 entries)
  then show ?case by (intro exI [of _ "[]"] exI [of _ False]) (auto dest: entry_at_Some)
next
  case (2 entries p rest)
  from 2(3) consider "mux_match (descend (Lit p) entries) rest = Some h"
    | "p \<noteq> []" "mux_match (descend Wild entries) rest = Some h" | "entry_at True entries = Some h"
    by (auto simp: orElse_Some split: if_splits)
  then show ?case
  proof cases
    case 1
    from 2(1) [OF this] obtain segs sub where "(segs, sub, h) \<in> set (descend (Lit p) entries)" "segments_match segs sub rest"
      by blast
    then show ?thesis by (intro exI [of _ "Lit p # segs"] exI [of _ sub]) (simp add: descend_iff)
  next
    case 2
    from "2.IH"(2) [OF 2] obtain segs sub where "(segs, sub, h) \<in> set (descend Wild entries)" "segments_match segs sub rest"
      by blast
    then show ?thesis using 2 by (intro exI [of _ "Wild # segs"] exI [of _ sub]) (simp add: descend_iff)
  next
    case 3
    then show ?thesis by (intro exI [of _ "[]"] exI [of _ True]) (auto dest: entry_at_Some)
  qed
qed

lemma mux_match_empty [simp]: "mux_match [] ps = None"
  by (induction ps) (simp_all add: entry_at_def descend_def map_filter_simps)

lemma mux_match_found:
  "(segs, sub, h) \<in> set entries \<Longrightarrow> segments_match segs sub ps \<Longrightarrow> \<exists>h'. mux_match entries ps = Some h'"
proof (induction ps arbitrary: entries segs)
  case Nil
  from Nil(2) have "segs = []" "\<not> sub" by (cases segs; auto split: if_splits)+
  with Nil(1) have "([], False, h) \<in> set entries" by simp
  then have "entry_at False entries \<noteq> None" unfolding entry_at_None by blast
  then show ?case by auto
next
  case (Cons p rest)
  show ?case
  proof (cases segs)
    case Nil
    with Cons.prems have "([], True, h) \<in> set entries" by (auto split: if_splits)
    then have "entry_at True entries \<noteq> None" unfolding entry_at_None by blast
    then have "mux_match entries (p # rest) \<noteq> None" by simp
    then show ?thesis by blast
  next
    case (Cons s ss)
    note in_tree = Cons.prems(1) [unfolded Cons]
    show ?thesis
    proof (cases s)
      case (Lit l)
      with Cons Cons.prems have "l = p" "segments_match ss sub rest" by simp_all
      with Cons.IH [of ss "descend (Lit p) entries"] in_tree Lit have "mux_match (descend (Lit p) entries) rest \<noteq> None"
        by (auto simp: descend_iff)
      then have "mux_match entries (p # rest) \<noteq> None" by simp
      then show ?thesis by blast
    next
      case Wild
      with Cons Cons.prems have "p \<noteq> []" "segments_match ss sub rest" by simp_all
      with Cons.IH [of ss "descend Wild entries"] in_tree Wild have "mux_match (descend Wild entries) rest \<noteq> None"
        by (auto simp: descend_iff)
      with \<open>p \<noteq> []\<close> have "mux_match entries (p # rest) \<noteq> None" by simp
      then show ?thesis by blast
    qed
  qed
qed

end
