(* ===== verification/BrowserSecurity.thy ===== *)
theory BrowserSecurity
  imports Http
begin

text \<open>
  The middleware of \<^verbatim>\<open>internal/drivers/http/middleware/browser_security\<close>: CORS with credentials for the
  configured origins, and the cross-origin protection of \<^verbatim>\<open>net/http\<close>.  \<open>urlParse\<close> is \<^verbatim>\<open>url.Parse\<close> and
  \<open>low\<close> is \<^verbatim>\<open>strings.ToLower\<close>.
\<close>

record parsed_url =
  url_Scheme :: string
  url_Host :: string
  url_Hostname :: string
  url_Port :: string
  url_HasUser :: bool
  url_Path :: string
  url_RawQuery :: string
  url_Fragment :: string
  url_RawFragment :: string

type_synonym url_parser = "string \<Rightarrow> parsed_url option"

section \<open>The protection of net/http\<close>

text \<open>\<^verbatim>\<open>CrossOriginProtection.AddTrustedOrigin\<close>: an origin is a scheme and a host.\<close>

definition AddTrustedOrigin :: "url_parser \<Rightarrow> string \<Rightarrow> string list \<Rightarrow> go_error + string list" where
  "AddTrustedOrigin urlParse origin trusted =
     (case urlParse origin of
        None \<Rightarrow> Inl (NewError ''invalid origin'')
      | Some u \<Rightarrow>
          if url_Scheme u = [] \<or> url_Host u = [] \<or> url_Path u \<noteq> [] \<or> url_RawQuery u \<noteq> [] \<or> url_Fragment u \<noteq> []
          then Inl (NewError ''invalid origin'') else Inr (trusted @ [origin]))"

definition isRequestExempt :: "string list \<Rightarrow> http_request \<Rightarrow> bool" where
  "isRequestExempt trusted req \<longleftrightarrow>
     header_Get req ''Origin'' \<noteq> [] \<and> header_Get req ''Origin'' \<in> set trusted"

text \<open>\<^verbatim>\<open>CrossOriginProtection.Check\<close>: true when the request passes.\<close>

definition csrf_Check :: "url_parser \<Rightarrow> string list \<Rightarrow> http_request \<Rightarrow> bool" where
  "csrf_Check urlParse trusted req =
     (if req_Method req \<in> {''GET'', ''HEAD'', ''OPTIONS''} then True
      else
        let site = header_Get req ''Sec-Fetch-Site''; origin = header_Get req ''Origin'' in
        if site \<noteq> [] then site = ''same-origin'' \<or> site = ''none'' \<or> isRequestExempt trusted req
        else if origin = [] then True
        else (case urlParse origin of None \<Rightarrow> False | Some u \<Rightarrow> url_Host u = req_Host req) \<or>
             isRequestExempt trusted req)"

section \<open>The middleware\<close>

definition maximumPreflightMaxAge :: duration where "maximumPreflightMaxAge = 24 * hour"

record browser_config =
  bsc_AllowedOrigins :: "string list"
  bsc_PreflightMaxAge :: duration

record browser_security =
  bsm_allowedOrigins :: "string list"
  bsm_preflightMaxAge :: int

definition requestedMethodAllowed :: "string \<Rightarrow> bool" where
  "requestedMethodAllowed m \<longleftrightarrow> m = ''GET'' \<or> m = ''POST''"

definition normalizeOrigin :: "(string \<Rightarrow> string) \<Rightarrow> url_parser \<Rightarrow> string \<Rightarrow> go_error + string" where
  "normalizeOrigin low urlParse rawOrigin =
     (let rawOrigin = TrimSpace rawOrigin; invalid = NewError ''invalid browser origin'' in
      require (\<not> (rawOrigin = [] \<or> rawOrigin = ''*'' \<or> ascii_ToLower rawOrigin = ''null'')) invalid (
      case urlParse rawOrigin of
        None \<Rightarrow> Inl (NewError ''parse origin'')
      | Some u \<Rightarrow>
          require (\<not> (url_Scheme u \<noteq> ''http'' \<and> url_Scheme u \<noteq> ''https'')) (Wrap ''scheme must be HTTP or HTTPS'' invalid) (
          require (\<not> url_Host u = []) (Wrap ''host is empty'' invalid) (
          require (\<not> url_HasUser u) (Wrap ''credentials are not allowed'' invalid) (
          require (\<not> (url_Path u \<noteq> [] \<and> url_Path u \<noteq> ''/'')) (Wrap ''paths are not allowed'' invalid) (
          require (\<not> (url_RawQuery u \<noteq> [] \<or> url_Fragment u \<noteq> [] \<or> url_RawFragment u \<noteq> []))
            (Wrap ''query and fragment are not allowed'' invalid) (
          Inr (low (url_Scheme u @ ''://'' @ url_Host u)))))))))"

text \<open>
  The loop of \<^verbatim>\<open>New\<close>: the allowed origins and the trusted ones are extended together, so they are one
  list.
\<close>

fun allow_origins :: "(string \<Rightarrow> string) \<Rightarrow> url_parser \<Rightarrow> string list \<Rightarrow> string list \<Rightarrow> go_error + string list" where
  "allow_origins low urlParse allowed [] = Inr allowed"
| "allow_origins low urlParse allowed (configured # rest) =
     andThen (normalizeOrigin low urlParse configured) (\<lambda>_. NewError ''invalid browser origin'') (\<lambda>origin.
     if origin \<in> set allowed then allow_origins low urlParse allowed rest
     else andThen (AddTrustedOrigin urlParse origin allowed) (\<lambda>_. NewError ''invalid browser origin'')
            (\<lambda>allowed'. allow_origins low urlParse allowed' rest))"

definition browser_New ::
  "(string \<Rightarrow> string) \<Rightarrow> url_parser \<Rightarrow> browser_config \<Rightarrow> go_error + browser_security" where
  "browser_New low urlParse config =
     (if bsc_AllowedOrigins config = [] then Inl (NewError ''missing allowed origins'')
      else if bsc_PreflightMaxAge config \<le> 0 \<or> bsc_PreflightMaxAge config > maximumPreflightMaxAge
      then Inl (Wrap ''must be between zero and 24h'' (NewError ''invalid preflight max age''))
      else andThen (allow_origins low urlParse [] (bsc_AllowedOrigins config)) (\<lambda>e. e) (\<lambda>allowed.
        Inr \<lparr>bsm_allowedOrigins = allowed, bsm_preflightMaxAge = bsc_PreflightMaxAge config div second\<rparr>))"

text \<open>The origin of a request and whether it is allowed.\<close>

definition allowedOrigin ::
  "(string \<Rightarrow> string) \<Rightarrow> url_parser \<Rightarrow> browser_security \<Rightarrow> string \<Rightarrow> string \<times> bool" where
  "allowedOrigin low urlParse m rawOrigin =
     (if blank rawOrigin then ([], False)
      else
        case normalizeOrigin low urlParse rawOrigin of
          Inl _ \<Rightarrow> ([], False)
        | Inr origin \<Rightarrow> (origin, origin \<in> set (bsm_allowedOrigins m)))"

definition isPreflight :: "http_request \<Rightarrow> bool" where
  "isPreflight req \<longleftrightarrow>
     req_Method req = ''OPTIONS'' \<and> header_Get req ''Origin'' \<noteq> [] \<and>
     header_Get req ''Access-Control-Request-Method'' \<noteq> []"

definition requestedHeaderAllowed :: "string \<Rightarrow> bool" where
  "requestedHeaderAllowed rawHeaders \<longleftrightarrow>
     blank rawHeaders \<or>
     list_all (\<lambda>rawHeader. ascii_ToLower (TrimSpace rawHeader) = ''content-type'') (Split (CHR '','') rawHeaders)"

definition setCredentialedCORSHeaders :: "string \<Rightarrow> http_response \<Rightarrow> http_response" where
  "setCredentialedCORSHeaders origin r =
     header_Set ''Access-Control-Expose-Headers'' ''Retry-After'' (
     header_Set ''Access-Control-Allow-Credentials'' ''true'' (
     header_Set ''Access-Control-Allow-Origin'' origin r))"

definition addVaryHeaders :: "http_response \<Rightarrow> http_response" where
  "addVaryHeaders r =
     header_Add ''Vary'' ''Sec-Fetch-Site'' (
     header_Add ''Vary'' ''Access-Control-Request-Headers'' (
     header_Add ''Vary'' ''Access-Control-Request-Method'' (
     header_Add ''Vary'' ''Origin'' r)))"

definition writeForbidden :: "http_response \<Rightarrow> http_response" where
  "writeForbidden r = writePublicError 403 ''cross_origin_request_rejected'' r"

text \<open>\<^verbatim>\<open>handlePreflight\<close>; the lifetime it announces is between 0 and 86400 seconds.\<close>

definition handlePreflight ::
  "browser_security \<Rightarrow> http_request \<Rightarrow> string \<Rightarrow> bool \<Rightarrow> http_response \<Rightarrow> http_response" where
  "handlePreflight m req origin originAllowed r =
     (let requestedMethod = ToUpper (TrimSpace (header_Get req ''Access-Control-Request-Method''));
          requestHeaders = header_Get req ''Access-Control-Request-Headers'' in
      if \<not> originAllowed \<or> \<not> requestedMethodAllowed requestedMethod \<or> \<not> requestedHeaderAllowed requestHeaders
      then writeForbidden r
      else
        let r = setCredentialedCORSHeaders origin r;
            r = header_Set ''Access-Control-Allow-Methods'' ''GET, POST'' r;
            r = header_Set ''Access-Control-Allow-Headers'' ''Content-Type'' r;
            r = header_Set ''Access-Control-Max-Age'' (decimal (nat (bsm_preflightMaxAge m))) r;
            r = header_Set ''Cache-Control'' ''no-store'' r
        in WriteHeader 204 r)"

definition csrf_Handler :: "url_parser \<Rightarrow> string list \<Rightarrow> 'w handler \<Rightarrow> 'w handler" where
  "csrf_Handler urlParse trusted nxt req s =
     (if csrf_Check urlParse trusted req then nxt req s else writing writeForbidden s)"

definition browser_Wrap ::
  "(string \<Rightarrow> string) \<Rightarrow> url_parser \<Rightarrow> browser_security \<Rightarrow> 'w handler \<Rightarrow> 'w handler" where
  "browser_Wrap low urlParse m nxt req s =
     (let s = writing addVaryHeaders s;
          (origin, originAllowed) = allowedOrigin low urlParse m (header_Get req ''Origin'') in
      if isPreflight req then writing (handlePreflight m req origin originAllowed) s
      else
        let s = (if originAllowed then writing (setCredentialedCORSHeaders origin) s else s) in
        csrf_Handler urlParse (bsm_allowedOrigins m) nxt req s)"

section \<open>What holds of it\<close>

text \<open>
  \<open>allowed_request\<close> is what the middleware lets through: a request that cannot change anything, one
  that the browser vouches for as of the same origin or of no site, one without an origin, one whose
  origin has the host of the request (where there is no \<^verbatim>\<open>Sec-Fetch-Site\<close>), or one of a trusted origin.
\<close>

definition allowed_request :: "url_parser \<Rightarrow> browser_security \<Rightarrow> http_request \<Rightarrow> bool" where
  "allowed_request urlParse m req \<longleftrightarrow> \<not> isPreflight req \<and> csrf_Check urlParse (bsm_allowedOrigins m) req"

text \<open>The response that the next handler starts with.\<close>

definition browser_headers ::
  "(string \<Rightarrow> string) \<Rightarrow> url_parser \<Rightarrow> browser_security \<Rightarrow> http_request \<Rightarrow> http_response \<Rightarrow> http_response" where
  "browser_headers low urlParse m req r =
     (let r = addVaryHeaders r; (origin, ok) = allowedOrigin low urlParse m (header_Get req ''Origin'') in
      if ok then setCredentialedCORSHeaders origin r else r)"

lemma browser_Wrap_allowed:
  "allowed_request urlParse m req \<Longrightarrow>
   browser_Wrap low urlParse m nxt req (w, r) = nxt req (w, browser_headers low urlParse m req r)"
  by (auto simp: browser_Wrap_def allowed_request_def csrf_Handler_def browser_headers_def Let_def split: prod.splits)

text \<open>The answer to any other request, which runs nothing.\<close>

definition browser_answer ::
  "(string \<Rightarrow> string) \<Rightarrow> url_parser \<Rightarrow> browser_security \<Rightarrow> http_request \<Rightarrow> http_response \<Rightarrow> http_response" where
  "browser_answer low urlParse m req r =
     (if isPreflight req
      then case allowedOrigin low urlParse m (header_Get req ''Origin'') of
             (origin, ok) \<Rightarrow> handlePreflight m req origin ok (addVaryHeaders r)
      else writeForbidden (browser_headers low urlParse m req r))"

lemma browser_Wrap_refused:
  "\<not> allowed_request urlParse m req \<Longrightarrow>
   browser_Wrap low urlParse m nxt req (w, r) = (w, browser_answer low urlParse m req r)"
  by (auto simp: browser_Wrap_def allowed_request_def csrf_Handler_def browser_headers_def browser_answer_def Let_def
      split: prod.splits)

text \<open>An origin that gets credentials is one of the configuration, spelled as it was normalised.\<close>

lemma allow_origins_ok:
  "allow_origins low urlParse allowed configured = Inr result \<Longrightarrow>
   set result = set allowed \<union> {origin. \<exists>raw \<in> set configured. normalizeOrigin low urlParse raw = Inr origin}"
proof (induction low urlParse allowed configured rule: allow_origins.induct)
  case (2 low urlParse allowed configured rest)
  from 2(3) obtain origin where n: "normalizeOrigin low urlParse configured = Inr origin"
    by (auto simp: run_iff)
  show ?case
  proof (cases "origin \<in> set allowed")
    case True
    with 2 n show ?thesis by auto
  next
    case False
    with 2(3) n obtain allowed' where a: "AddTrustedOrigin urlParse origin allowed = Inr allowed'"
      and r: "allow_origins low urlParse allowed' rest = Inr result" by (auto simp: run_iff)
    from a have "set allowed' = set allowed \<union> {origin}"
      by (auto simp: AddTrustedOrigin_def split: option.splits if_splits)
    with 2(2) [OF False r] n a show ?thesis by auto
  qed
qed simp

lemma browser_New_ok:
  assumes "browser_New low urlParse config = Inr m"
  shows "set (bsm_allowedOrigins m) =
      {origin. \<exists>raw \<in> set (bsc_AllowedOrigins config). normalizeOrigin low urlParse raw = Inr origin} \<and>
    0 \<le> bsm_preflightMaxAge m \<and> bsm_preflightMaxAge m \<le> 86400"
proof -
  from assms obtain allowed where a: "allow_origins low urlParse [] (bsc_AllowedOrigins config) = Inr allowed"
    and m: "m = \<lparr>bsm_allowedOrigins = allowed, bsm_preflightMaxAge = bsc_PreflightMaxAge config div second\<rparr>"
    and "0 < bsc_PreflightMaxAge config" "bsc_PreflightMaxAge config \<le> maximumPreflightMaxAge"
    by (auto simp: browser_New_def run_iff split: if_splits)
  then have "0 < bsc_PreflightMaxAge config" "bsc_PreflightMaxAge config \<le> 24 * hour"
    by (simp_all add: maximumPreflightMaxAge_def)
  then have "0 \<le> bsc_PreflightMaxAge config div second" "bsc_PreflightMaxAge config div second \<le> (24 * hour) div second"
    by (simp_all only: pos_imp_zdiv_nonneg_iff zdiv_mono1 zero_less_numeral less_imp_le)
  with allow_origins_ok [OF a] show ?thesis by (simp add: m)
qed

end
