(* ===== verification/AuthCookie.thy ===== *)
theory AuthCookie
  imports Http
begin

text \<open>
  The authentication cookies of \<^verbatim>\<open>internal/drivers/http/auth_cookie\<close>: the configuration and its
  check, writing the two tokens, reading one back and clearing them.  \<^verbatim>\<open>http.Cookie.Valid\<close> is
  modelled for the fields that the manager sets.
\<close>

record cookie_config =
  ckc_AccessName :: string
  ckc_RefreshName :: string
  ckc_Path :: string
  ckc_Secure :: bool
  ckc_SameSite :: same_site

record 'w cookie_manager =
  ckm_config :: cookie_config
  ckm_clock :: "'w clock"

abbreviation cookieErr :: "cookie_error \<Rightarrow> go_error" where
  "cookieErr e \<equiv> Sentinel (CookieE e)"

section \<open>The cookies of net/http\<close>

text \<open>A token consists of visible ASCII characters that are no separators.\<close>

definition token_char :: "char \<Rightarrow> bool" where
  "token_char c \<longleftrightarrow>
     CHR 0x20 < c \<and> c < CHR 0x7F \<and> c \<notin> set ''()<>@,;:/[]?={}'' \<and> c \<noteq> CHR 0x22 \<and> c \<noteq> CHR 0x5C"

definition validCookieValueByte :: "char \<Rightarrow> bool" where
  "validCookieValueByte c \<longleftrightarrow>
     CHR 0x20 \<le> c \<and> c < CHR 0x7F \<and> c \<noteq> CHR 0x22 \<and> c \<noteq> CHR '';'' \<and> c \<noteq> CHR 0x5C"

definition validCookiePathByte :: "char \<Rightarrow> bool" where
  "validCookiePathByte c \<longleftrightarrow> CHR 0x20 \<le> c \<and> c < CHR 0x7F \<and> c \<noteq> CHR '';''"

text \<open>An expiry is valid from January 1, 1601 on.\<close>

definition cookie_Valid :: "http_cookie \<Rightarrow> bool" where
  "cookie_Valid c \<longleftrightarrow>
     cok_Name c \<noteq> [] \<and> list_all token_char (cok_Name c) \<and>
     (IsZero (cok_Expires c) \<or> 584388 * 24 * hour \<le> cok_Expires c) \<and>
     list_all validCookieValueByte (cok_Value c) \<and> list_all validCookiePathByte (cok_Path c)"

section \<open>The configuration\<close>

definition validation_cookie :: "cookie_config \<Rightarrow> string \<Rightarrow> http_cookie" where
  "validation_cookie config name =
     \<lparr>cok_Name = name, cok_Value = ''validation'', cok_Path = ckc_Path config, cok_Domain = [],
      cok_Expires = 0, cok_MaxAge = 0, cok_Secure = ckc_Secure config, cok_HttpOnly = True,
      cok_SameSite = ckc_SameSite config\<rparr>"

text \<open>
  The second check formats its error with \<^verbatim>\<open>"%:"\<close> where the others use \<^verbatim>\<open>"%w:"\<close>, so its error
  does not wrap \<^verbatim>\<open>ErrInvalidConfig\<close>.
\<close>

definition cookie_validateConfig :: "cookie_config \<Rightarrow> go_error + unit" where
  "cookie_validateConfig config =
     (let invalid = (\<lambda>m. Wrap m (cookieErr Cookie_ErrInvalidConfig)) in
      require (\<not> (blank (ckc_AccessName config) \<or> blank (ckc_RefreshName config)))
        (invalid ''cookie names cannot be empty'') (
      require (\<not> ckc_AccessName config = ckc_RefreshName config)
        (NewError ''cookie names must be different'') (
      require (\<not> ckc_Path config \<noteq> ''/'') (invalid ''cookie path must be /'') (
      require (ckc_SameSite config = SameSiteStrictMode \<or> ckc_SameSite config = SameSiteLaxMode \<or>
               ckc_SameSite config = SameSiteNoneMode)
        (invalid ''unsupported SameSite mode'') (
      require (\<not> (ckc_SameSite config = SameSiteNoneMode \<and> \<not> ckc_Secure config))
        (invalid ''SameSite=None requires Secure'') (
      require (\<not> (ckc_Secure config \<and> \<not> HasPrefix (ckc_AccessName config) ''__Host-''))
        (invalid ''secure access cookie must use __Host-'') (
      require (\<not> (ckc_Secure config \<and> \<not> HasPrefix (ckc_RefreshName config) ''__Host-''))
        (invalid ''secure refresh cookie must use __Host-'') (
      require (cookie_Valid (validation_cookie config (ckc_AccessName config))) (invalid ''cookie'') (
      require (cookie_Valid (validation_cookie config (ckc_RefreshName config))) (invalid ''cookie'') (
      Inr ()))))))))))"

definition cookie_NewManager :: "cookie_config \<Rightarrow> 'w clock \<Rightarrow> go_error + 'w cookie_manager" where
  "cookie_NewManager config clock =
     andThen (cookie_validateConfig config) (\<lambda>e. e) (\<lambda>_. Inr \<lparr>ckm_config = config, ckm_clock = clock\<rparr>)"

section \<open>Writing the tokens\<close>

text \<open>
  \<^verbatim>\<open>math.Ceil(duration.Seconds())\<close>: the seconds, rounded up.  The floating point number is exact enough
  below \<open>2 ^ 24\<close> seconds, about 194 days; the tokens live at most 30 days.
\<close>

definition calculateMaxAge :: "time \<Rightarrow> time \<Rightarrow> go_error + int" where
  "calculateMaxAge expiresAt now =
     (let duration = time_Sub (UTC expiresAt) (UTC now) in
      if duration \<le> 0 then Inl (cookieErr Cookie_ErrInvalidExpiration)
      else
        let seconds = (duration + second - 1) div second in
        if seconds \<le> 0 then Inl (cookieErr Cookie_ErrInvalidExpiration) else Inr seconds)"

definition newCookie :: "cookie_config \<Rightarrow> string \<Rightarrow> string \<Rightarrow> time \<Rightarrow> time \<Rightarrow> go_error + http_cookie" where
  "newCookie config name token expiresAt now =
     andThen (calculateMaxAge expiresAt now) (\<lambda>e. e) (\<lambda>maxAge.
     let cookie = \<lparr>cok_Name = name, cok_Value = token, cok_Path = ckc_Path config, cok_Domain = [],
                   cok_Expires = UTC expiresAt, cok_MaxAge = maxAge, cok_Secure = ckc_Secure config,
                   cok_HttpOnly = True, cok_SameSite = ckc_SameSite config\<rparr> in
     require (cookie_Valid cookie) (Wrap ''cookie'' (cookieErr Cookie_ErrInvalidConfig)) (Inr cookie))"

definition SetTokens ::
  "'w cookie_manager \<Rightarrow> string \<Rightarrow> time \<Rightarrow> string \<Rightarrow> time \<Rightarrow> http_response \<Rightarrow> ('w, go_error, http_response) call" where
  "SetTokens M accessToken accessExpiresAt refreshToken refreshExpiresAt r =
     (if blank accessToken \<or> blank refreshToken then fail (cookieErr Cookie_ErrEmptyToken)
      else
        reads (ckm_clock M) (\<lambda>now.
        orFail (lift (newCookie (ckm_config M) (ckc_AccessName (ckm_config M)) accessToken accessExpiresAt (UTC now)))
          (\<lambda>e. e) (\<lambda>accessCookie.
        orFail (lift (newCookie (ckm_config M) (ckc_RefreshName (ckm_config M)) refreshToken refreshExpiresAt (UTC now)))
          (\<lambda>e. e) (\<lambda>refreshCookie.
        ret (header_Set ''Cache-Control'' ''no-store'' (SetCookie refreshCookie (SetCookie accessCookie r)))))))"

definition expiredCookie :: "cookie_config \<Rightarrow> string \<Rightarrow> time \<Rightarrow> http_cookie" where
  "expiredCookie config name expiredAt =
     \<lparr>cok_Name = name, cok_Value = [], cok_Path = ckc_Path config, cok_Domain = [],
      cok_Expires = expiredAt, cok_MaxAge = - 1, cok_Secure = ckc_Secure config, cok_HttpOnly = True,
      cok_SameSite = ckc_SameSite config\<rparr>"

text \<open>\<^verbatim>\<open>time.Unix(1, 0)\<close>.\<close>

definition expired_at :: time where
  "expired_at = 719162 * 24 * hour + second"

definition cookie_Clear :: "'w cookie_manager \<Rightarrow> http_response \<Rightarrow> go_error + http_response" where
  "cookie_Clear M r =
     (let config = ckm_config M;
          accessCookie = expiredCookie config (ckc_AccessName config) expired_at;
          refreshCookie = expiredCookie config (ckc_RefreshName config) expired_at in
      require (cookie_Valid accessCookie) (Wrap ''access cookie'' (cookieErr Cookie_ErrInvalidConfig)) (
      require (cookie_Valid refreshCookie) (Wrap ''refresh cookie'' (cookieErr Cookie_ErrInvalidConfig)) (
      Inr (header_Set ''Cache-Control'' ''no-store'' (SetCookie refreshCookie (SetCookie accessCookie r))))))"

section \<open>Reading a token\<close>

definition readUniqueCookie :: "http_request \<Rightarrow> string \<Rightarrow> go_error + string" where
  "readUniqueCookie req name =
     (let found = filter (\<lambda>c. fst c = name) (req_Cookies req) in
      if found = [] \<or> blank (snd (last found)) then Inl (cookieErr Cookie_ErrCookieNotFound)
      else if length found > 1 then Inl (cookieErr Cookie_ErrDuplicateCookie)
      else Inr (snd (last found)))"

definition cookie_AccessToken :: "'w cookie_manager \<Rightarrow> http_request \<Rightarrow> go_error + string" where
  "cookie_AccessToken M req = readUniqueCookie req (ckc_AccessName (ckm_config M))"

definition cookie_RefreshToken :: "'w cookie_manager \<Rightarrow> http_request \<Rightarrow> go_error + string" where
  "cookie_RefreshToken M req = readUniqueCookie req (ckc_RefreshName (ckm_config M))"

section \<open>What holds of them\<close>

lemma readUniqueCookie_ok:
  "readUniqueCookie req name = Inr token \<longleftrightarrow>
     filter (\<lambda>c. fst c = name) (req_Cookies req) = [(name, token)] \<and> \<not> blank token"
proof -
  have "fst c = name" if "c \<in> set (filter (\<lambda>c. fst c = name) (req_Cookies req))" for c
    using that by simp
  then show ?thesis
    unfolding readUniqueCookie_def Let_def
    by (cases "filter (\<lambda>c. fst c = name) (req_Cookies req)" rule: rev_cases)
      (auto simp: length_Suc_conv simp del: filter_eq_Cons_iff)
qed

text \<open>The lifetime covers the token and ends less than a second after it.\<close>

lemma calculateMaxAge_ok:
  "calculateMaxAge expiresAt now = Inr n \<longleftrightarrow>
     now < expiresAt \<and> n = (min (2 ^ 63 - 1) (expiresAt - now) + second - 1) div second"
proof -
  have "0 < (d + second - 1) div second" if "0 < d" for d :: int
  proof -
    have "second \<le> d + second - 1" using that by simp
    then have "second div second \<le> (d + second - 1) div second" by (rule zdiv_mono1) simp
    then show ?thesis by simp
  qed
  from this [of "time_Sub expiresAt now"] show ?thesis
    by (auto simp: calculateMaxAge_def Let_def time_Sub_def not_less split: if_splits)
qed

text \<open>What a cookie of the manager looks like.\<close>

definition protected_cookie :: "cookie_config \<Rightarrow> http_cookie \<Rightarrow> bool" where
  "protected_cookie config c \<longleftrightarrow>
     cok_HttpOnly c \<and> cok_Domain c = [] \<and> cok_Path c = ckc_Path config \<and>
     cok_Secure c = ckc_Secure config \<and> cok_SameSite c = ckc_SameSite config \<and> cookie_Valid c"

lemma newCookie_ok:
  assumes "newCookie config name token expiresAt now = Inr c"
  shows "protected_cookie config c \<and> cok_Name c = name \<and> cok_Value c = token \<and> cok_Expires c = expiresAt \<and>
     calculateMaxAge expiresAt now = Inr (cok_MaxAge c)"
  using assms by (auto simp: newCookie_def run_iff Let_def protected_cookie_def)

lemma SetTokens_ok:
  assumes "SetTokens M access accessExpiresAt refresh refreshExpiresAt r w = (w', Inr r')"
  shows "\<exists>now a b. ckm_clock M w = (w', now) \<and> \<not> blank access \<and> \<not> blank refresh \<and>
     newCookie (ckm_config M) (ckc_AccessName (ckm_config M)) access accessExpiresAt now = Inr a \<and>
     newCookie (ckm_config M) (ckc_RefreshName (ckm_config M)) refresh refreshExpiresAt now = Inr b \<and>
     r' = header_Set ''Cache-Control'' ''no-store'' (SetCookie b (SetCookie a r))"
  using assms by (auto simp: SetTokens_def run_iff split: if_splits)

lemma header_Set_fields [simp]:
  "rsp_Cookies (header_Set k v r) = rsp_Cookies r" "rsp_Status (header_Set k v r) = rsp_Status r"
  "rsp_Body (header_Set k v r) = rsp_Body r" "rsp_Panicked (header_Set k v r) = rsp_Panicked r"
  by (simp_all add: header_Set_def)

lemma SetCookie_fields [simp]:
  "rsp_Header (SetCookie c r) = rsp_Header r" "rsp_Status (SetCookie c r) = rsp_Status r"
  "rsp_Body (SetCookie c r) = rsp_Body r" "rsp_Panicked (SetCookie c r) = rsp_Panicked r"
  "rsp_Cookies (SetCookie c r) = (if rsp_Status r = None then rsp_Cookies r @ [c] else rsp_Cookies r)"
  by (simp_all add: SetCookie_def)

text \<open>The checks of the configuration, as one condition.\<close>

definition sound_cookie_config :: "cookie_config \<Rightarrow> bool" where
  "sound_cookie_config c \<longleftrightarrow>
     ckc_AccessName c \<noteq> ckc_RefreshName c \<and> ckc_Path c = ''/'' \<and>
     ckc_SameSite c \<in> {SameSiteStrictMode, SameSiteLaxMode, SameSiteNoneMode} \<and>
     (ckc_SameSite c = SameSiteNoneMode \<longrightarrow> ckc_Secure c) \<and>
     (ckc_Secure c \<longrightarrow> HasPrefix (ckc_AccessName c) ''__Host-'' \<and> HasPrefix (ckc_RefreshName c) ''__Host-'') \<and>
     (\<forall>name \<in> {ckc_AccessName c, ckc_RefreshName c}. \<not> blank name \<and> name \<noteq> [] \<and> list_all token_char name)"

lemma validation_cookie_Valid:
  "ckc_Path c = ''/'' \<Longrightarrow> cookie_Valid (validation_cookie c name) \<longleftrightarrow> name \<noteq> [] \<and> list_all token_char name"
proof -
  assume p: "ckc_Path c = ''/''"
  have "list_all validCookieValueByte ''validation''" "list_all validCookiePathByte ''/''" by code_simp+
  with p show ?thesis by (simp add: cookie_Valid_def validation_cookie_def IsZero_def)
qed

lemma cookie_validateConfig_ok [code_checks]:
  "cookie_validateConfig c = Inr () \<longleftrightarrow> sound_cookie_config c"
  unfolding cookie_validateConfig_def Let_def run_iff sound_cookie_config_def
  by (cases "ckc_Path c = ''/''") (auto simp: validation_cookie_Valid)

text \<open>Clearing works with every accepted configuration.\<close>

lemma cookie_Clear_ok:
  assumes "sound_cookie_config (ckm_config M)"
  shows "cookie_Clear M r =
     Inr (header_Set ''Cache-Control'' ''no-store''
       (SetCookie (expiredCookie (ckm_config M) (ckc_RefreshName (ckm_config M)) expired_at)
       (SetCookie (expiredCookie (ckm_config M) (ckc_AccessName (ckm_config M)) expired_at) r)))"
proof -
  have p: "list_all validCookiePathByte ''/''" by code_simp
  show ?thesis
    using assms p by (auto simp: cookie_Clear_def Let_def cookie_Valid_def expiredCookie_def sound_cookie_config_def expired_at_def)
qed

end
