(* ===== verification/HttpAuth.thy ===== *)
theory HttpAuth
  imports AuthCookie Authentication
begin

text \<open>
  The authentication middleware (\<^verbatim>\<open>internal/drivers/http/middleware/authentication\<close>) and the handlers
  under \<^verbatim>\<open>/v1/auth\<close> (\<^verbatim>\<open>internal/drivers/http/handler/auth\<close>).  A use case is an executor, a call on
  the world, as its interface in the source is.
\<close>

section \<open>The middleware\<close>

definition handleAuthenticationError :: "go_error \<Rightarrow> http_response \<Rightarrow> http_response" where
  "handleAuthenticationError err r =
     (if errors_is err (AuthE Auth_ErrUnauthenticated) then writePublicError 401 ''unauthenticated'' r
      else if errors_is err ContextCanceled then r
      else if errors_is err DeadlineExceeded then writePublicError 504 ''request_timeout'' r
      else writePublicError 500 ''internal_error'' r)"

definition identity_of :: "authenticate_output \<Rightarrow> identity" where
  "identity_of output =
     \<lparr>idn_UserID = ao_UserID output, idn_SessionID = ao_SessionID output,
      idn_AccessExpiresAt = ao_AccessExpiresAt output, idn_SessionExpiresAt = ao_SessionExpiresAt output\<rparr>"

definition authentication_Wrap ::
  "(string \<Rightarrow> ('w, go_error, authenticate_output) call) \<Rightarrow> (http_request \<Rightarrow> go_error + string)
     \<Rightarrow> 'w handler \<Rightarrow> 'w handler" where
  "authentication_Wrap authenticator accessToken nxt req s =
     (case accessToken req of
        Inl _ \<Rightarrow> writing (writePublicError 401 ''unauthenticated'') s
      | Inr token \<Rightarrow>
          executing (authenticator token) (\<lambda>err. writing (handleAuthenticationError err))
            (\<lambda>output. nxt (req\<lparr>req_Identity := Some (identity_of output)\<rparr>)) s)"

section \<open>Shared steps of the handlers\<close>

definition authJSONBodyLimit :: nat where "authJSONBodyLimit = 16 * 1024"

definition auth_handleJSONRequestError :: "go_error \<Rightarrow> http_response \<Rightarrow> http_response" where
  "auth_handleJSONRequestError err r =
     (if errors_is err (RequestE Request_ErrUnsupportedMediaType) then writePublicError 415 ''unsupported_media_type'' r
      else if errors_is err (RequestE Request_ErrBodyTooLarge) then writePublicError 413 ''request_body_too_large'' r
      else writePublicError 400 ''invalid_request'' r)"

definition methodNotAllowed :: "string \<Rightarrow> http_response \<Rightarrow> http_response" where
  "methodNotAllowed allow r = writePublicError 405 ''method_not_allowed'' (header_Set ''Allow'' allow r)"

record credentials =
  crq_Email :: string
  crq_Password :: string

text \<open>\<^verbatim>\<open>signinRequest\<close> and \<^verbatim>\<open>signupRequest\<close> have the same fields.\<close>

definition decode_credentials :: "json \<Rightarrow> json_error + credentials" where
  "decode_credentials v =
     decode_struct [string_field ''email'' (\<lambda>s. crq_Email_update (\<lambda>_. s)),
                    string_field ''password'' (\<lambda>s. crq_Password_update (\<lambda>_. s))]
       v \<lparr>crq_Email = [], crq_Password = []\<rparr>"

section \<open>Sign-up\<close>

definition signup_handleUseCaseError :: "go_error \<Rightarrow> http_response \<Rightarrow> http_response" where
  "signup_handleUseCaseError err r =
     (if errors_is err (UserE User_ErrInvalidEmail) then writePublicError 422 ''invalid_email'' r
      else if errors_is err (UserE User_ErrInvalidPassword) then writePublicError 422 ''invalid_password'' r
      else if errors_is err (AuthE Auth_ErrEmailAlreadyRegistred) then writePublicError 409 ''email_already_registered'' r
      else if errors_is err ContextCanceled then r
      else if errors_is err DeadlineExceeded then writePublicError 504 ''request_timeout'' r
      else writePublicError 500 ''internal_error'' r)"

definition signupResponse :: "signup_output \<Rightarrow> json" where
  "signupResponse output =
     JObject [(''data'', JObject [(''user_id'', JString (su_UserID output)), (''email'', JString (su_Email output)),
                                  (''created_at'', JTime (su_CreatedAt output))])]"

definition SignupHandler ::
  "(http_request \<Rightarrow> nat \<Rightarrow> go_error + credentials) \<Rightarrow> (string \<Rightarrow> string \<Rightarrow> ('w, go_error, signup_output) call)
     \<Rightarrow> 'w handler" where
  "SignupHandler decode useCase req s =
     (if req_Method req \<noteq> ''POST'' then writing (methodNotAllowed ''POST'') s
      else
        case decode req authJSONBodyLimit of
          Inl err \<Rightarrow> writing (auth_handleJSONRequestError err) s
        | Inr body \<Rightarrow>
            executing (useCase (crq_Email body) (crq_Password body)) (\<lambda>err. writing (signup_handleUseCaseError err))
              (\<lambda>output. writing (writePayload 201 (signupResponse output))) s)"

section \<open>Sign-in\<close>

definition signin_handleUseCaseError :: "go_error \<Rightarrow> http_response \<Rightarrow> http_response" where
  "signin_handleUseCaseError err r =
     (if errors_is err (AuthE Auth_ErrInvalidCredentials) then writePublicError 401 ''invalid_credentials'' r
      else if errors_is err ContextCanceled then r
      else if errors_is err DeadlineExceeded then writePublicError 504 ''request_timeout'' r
      else writePublicError 500 ''internal_error'' r)"

definition signinResponse :: "signin_output \<Rightarrow> json" where
  "signinResponse output =
     JObject [(''data'', JObject [(''user_id'', JString (so_UserID output)), (''email'', JString (so_Email output))])]"

definition SigninHandler ::
  "(http_request \<Rightarrow> nat \<Rightarrow> go_error + credentials) \<Rightarrow> 'w cookie_manager
     \<Rightarrow> (string \<Rightarrow> string \<Rightarrow> ('w, go_error, signin_output) call) \<Rightarrow> 'w handler" where
  "SigninHandler decode cookies useCase req s =
     (if req_Method req \<noteq> ''POST'' then writing (methodNotAllowed ''POST'') s
      else
        case decode req authJSONBodyLimit of
          Inl err \<Rightarrow> writing (auth_handleJSONRequestError err) s
        | Inr body \<Rightarrow>
            executing (useCase (crq_Email body) (crq_Password body)) (\<lambda>err. writing (signin_handleUseCaseError err))
              (\<lambda>output s.
                executing (SetTokens cookies (so_AccessToken output) (so_AccessTokenExpiresAt output)
                             (so_RefreshToken output) (so_RefreshTokenExpiresAt output) (snd s))
                  (\<lambda>err. writing (writePublicError 500 ''internal_error''))
                  (\<lambda>r'. writing (\<lambda>_. writePayload 200 (signinResponse output) r')) s) s)"

section \<open>Refresh\<close>

definition clearCookies :: "'w cookie_manager \<Rightarrow> http_response \<Rightarrow> http_response" where
  "clearCookies cookies r = (case cookie_Clear cookies r of Inl _ \<Rightarrow> r | Inr r' \<Rightarrow> r')"

definition respondInvalidRefresh :: "'w cookie_manager \<Rightarrow> http_response \<Rightarrow> http_response" where
  "respondInvalidRefresh cookies r = writePublicError 401 ''invalid_refresh_token'' (clearCookies cookies r)"

definition refresh_handleUseCaseError :: "'w cookie_manager \<Rightarrow> go_error \<Rightarrow> http_response \<Rightarrow> http_response" where
  "refresh_handleUseCaseError cookies err r =
     (if errors_is err (AuthE Auth_ErrInvalidRefreshToken) then respondInvalidRefresh cookies r
      else if errors_is err ContextCanceled then r
      else if errors_is err DeadlineExceeded then writePublicError 504 ''request_timeout'' r
      else writePublicError 500 ''internal_error'' r)"

definition RefreshHandler ::
  "'w cookie_manager \<Rightarrow> (string \<Rightarrow> ('w, go_error, refresh_output) call) \<Rightarrow> 'w handler" where
  "RefreshHandler cookies useCase req s =
     (if req_Method req \<noteq> ''POST'' then writing (methodNotAllowed ''POST'') s
      else
        case cookie_RefreshToken cookies req of
          Inl _ \<Rightarrow> writing (respondInvalidRefresh cookies) s
        | Inr refreshToken \<Rightarrow>
            executing (useCase refreshToken) (\<lambda>err. writing (refresh_handleUseCaseError cookies err))
              (\<lambda>output s.
                executing (SetTokens cookies (ro_AccessToken output) (ro_AccessTokenExpiresAt output)
                             (ro_RefreshToken output) (ro_RefreshTokenExpiresAt output) (snd s))
                  (\<lambda>err. writing (\<lambda>r. writePublicError 500 ''internal_error'' (clearCookies cookies r)))
                  (\<lambda>r'. writing (\<lambda>_. writeNoContent r')) s) s)"

section \<open>Logout\<close>

definition logout_handleUseCaseError :: "go_error \<Rightarrow> http_response \<Rightarrow> http_response" where
  "logout_handleUseCaseError err r =
     (if errors_is err ContextCanceled then r
      else if errors_is err DeadlineExceeded then writePublicError 504 ''request_timeout'' r
      else writePublicError 503 ''logout_unavailable'' r)"

definition completeLogout :: "'w cookie_manager \<Rightarrow> http_response \<Rightarrow> http_response" where
  "completeLogout cookies r =
     (case cookie_Clear cookies r of
        Inl _ \<Rightarrow> writePublicError 500 ''internal_error'' r
      | Inr r' \<Rightarrow> writeNoContent r')"

definition LogoutHandler :: "'w cookie_manager \<Rightarrow> (string \<Rightarrow> ('w, go_error, unit) call) \<Rightarrow> 'w handler" where
  "LogoutHandler cookies useCase req s =
     (if req_Method req \<noteq> ''POST'' then writing (methodNotAllowed ''POST'') s
      else
        case cookie_RefreshToken cookies req of
          Inl _ \<Rightarrow> writing (completeLogout cookies) s
        | Inr refreshToken \<Rightarrow>
            executing (useCase refreshToken) (\<lambda>err. writing (logout_handleUseCaseError err))
              (\<lambda>_. writing (completeLogout cookies)) s)"

section \<open>The session view\<close>

definition sessionResponse :: "session_output \<Rightarrow> json" where
  "sessionResponse output =
     JObject [(''data'', JObject [(''user'', JObject [(''id'', JString (sv_UserID output)), (''email'', JString (sv_Email output))]),
                                  (''accessExpiresAt'', JTime (sv_AccessExpiresAt output))])]"

definition session_handleUseCaseError :: "go_error \<Rightarrow> http_response \<Rightarrow> http_response" where
  "session_handleUseCaseError err r =
     (if errors_is err (AuthE Auth_ErrUnauthenticated) then writePublicError 401 ''unauthenticated'' r
      else if \<not> errors_is err ContextCanceled then writePublicError 503 ''session_unavailable'' r
      else r)"

definition SessionHandler :: "(string \<Rightarrow> time \<Rightarrow> ('w, go_error, session_output) call) \<Rightarrow> 'w handler" where
  "SessionHandler useCase req s =
     (let s = writing (header_Set ''Cache-Control'' ''no-store'') s in
      if req_Method req \<noteq> ''GET'' then writing (methodNotAllowed ''GET'') s
      else
        case req_Identity req of
          None \<Rightarrow> writing (writePublicError 401 ''unauthenticated'') s
        | Some identity \<Rightarrow>
            executing (useCase (idn_UserID identity) (idn_AccessExpiresAt identity))
              (\<lambda>err. writing (session_handleUseCaseError err))
              (\<lambda>output. writing (writePayload 200 (sessionResponse output))) s)"

end
