(* ===== verification/Router.thy ===== *)
theory Router
  imports ServeMux BrowserSecurity HttpAuth
begin

text \<open>
  The router of \<^verbatim>\<open>internal/drivers/http/router\<close>: which handler serves which path, and behind which
  middleware.  The two middlewares are arguments, as in the source; \<open>redirectStatus\<close> is the status of the
  redirections of \<^verbatim>\<open>http.ServeMux\<close>.
\<close>

record 'w router_handlers =
  rth_Session :: "'w handler option"
  rth_Signup :: "'w handler"
  rth_Signin :: "'w handler"
  rth_Refresh :: "'w handler"
  rth_Logout :: "'w handler"
  rth_Users :: "'w handler"
  rth_ChatsList :: "'w handler"
  rth_CreateDirect :: "'w handler"
  rth_CreateMessage :: "'w handler"
  rth_Timeline :: "'w handler"
  rth_Images :: "'w handler option"
  rth_Realtime :: "'w handler option"

type_synonym 'w wrapper = "'w handler \<Rightarrow> 'w handler"

definition notFoundHandler :: "'w handler" where
  "notFoundHandler req = writing (writePublicError 404 ''route_not_found'')"

text \<open>The session route: nothing of it is cached, not even a refusal.\<close>

definition session_route :: "'w wrapper \<Rightarrow> 'w handler \<Rightarrow> 'w handler" where
  "session_route authentication h req s =
     authentication h req (writing (header_Set ''Cache-Control'' ''no-store'') s)"

definition authRouter :: "nat \<Rightarrow> 'w wrapper \<Rightarrow> 'w router_handlers \<Rightarrow> 'w handler" where
  "authRouter redirectStatus authentication H =
     ServeMux_ServeHTTP redirectStatus
       ((case rth_Session H of
           None \<Rightarrow> []
         | Some h \<Rightarrow> [mux_Handle ''/v1/auth/session'' (session_route authentication h)]) @
        [mux_Handle ''/v1/auth/signup'' (rth_Signup H), mux_Handle ''/v1/auth/signin'' (rth_Signin H),
         mux_Handle ''/v1/auth/refresh'' (rth_Refresh H), mux_Handle ''/v1/auth/logout'' (rth_Logout H),
         mux_Handle ''/'' notFoundHandler])"

definition chatsRouter :: "nat \<Rightarrow> 'w router_handlers \<Rightarrow> 'w handler" where
  "chatsRouter redirectStatus H =
     ServeMux_ServeHTTP redirectStatus
       [mux_Handle ''/v1/chats'' (rth_ChatsList H), mux_Handle ''/v1/chats/direct'' (rth_CreateDirect H),
        mux_Handle ''/v1/chats/{chatId}/messages'' (rth_CreateMessage H), mux_Handle ''/v1/chats/'' (rth_Timeline H),
        mux_Handle ''/'' notFoundHandler]"

definition optional_routes :: "string list \<Rightarrow> 'w wrapper \<Rightarrow> 'w handler option \<Rightarrow> 'w handler mux_entry list" where
  "optional_routes patterns wrap h =
     (case h of None \<Rightarrow> [] | Some h \<Rightarrow> map (\<lambda>pattern. mux_Handle pattern (wrap h)) patterns)"

definition root_routes ::
  "nat \<Rightarrow> 'w wrapper \<Rightarrow> 'w wrapper \<Rightarrow> 'w router_handlers \<Rightarrow> 'w handler mux_entry list" where
  "root_routes redirectStatus browserSecurity authentication H =
     (let protected = (\<lambda>h. browserSecurity (authentication h)) in
      optional_routes [''/v1/images'', ''/v1/images/''] protected (rth_Images H) @
      optional_routes [''/v1/realtime''] protected (rth_Realtime H) @
      [mux_Handle ''/v1/users'' (protected (rth_Users H)),
       mux_Handle ''/v1/auth/'' (browserSecurity (authRouter redirectStatus authentication H)),
       mux_Handle ''/v1/chats'' (protected (chatsRouter redirectStatus H)),
       mux_Handle ''/v1/chats/'' (protected (chatsRouter redirectStatus H)),
       mux_Handle ''/v1/auth'' notFoundHandler,
       mux_Handle ''/'' notFoundHandler])"

definition Router_ServeHTTP ::
  "nat \<Rightarrow> 'w wrapper \<Rightarrow> 'w wrapper \<Rightarrow> 'w router_handlers \<Rightarrow> 'w handler" where
  "Router_ServeHTTP redirectStatus browserSecurity authentication H req s =
     ServeMux_ServeHTTP redirectStatus (root_routes redirectStatus browserSecurity authentication H) req
       (writing (header_Set ''Cache-Control'' ''no-store'') s)"

section \<open>What is protected\<close>

text \<open>The handler behind both middlewares, by the segments of the path.\<close>

fun protected_handler :: "nat \<Rightarrow> 'w router_handlers \<Rightarrow> string list \<Rightarrow> 'w handler option" where
  "protected_handler rs H (v # part # rest) =
     (if v \<noteq> ''v1'' then None
      else if part = ''chats'' then Some (chatsRouter rs H)
      else if part = ''users'' \<and> rest = [] then Some (rth_Users H)
      else if part = ''images'' then rth_Images H
      else if part = ''realtime'' \<and> rest = [] then rth_Realtime H
      else None)"
| "protected_handler rs H _ = None"

lemmas mux_evaluation = mux_Handle_def parse_segment_def descend_def map_filter_simps orElse_def entry_at_def

lemma route_protected:
  assumes "protected_handler rs H ps = Some h"
  shows "mux_match (root_routes rs B A H) ps = Some (B (A h))"
proof -
  obtain part rest where ps: "ps = ''v1'' # part # rest"
    using assms by (cases "(rs, H, ps)" rule: protected_handler.cases) (auto split: if_splits)
  have sub: "mux_match [([], False, x), ([], True, x)] rest = Some x" for x :: "'a handler"
    by (cases rest) (simp_all add: mux_evaluation split: option.split)
  consider "part = ''chats''" "h = chatsRouter rs H" | "part = ''users''" "rest = []" "h = rth_Users H"
    | "part = ''images''" "rth_Images H = Some h" | "part = ''realtime''" "rest = []" "rth_Realtime H = Some h"
    using assms by (auto simp: ps split: if_splits)
  then show ?thesis
    by cases (simp_all add: ps root_routes_def optional_routes_def Let_def mux_evaluation sub split: option.split)
qed

end
