(* ===== verification/HttpChats.thy ===== *)
theory HttpChats
  imports HttpAuth Conversations Messages
begin

text \<open>
  The handlers under \<^verbatim>\<open>/v1/chats\<close> (\<^verbatim>\<open>internal/drivers/http/handler/chats\<close>) and \<^verbatim>\<open>/v1/users\<close>
  (\<^verbatim>\<open>internal/drivers/http/handler/users\<close>): the parsing of paths, queries and bodies, the rate limit
  before a message is created, the status of every outcome, and the responses.
\<close>

section \<open>Shared steps\<close>

definition chatJSONBodyLimit :: nat where "chatJSONBodyLimit = 4 * 1024"
definition createMessageJSONBodyLimit :: nat where "createMessageJSONBodyLimit = 20 * 1024"

definition chats_handleJSONRequestError :: "go_error \<Rightarrow> http_response \<Rightarrow> http_response" where
  "chats_handleJSONRequestError err r =
     (if errors_is err (RequestE Request_ErrUnsupportedMediaType) then writePublicError 415 ''unsupported_media_type'' r
      else if errors_is err (RequestE Request_ErrBodyTooLarge) then writePublicError 413 ''request_body_too_large'' r
      else writePublicError 400 ''invalid_request'' r)"

text \<open>The check that the handlers make of the identity in the context.\<close>

definition with_identity ::
  "http_request \<Rightarrow> (identity \<Rightarrow> 'w \<times> http_response \<Rightarrow> 'w \<times> http_response) \<Rightarrow> 'w \<times> http_response \<Rightarrow> 'w \<times> http_response" where
  "with_identity req k s =
     (case req_Identity req of
        None \<Rightarrow> writing (writePublicError 401 ''unauthenticated'') s
      | Some identity \<Rightarrow>
          if blank (idn_UserID identity) then writing (writePublicError 401 ''unauthenticated'') s
          else k identity s)"

definition invalidQueryParameter :: go_error where
  "invalidQueryParameter = NewError ''invalid chat query parameter''"

definition optionalSingleQueryValue :: "(string \<times> string list) list \<Rightarrow> string \<Rightarrow> go_error + string option" where
  "optionalSingleQueryValue query key =
     (case map_of query key of
        None \<Rightarrow> Inr None
      | Some vs \<Rightarrow>
          if length vs \<noteq> 1 then Inl (Wrap (key @ '' must appear once'') invalidQueryParameter)
          else Inr (Some (TrimSpace (hd vs))))"

definition parseOptionalIntegerQuery :: "(string \<times> string list) list \<Rightarrow> string \<Rightarrow> go_error + int" where
  "parseOptionalIntegerQuery query key =
     andThen (optionalSingleQueryValue query key) (\<lambda>e. e) (\<lambda>found.
     case found of
       None \<Rightarrow> Inr 0
     | Some rawValue \<Rightarrow>
         if rawValue = [] then Inl (Wrap (key @ '' is empty'') invalidQueryParameter)
         else case ParseInt rawValue of
                None \<Rightarrow> Inl (Wrap (key @ '' must be an integer'') invalidQueryParameter)
              | Some n \<Rightarrow> Inr n)"

definition text_or_empty :: "string option \<Rightarrow> string" where
  "text_or_empty x = (case x of None \<Rightarrow> [] | Some s \<Rightarrow> s)"

text \<open>The identifier of the chat in a path \<^verbatim>\<open>/v1/chats/{chatId}<suffix>\<close>.\<close>

definition chatIDFromPath :: "string \<Rightarrow> string \<Rightarrow> string option" where
  "chatIDFromPath suffix path =
     (if \<not> HasPrefix path ''/v1/chats/'' \<or> \<not> HasSuffix path suffix then None
      else
        let chatID = TrimSuffix (TrimPrefix path ''/v1/chats/'') suffix in
        if blank chatID \<or> CHR ''/'' \<in> set chatID then None else Some chatID)"

section \<open>Opening a chat\<close>

definition decode_create_direct :: "json \<Rightarrow> json_error + string" where
  "decode_create_direct v = decode_struct [string_field ''relatedUserId'' (\<lambda>s _. s)] v []"

definition createDirectResponse :: "direct_output \<Rightarrow> json" where
  "createDirectResponse output =
     JObject [(''data'', JObject
       [(''id'', JString (dco_ID output)), (''relatedUser'', JString (dco_RelatedUser output)),
        (''createdAt'', JTime (dco_CreatedAt output)), (''updatedAt'', JTime (dco_UpdatedAt output)),
        (''summarySortAt'', JTime (dco_SummarySortAt output))])]"

definition direct_handleUseCaseError :: "go_error \<Rightarrow> http_response \<Rightarrow> http_response" where
  "direct_handleUseCaseError err r =
     (if errors_is err (ChatsE Chats_ErrInvalidRelatedUserID) then writePublicError 422 ''invalid_related_user'' r
      else if errors_is err (ChatsE Chats_ErrSelfDirectChat) then writePublicError 422 ''self_direct_chat_not_allowed'' r
      else if errors_is err (ChatsE Chats_ErrRelatedUserNotFound) then writePublicError 404 ''related_user_not_found'' r
      else if errors_is err ContextCanceled then r
      else if errors_is err DeadlineExceeded then writePublicError 504 ''request_timeout'' r
      else writePublicError 500 ''internal_error'' r)"

definition CreateDirectHandler ::
  "(http_request \<Rightarrow> nat \<Rightarrow> go_error + string) \<Rightarrow> (string \<Rightarrow> string \<Rightarrow> ('w, go_error, direct_output) call)
     \<Rightarrow> 'w handler" where
  "CreateDirectHandler decode useCase req s =
     (if req_Method req \<noteq> ''POST'' then writing (methodNotAllowed ''POST'') s
      else with_identity req (\<lambda>identity s.
        case decode req chatJSONBodyLimit of
          Inl err \<Rightarrow> writing (chats_handleJSONRequestError err) s
        | Inr relatedUserID \<Rightarrow>
            executing (useCase (idn_UserID identity) relatedUserID) (\<lambda>err. writing (direct_handleUseCaseError err))
              (\<lambda>output. writing (writePayload (if dco_Created output then 201 else 200) (createDirectResponse output))) s) s)"

section \<open>Creating a message\<close>

record create_message_request =
  cmq_ClientMessageID :: string
  cmq_Content :: create_content_input

definition content_table :: "(string \<times> create_content_input field_decoder) list" where
  "content_table =
     [string_field ''type'' (\<lambda>s. cci_Type_update (\<lambda>_. s)), string_field ''value'' (\<lambda>s. cci_Value_update (\<lambda>_. s)),
      string_field ''imageId'' (\<lambda>s. cci_ImageID_update (\<lambda>_. s)), string_field ''caption'' (\<lambda>s. cci_Caption_update (\<lambda>_. s))]"

definition decode_create_message :: "json \<Rightarrow> json_error + create_message_request" where
  "decode_create_message v =
     decode_struct
       [string_field ''clientMessageId'' (\<lambda>s. cmq_ClientMessageID_update (\<lambda>_. s)),
        (''content'', \<lambda>v x. andThen (decode_struct content_table v (cmq_Content x)) (\<lambda>e. e)
                            (\<lambda>c. Inr (x\<lparr>cmq_Content := c\<rparr>)))]
       v \<lparr>cmq_ClientMessageID = [], cmq_Content = \<lparr>cci_Type = [], cci_Value = [], cci_ImageID = [], cci_Caption = []\<rparr>\<rparr>"

definition mapCreateMessageResponse :: "create_output \<Rightarrow> json" where
  "mapCreateMessageResponse output =
     JObject [(''data'', JObject
       [(''id'', JString (cou_ID output)), (''clientMessageId'', JString (cou_ClientMessageID output)),
        (''chatId'', JString (cou_ChatID output)), (''sequence'', JInt (cou_Sequence output)),
        (''senderId'', JString (cou_SenderID output)),
        (''content'', JObject ((''type'', JString (cco_Type (cou_Content output))) #
           json_omitempty ''value'' (cco_Value (cou_Content output)) @ json_omitempty ''imageId'' (cco_ImageID (cou_Content output)) @
           json_omitempty ''caption'' (cco_Caption (cou_Content output)))),
        (''createdAt'', JTime (cou_CreatedAt output)), (''deliveryStatus'', JString (cou_DeliveryStatus output))])]"

definition message_handleUseCaseError :: "go_error \<Rightarrow> http_response \<Rightarrow> http_response" where
  "message_handleUseCaseError err r =
     (let failed_by = (\<lambda>e. errors_is err (MessagesE e)) in
      if errors_is err (PortsE ErrImageUnavailable) then writePublicError 409 ''image_unavailable'' r
      else if failed_by Messages_ErrInvalidCurrentUserID then writePublicError 401 ''unauthenticated'' r
      else if failed_by Messages_ErrInvalidChatID \<or> failed_by Messages_ErrChatNotFound then writePublicError 404 ''chat_not_found'' r
      else if failed_by Messages_ErrInvalidClientMessageID then writePublicError 422 ''invalid_client_message_id'' r
      else if failed_by Messages_ErrInvalidContentType \<or> failed_by Messages_ErrInvalidContent
      then writePublicError 422 ''invalid_message_content'' r
      else if failed_by Messages_ErrContentTooLong then writePublicError 422 ''message_content_too_long'' r
      else if failed_by Messages_ErrIdempotencyConflict then writePublicError 409 ''idempotency_conflict'' r
      else if errors_is err ContextCanceled then r
      else if errors_is err DeadlineExceeded then writePublicError 504 ''request_timeout'' r
      else writePublicError 500 ''internal_error'' r)"

text \<open>The seconds of a wait, rounded up.\<close>

definition retry_seconds :: "duration \<Rightarrow> int" where
  "retry_seconds retryAfter = go_div (retryAfter + second - 1) second"

text \<open>\<^verbatim>\<open>reserveSendAttempt\<close>: the rest of the handler runs only with a reservation.\<close>

definition reserveSendAttempt ::
  "(string \<Rightarrow> ('w, go_error, duration) call) \<Rightarrow> string \<Rightarrow> ('w \<times> http_response \<Rightarrow> 'w \<times> http_response)
     \<Rightarrow> 'w \<times> http_response \<Rightarrow> 'w \<times> http_response" where
  "reserveSendAttempt limiter userID k =
     executing (limiter userID)
       (\<lambda>err. writing (\<lambda>r.
          if errors_is err ContextCanceled then r
          else if errors_is err DeadlineExceeded then message_handleUseCaseError err r
          else writePublicError 503 ''message_rate_limit_unavailable'' (header_Set ''Retry-After'' ''1'' r)))
       (\<lambda>retryAfter.
          if retryAfter > 0
          then writing (\<lambda>r. writePublicError 429 ''message_rate_limit_exceeded''
                  (header_Set ''Retry-After'' (decimal (nat (retry_seconds retryAfter))) r))
          else k)"

definition CreateMessageHandler ::
  "(http_request \<Rightarrow> nat \<Rightarrow> go_error + create_message_request) \<Rightarrow> (string \<Rightarrow> ('w, go_error, duration) call)
     \<Rightarrow> (create_input \<Rightarrow> ('w, go_error, create_output) call) \<Rightarrow> 'w handler" where
  "CreateMessageHandler decode limiter useCase req s =
     (case chatIDFromPath ''/messages'' (req_Path req) of
        None \<Rightarrow> writing (writePublicError 404 ''route_not_found'') s
      | Some chatID \<Rightarrow>
          if req_Method req \<noteq> ''POST'' then writing (methodNotAllowed ''POST'') s
          else with_identity req (\<lambda>identity.
            reserveSendAttempt limiter (idn_UserID identity) (\<lambda>s.
            case decode req createMessageJSONBodyLimit of
              Inl err \<Rightarrow> writing (chats_handleJSONRequestError err) s
            | Inr body \<Rightarrow>
                executing
                  (useCase \<lparr>cin_CurrentUserID = idn_UserID identity, cin_ChatID = chatID,
                            cin_ClientMessageID = cmq_ClientMessageID body, cin_Content = cmq_Content body\<rparr>)
                  (\<lambda>err. writing (message_handleUseCaseError err))
                  (\<lambda>output. writing (writePayload (if cou_Created output then 201 else 200)
                                      (mapCreateMessageResponse output))) s)) s)"

end
