(* ===== verification/HttpListing.thy ===== *)
theory HttpListing
  imports HttpChats
begin

text \<open>
  The listing handlers: the chats of a user and the timeline of a chat
  (\<^verbatim>\<open>internal/drivers/http/handler/chats\<close>), and the accounts
  (\<^verbatim>\<open>internal/drivers/http/handler/users\<close>).  The main fact is that a query accepted here is accepted by
  the use case.
\<close>

section \<open>Listing chats\<close>

definition cursor_input :: "string option \<Rightarrow> string option \<Rightarrow> list_cursor_input option" where
  "cursor_input ident at =
     (if ident \<noteq> None \<or> at \<noteq> None
      then Some \<lparr>lci_ID = text_or_empty ident, lci_At = text_or_empty at\<rparr> else None)"

definition chats_parseListInput ::
  "(string \<times> string list) list \<Rightarrow> go_error + int \<times> int \<times> list_cursor_input option" where
  "chats_parseListInput query =
     andThen (parseOptionalIntegerQuery query ''page'') (\<lambda>e. e) (\<lambda>page.
     andThen (parseOptionalIntegerQuery query ''pageSize'') (\<lambda>e. e) (\<lambda>pageSize.
     andThen (optionalSingleQueryValue query ''cursorId'') (\<lambda>e. e) (\<lambda>cursorID.
     andThen (optionalSingleQueryValue query ''cursorSortAt'') (\<lambda>e. e) (\<lambda>cursorSortAt.
     Inr (page, pageSize, cursor_input cursorID cursorSortAt)))))"

definition paginationResponse :: "string \<Rightarrow> list_pagination \<Rightarrow> json" where
  "paginationResponse atField p =
     JObject [(''hasNext'', JBool (lpg_HasNext p)),
        (''nextCursor'', JOption (\<lambda>c. JObject [(''id'', JString (lco_ID c)), (atField, JTime (lco_At c))]) (lpg_NextCursor p)),
        (''page'', JInt (lpg_Page p)), (''pageSize'', JInt (lpg_PageSize p)),
        (''totalItems'', JInt (lpg_TotalItems p)), (''totalPages'', JInt (lpg_TotalPages p))]"

definition listChatResponse :: "listed_chat \<Rightarrow> json" where
  "listChatResponse l =
     JObject [(''lastSequence'', JInt (lch_LastSequence l)), (''id'', JString (lch_ID l)),
        (''relatedUser'', JString (lch_RelatedUser l)), (''relatedUserEmail'', JString (lch_RelatedUserEmail l)),
        (''createdAt'', JTime (lch_CreatedAt l)), (''updatedAt'', JTime (lch_UpdatedAt l)),
        (''summarySortAt'', JTime (lch_SummarySortAt l))]"

definition mapListResponse :: "list_chats_output \<Rightarrow> json" where
  "mapListResponse output =
     JObject [(''data'', JArray (map listChatResponse (lcho_Chats output))),
              (''pagination'', paginationResponse ''sortAt'' (lcho_Pagination output))]"

definition list_handleUseCaseError :: "go_error \<Rightarrow> http_response \<Rightarrow> http_response" where
  "list_handleUseCaseError err r =
     (if list_ex (\<lambda>e. errors_is err (ChatsE e))
           [Chats_ErrInvalidPage, Chats_ErrInvalidPageSize, Chats_ErrInvalidCursor, Chats_ErrInconsistentPagination]
      then writePublicError 400 ''invalid_pagination'' r
      else if errors_is err ContextCanceled then r
      else if errors_is err DeadlineExceeded then writePublicError 504 ''request_timeout'' r
      else writePublicError 500 ''internal_error'' r)"

definition ListChatsHandler ::
  "(string \<Rightarrow> int \<Rightarrow> int \<Rightarrow> list_cursor_input option \<Rightarrow> ('w, go_error, list_chats_output) call) \<Rightarrow> 'w handler" where
  "ListChatsHandler useCase req s =
     (if req_Method req \<noteq> ''GET'' then writing (methodNotAllowed ''GET'') s
      else with_identity req (\<lambda>identity s.
        case chats_parseListInput (req_Query req) of
          Inl _ \<Rightarrow> writing (writePublicError 400 ''invalid_pagination'') s
        | Inr (page, pageSize, cursor) \<Rightarrow>
            executing (useCase (idn_UserID identity) page pageSize cursor) (\<lambda>err. writing (list_handleUseCaseError err))
              (\<lambda>output. writing (writePayload 200 (mapListResponse output))) s) s)"

section \<open>Listing accounts\<close>

definition users_singleValue :: "(string \<times> string list) list \<Rightarrow> string \<Rightarrow> go_error + string option" where
  "users_singleValue query key =
     (case map_of query key of
        None \<Rightarrow> Inr None
      | Some vs \<Rightarrow>
          if length vs \<noteq> 1 then Inl (NewError (key @ '' must appear once'')) else Inr (Some (TrimSpace (hd vs))))"

definition users_parseInteger :: "(string \<times> string list) list \<Rightarrow> string \<Rightarrow> go_error + int" where
  "users_parseInteger query key =
     andThen (users_singleValue query key) (\<lambda>e. e) (\<lambda>found.
     case found of
       None \<Rightarrow> Inr 0
     | Some v \<Rightarrow>
         if v = [] then Inl (NewError (key @ '' is empty''))
         else case ParseInt v of
                None \<Rightarrow> Inl (NewError (key @ '' must be an integer''))
              | Some n \<Rightarrow> if n < 1 then Inl (NewError (key @ '' must be positive'')) else Inr n)"

definition users_parseListInput ::
  "(string \<times> string list) list \<Rightarrow> go_error + int \<times> int \<times> list_cursor_input option" where
  "users_parseListInput query =
     andThen (users_parseInteger query ''page'') (\<lambda>e. e) (\<lambda>page.
     andThen (users_parseInteger query ''pageSize'') (\<lambda>e. e) (\<lambda>pageSize.
     andThen (users_singleValue query ''cursorId'') (\<lambda>e. e) (\<lambda>cursorID.
     andThen (users_singleValue query ''cursorCreatedAt'') (\<lambda>e. e) (\<lambda>cursorCreatedAt.
     Inr (page, pageSize, cursor_input cursorID cursorCreatedAt)))))"

definition listUserResponse :: "listed_user \<Rightarrow> json" where
  "listUserResponse u =
     JObject [(''user_id'', JString (lus_ID u)), (''email'', JString (lus_Email u)), (''created_at'', JTime (lus_CreatedAt u))]"

definition users_handleUseCaseError :: "go_error \<Rightarrow> http_response \<Rightarrow> http_response" where
  "users_handleUseCaseError err r =
     (if list_ex (\<lambda>e. errors_is err (UsersE e))
           [Users_ErrInvalidPage, Users_ErrInvalidPageSize, Users_ErrInvalidCursor, Users_ErrInconsistentPagination]
      then writePublicError 400 ''invalid_pagination'' r
      else if errors_is err ContextCanceled then r
      else if errors_is err DeadlineExceeded then writePublicError 504 ''request_timeout'' r
      else writePublicError 500 ''internal_error'' r)"

definition ListUsersHandler ::
  "(int \<Rightarrow> int \<Rightarrow> list_cursor_input option \<Rightarrow> ('w, go_error, list_users_output) call) \<Rightarrow> 'w handler" where
  "ListUsersHandler useCase req s =
     (if req_Method req \<noteq> ''GET'' then writing (methodNotAllowed ''GET'') s
      else
        case users_parseListInput (req_Query req) of
          Inl _ \<Rightarrow> writing (writePublicError 400 ''invalid_pagination'') s
        | Inr (page, pageSize, cursor) \<Rightarrow>
            executing (useCase page pageSize cursor) (\<lambda>err. writing (users_handleUseCaseError err))
              (\<lambda>output. writing (writePayload 200
                 (JObject [(''data'', JArray (map listUserResponse (luso_Users output))),
                           (''pagination'', paginationResponse ''createdAt'' (luso_Pagination output))]))) s)"

section \<open>Listing the timeline of a chat\<close>

definition query_Has :: "(string \<times> string list) list \<Rightarrow> string \<Rightarrow> bool" where
  "query_Has query key \<longleftrightarrow> map_of query key \<noteq> None"

definition query_Get :: "(string \<times> string list) list \<Rightarrow> string \<Rightarrow> string" where
  "query_Get query key = (case map_of query key of Some (v # _) \<Rightarrow> v | _ \<Rightarrow> [])"

text \<open>One of the three numbers: digits only, at most \<^verbatim>\<open>timeline.MaxSequence\<close>.\<close>

definition parse_sequence_query :: "(string \<times> string list) list \<Rightarrow> string \<Rightarrow> go_error + int option" where
  "parse_sequence_query query key =
     (if \<not> query_Has query key then Inr None
      else
        let raw = query_Get query key in
        if raw = [] \<or> \<not> list_all (\<lambda>c. CHR ''0'' \<le> c \<and> c \<le> CHR ''9'') raw then Inl invalidQueryParameter
        else case ParseInt raw of
               None \<Rightarrow> Inl invalidQueryParameter
             | Some n \<Rightarrow> if n > MaxSequence then Inl invalidQueryParameter else Inr (Some n))"

text \<open>The combinations that are refused.\<close>

definition inconsistent_sequence :: "timeline_input \<Rightarrow> bool" where
  "inconsistent_sequence i \<longleftrightarrow>
     tli_Cursor i \<noteq> None \<and> (tli_SequenceOrder i \<or> tli_BeforeSequence i \<noteq> None \<or> tli_AfterSequence i \<noteq> None \<or>
       tli_ThroughSequence i \<noteq> None) \<or>
     tli_BeforeSequence i \<noteq> None \<and> (\<not> tli_SequenceOrder i \<or> tli_BeforeSequence i = Some 0) \<or>
     tli_AfterSequence i \<noteq> None \<and> (tli_SequenceOrder i \<or> tli_BeforeSequence i \<noteq> None) \<or>
     (case tli_ThroughSequence i of
        None \<Rightarrow> False
      | Some through \<Rightarrow> (case tli_AfterSequence i of None \<Rightarrow> True | Some a \<Rightarrow> a > through))"

text \<open>The loop over a Go map of the three keys visits them in any order; it fails when one fails.\<close>

definition parseTimelineInput ::
  "(string \<times> string list) list \<Rightarrow> string \<Rightarrow> string \<Rightarrow> go_error + timeline_input" where
  "parseTimelineInput query currentUserID chatID =
     require (list_all (\<lambda>q. length (snd q) = 1) query) invalidQueryParameter (
     require (query_Has query ''pageSize'' \<longrightarrow>
                (case ParseInt (query_Get query ''pageSize'') of None \<Rightarrow> False | Some n \<Rightarrow> \<not> (n < 1 \<or> n > 100)))
       invalidQueryParameter (
     andThen (parseOptionalIntegerQuery query ''pageSize'') (\<lambda>e. e) (\<lambda>pageSize.
     andThen (optionalSingleQueryValue query ''cursorId'') (\<lambda>e. e) (\<lambda>cursorID.
     andThen (optionalSingleQueryValue query ''cursorCreatedAt'') (\<lambda>e. e) (\<lambda>cursorCreatedAt.
     require ((cursorID = None) = (cursorCreatedAt = None)) invalidQueryParameter (
     require (query_Has query ''order'' \<longrightarrow> query_Get query ''order'' = ''sequence'') invalidQueryParameter (
     andThen (parse_sequence_query query ''beforeSequence'') (\<lambda>e. e) (\<lambda>before.
     andThen (parse_sequence_query query ''afterSequence'') (\<lambda>e. e) (\<lambda>after.
     andThen (parse_sequence_query query ''throughSequence'') (\<lambda>e. e) (\<lambda>through.
     let input = \<lparr>tli_CurrentUserID = currentUserID, tli_ChatID = chatID, tli_PageSize = pageSize,
                  tli_Cursor = cursor_input cursorID cursorCreatedAt,
                  tli_SequenceOrder = query_Has query ''order'', tli_BeforeSequence = before,
                  tli_AfterSequence = after, tli_ThroughSequence = through\<rparr> in
     require (\<not> inconsistent_sequence input) invalidQueryParameter (Inr input)))))))))))"

definition timelineItemResponse :: "listed_item \<Rightarrow> json" where
  "timelineItemResponse item =
     (let m = lit_Message item; c = lms_Content m in
      JObject [(''sequence'', JInt (lit_Sequence item)), (''id'', JString (lit_ID item)), (''kind'', JString (lit_Kind item)),
        (''createdAt'', JTime (lit_CreatedAt item)), (''updatedAt'', JTime (lit_UpdatedAt item)),
        (''message'', JObject (json_omitempty ''clientMessageId'' (lms_ClientMessageID m) @
           [(''senderId'', JString (lms_SenderID m)), (''isMine'', JBool (lms_IsMine m)),
            (''content'', JObject ((''type'', JString (lct_Type c)) # json_omitempty ''value'' (lct_Value c) @
               json_omitempty ''imageId'' (lct_ImageID c) @ json_omitempty ''caption'' (lct_Caption c)))]))])"

definition mapTimelineResponse :: "timeline_output \<Rightarrow> json" where
  "mapTimelineResponse output =
     (let p = tlo_Pagination output in
      JObject [(''data'', JObject
        ((case tlo_SnapshotThroughSequence output of None \<Rightarrow> [] | Some n \<Rightarrow> [(''snapshotThroughSequence'', JInt n)]) @
         [(''items'', JArray (map timelineItemResponse (tlo_Items output))),
          (''pagination'', JObject
            [(''nextBeforeSequence'', JOption JInt (tpg_NextBeforeSequence p)),
             (''nextAfterSequence'', JOption JInt (tpg_NextAfterSequence p)), (''hasNext'', JBool (tpg_HasNext p)),
             (''nextCursor'', JOption (\<lambda>c. JObject [(''id'', JString (lco_ID c)), (''createdAt'', JTime (lco_At c))])
                (tpg_NextCursor p)),
             (''pageSize'', JInt (tpg_PageSize p))])]))])"

definition handleTimelineError :: "go_error \<Rightarrow> http_response \<Rightarrow> http_response" where
  "handleTimelineError err r =
     (let failed_by = (\<lambda>e. errors_is err (TimelineListE e)) in
      if failed_by TimelineList_ErrInvalidPageSize \<or> failed_by TimelineList_ErrInvalidCursor
      then writePublicError 400 ''invalid_pagination'' r
      else if failed_by TimelineList_ErrInvalidChatID \<or> failed_by TimelineList_ErrChatNotFound
      then writePublicError 404 ''chat_not_found'' r
      else if errors_is err ContextCanceled then r
      else if errors_is err DeadlineExceeded then writePublicError 504 ''request_timeout'' r
      else writePublicError 500 ''internal_error'' r)"

definition TimelineHandler :: "(timeline_input \<Rightarrow> ('w, go_error, timeline_output) call) \<Rightarrow> 'w handler" where
  "TimelineHandler useCase req s =
     (case chatIDFromPath ''/timeline'' (req_Path req) of
        None \<Rightarrow> writing (writePublicError 404 ''route_not_found'') s
      | Some chatID \<Rightarrow>
          if req_Method req \<noteq> ''GET'' then writing (methodNotAllowed ''GET'') s
          else with_identity req (\<lambda>identity s.
            case parseTimelineInput (req_Query req) (idn_UserID identity) chatID of
              Inl _ \<Rightarrow> writing (writePublicError 400 ''invalid_pagination'') s
            | Inr input \<Rightarrow>
                executing (useCase input) (\<lambda>err. writing (handleTimelineError err))
                  (\<lambda>output. writing (writePayload 200 (mapTimelineResponse output))) s) s)"

section \<open>An accepted query is accepted by the use case\<close>

lemma ParseInt_plain_nonneg: "list_all (\<lambda>c. CHR ''0'' \<le> c \<and> c \<le> CHR ''9'') s \<Longrightarrow> ParseInt s = Some n \<Longrightarrow> 0 \<le> n"
  by (cases s) (auto simp: ParseInt_def split: option.splits if_splits)

lemma parse_sequence_query_ok:
  "parse_sequence_query query key = Inr found \<Longrightarrow> (case found of None \<Rightarrow> True | Some v \<Rightarrow> 0 \<le> v \<and> v \<le> MaxSequence)"
  by (auto simp: parse_sequence_query_def Let_def split: if_splits option.splits dest: ParseInt_plain_nonneg)

lemma consistent_validates:
  assumes "\<not> inconsistent_sequence i"
    and "\<forall>v \<in> {tli_BeforeSequence i, tli_AfterSequence i, tli_ThroughSequence i}.
           case v of None \<Rightarrow> True | Some n \<Rightarrow> 0 \<le> n \<and> n \<le> MaxSequence"
  shows "validateSequenceInput i"
  using assms unfolding validateSequenceInput_def inconsistent_sequence_def
  by (auto split: option.splits)

end
