(* ===== verification/HttpImages.thy ===== *)
theory HttpImages
  imports HttpAuth Images Security
begin

text \<open>
  The handler of \<^verbatim>\<open>/v1/images\<close> (\<^verbatim>\<open>internal/drivers/http/handler/images\<close>).  The multipart reader, the
  temporary file, the hash and the image decoders of the standard library are parameters; what the
  handler does with what they return is not.
\<close>

section \<open>What the handler relies on\<close>

text \<open>
  A part of the form: its names, its bytes, and the error after which they end, if any.  The error of
  a read is \<^verbatim>\<open>http.MaxBytesError\<close> (\<open>True\<close>) or another one.
\<close>

record form_part =
  prt_FormName :: string
  prt_FileName :: string
  prt_Content :: string
  prt_Error :: "bool option"

datatype next_part = NextPart form_part | NextPartError bool

record 'w temp_file =
  tmp_Body :: "'w read_seeker"
  tmp_Write :: "string \<Rightarrow> ('w, go_error, unit) call"

record 'w upload_environment =
  upe_Err :: "'w go_context"
  upe_TryAcquire :: "'w \<Rightarrow> 'w \<times> bool"
  upe_Release :: "'w \<Rightarrow> 'w"
  upe_MultipartReader :: "http_request \<Rightarrow> body_reader \<Rightarrow> next_part list option"
  upe_CreateTemp :: "('w, go_error, 'w temp_file) call"
  upe_Remove :: "'w temp_file \<Rightarrow> 'w \<Rightarrow> 'w"
  upe_Sum256 :: "string \<Rightarrow> string"
  upe_DecodeConfig :: "'w read_seeker \<Rightarrow> ('w, go_error, string \<times> int \<times> int) call"
  upe_Decode :: "'w read_seeker \<Rightarrow> ('w, go_error, string \<times> int \<times> int) call"

section \<open>Errors\<close>

definition images_handleError :: "go_error \<Rightarrow> http_response \<Rightarrow> http_response" where
  "images_handleError err r =
     (if errors_is err (PortsE ErrImageNotFound) then writePublicError 404 ''image_not_found'' r
      else if errors_is err (PortsE ErrChatNotFound) then writePublicError 404 ''chat_not_found'' r
      else if errors_is err (PortsE ErrImageUploadConflict) then writePublicError 409 ''image_upload_conflict'' r
      else if errors_is err (PortsE ErrImageUploadBusy)
      then writePublicError 409 ''image_upload_in_progress'' (header_Set ''Retry-After'' ''2'' r)
      else if errors_is err (PortsE ErrImageExpired) then writePublicError 410 ''image_upload_expired'' r
      else if errors_is err (ImagesE Images_ErrInvalidUpload) then writePublicError 422 ''invalid_image_upload'' r
      else if errors_is err ContextCanceled then r
      else if errors_is err DeadlineExceeded then writePublicError 504 ''request_timeout'' r
      else writePublicError 503 ''image_storage_unavailable'' r)"

definition multipartError ::
  "'w upload_environment \<Rightarrow> bool \<Rightarrow> 'w \<times> http_response \<Rightarrow> 'w \<times> http_response" where
  "multipartError E tooLarge s =
     (if tooLarge then writing (writePublicError 413 ''image_too_large'') s
      else case upe_Err E (fst s) of
             (w, Inl _) \<Rightarrow> (w, snd s)
           | (w, Inr _) \<Rightarrow> (w, writePublicError 400 ''invalid_image_upload'' (snd s)))"

section \<open>Responses\<close>

definition metadata_fields :: "image_metadata \<Rightarrow> (string \<times> json) list" where
  "metadata_fields m =
     [(''id'', JString (imd_ID m)), (''contentType'', JString (imd_ContentType m)), (''sizeBytes'', JInt (imd_SizeBytes m)),
      (''width'', JInt (imd_Width m)), (''height'', JInt (imd_Height m))]"

definition writeData :: "nat \<Rightarrow> (string \<times> json) list \<Rightarrow> http_response \<Rightarrow> http_response" where
  "writeData status content r = writePayload status (JObject [(''data'', JObject content)]) r"

definition access_fields :: "image_access \<Rightarrow> (string \<times> json) list" where
  "access_fields a =
     metadata_fields (acc_Metadata a) @ [(''url'', JString (acc_URL a)), (''expiresAt'', JTime (acc_ExpiresAt a))]"

section \<open>The file of an upload\<close>

text \<open>What is read through an \<^verbatim>\<open>io.LimitReader\<close> of a part, and the error it ends with.\<close>

definition limited_part :: "nat \<Rightarrow> form_part \<Rightarrow> string \<times> bool option" where
  "limited_part n part =
     (take n (prt_Content part), if length (prt_Content part) < n then prt_Error part else None)"

text \<open>
  From the copy of the file to the end of the round: the size, the checksum, the header of the image,
  and the whole image, which must agree with its header.
\<close>

definition receive_file ::
  "'w upload_environment \<Rightarrow> 'w temp_file \<Rightarrow> form_part \<Rightarrow> 'w upload_input
     \<Rightarrow> ('w upload_input \<Rightarrow> 'w \<times> http_response \<Rightarrow> 'w \<times> http_response) \<Rightarrow> 'w \<times> http_response \<Rightarrow> 'w \<times> http_response" where
  "receive_file E file part input k =
     (let failed = (\<lambda>err. writing (images_handleError err));
          refuse = (\<lambda>status code. writing (writePublicError status code));
          (content, ended) = limited_part (nat (MaxBytes + 1)) part;
          invalid = refuse 422 ''invalid_image'' in
      executing (tmp_Write file content) (\<lambda>_. multipartError E False) (\<lambda>_.
      case ended of Some tooLarge \<Rightarrow> multipartError E tooLarge | None \<Rightarrow>
      if int (length content) > MaxBytes then refuse 413 ''image_too_large''
      else
        executing (rs_Seek (tmp_Body file) 0 0) failed (\<lambda>_.
        executing (upe_DecodeConfig E (tmp_Body file)) (\<lambda>_. invalid) (\<lambda>(format, width, height).
        if format \<noteq> ''jpeg'' \<and> format \<noteq> ''png'' then invalid
        else if width < 1 \<or> height < 1 \<or> width > MaxDimension \<or> height > MaxDimension \<or> width * height > MaxPixels
        then refuse 422 ''image_dimensions_exceeded''
        else
          executing (rs_Seek (tmp_Body file) 0 0) failed (\<lambda>_.
          executing (upe_Decode E (tmp_Body file)) (\<lambda>_. invalid) (\<lambda>(decodedFormat, dx, dy).
          if decodedFormat \<noteq> format \<or> dx \<noteq> width \<or> dy \<noteq> height then invalid
          else k (input\<lparr>upl_SizeBytes := int (length content), upl_Checksum := hex_EncodeToString (upe_Sum256 E content),
                        upl_ContentType := (if format = ''jpeg'' then ''image/jpeg'' else ''image/png''),
                        upl_Width := width, upl_Height := height\<rparr>)))))))"

text \<open>The loop over the parts; \<open>seen\<close> is the map of the names met so far.\<close>

fun receive_parts ::
  "'w upload_environment \<Rightarrow> ('w upload_input \<Rightarrow> 'w \<times> http_response \<Rightarrow> 'w \<times> http_response) \<Rightarrow> 'w temp_file
     \<Rightarrow> string list \<Rightarrow> 'w upload_input \<Rightarrow> next_part list \<Rightarrow> 'w \<times> http_response \<Rightarrow> 'w \<times> http_response" where
  "receive_parts E finish file seen input [] =
     (if length seen \<noteq> 3 then writing (writePublicError 400 ''invalid_image_upload'') else finish input)"
| "receive_parts E finish file seen input (NextPartError tooLarge # _) = multipartError E tooLarge"
| "receive_parts E finish file seen input (NextPart part # rest) =
     (let name = prt_FormName part; refuse = writing (writePublicError 400 ''invalid_image_upload'') in
      if name \<in> set seen \<or> (name \<noteq> ''chatId'' \<and> name \<noteq> ''clientUploadId'' \<and> name \<noteq> ''file'') then refuse
      else if name \<noteq> ''file'' then
        (case limited_part 257 part of
           (_, Some tooLarge) \<Rightarrow> multipartError E tooLarge
         | (v, None) \<Rightarrow>
             if length v > 256 \<or> prt_FileName part \<noteq> [] then refuse
             else receive_parts E finish file (name # seen)
                    (if name = ''chatId'' then input\<lparr>upl_ChatID := v\<rparr> else input\<lparr>upl_ClientUploadID := v\<rparr>) rest)
      else if prt_FileName part = [] then refuse
      else receive_file E file part input (\<lambda>input. receive_parts E finish file (name # seen) input rest))"

section \<open>The handler\<close>

definition new_upload_input :: "string \<Rightarrow> 'w read_seeker \<Rightarrow> 'w upload_input" where
  "new_upload_input userID body =
     \<lparr>upl_UserID = userID, upl_ChatID = [], upl_ClientUploadID = [], upl_ContentType = [], upl_Checksum = [],
      upl_SizeBytes = 0, upl_Width = 0, upl_Height = 0, upl_Body = Some body\<rparr>"

text \<open>What happens while one of the two upload slots is held; it is released on every way out.\<close>

definition upload_in_slot ::
  "'w upload_environment \<Rightarrow> ('w upload_input \<Rightarrow> ('w, go_error, image_metadata) call) \<Rightarrow> string \<Rightarrow> 'w handler" where
  "upload_in_slot E service userID req s =
     (case upe_MultipartReader E req (MaxBytesReader (nat MaxBytes + 64 * 1024) (req_Body req)) of
        None \<Rightarrow> writing (writePublicError 415 ''unsupported_media_type'') s
      | Some parts \<Rightarrow>
          executing (upe_CreateTemp E) (\<lambda>err. writing (images_handleError err)) (\<lambda>file s.
            map_prod (upe_Remove E file) (\<lambda>r. r)
              (receive_parts E
                 (\<lambda>input. executing (service input) (\<lambda>err. writing (images_handleError err))
                            (\<lambda>result. writing (writeData 200 (metadata_fields result))))
                 file [] (new_upload_input userID (tmp_Body file)) parts s)) s)"

definition images_upload ::
  "'w upload_environment \<Rightarrow> (string \<Rightarrow> ('w, go_error, duration) call)
     \<Rightarrow> ('w upload_input \<Rightarrow> ('w, go_error, image_metadata) call) \<Rightarrow> string \<Rightarrow> 'w handler" where
  "images_upload E limiter service userID req =
     executing (limiter (''image:'' @ userID)) (\<lambda>err. writing (images_handleError err)) (\<lambda>retryAfter s.
       if retryAfter > 0
       then writing (\<lambda>r. writePublicError 429 ''image_upload_rate_limit''
              (header_Set ''Retry-After'' (decimal (nat (go_div (retryAfter + second - 1) second))) r)) s
       else
         (case upe_TryAcquire E (fst s) of
            (w, False) \<Rightarrow> (w, writePublicError 429 ''image_upload_limit'' (header_Set ''Retry-After'' ''2'' (snd s)))
          | (w, True) \<Rightarrow> map_prod (upe_Release E) (\<lambda>r. r) (upload_in_slot E service userID req (w, snd s))))"

definition imageIDFromPath :: "string \<Rightarrow> string option" where
  "imageIDFromPath path =
     (let ident = TrimSuffix (TrimPrefix path ''/v1/images/'') ''/access'' in
      if \<not> HasPrefix path ''/v1/images/'' \<or> \<not> HasSuffix path ''/access'' \<or> ident = [] \<or> CHR ''/'' \<in> set ident \<or>
         length ident > 128
      then None else Some ident)"

definition ImagesHandler ::
  "'w upload_environment \<Rightarrow> (string \<Rightarrow> ('w, go_error, duration) call)
     \<Rightarrow> ('w upload_input \<Rightarrow> ('w, go_error, image_metadata) call)
     \<Rightarrow> (string \<Rightarrow> string \<Rightarrow> ('w, go_error, image_access) call) \<Rightarrow> 'w handler" where
  "ImagesHandler E limiter uploading accessing req s =
     (let unauthenticated = writing (writePublicError 401 ''unauthenticated'') in
      case req_Identity req of
        None \<Rightarrow> unauthenticated s
      | Some identity \<Rightarrow>
          if idn_UserID identity = [] then unauthenticated s
          else if req_Path req = ''/v1/images'' then
            (if req_Method req \<noteq> ''POST'' then writing (methodNotAllowed ''POST'') s
             else images_upload E limiter uploading (idn_UserID identity) req s)
          else
            case imageIDFromPath (req_Path req) of
              None \<Rightarrow> writing (writePublicError 404 ''route_not_found'') s
            | Some ident \<Rightarrow>
                if req_Method req \<noteq> ''GET'' then writing (methodNotAllowed ''GET'') s
                else executing (accessing (idn_UserID identity) ident) (\<lambda>err. writing (images_handleError err))
                       (\<lambda>a. writing (writeData 200 (access_fields a))) s)"

end
