(* ===== verification/Config.thy ===== *)
theory Config
  imports GoText Http
begin

text \<open>
  The configuration of the service (\<^verbatim>\<open>internal/resources/config\<close>), read from the environment.  An
  environment maps the name of a variable to its value; \<open>parseDuration\<close> is \<^verbatim>\<open>time.ParseDuration\<close>,
  \<open>splitHostPort\<close> the port of \<^verbatim>\<open>net.SplitHostPort\<close>.  A loop over a Go map of variables visits them in any
  order; it fails when the reading of one fails.
\<close>

type_synonym environment = "string \<Rightarrow> string option"
type_synonym duration_parser = "string \<Rightarrow> duration option"

definition ErrMissingEnvironmentVariable :: go_error where
  "ErrMissingEnvironmentVariable = NewError ''missing required environment variable''"

definition ErrInvalidEnvironmentVariable :: go_error where
  "ErrInvalidEnvironmentVariable = NewError ''invalid environment variable''"

definition ErrInvalidMongoDBConfig :: go_error where "ErrInvalidMongoDBConfig = NewError ''invalid MongoDB configuratio''"
definition ErrInvalidAuthConfig :: go_error where "ErrInvalidAuthConfig = NewError ''invalid authentication configuration''"
definition ErrInvalidHTTPConfig :: go_error where "ErrInvalidHTTPConfig = NewError ''invalid HTTP configuration''"

text \<open>\<^verbatim>\<open>os.Getenv\<close>.\<close>

definition Getenv :: "environment \<Rightarrow> string \<Rightarrow> string" where
  "Getenv env name = (case env name of None \<Rightarrow> [] | Some v \<Rightarrow> v)"

section \<open>Reading variables\<close>

definition readRequiredEnvironment :: "environment \<Rightarrow> string \<Rightarrow> go_error + string" where
  "readRequiredEnvironment env name =
     (case env name of
        None \<Rightarrow> Inl (Wrap name ErrMissingEnvironmentVariable)
      | Some v \<Rightarrow> if blank v then Inl (Wrap name ErrMissingEnvironmentVariable) else Inr (TrimSpace v))"

definition maximumMongoDBTimeout :: duration where "maximumMongoDBTimeout = 5 * minute"

definition validateTimeout :: "string \<Rightarrow> duration \<Rightarrow> go_error + unit" where
  "validateTimeout name v =
     (if v \<le> 0 \<or> v > maximumMongoDBTimeout then Inl (Wrap name ErrInvalidMongoDBConfig) else Inr ())"

definition readDurationEnvironment ::
  "duration_parser \<Rightarrow> environment \<Rightarrow> string \<Rightarrow> duration \<Rightarrow> go_error + duration" where
  "readDurationEnvironment parseDuration env name defaultValue =
     (case env name of
        None \<Rightarrow> Inr defaultValue
      | Some raw \<Rightarrow>
          if blank raw then Inl (Wrap name ErrInvalidEnvironmentVariable)
          else
            case parseDuration (TrimSpace raw) of
              None \<Rightarrow> Inl (Wrap name ErrInvalidEnvironmentVariable)
            | Some v \<Rightarrow> andThen (validateTimeout name v) (\<lambda>e. e) (\<lambda>_. Inr v))"

definition readBoundedDurationEnvironment ::
  "duration_parser \<Rightarrow> environment \<Rightarrow> string \<Rightarrow> duration \<Rightarrow> duration \<Rightarrow> duration \<Rightarrow> go_error + duration" where
  "readBoundedDurationEnvironment parseDuration env name defaultValue minimum maximum =
     (case env name of
        None \<Rightarrow> Inr defaultValue
      | Some raw \<Rightarrow>
          if blank raw then Inl (Wrap name ErrInvalidEnvironmentVariable)
          else
            case parseDuration (TrimSpace raw) of
              None \<Rightarrow> Inl (Wrap name ErrInvalidEnvironmentVariable)
            | Some v \<Rightarrow>
                if v < minimum \<or> v > maximum then Inl (Wrap name ErrInvalidEnvironmentVariable) else Inr v)"

definition readBooleanEnvironment :: "environment \<Rightarrow> string \<Rightarrow> bool \<Rightarrow> go_error + bool" where
  "readBooleanEnvironment env name defaultValue =
     (case env name of
        None \<Rightarrow> Inr defaultValue
      | Some raw \<Rightarrow>
          let v = ToLower (TrimSpace raw) in
          if v = ''true'' then Inr True else if v = ''false'' then Inr False
          else Inl (Wrap name ErrInvalidEnvironmentVariable))"

section \<open>MongoDB and outbox\<close>

record mongodb_config =
  mdc_URI :: string
  mdc_Database :: string
  mdc_ConnectTimeout :: duration
  mdc_OperationTimeout :: duration
  mdc_ShutdownTimeout :: duration

definition mongodb_Validate :: "mongodb_config \<Rightarrow> go_error + unit" where
  "mongodb_Validate c =
     require (\<not> blank (mdc_URI c)) (Wrap ''URI is empty'' ErrInvalidMongoDBConfig) (
     require (\<not> blank (mdc_Database c)) (Wrap ''database name is empty'' ErrInvalidMongoDBConfig) (
     andThen (validateTimeout ''connect timeout'' (mdc_ConnectTimeout c)) (\<lambda>e. e) (\<lambda>_.
     andThen (validateTimeout ''operation timeout'' (mdc_OperationTimeout c)) (\<lambda>e. e) (\<lambda>_.
     validateTimeout ''shutdown timeout'' (mdc_ShutdownTimeout c)))))"

definition LoadMongoDBConfig :: "duration_parser \<Rightarrow> environment \<Rightarrow> go_error + mongodb_config" where
  "LoadMongoDBConfig parseDuration env =
     andThen (readRequiredEnvironment env ''MONGODB_URI'') (\<lambda>e. e) (\<lambda>uri.
     andThen (readRequiredEnvironment env ''MONGODB_DATABASE'') (\<lambda>e. e) (\<lambda>database.
     andThen (readDurationEnvironment parseDuration env ''MONGODB_CONNECT_TIMEOUT'' (10 * second)) (\<lambda>e. e) (\<lambda>connectTimeout.
     andThen (readDurationEnvironment parseDuration env ''MONGODB_OPERATION_TIMEOUT'' (5 * second)) (\<lambda>e. e) (\<lambda>operationTimeout.
     andThen (readDurationEnvironment parseDuration env ''MONGODB_SHUTDOWN_TIMEOUT'' (10 * second)) (\<lambda>e. e) (\<lambda>shutdownTimeout.
     let c = \<lparr>mdc_URI = uri, mdc_Database = database, mdc_ConnectTimeout = connectTimeout,
              mdc_OperationTimeout = operationTimeout, mdc_ShutdownTimeout = shutdownTimeout\<rparr> in
     andThen (mongodb_Validate c) (\<lambda>e. e) (\<lambda>_. Inr c))))))"

record outbox_config =
  obc_Concurrency :: int
  obc_RecoveryInterval :: duration
  obc_RecoveryBatchSize :: int

text \<open>An integer variable that may be missing.\<close>

definition readIntegerVariable :: "string option \<Rightarrow> int \<Rightarrow> go_error + int" where
  "readIntegerVariable raw defaultValue =
     (case raw of
        None \<Rightarrow> Inr defaultValue
      | Some r \<Rightarrow> (case ParseInt r of None \<Rightarrow> Inl (NewError ''invalid integer variable'') | Some n \<Rightarrow> Inr n))"

definition LoadOutboxConfig :: "duration_parser \<Rightarrow> environment \<Rightarrow> go_error + outbox_config" where
  "LoadOutboxConfig parseDuration env =
     andThen (readIntegerVariable (map_option TrimSpace (env ''OUTBOX_CONCURRENCY'')) 4) (\<lambda>e. e) (\<lambda>concurrency.
     andThen (readIntegerVariable (map_option TrimSpace (env ''OUTBOX_RECOVERY_BATCH_SIZE'')) 100) (\<lambda>e. e) (\<lambda>batchSize.
     andThen (readDurationEnvironment parseDuration env ''OUTBOX_RECOVERY_INTERVAL'' (5 * second)) (\<lambda>e. e) (\<lambda>interval.
     require (\<not> (concurrency < 1 \<or> concurrency > 64)) (NewError ''OUTBOX_CONCURRENCY must be between 1 and 64'') (
     require (\<not> (batchSize < 1 \<or> batchSize > 1000)) (NewError ''OUTBOX_RECOVERY_BATCH_SIZE must be between 1 and 1000'') (
     require (\<not> interval < 100 * millisecond) (NewError ''OUTBOX_RECOVERY_INTERVAL must be at least 100ms'') (
     Inr \<lparr>obc_Concurrency = concurrency, obc_RecoveryInterval = interval, obc_RecoveryBatchSize = batchSize\<rparr>))))))"

section \<open>Authentication\<close>

datatype deployment = EnvironmentDevelopment | EnvironmentTest | EnvironmentStaging | EnvironmentProduction

datatype config_same_site = SameSiteStrict | SameSiteLax | SameSiteNone

record jwt_settings =
  jwc_Issuer :: string
  jwc_Audience :: string
  jwc_AccessSecret :: string
  jwc_RefreshSecret :: string
  jwc_Leeway :: duration

record cookie_settings =
  cks_AccessName :: string
  cks_RefreshName :: string
  cks_Path :: string
  cks_Secure :: bool
  cks_SameSite :: config_same_site

record auth_config =
  auc_Environment :: deployment
  auc_AccessTokenTTL :: duration
  auc_RefreshTokenTTL :: duration
  auc_JWT :: jwt_settings
  auc_Cookies :: cookie_settings

definition minimumAccessTokenTTL :: duration where "minimumAccessTokenTTL = minute"
definition maximumAccessTokenTTL :: duration where "maximumAccessTokenTTL = hour"
definition minimumRefreshTokenTTL :: duration where "minimumRefreshTokenTTL = hour"
definition maximumRefreshTokenTTL :: duration where "maximumRefreshTokenTTL = 30 * 24 * hour"
definition maximumJWTLeeway :: duration where "maximumJWTLeeway = 2 * minute"
definition minimumJWTSecretLength :: nat where "minimumJWTSecretLength = 32"

definition requiresSecureCookies :: "deployment \<Rightarrow> bool" where
  "requiresSecureCookies e \<longleftrightarrow> e = EnvironmentStaging \<or> e = EnvironmentProduction"

text \<open>The string types of the source are datatypes, so \<^verbatim>\<open>isValid\<close> is the success of parsing.\<close>

definition parseEnvironment :: "string \<Rightarrow> go_error + deployment" where
  "parseEnvironment v =
     (let e = ToLower (TrimSpace v) in
      if e = ''development'' then Inr EnvironmentDevelopment
      else if e = ''test'' then Inr EnvironmentTest
      else if e = ''staging'' then Inr EnvironmentStaging
      else if e = ''production'' then Inr EnvironmentProduction
      else Inl (Wrap ''APP_ENV'' ErrInvalidEnvironmentVariable))"

definition readSameSiteEnvironment :: "environment \<Rightarrow> string \<Rightarrow> config_same_site \<Rightarrow> go_error + config_same_site" where
  "readSameSiteEnvironment env name defaultValue =
     (case env name of
        None \<Rightarrow> Inr defaultValue
      | Some raw \<Rightarrow>
          let v = ToLower (TrimSpace raw) in
          if v = ''strict'' then Inr SameSiteStrict else if v = ''lax'' then Inr SameSiteLax
          else if v = ''none'' then Inr SameSiteNone else Inl (Wrap name ErrInvalidEnvironmentVariable))"

definition readBase64Secret :: "environment \<Rightarrow> string \<Rightarrow> go_error + string" where
  "readBase64Secret env name =
     andThen (readRequiredEnvironment env name) (\<lambda>e. e) (\<lambda>encoded.
     case Std_DecodeStrict encoded of
       None \<Rightarrow> Inl (Wrap name ErrInvalidEnvironmentVariable)
     | Some secret \<Rightarrow>
         if length secret < minimumJWTSecretLength then Inl (Wrap name ErrInvalidEnvironmentVariable) else Inr secret)"

definition buildCookieConfig :: "bool \<Rightarrow> config_same_site \<Rightarrow> cookie_settings" where
  "buildCookieConfig secure sameSite =
     (if secure
      then \<lparr>cks_AccessName = ''__Host-nexus-access'', cks_RefreshName = ''__Host-nexus-refresh'', cks_Path = ''/'',
            cks_Secure = True, cks_SameSite = sameSite\<rparr>
      else \<lparr>cks_AccessName = ''nexus-access'', cks_RefreshName = ''nexus-refresh'', cks_Path = ''/'',
            cks_Secure = False, cks_SameSite = sameSite\<rparr>)"

definition auth_Validate :: "auth_config \<Rightarrow> go_error + unit" where
  "auth_Validate c =
     (let invalid = (\<lambda>m. Wrap m ErrInvalidAuthConfig); jwt = auc_JWT c; cookies = auc_Cookies c in
      require (\<not> (auc_AccessTokenTTL c < minimumAccessTokenTTL \<or> auc_AccessTokenTTL c > maximumAccessTokenTTL))
        (invalid ''access token TTL is outside allowed limits'') (
      require (\<not> (auc_RefreshTokenTTL c < minimumRefreshTokenTTL \<or> auc_RefreshTokenTTL c > maximumRefreshTokenTTL \<or>
                  auc_RefreshTokenTTL c \<le> auc_AccessTokenTTL c))
        (invalid ''refresh token TTL is outside allowed limits'') (
      require (\<not> blank (jwc_Issuer jwt)) (invalid ''JWT issuer is empty'') (
      require (\<not> blank (jwc_Audience jwt)) (invalid ''JWT audience is empty'') (
      require (\<not> length (jwc_AccessSecret jwt) < minimumJWTSecretLength) (invalid ''access secret'') (
      require (\<not> length (jwc_RefreshSecret jwt) < minimumJWTSecretLength) (invalid ''refresh secret'') (
      require (\<not> jwc_AccessSecret jwt = jwc_RefreshSecret jwt) (invalid ''access and refresh secrets must be different'') (
      require (\<not> (jwc_Leeway jwt < 0 \<or> jwc_Leeway jwt > maximumJWTLeeway)) (invalid ''JWT leeway is outside allowed limits'') (
      require (\<not> (requiresSecureCookies (auc_Environment c) \<and> \<not> cks_Secure cookies))
        (invalid ''secure cookies are required in this environment'') (
      require (\<not> cks_Path cookies \<noteq> ''/'') (invalid ''authentication cookie path must be /'') (
      require (\<not> (cks_SameSite cookies = SameSiteNone \<and> \<not> cks_Secure cookies)) (invalid ''SameSite=None requires Secure'') (
      require (\<not> (cks_Secure cookies \<and> \<not> HasPrefix (cks_AccessName cookies) ''__Host-''))
        (invalid ''secure access cookie must use __Host-'') (
      require (\<not> (cks_Secure cookies \<and> \<not> HasPrefix (cks_RefreshName cookies) ''__Host-''))
        (invalid ''secure refresh cookie must use __Host-'') (
      require (\<not> cks_AccessName cookies = cks_RefreshName cookies) (invalid ''cookie names must be different'') (
      Inr ())))))))))))))))"

definition LoadAuthConfig :: "duration_parser \<Rightarrow> environment \<Rightarrow> go_error + auth_config" where
  "LoadAuthConfig parseDuration env =
     (let bounded = readBoundedDurationEnvironment parseDuration env in
      andThen (readRequiredEnvironment env ''APP_ENV'') (\<lambda>e. e) (\<lambda>environmentValue.
      andThen (parseEnvironment environmentValue) (\<lambda>e. e) (\<lambda>deployed.
      andThen (bounded ''AUTH_ACCESS_TOKEN_TTL'' (15 * minute) minimumAccessTokenTTL maximumAccessTokenTTL) (\<lambda>e. e) (\<lambda>accessTokenTTL.
      andThen (bounded ''AUTH_REFRESH_TOKEN_TTL'' (7 * 24 * hour) minimumRefreshTokenTTL maximumRefreshTokenTTL) (\<lambda>e. e) (\<lambda>refreshTokenTTL.
      andThen (readRequiredEnvironment env ''JWT_ISSUER'') (\<lambda>e. e) (\<lambda>issuer.
      andThen (readRequiredEnvironment env ''JWT_AUDIENCE'') (\<lambda>e. e) (\<lambda>audience.
      andThen (readBase64Secret env ''JWT_ACCESS_SECRET_BASE64'') (\<lambda>e. e) (\<lambda>accessSecret.
      andThen (readBase64Secret env ''JWT_REFRESH_SECRET_BASE64'') (\<lambda>e. e) (\<lambda>refreshSecret.
      andThen (bounded ''JWT_LEEWAY'' (30 * second) 0 maximumJWTLeeway) (\<lambda>e. e) (\<lambda>leeway.
      andThen (readBooleanEnvironment env ''AUTH_COOKIE_SECURE'' (requiresSecureCookies deployed)) (\<lambda>e. e) (\<lambda>cookieSecure.
      andThen (readSameSiteEnvironment env ''AUTH_COOKIE_SAME_SITE'' SameSiteStrict) (\<lambda>e. e) (\<lambda>sameSite.
      let c = \<lparr>auc_Environment = deployed, auc_AccessTokenTTL = accessTokenTTL, auc_RefreshTokenTTL = refreshTokenTTL,
               auc_JWT = \<lparr>jwc_Issuer = issuer, jwc_Audience = audience, jwc_AccessSecret = accessSecret,
                          jwc_RefreshSecret = refreshSecret, jwc_Leeway = leeway\<rparr>,
               auc_Cookies = buildCookieConfig cookieSecure sameSite\<rparr> in
      andThen (auth_Validate c) (\<lambda>e. e) (\<lambda>_. Inr c)))))))))))))"

section \<open>HTTP\<close>

record http_config =
  htc_Address :: string
  htc_ReadHeaderTimeout :: duration
  htc_ReadTimeout :: duration
  htc_WriteTimeout :: duration
  htc_IdleTimeout :: duration
  htc_ShutdownTimeout :: duration
  htc_MaxHeaderBytes :: int

definition minimumHTTPTimeout :: duration where "minimumHTTPTimeout = 100 * millisecond"
definition maximumHTTPTimeout :: duration where "maximumHTTPTimeout = 5 * minute"
definition minimumHTTPMaxHeaderBytes :: int where "minimumHTTPMaxHeaderBytes = 8 * 1024"
definition maximumHTTPMaxHeaderBytes :: int where "maximumHTTPMaxHeaderBytes = 1024 * 1024"

text \<open>The highest port is 65335 in the source.\<close>

definition validateHTTPAddress :: "(string \<Rightarrow> string option) \<Rightarrow> string \<Rightarrow> go_error + unit" where
  "validateHTTPAddress splitHostPort address =
     (if blank address then Inl (NewError ''HTTP address cannot be empty'')
      else
        case splitHostPort address of
          None \<Rightarrow> Inl (NewError ''invalid HTTP address'')
        | Some rawPort \<Rightarrow>
            (case ParseInt rawPort of
               None \<Rightarrow> Inl (NewError ''HTTP port must be numeric'')
             | Some port \<Rightarrow> if port < 1 \<or> port > 65335 then Inl (NewError []) else Inr ()))"

text \<open>The error of a timeout wraps \<^verbatim>\<open>ErrInvalidMongoDBConfig\<close> in the source.\<close>

definition http_Validate :: "(string \<Rightarrow> string option) \<Rightarrow> http_config \<Rightarrow> go_error + unit" where
  "http_Validate splitHostPort c =
     andThen (validateHTTPAddress splitHostPort (htc_Address c)) (\<lambda>_. ErrInvalidHTTPConfig) (\<lambda>_.
     require (list_all (\<lambda>timeout. \<not> (timeout < minimumHTTPTimeout \<or> timeout > maximumHTTPTimeout))
                [htc_ReadHeaderTimeout c, htc_ReadTimeout c, htc_WriteTimeout c, htc_IdleTimeout c, htc_ShutdownTimeout c])
       (Wrap ''timeout'' ErrInvalidMongoDBConfig) (
     require (\<not> htc_ReadHeaderTimeout c > htc_ReadTimeout c)
       (Wrap ''read header timeout cannot exceed read timeout'' ErrInvalidHTTPConfig) (
     require (\<not> (htc_MaxHeaderBytes c < minimumHTTPMaxHeaderBytes \<or> htc_MaxHeaderBytes c > maximumHTTPMaxHeaderBytes))
       (Wrap ''max header bytes'' ErrInvalidHTTPConfig) (Inr ()))))"

definition readHTTPDurationEnvironment ::
  "duration_parser \<Rightarrow> environment \<Rightarrow> string \<Rightarrow> duration \<Rightarrow> go_error + duration" where
  "readHTTPDurationEnvironment parseDuration env name defaultValue =
     (let raw = TrimSpace (Getenv env name) in
      if raw = [] then Inr defaultValue
      else case parseDuration raw of None \<Rightarrow> Inl (Wrap name ErrInvalidHTTPConfig) | Some v \<Rightarrow> Inr v)"

definition readHTTPIntegerEnvironment :: "environment \<Rightarrow> string \<Rightarrow> int \<Rightarrow> go_error + int" where
  "readHTTPIntegerEnvironment env name defaultValue =
     (let raw = TrimSpace (Getenv env name) in
      if raw = [] then Inr defaultValue
      else case ParseInt raw of None \<Rightarrow> Inl (Wrap name ErrInvalidHTTPConfig) | Some v \<Rightarrow> Inr v)"

definition LoadHTTPConfig ::
  "duration_parser \<Rightarrow> (string \<Rightarrow> string option) \<Rightarrow> environment \<Rightarrow> go_error + http_config" where
  "LoadHTTPConfig parseDuration splitHostPort env =
     (let raw = TrimSpace (Getenv env ''HTTP_ADDRESS''); address = (if raw = [] then '':8080'' else raw);
          timeout = readHTTPDurationEnvironment parseDuration env in
      andThen (timeout ''HTTP_READ_HEADER_TIMEOUT'' (5 * second)) (\<lambda>e. e) (\<lambda>readHeaderTimeout.
      andThen (timeout ''HTTP_READ_TIMEOUT'' (15 * second)) (\<lambda>e. e) (\<lambda>readTimeout.
      andThen (timeout ''HTTP_WRITE_TIMEOUT'' (30 * second)) (\<lambda>e. e) (\<lambda>writeTimeout.
      andThen (timeout ''HTTP_IDLE_TIMEOUT'' (60 * second)) (\<lambda>e. e) (\<lambda>idleTimeout.
      andThen (timeout ''HTTP_SHUTDOWN_TIMEOUT'' (10 * second)) (\<lambda>e. e) (\<lambda>shutdownTimeout.
      andThen (readHTTPIntegerEnvironment env ''HTTP_MAX_HEADER_BYTES'' (64 * 1024)) (\<lambda>e. e) (\<lambda>maxHeaderBytes.
      let c = \<lparr>htc_Address = address, htc_ReadHeaderTimeout = readHeaderTimeout, htc_ReadTimeout = readTimeout,
               htc_WriteTimeout = writeTimeout, htc_IdleTimeout = idleTimeout, htc_ShutdownTimeout = shutdownTimeout,
               htc_MaxHeaderBytes = maxHeaderBytes\<rparr> in
      andThen (http_Validate splitHostPort c) (\<lambda>e. e) (\<lambda>_. Inr c))))))))"

end
