(* ===== verification/RealtimeHandler.thy ===== *)
theory RealtimeHandler
  imports Hub Config BrowserSecurity
begin

text \<open>
  The rest of the configuration (\<^verbatim>\<open>internal/resources/config\<close>: the allowed origins, the real-time
  gateway, the image storage) and the HTTP side of the gateway
  (\<^verbatim>\<open>internal/drivers/websocket/handler.go\<close>): the checks before a connection is upgraded.  The upgrade
  itself and the life of the socket are those of the WebSocket library, hence a parameter.
\<close>

section \<open>Allowed origins\<close>

definition JoinHostPort :: "string \<Rightarrow> string \<Rightarrow> string" where
  "JoinHostPort host port =
     (if CHR '':'' \<in> set host then ''['' @ host @ '']:'' @ port else host @ '':'' @ port)"

definition config_normalizeOrigin :: "(string \<Rightarrow> string) \<Rightarrow> url_parser \<Rightarrow> string \<Rightarrow> go_error + string" where
  "config_normalizeOrigin low urlParse raw =
     (let raw = TrimSpace raw in
      require (\<not> raw = []) (NewError ''origin cannot be empty'') (
      require (\<not> raw = ''*'') (NewError ''wildcard origin cannot be used with credentialed requests'') (
      case urlParse raw of
        None \<Rightarrow> Inl (NewError ''parse origin'')
      | Some u \<Rightarrow>
          let scheme = low (url_Scheme u) in
          require (\<not> (scheme \<noteq> ''http'' \<and> scheme \<noteq> ''https'')) (NewError ''scheme must be http or https'') (
          require (\<not> url_Hostname u = []) (NewError ''hostname is required'') (
          require (\<not> list_ex (\<lambda>c. c \<in> {CHR ''*'', CHR ''?'', CHR 0x5C}) (url_Host u))
            (NewError ''origin must contain an exact host'') (
          require (\<not> url_HasUser u) (NewError ''credentials are not allowed'') (
          require (\<not> (url_Path u \<noteq> [] \<and> url_Path u \<noteq> ''/'')) (NewError ''path is not allowed'') (
          require (\<not> url_RawQuery u \<noteq> []) (NewError ''query string is not allowed'') (
          require (\<not> url_Fragment u \<noteq> []) (NewError ''fragment is not allowed'') (
          require (url_Port u \<noteq> [] \<longrightarrow>
                     (case ParseInt (url_Port u) of None \<Rightarrow> False | Some n \<Rightarrow> \<not> (n < 1 \<or> n > 65535)))
            (NewError ''port must be between 1 and 65535'') (
          let port = (if scheme = ''http'' \<and> url_Port u = ''80'' \<or> scheme = ''https'' \<and> url_Port u = ''443'' then []
                      else url_Port u);
              host = low (url_Hostname u) in
          Inr (scheme @ ''://'' @ (if port \<noteq> [] then JoinHostPort host port
                                  else if CHR '':'' \<in> set host then ''['' @ host @ '']'' else host)))))))))))))"

fun load_origins :: "(string \<Rightarrow> string) \<Rightarrow> url_parser \<Rightarrow> string list \<Rightarrow> string list \<Rightarrow> go_error + string list" where
  "load_origins low urlParse origins [] = Inr origins"
| "load_origins low urlParse origins (candidate # rest) =
     andThen (config_normalizeOrigin low urlParse candidate) (\<lambda>_. NewError ''invalid CORS configuration'') (\<lambda>origin.
     load_origins low urlParse (if origin \<in> set origins then origins else origins @ [origin]) rest)"

definition LoadAllowedOrigins :: "(string \<Rightarrow> string) \<Rightarrow> url_parser \<Rightarrow> environment \<Rightarrow> go_error + string list" where
  "LoadAllowedOrigins low urlParse env =
     (let raw = TrimSpace (Getenv env ''HTTP_ALLOWED_ORIGINS'') in
      if raw = [] then Inl (NewError ''invalid CORS configuration'')
      else andThen (load_origins low urlParse [] (Split (CHR '','') raw)) (\<lambda>e. e) (\<lambda>origins.
        if origins = [] then Inl (NewError ''invalid CORS configuration'') else Inr origins))"

section \<open>The configuration of the gateway\<close>

definition realtime_Validate :: "realtime_config \<Rightarrow> go_error + unit" where
  "realtime_Validate c =
     require (list_all (\<lambda>v. \<not> (v < millisecond \<or> v > 10 * minute))
                [rtc_ReadyTimeout c, rtc_NATSFlushTimeout c, rtc_PingInterval c, rtc_PongTimeout c, rtc_WriteTimeout c,
                 rtc_SessionCheckInterval c, rtc_SessionCheckTimeout c, rtc_ShutdownTimeout c])
       (NewError ''realtime durations must be between 1ms and 10m'') (
     require (\<not> (rtc_ReadyTimeout c < rtc_NATSFlushTimeout c \<or> rtc_PongTimeout c \<ge> rtc_PingInterval c))
       (NewError ''invalid realtime readiness or heartbeat budget'') (
     require (\<not> (rtc_MaxMessageBytes c < 1024 \<or> rtc_MaxMessageBytes c > 1048576 \<or> rtc_QueueMessages c < 2 \<or>
                 rtc_QueueMessages c > 10000 \<or> rtc_QueueBytes c < rtc_MaxMessageBytes c \<or> rtc_QueueBytes c > 64 * 1048576 \<or>
                 rtc_MaxConnectionsPerUser c < 1 \<or> rtc_MaxConnections c < rtc_MaxConnectionsPerUser c \<or>
                 rtc_MaxConnections c > 1000000))
       (NewError ''invalid realtime resource limits'') (
     require (\<not> rtc_NATSURL c = []) (NewError ''realtime NATS URL cannot be empty'') (Inr ()))))"

definition realtime_duration :: "duration_parser \<Rightarrow> environment \<Rightarrow> string \<Rightarrow> duration \<Rightarrow> go_error + duration" where
  "realtime_duration parseDuration env key defaultValue =
     (if Getenv env key = [] then Inr defaultValue
      else case parseDuration (Getenv env key) of None \<Rightarrow> Inl (NewError (''invalid '' @ key)) | Some v \<Rightarrow> Inr v)"

definition realtime_integer :: "environment \<Rightarrow> string \<Rightarrow> int \<Rightarrow> go_error + int" where
  "realtime_integer env key defaultValue =
     (if Getenv env key = [] then Inr defaultValue
      else case ParseInt (Getenv env key) of None \<Rightarrow> Inl (NewError (''invalid '' @ key)) | Some v \<Rightarrow> Inr v)"

definition LoadRealtimeConfig :: "duration_parser \<Rightarrow> environment \<Rightarrow> go_error + realtime_config" where
  "LoadRealtimeConfig parseDuration env =
     (let url = TrimSpace (Getenv env ''NATS_URL'');
          get = realtime_duration parseDuration env; number = realtime_integer env in
      andThen (get ''REALTIME_READY_TIMEOUT'' (10 * second)) (\<lambda>e. e) (\<lambda>readyTimeout.
      andThen (get ''REALTIME_NATS_FLUSH_TIMEOUT'' (5 * second)) (\<lambda>e. e) (\<lambda>flushTimeout.
      andThen (get ''REALTIME_PING_INTERVAL'' (25 * second)) (\<lambda>e. e) (\<lambda>pingInterval.
      andThen (get ''REALTIME_PONG_TIMEOUT'' (10 * second)) (\<lambda>e. e) (\<lambda>pongTimeout.
      andThen (get ''REALTIME_WRITE_TIMEOUT'' (10 * second)) (\<lambda>e. e) (\<lambda>writeTimeout.
      andThen (get ''REALTIME_SESSION_CHECK_INTERVAL'' (60 * second)) (\<lambda>e. e) (\<lambda>checkInterval.
      andThen (get ''REALTIME_SESSION_CHECK_TIMEOUT'' (5 * second)) (\<lambda>e. e) (\<lambda>checkTimeout.
      andThen (get ''REALTIME_SHUTDOWN_TIMEOUT'' (10 * second)) (\<lambda>e. e) (\<lambda>shutdownTimeout.
      andThen (number ''REALTIME_MAX_MESSAGE_BYTES'' 32768) (\<lambda>e. e) (\<lambda>maxMessageBytes.
      andThen (number ''REALTIME_OUTBOUND_QUEUE_MESSAGES'' 100) (\<lambda>e. e) (\<lambda>queueMessages.
      andThen (number ''REALTIME_OUTBOUND_QUEUE_BYTES'' 1048576) (\<lambda>e. e) (\<lambda>queueBytes.
      andThen (number ''REALTIME_MAX_CONNECTIONS_PER_USER'' 10) (\<lambda>e. e) (\<lambda>perUser.
      andThen (number ''REALTIME_MAX_CONNECTIONS_PER_INSTANCE'' 5000) (\<lambda>e. e) (\<lambda>connections.
      let c = \<lparr>rtc_NATSURL = (if url = [] then ''nats://localhost:4222'' else url), rtc_ReadyTimeout = readyTimeout,
               rtc_NATSFlushTimeout = flushTimeout, rtc_PingInterval = pingInterval, rtc_PongTimeout = pongTimeout,
               rtc_WriteTimeout = writeTimeout, rtc_SessionCheckInterval = checkInterval,
               rtc_SessionCheckTimeout = checkTimeout, rtc_ShutdownTimeout = shutdownTimeout,
               rtc_MaxMessageBytes = maxMessageBytes, rtc_QueueMessages = queueMessages, rtc_QueueBytes = queueBytes,
               rtc_MaxConnectionsPerUser = perUser, rtc_MaxConnections = connections\<rparr> in
      andThen (realtime_Validate c) (\<lambda>e. e) (\<lambda>_. Inr c)))))))))))))))"

section \<open>The configuration of the image storage\<close>

record images_config =
  imc_Endpoint :: string
  imc_PublicEndpoint :: string
  imc_Region :: string
  imc_Bucket :: string
  imc_AccessKeyID :: string
  imc_SecretAccessKey :: string

definition valid_endpoint :: "url_parser \<Rightarrow> bool \<Rightarrow> string \<Rightarrow> bool" where
  "valid_endpoint urlParse mustBeHTTPS v \<longleftrightarrow>
     (case urlParse v of
        None \<Rightarrow> False
      | Some u \<Rightarrow>
          \<not> (url_Host u = [] \<or> (url_Scheme u \<noteq> ''http'' \<and> url_Scheme u \<noteq> ''https'') \<or> url_HasUser u \<or>
             url_RawQuery u \<noteq> [] \<or> url_Fragment u \<noteq> [] \<or> (url_Path u \<noteq> [] \<and> url_Path u \<noteq> ''/'')) \<and>
          \<not> (mustBeHTTPS \<and> url_Scheme u \<noteq> ''https''))"

definition images_Validate :: "url_parser \<Rightarrow> environment \<Rightarrow> images_config \<Rightarrow> go_error + unit" where
  "images_Validate urlParse env c =
     require (valid_endpoint urlParse False (imc_Endpoint c) \<and>
              valid_endpoint urlParse (Getenv env ''APP_ENV'' = ''production'') (imc_PublicEndpoint c))
       (NewError ''endpoints must be HTTP(S) origins'') (
     require (list_all (\<lambda>v. \<not> (blank v \<or> v \<noteq> TrimSpace v))
                [imc_AccessKeyID c, imc_SecretAccessKey c, imc_Region c, imc_Bucket c])
       (NewError ''a value is required and must not have surrounding whitespace'') (Inr ()))"

definition LoadImagesConfig :: "url_parser \<Rightarrow> environment \<Rightarrow> go_error + images_config" where
  "LoadImagesConfig urlParse env =
     (let region = Getenv env ''GARAGE_REGION''; bucket = Getenv env ''GARAGE_BUCKET'';
          c = \<lparr>imc_Endpoint = Getenv env ''GARAGE_ENDPOINT'', imc_PublicEndpoint = Getenv env ''GARAGE_PUBLIC_ENDPOINT'',
               imc_Region = (if region = [] then ''garage'' else region),
               imc_Bucket = (if bucket = [] then ''nexus-images'' else bucket),
               imc_AccessKeyID = Getenv env ''GARAGE_ACCESS_KEY_ID'',
               imc_SecretAccessKey = Getenv env ''GARAGE_SECRET_ACCESS_KEY''\<rparr> in
      andThen (images_Validate urlParse env c) (\<lambda>e. e) (\<lambda>_. Inr c))"

section \<open>The handler of the gateway\<close>

text \<open>The loop of \<^verbatim>\<open>websocket.New\<close> over the origins; the gateway starts as \<open>new_gateway\<close>.\<close>

fun gateway_origins :: "(string \<Rightarrow> string) \<Rightarrow> url_parser \<Rightarrow> string list \<Rightarrow> go_error + string list" where
  "gateway_origins low urlParse [] = Inr []"
| "gateway_origins low urlParse (origin # rest) =
     andThen (config_normalizeOrigin low urlParse origin) (\<lambda>e. e) (\<lambda>normalized.
     andThen (gateway_origins low urlParse rest) (\<lambda>e. e) (\<lambda>allowed. Inr (normalized # allowed)))"

definition gateway_New ::
  "(string \<Rightarrow> string) \<Rightarrow> url_parser \<Rightarrow> realtime_config \<Rightarrow> string list \<Rightarrow> go_error + string list \<times> gateway" where
  "gateway_New low urlParse cfg origins =
     andThen (realtime_Validate cfg) (\<lambda>e. e) (\<lambda>_.
     andThen (gateway_origins low urlParse origins) (\<lambda>e. e) (\<lambda>allowed.
     if allowed = [] then Inl (NewError ''gateway requires explicit origins'') else Inr (allowed, new_gateway cfg)))"

text \<open>\<^verbatim>\<open>strings.EqualFold\<close> against an ASCII word with folding to U+017F and U+212A.\<close>

definition headerToken :: "http_request \<Rightarrow> string \<Rightarrow> string \<Rightarrow> bool" where
  "headerToken req name wanted \<longleftrightarrow>
     list_ex (\<lambda>v. list_ex (\<lambda>part. foldName (TrimSpace part) = foldName wanted) (Split (CHR '','') v)) (req_Header req name)"

definition websocket_request :: "http_request \<Rightarrow> bool" where
  "websocket_request req \<longleftrightarrow>
     req_ProtoMajor req = 1 \<and> headerToken req ''Connection'' ''upgrade'' \<and> headerToken req ''Upgrade'' ''websocket'' \<and>
     length (req_Header req ''Sec-Websocket-Version'') = 1 \<and> header_Get req ''Sec-Websocket-Version'' = ''13'' \<and>
     length (req_Header req ''Sec-Websocket-Key'') = 1 \<and>
     (case Std_Decode (header_Get req ''Sec-Websocket-Key'') of None \<Rightarrow> False | Some key \<Rightarrow> length key = 16) \<and>
     req_RawQuery req = []"

record 'w gateway_environment =
  gwe_Reserve :: "identity \<Rightarrow> ('w, go_error, nat) call"
  gwe_Release :: "nat \<Rightarrow> 'w \<Rightarrow> 'w"
  gwe_Run :: "nat \<Rightarrow> 'w handler"
  gwe_Now :: "'w clock"

text \<open>
  The identity is checked with two readings of the clock, each made only when the conditions before it
  hold; the connection is released on every way out.
\<close>

definition gateway_ServeHTTP ::
  "(string \<Rightarrow> string) \<Rightarrow> url_parser \<Rightarrow> string list \<Rightarrow> 'w gateway_environment \<Rightarrow> 'w handler" where
  "gateway_ServeHTTP low urlParse origins E req s =
     (let s = writing (header_Set ''Cache-Control'' ''no-store'') s;
          reject = (\<lambda>status code. writing (writePublicError status code)) in
      if req_Method req \<noteq> ''GET'' then writing (\<lambda>r. writePublicError 405 ''method_not_allowed'' (header_Set ''Allow'' ''GET'' r)) s
      else if length (req_Header req ''Origin'') \<noteq> 1 then reject 403 ''cross_origin_request_rejected'' s
      else if (case config_normalizeOrigin low urlParse (header_Get req ''Origin'') of
                 Inl _ \<Rightarrow> True | Inr origin \<Rightarrow> origin \<notin> set origins)
      then reject 403 ''cross_origin_request_rejected'' s
      else if \<not> websocket_request req then reject 400 ''invalid_websocket_request'' s
      else
        case req_Identity req of
          None \<Rightarrow> reject 401 ''unauthenticated'' s
        | Some identity \<Rightarrow>
            if \<not> ValidRealtimeUserID (idn_UserID identity) \<or> idn_SessionID identity = []
            then reject 401 ''unauthenticated'' s
            else
              executing (reads (gwe_Now E) ret) (\<lambda>_ s. s) (\<lambda>now s.
                if \<not> idn_AccessExpiresAt identity > now then reject 401 ''unauthenticated'' s
                else executing (reads (gwe_Now E) ret) (\<lambda>_ s. s) (\<lambda>now s.
                  if \<not> idn_SessionExpiresAt identity > now then reject 401 ''unauthenticated'' s
                  else executing (gwe_Reserve E identity)
                         (\<lambda>err. if err = errConnectionLimit then reject 429 ''realtime_connection_limit''
                                else reject 503 ''realtime_unavailable'')
                         (\<lambda>c s. map_prod (gwe_Release E c) (\<lambda>r. r) (gwe_Run E c req s)) s) s) s)"

end
