(* ===== verification/ApiService.thy ===== *)
theory ApiService
  imports Router HttpListing HttpImages RealtimeHandler
begin

text \<open>
  The HTTP service as \<^verbatim>\<open>cmd/api/bootstrap.go\<close> puts it together: the use cases behind their handlers, the
  handlers behind the middlewares and the router, and the recovery from panics around all of it.
  The repositories and the functions of the standard library that are parameters of the parts are
  collected in one record.
\<close>

record 'w api_dependencies =
  api_auth :: "'w auth_dependencies"
  api_session_config :: session_config
  api_cookie_config :: cookie_config
  api_allowed_origins :: "string list"
  api_realtime_config :: realtime_config
  api_chats :: "'w chat_repository"
  api_timelines :: "'w timeline_repository"
  api_messages :: "'w message_store"
  api_limiter :: "string \<Rightarrow> ('w, go_error, duration) call"
  api_images :: "'w image_service"
  api_uploads :: "'w upload_environment"
  api_gateway :: "'w gateway_environment"
  api_ToLower :: "string \<Rightarrow> string"
  api_ParseAddress :: "string \<Rightarrow> string option"
  api_ParseMediaType :: "string \<Rightarrow> string option"
  api_ParseURL :: url_parser
  api_ParseTime :: "string \<Rightarrow> time option"
  api_scan :: json_scanner
  api_redirectStatus :: nat

definition api_decode :: "'w api_dependencies \<Rightarrow> (json \<Rightarrow> json_error + 'a) \<Rightarrow> http_request \<Rightarrow> nat \<Rightarrow> go_error + 'a" where
  "api_decode A unmarshal = DecodeJSON (api_ParseMediaType A) (api_scan A) unmarshal"

definition corsPreflightMaxAge :: duration where "corsPreflightMaxAge = 10 * minute"

definition api_handlers :: "'w api_dependencies \<Rightarrow> 'w cookie_manager \<Rightarrow> string list \<Rightarrow> 'w router_handlers" where
  "api_handlers A cookies origins =
     (let D = api_auth A; low = api_ToLower A; mail = api_ParseAddress A; parseTime = api_ParseTime A in
      \<lparr>rth_Session = Some (SessionHandler (SessionView D)),
       rth_Signup = SignupHandler (api_decode A decode_credentials) (Signup low mail D),
       rth_Signin = SigninHandler (api_decode A decode_credentials) cookies (Signin low mail D (api_session_config A)),
       rth_Refresh = RefreshHandler cookies (Refresh D (api_session_config A)),
       rth_Logout = LogoutHandler cookies (Logout D),
       rth_Users = ListUsersHandler (ListUsers parseTime (UserRepository D)),
       rth_ChatsList = ListChatsHandler (ListChats parseTime (api_chats A) (UserRepository D)),
       rth_CreateDirect =
         CreateDirectHandler (api_decode A decode_create_direct)
           (CreateDirect \<lparr>dcd_ChatRepository = api_chats A, dcd_UserRepository = UserRepository D,
                          dcd_IDGenerator = IDGenerator D, dcd_Clock = Clock D\<rparr>),
       rth_CreateMessage =
         CreateMessageHandler (api_decode A decode_create_message) (api_limiter A)
           (CreateMessage \<lparr>crd_ChatRepository = api_chats A, crd_MessageStore = api_messages A,
                           crd_IDGenerator = IDGenerator D, crd_Clock = Clock D\<rparr>),
       rth_Timeline = TimelineHandler (ListTimeline parseTime (api_chats A) (api_timelines A)),
       rth_Images =
         Some (ImagesHandler (api_uploads A) (api_limiter A) (Upload (api_images A)) (AccessImage (api_images A))),
       rth_Realtime = Some (gateway_ServeHTTP low (api_ParseURL A) origins (api_gateway A))\<rparr>)"

text \<open>The middlewares of the service.\<close>

definition api_browser :: "'w api_dependencies \<Rightarrow> browser_security \<Rightarrow> 'w wrapper" where
  "api_browser A m = browser_Wrap (api_ToLower A) (api_ParseURL A) m"

definition api_authentication :: "'w api_dependencies \<Rightarrow> 'w cookie_manager \<Rightarrow> 'w wrapper" where
  "api_authentication A cookies = authentication_Wrap (Authenticate (api_auth A)) (cookie_AccessToken cookies)"

definition api_router ::
  "'w api_dependencies \<Rightarrow> 'w cookie_manager \<Rightarrow> string list \<Rightarrow> browser_security \<Rightarrow> 'w handler" where
  "api_router A cookies origins m =
     Router_ServeHTTP (api_redirectStatus A) (api_browser A m) (api_authentication A cookies) (api_handlers A cookies origins)"

text \<open>The constructors that can refuse their arguments, and the handler that the server is given.\<close>

definition api_New :: "'w api_dependencies \<Rightarrow> go_error + 'w handler" where
  "api_New A =
     andThen (validateSessionConfig (api_session_config A)) (Wrap ''create signin use case'') (\<lambda>_.
     andThen (cookie_NewManager (api_cookie_config A) (Clock (api_auth A)))
       (Wrap ''create authentication cookie manager'') (\<lambda>cookies.
     andThen (gateway_New (api_ToLower A) (api_ParseURL A) (api_realtime_config A) (api_allowed_origins A)) (\<lambda>e. e)
       (\<lambda>(origins, _).
     andThen (browser_New (api_ToLower A) (api_ParseURL A)
                \<lparr>bsc_AllowedOrigins = api_allowed_origins A, bsc_PreflightMaxAge = corsPreflightMaxAge\<rparr>)
       (Wrap ''create browser security middleware'') (\<lambda>m.
     Inr (recovery_Wrap (api_router A cookies origins m))))))"

section \<open>Writing\<close>

lemma writePublicError_fields [simp]:
  "rsp_Cookies (writePublicError status code r) = rsp_Cookies r"
  "rsp_Panicked (writePublicError status code r) = rsp_Panicked r"
  by (auto simp: writePublicError_def WriteError_def WriteJSON_def WriteHeader_def Let_def split: sum.split)

lemma writePublicError_status:
  "rsp_Status r = None \<Longrightarrow> 100 \<le> status \<Longrightarrow> status \<le> 599 \<Longrightarrow> code \<noteq> [] \<Longrightarrow>
   rsp_Status (writePublicError status code r) = Some status \<and>
   rsp_Body (writePublicError status code r) = rsp_Body r @ [ErrorResponse code]"
  by (simp add: writePublicError_def WriteError_def WriteJSON_def WriteHeader_def ErrorResponse_def Let_def)

lemma writePayload_fields [simp]:
  "rsp_Cookies (writePayload status payload r) = rsp_Cookies r"
  "rsp_Panicked (writePayload status payload r) = rsp_Panicked r"
  by (auto simp: writePayload_def WriteJSON_def WriteHeader_def Let_def split: sum.split)

lemma recovery_never_panics: "\<not> rsp_Panicked (snd (recovery_Wrap nxt req s))"
  by (simp add: recovery_Wrap_def recovered_def Let_def)

end
