(* ===== verification/HttpSafety.thy ===== *)
theory HttpSafety
  imports ApiService AuthSafety
begin

text \<open>
  What the middlewares and the router guarantee: nothing behind the authentication runs, and nothing is
  disclosed, without a live session and a request that the browser protection lets through.
\<close>

section \<open>Refusals\<close>

text \<open>A response that sets no cookie and carries nothing but error codes.\<close>

definition refusal :: "http_response \<Rightarrow> bool" where
  "refusal r \<longleftrightarrow> rsp_Cookies r = [] \<and> (\<forall>b \<in> set (rsp_Body r). \<exists>code. b = ErrorResponse code)"

lemma refusal_new [simp]: "refusal new_response"
  by (simp add: refusal_def new_response_def)

lemma refusal_keeps [simp]:
  "refusal r \<Longrightarrow> refusal (header_Set k v r)"
  "refusal r \<Longrightarrow> refusal (header_Add k v r)"
  "refusal r \<Longrightarrow> refusal (WriteHeader status r)"
  "refusal r \<Longrightarrow> refusal (r\<lparr>rsp_Panicked := b\<rparr>)"
  by (simp_all add: refusal_def header_Set_def header_Add_def WriteHeader_def)

lemma refusal_error [simp]: "refusal r \<Longrightarrow> refusal (writePublicError status code r)"
  by (auto simp: refusal_def writePublicError_def WriteError_def WriteJSON_def WriteHeader_def header_Set_def Let_def
      split: sum.split)

lemma refusal_browser [simp]:
  "refusal r \<Longrightarrow> refusal (addVaryHeaders r)"
  "refusal r \<Longrightarrow> refusal (setCredentialedCORSHeaders origin r)"
  "refusal r \<Longrightarrow> refusal (handlePreflight m req origin ok r)"
  by (simp_all add: addVaryHeaders_def setCredentialedCORSHeaders_def handlePreflight_def writeForbidden_def Let_def)

lemma refusal_headers [simp]: "refusal r \<Longrightarrow> refusal (browser_headers low urlParse m req r)"
  by (simp add: browser_headers_def Let_def split: prod.split)

lemma refusal_answer [simp]: "refusal r \<Longrightarrow> refusal (browser_answer low urlParse m req r)"
  by (simp add: browser_answer_def writeForbidden_def split: prod.split)

lemma refusal_authentication [simp]: "refusal r \<Longrightarrow> refusal (handleAuthenticationError err r)"
  by (simp add: handleAuthenticationError_def)

section \<open>The guards\<close>

text \<open>
  \<open>guarded\<close> describes a run behind the browser protection and the authentication: refused with nothing
  done but a failed authentication, or run with the identity that the authentication returned.
\<close>

definition guarded ::
  "(string \<Rightarrow> ('w, go_error, authenticate_output) call) \<Rightarrow> (http_request \<Rightarrow> go_error + string) \<Rightarrow> bool \<Rightarrow> 'w handler
     \<Rightarrow> http_request \<Rightarrow> 'w \<Rightarrow> 'w \<times> http_response \<Rightarrow> bool" where
  "guarded authenticator accessToken ok h req w res \<longleftrightarrow>
     refusal (snd res) \<and> (fst res = w \<or> (\<exists>token e. authenticator token w = (fst res, Inl e))) \<or>
     ok \<and> (\<exists>token w1 output r1.
       accessToken req = Inr token \<and> authenticator token w = (w1, Inr output) \<and>
       res = h (req\<lparr>req_Identity := Some (identity_of output)\<rparr>) (w1, r1))"

lemma authentication_guarded:
  assumes "refusal r"
  shows "guarded authenticator accessToken True h req w (authentication_Wrap authenticator accessToken h req (w, r))"
proof (cases "accessToken req")
  case (Inl e)
  with assms show ?thesis by (simp add: authentication_Wrap_def guarded_def)
next
  case (Inr token)
  obtain w1 result where run: "authenticator token w = (w1, result)" by fastforce
  then show ?thesis using Inr assms
    by (cases result) (auto simp: authentication_Wrap_def guarded_def executing_def)
qed

lemma browser_guarded:
  assumes "\<And>r. refusal r \<Longrightarrow> guarded authenticator accessToken True h req w (nxt req (w, r))" "refusal r"
  shows "guarded authenticator accessToken (allowed_request urlParse m req) h req w
    (browser_Wrap low urlParse m nxt req (w, r))"
proof (cases "allowed_request urlParse m req")
  case True
  with assms show ?thesis by (simp add: browser_Wrap_allowed)
next
  case False
  with assms(2) show ?thesis by (simp add: browser_Wrap_refused guarded_def)
qed

text \<open>The paths behind the authentication, and the handler that serves each.\<close>

definition protected_path :: "string list \<Rightarrow> bool" where
  "protected_path ps \<longleftrightarrow>
     take 2 ps \<in> {[''v1'', ''chats''], [''v1'', ''images'']} \<or>
     ps \<in> {[''v1'', ''users''], [''v1'', ''realtime''], [''v1'', ''auth'', ''session'']}"

definition handler_of ::
  "'w api_dependencies \<Rightarrow> 'w cookie_manager \<Rightarrow> string list \<Rightarrow> string list \<Rightarrow> 'w handler" where
  "handler_of A cookies origins ps =
     (if ps = [''v1'', ''auth'', ''session''] then SessionHandler (SessionView (api_auth A))
      else case protected_handler (api_redirectStatus A) (api_handlers A cookies origins) ps of None \<Rightarrow> notFoundHandler | Some h \<Rightarrow> h)"

lemma protected_path_handler:
  "protected_path ps \<Longrightarrow> ps \<noteq> [''v1'', ''auth'', ''session''] \<Longrightarrow>
   protected_handler (api_redirectStatus A) (api_handlers A cookies origins) ps = Some (handler_of A cookies origins ps)"
  by (cases "(api_redirectStatus A, api_handlers A cookies origins, ps)" rule: protected_handler.cases)
    (auto simp: protected_path_def handler_of_def api_handlers_def Let_def)

lemma session_match:
  "mux_match (root_routes rs B Au H) [''v1'', ''auth'', ''session''] = Some (B (authRouter rs Au H))"
  by (cases "rth_Images H"; cases "rth_Realtime H")
    (simp_all add: root_routes_def optional_routes_def Let_def mux_evaluation)

lemma auth_match:
  "mux_match (mux_Handle ''/v1/auth/session'' x # mux_Handle ''/v1/auth/signup'' a # mux_Handle ''/v1/auth/signin'' b #
     mux_Handle ''/v1/auth/refresh'' c # mux_Handle ''/v1/auth/logout'' d # mux_Handle ''/'' e # [])
     [''v1'', ''auth'', ''session''] = Some x"
  by (simp add: mux_evaluation)

lemma authRouter_session:
  assumes "rth_Session H = Some h" "path_segments (req_EscapedPath req) = [''v1'', ''auth'', ''session'']"
    "req_Method req = ''CONNECT'' \<or> cleanPath (req_EscapedPath req) = req_EscapedPath req"
  shows "authRouter rs Au H req s = session_route Au h req s"
  using assms by (auto simp: authRouter_def ServeMux_ServeHTTP_def auth_match simp del: mux_match.simps)

lemma browser_Wrap_cong:
  assumes "\<And>s. nxt req s = nxt' req s"
  shows "browser_Wrap low urlParse m nxt req s = browser_Wrap low urlParse m nxt' req s"
proof -
  from assms have "csrf_Handler urlParse trusted nxt req = csrf_Handler urlParse trusted nxt' req" for trusted
    by (intro ext) (simp add: csrf_Handler_def)
  then show ?thesis by (simp add: browser_Wrap_def Let_def split: prod.split)
qed

text \<open>The session route, with its own header before the authentication.\<close>

lemma api_router_session:
  assumes "path_segments (req_EscapedPath req) = [''v1'', ''auth'', ''session'']"
    "req_Method req = ''CONNECT'' \<or> cleanPath (req_EscapedPath req) = req_EscapedPath req"
  shows "api_router A cookies origins m req (w, r) =
    api_browser A m
      (\<lambda>req s. api_authentication A cookies (SessionHandler (SessionView (api_auth A))) req
         (writing (header_Set ''Cache-Control'' ''no-store'') s))
      req (w, header_Set ''Cache-Control'' ''no-store'' r)"
proof -
  let ?H = "api_handlers A cookies origins" and ?B = "api_browser A m" and ?Au = "api_authentication A cookies"
  have session: "rth_Session ?H = Some (SessionHandler (SessionView (api_auth A)))"
    by (simp add: api_handlers_def Let_def)
  have routed: "api_router A cookies origins m req (w, r) =
      ?B (authRouter (api_redirectStatus A) ?Au ?H) req (w, header_Set ''Cache-Control'' ''no-store'' r)"
    using assms by (auto simp: api_router_def Router_ServeHTTP_def ServeMux_ServeHTTP_def session_match simp del: mux_match.simps)
  have "authRouter (api_redirectStatus A) ?Au ?H req s =
      ?Au (SessionHandler (SessionView (api_auth A))) req (writing (header_Set ''Cache-Control'' ''no-store'') s)" for s
    using authRouter_session [OF session assms] by (simp add: session_route_def)
  then show ?thesis unfolding routed unfolding api_browser_def by (rule browser_Wrap_cong)
qed

lemma router_guarded:
  assumes "protected_path (path_segments (req_EscapedPath req))" "refusal r"
  shows "guarded (Authenticate (api_auth A)) (cookie_AccessToken cookies) (allowed_request (api_ParseURL A) m req)
    (handler_of A cookies origins (path_segments (req_EscapedPath req))) req w (api_router A cookies origins m req (w, r))"
proof -
  let ?ps = "path_segments (req_EscapedPath req)"
  let ?clean = "req_Method req = ''CONNECT'' \<or> cleanPath (req_EscapedPath req) = req_EscapedPath req"
  let ?H = "api_handlers A cookies origins" and ?rs = "api_redirectStatus A"
  let ?B = "api_browser A m" and ?Au = "api_authentication A cookies"
  let ?r = "header_Set ''Cache-Control'' ''no-store'' r"
  have r: "refusal ?r" using assms(2) by simp
  show ?thesis
  proof (cases ?clean)
    case False
    with r show ?thesis by (simp add: api_router_def Router_ServeHTTP_def ServeMux_ServeHTTP_def guarded_def)
  next
    case clean: True
    show ?thesis
    proof (cases "?ps = [''v1'', ''auth'', ''session'']")
      case True
      from api_router_session [OF True clean] True
      have run: "api_router A cookies origins m req (w, r) =
          ?B (\<lambda>req s. ?Au (handler_of A cookies origins ?ps) req (writing (header_Set ''Cache-Control'' ''no-store'') s))
            req (w, ?r)" by (simp add: handler_of_def)
      then show ?thesis unfolding run unfolding api_browser_def api_authentication_def
        by (intro browser_guarded r) (simp add: authentication_guarded)
    next
      case False
      from protected_path_handler [OF assms(1) False]
      have "mux_match (root_routes ?rs ?B ?Au ?H) ?ps = Some (?B (?Au (handler_of A cookies origins ?ps)))"
        by (rule route_protected)
      then have run: "api_router A cookies origins m req (w, r) = ?B (?Au (handler_of A cookies origins ?ps)) req (w, ?r)"
        using clean by (auto simp: api_router_def Router_ServeHTTP_def ServeMux_ServeHTTP_def)
      show ?thesis unfolding run unfolding api_browser_def api_authentication_def
        by (intro browser_guarded authentication_guarded r)
    qed
  qed
qed

section \<open>The service\<close>

lemma refusal_recovered [simp]: "refusal r \<Longrightarrow> refusal (recovered r)"
  by (simp add: recovered_def Let_def)

text \<open>
  What the browser protection asks of a request, in terms of the configured origins: it cannot change
  anything, or the browser says that it comes from the same origin or from no site, or a client that
  sends no \<^verbatim>\<open>Sec-Fetch-Site\<close> names no origin or one with the host of the request, or the origin is a
  configured one.
\<close>

definition vouched :: "(string \<Rightarrow> string) \<Rightarrow> url_parser \<Rightarrow> string list \<Rightarrow> http_request \<Rightarrow> bool" where
  "vouched low urlParse allowed req \<longleftrightarrow>
     (let site = header_Get req ''Sec-Fetch-Site''; origin = header_Get req ''Origin'' in
      req_Method req \<in> {''GET'', ''HEAD'', ''OPTIONS''} \<or>
      site = ''same-origin'' \<or> site = ''none'' \<or>
      site = [] \<and> (origin = [] \<or> (\<exists>u. urlParse origin = Some u \<and> url_Host u = req_Host req)) \<or>
      origin \<noteq> [] \<and> (\<exists>raw \<in> set allowed. normalizeOrigin low urlParse raw = Inr origin))"

lemma vouched_request:
  assumes "browser_New low urlParse config = Inr m" "allowed_request urlParse m req"
  shows "vouched low urlParse (bsc_AllowedOrigins config) req"
  using assms(2) browser_New_ok [OF assms(1)]
  by (auto simp: vouched_def allowed_request_def csrf_Check_def isRequestExempt_def Let_def split: if_splits option.splits)

text \<open>What the constructors of the service establish.\<close>

lemma api_New_parts:
  assumes "api_New A = Inr serve"
  obtains cookies origins m where
    "cookies = \<lparr>ckm_config = api_cookie_config A, ckm_clock = Clock (api_auth A)\<rparr>"
    "sound_cookie_config (api_cookie_config A)"
    "browser_New (api_ToLower A) (api_ParseURL A)
       \<lparr>bsc_AllowedOrigins = api_allowed_origins A, bsc_PreflightMaxAge = corsPreflightMaxAge\<rparr> = Inr m"
    "serve = recovery_Wrap (api_router A cookies origins m)"
  using assms by (auto simp: api_New_def cookie_NewManager_def run_iff code_checks)

lemma api_guarded:
  assumes "api_New A = Inr serve" "protected_path (path_segments (req_EscapedPath req))"
    and "serve req (w, new_response) = (w', r')"
  obtains (refused) "refusal r'" "w' = w \<or> (\<exists>token e. Authenticate (api_auth A) token w = (w', Inl e))"
  | (granted) cookies origins token w1 out r1 r2 where
      "vouched (api_ToLower A) (api_ParseURL A) (api_allowed_origins A) req"
      "readUniqueCookie req (ckc_AccessName (api_cookie_config A)) = Inr token"
      "Authenticate (api_auth A) token w = (w1, Inr out)" "ckm_config cookies = api_cookie_config A"
      "handler_of A cookies origins (path_segments (req_EscapedPath req))
         (req\<lparr>req_Identity := Some (identity_of out)\<rparr>) (w1, r1) = (w', r2)"
      "r' = recovered r2"
proof -
  from api_New_parts [OF assms(1)] obtain cookies origins m where
    cookies: "cookies = \<lparr>ckm_config = api_cookie_config A, ckm_clock = Clock (api_auth A)\<rparr>"
    and m: "browser_New (api_ToLower A) (api_ParseURL A)
       \<lparr>bsc_AllowedOrigins = api_allowed_origins A, bsc_PreflightMaxAge = corsPreflightMaxAge\<rparr> = Inr m"
    and serve: "serve = recovery_Wrap (api_router A cookies origins m)" by metis
  obtain q where q: "api_router A cookies origins m req (w, new_response) = (w', q)" and r': "r' = recovered q"
    using assms(3) by (auto simp: serve recovery_Wrap_def map_prod_def split: prod.splits)
  from router_guarded [OF assms(2) refusal_new, of A cookies m origins w]
  consider "refusal q" "w' = w \<or> (\<exists>token e. Authenticate (api_auth A) token w = (w', Inl e))"
    | token w1 out r1 where "allowed_request (api_ParseURL A) m req" "cookie_AccessToken cookies req = Inr token"
      "Authenticate (api_auth A) token w = (w1, Inr out)"
      "handler_of A cookies origins (path_segments (req_EscapedPath req))
         (req\<lparr>req_Identity := Some (identity_of out)\<rparr>) (w1, r1) = (w', q)"
    unfolding guarded_def q by auto
  then show thesis
  proof cases
    case 1
    with refused r' show thesis by simp
  next
    case 2
    from vouched_request [OF m 2(1)] granted [OF _ _ 2(3) _ 2(4) r'] 2(2) show thesis
      by (simp add: cookie_AccessToken_def cookies)
  qed
qed

section \<open>Signing in\<close>

lemma status_of_error [simp]:
  "rsp_Status r = None \<Longrightarrow> 100 \<le> status \<Longrightarrow> status \<le> 599 \<Longrightarrow> code \<noteq> [] \<Longrightarrow>
   rsp_Status (writePublicError status code r) = Some status"
  by (simp add: writePublicError_status)

lemma status_of_payload:
  "rsp_Status r = None \<Longrightarrow> rsp_Status (writePayload status payload r) \<in> {None, Some status}"
  "rsp_Status r = None \<Longrightarrow> 100 \<le> status \<Longrightarrow> status \<le> 599 \<Longrightarrow> marshals payload \<Longrightarrow>
   rsp_Status (writePayload status payload r) = Some status"
  by (auto simp: writePayload_def WriteJSON_def WriteHeader_def Let_def)

lemma not_ok_errors:
  "rsp_Status r = None \<Longrightarrow> rsp_Status (auth_handleJSONRequestError err r) \<noteq> Some 200"
  "rsp_Status r = None \<Longrightarrow> rsp_Status (signin_handleUseCaseError err r) \<noteq> Some 200"
  "rsp_Status r = None \<Longrightarrow> rsp_Status (methodNotAllowed allow r) \<noteq> Some 200"
  "rsp_Cookies (auth_handleJSONRequestError err r) = rsp_Cookies r"
  "rsp_Cookies (signin_handleUseCaseError err r) = rsp_Cookies r"
  "rsp_Cookies (methodNotAllowed allow r) = rsp_Cookies r"
  by (simp_all add: auth_handleJSONRequestError_def signin_handleUseCaseError_def methodNotAllowed_def)

text \<open>A sign-in answers 200 with the two cookies of the session it opened, or sets no cookie.\<close>

lemma SigninHandler_cases:
  assumes "SigninHandler decode M useCase req (w, r) = (w', r')" "rsp_Status r = None"
  obtains (refused) "rsp_Status r' \<noteq> Some 200" "rsp_Cookies r' = rsp_Cookies r"
  | (granted) body w1 out now a b where
      "decode req authJSONBodyLimit = Inr body" "useCase (crq_Email body) (crq_Password body) w = (w1, Inr out)"
      "ckm_clock M w1 = (w', now)" "\<not> blank (so_AccessToken out)" "\<not> blank (so_RefreshToken out)"
      "newCookie (ckm_config M) (ckc_AccessName (ckm_config M)) (so_AccessToken out) (so_AccessTokenExpiresAt out) now = Inr a"
      "newCookie (ckm_config M) (ckc_RefreshName (ckm_config M)) (so_RefreshToken out) (so_RefreshTokenExpiresAt out) now = Inr b"
      "rsp_Status r' = Some 200" "rsp_Cookies r' = rsp_Cookies r @ [a, b]"
proof (cases "req_Method req = ''POST''")
  case False
  with assms refused show thesis by (auto simp: SigninHandler_def not_ok_errors)
next
  case post: True
  show thesis
  proof (cases "decode req authJSONBodyLimit")
    case (Inl e)
    with assms post refused show thesis by (auto simp: SigninHandler_def not_ok_errors)
  next
    case body: (Inr body)
    obtain w1 x where run: "useCase (crq_Email body) (crq_Password body) w = (w1, x)" by fastforce
    show thesis
    proof (cases x)
      case (Inl e)
      with assms post body run refused show thesis
        by (auto simp: SigninHandler_def executing_def not_ok_errors split: if_splits)
    next
      case out: (Inr out)
      obtain w2 y where set: "SetTokens M (so_AccessToken out) (so_AccessTokenExpiresAt out) (so_RefreshToken out)
          (so_RefreshTokenExpiresAt out) r w1 = (w2, y)" by fastforce
      show thesis
      proof (cases y)
        case (Inl e)
        with assms post body run out set refused show thesis
          by (auto simp: SigninHandler_def executing_def split: if_splits)
      next
        case (Inr q)
        from SetTokens_ok [OF set [unfolded Inr]] obtain now a b where
          "ckm_clock M w1 = (w2, now)" "\<not> blank (so_AccessToken out)" "\<not> blank (so_RefreshToken out)"
          "newCookie (ckm_config M) (ckc_AccessName (ckm_config M)) (so_AccessToken out) (so_AccessTokenExpiresAt out) now = Inr a"
          "newCookie (ckm_config M) (ckc_RefreshName (ckm_config M)) (so_RefreshToken out) (so_RefreshTokenExpiresAt out) now = Inr b"
          and q: "q = header_Set ''Cache-Control'' ''no-store'' (SetCookie b (SetCookie a r))" by blast
        moreover have "w' = w2" "r' = writePayload 200 (signinResponse out) q"
          using assms(1) post body run out set Inr by (simp_all add: SigninHandler_def executing_def)
        moreover have "marshals (signinResponse out)" by (simp add: signinResponse_def)
        ultimately show thesis using granted [OF body run [unfolded out]] assms(2)
          by (simp add: status_of_payload)
      qed
    qed
  qed
qed

text \<open>The browser sends the two cookies back, among cookies of other names.\<close>

lemma tokens_return:
  assumes "newCookie config (ckc_AccessName config) access accessExpiresAt now = Inr a"
    and "newCookie config (ckc_RefreshName config) refresh refreshExpiresAt now = Inr b"
    and "\<not> blank access" "\<not> blank refresh" "ckc_AccessName config \<noteq> ckc_RefreshName config"
    and "req_Cookies req = others @ map (\<lambda>c. (cok_Name c, cok_Value c)) [a, b] @ others'"
    and "\<forall>c \<in> set (others @ others'). fst c \<noteq> ckc_AccessName config \<and> fst c \<noteq> ckc_RefreshName config"
  shows "readUniqueCookie req (ckc_AccessName config) = Inr access \<and> readUniqueCookie req (ckc_RefreshName config) = Inr refresh"
proof -
  have "filter (\<lambda>c. fst c = name) others = [] \<and> filter (\<lambda>c. fst c = name) others' = []"
    if "name = ckc_AccessName config \<or> name = ckc_RefreshName config" for name
    using that assms(7) by (auto simp: filter_empty_conv)
  then have "filter (\<lambda>c. fst c = ckc_AccessName config) others = []" "filter (\<lambda>c. fst c = ckc_AccessName config) others' = []"
    "filter (\<lambda>c. fst c = ckc_RefreshName config) others = []" "filter (\<lambda>c. fst c = ckc_RefreshName config) others' = []"
    by blast+
  then show ?thesis
    unfolding readUniqueCookie_ok assms(6) filter_append
    using newCookie_ok [OF assms(1)] newCookie_ok [OF assms(2)] assms(3,4,5) by simp
qed

section \<open>Posting a message\<close>

lemma CreateMessageHandler_cases:
  assumes "CreateMessageHandler decode limiter useCase req (w, r) = (w', r')" "rsp_Status r = None"
  obtains (refused) "rsp_Status r' \<notin> {Some 200, Some 201}" "w' = w \<or> (\<exists>user x. limiter user w = (w', x))"
  | (executed) identity chatID body w1 retryAfter x where
      "req_Method req = ''POST''" "req_Identity req = Some identity"
      "chatIDFromPath ''/messages'' (req_Path req) = Some chatID" "decode req createMessageJSONBodyLimit = Inr body"
      "limiter (idn_UserID identity) w = (w1, Inr retryAfter)" "retryAfter \<le> 0"
      "useCase \<lparr>cin_CurrentUserID = idn_UserID identity, cin_ChatID = chatID,
         cin_ClientMessageID = cmq_ClientMessageID body, cin_Content = cmq_Content body\<rparr> w1 = (w', x)"
      "rsp_Status r' \<notin> {Some 400, Some 405, Some 413, Some 415, Some 429}"
      "\<And>e. x = Inl e \<Longrightarrow> rsp_Status r' \<notin> {Some 200, Some 201}"
      "\<And>out. x = Inr out \<Longrightarrow> rsp_Status r' \<in> {None, Some (if cou_Created out then 201 else 200)}"
proof -
  have answers: "rsp_Status (message_handleUseCaseError err q) \<notin>
      {Some 200, Some 201, Some 400, Some 405, Some 413, Some 415, Some 429}"
    "rsp_Status (chats_handleJSONRequestError err q) \<notin> {Some 200, Some 201}"
    "rsp_Status (methodNotAllowed allow q) \<notin> {Some 200, Some 201}" if "rsp_Status q = None" for err q allow
    using that by (simp_all add: message_handleUseCaseError_def chats_handleJSONRequestError_def methodNotAllowed_def Let_def)
  show thesis
  proof (cases "chatIDFromPath ''/messages'' (req_Path req)")
    case None
    with assms refused show thesis by (auto simp: CreateMessageHandler_def)
  next
    case chat: (Some chatID)
    show thesis
    proof (cases "req_Method req = ''POST'' \<and> (\<exists>identity. req_Identity req = Some identity \<and> \<not> blank (idn_UserID identity))")
      case False
      with assms chat refused answers show thesis
        by (auto simp: CreateMessageHandler_def with_identity_def split: option.splits if_splits)
    next
      case True
      then obtain identity where post: "req_Method req = ''POST''" and identity: "req_Identity req = Some identity"
        and user: "\<not> blank (idn_UserID identity)" by blast
      obtain w1 reserved where limit: "limiter (idn_UserID identity) w = (w1, reserved)" by fastforce
      note start = assms(1) [unfolded CreateMessageHandler_def with_identity_def reserveSendAttempt_def chat identity]
      show thesis
      proof (cases "(\<exists>retryAfter. reserved = Inr retryAfter \<and> retryAfter \<le> 0) \<and> (\<exists>body. decode req createMessageJSONBodyLimit = Inr body)")
        case False
        with start post user limit assms(2) answers have "rsp_Status r' \<notin> {Some 200, Some 201} \<and> w' = w1"
          by (auto simp: executing_def split: sum.splits if_splits)
        with refused limit show thesis by blast
      next
        case True
        then obtain retryAfter body where ok: "reserved = Inr retryAfter" "retryAfter \<le> 0"
          "decode req createMessageJSONBodyLimit = Inr body" by blast
        let ?in = "\<lparr>cin_CurrentUserID = idn_UserID identity, cin_ChatID = chatID,
         cin_ClientMessageID = cmq_ClientMessageID body, cin_Content = cmq_Content body\<rparr>"
        obtain w2 x where run: "useCase ?in w1 = (w2, x)" by fastforce
        have "w' = w2" using start post user limit ok run
          by (auto simp: executing_def split: sum.splits if_splits)
        moreover have "rsp_Status r' \<notin> {Some 200, Some 201, Some 400, Some 405, Some 413, Some 415, Some 429}"
          if "x = Inl e" for e
          using start post user limit ok run that assms(2) answers(1) [of r e]
          by (auto simp: executing_def split: if_splits)
        moreover have "rsp_Status r' \<in> {None, Some (if cou_Created out then 201 else 200)}" if "x = Inr out" for out
        proof -
          have "r' = writePayload (if cou_Created out then 201 else 200) (mapCreateMessageResponse out) r"
            using start post user limit ok run that by (auto simp: executing_def)
          with status_of_payload(1) [OF assms(2)] show ?thesis by metis
        qed
        ultimately show thesis using executed [OF post identity chat ok(3) limit [unfolded ok(1)] ok(2), of x] run
          by (cases x) (auto split: if_splits)
      qed
    qed
  qed
qed

end
