(* ===== verification/Spec2Isabelle.thy ===== *)
theory Spec2Isabelle
  imports AuthProperties DomainChat DomainTimeline Images MessageHistory Messages OutboxWorker DeliverySafety
    MessageProperties DeliveryProperties ServiceProperties Argon2id HttpSafety
begin

text \<open>
  A verification library for the messaging service in this repository: accounts and sessions,
  direct chats, messages with images, their delivery in real time, and the HTTP and WebSocket
  interfaces.  All paths below are under \<^verbatim>\<open>internal/\<close>.

  \<^bold>\<open>How the code is modelled.\<close>
  A port of \<^verbatim>\<open>ports/\<close> is a record of calls \<open>'w \<Rightarrow> 'w \<times> (go_error + 'a)\<close> on a world; a use case is a
  definition over these records that follows the source statement by statement (\<open>orFail\<close>, \<open>attempt\<close>
  and \<open>reads\<close> are the \<^verbatim>\<open>if err != nil\<close> chains).  A Go error is a value of \<open>go_error\<close>; what
  \<^verbatim>\<open>errors.Is\<close> sees of it is \<open>errors_is\<close>.  Integers are \<open>int\<close> with the wrap-around written out where
  64 bits can overflow; strings are lists of bytes.  Code outside the repository (the MongoDB, NATS,
  JWT and S3 clients, SHA-256, Argon2, the parser of mail addresses, JSON) is an argument of the
  definitions, and what the program relies on is a locale; every locale is interpreted, in memory,
  so that the properties have witnesses that run.

  \<^bold>\<open>Ground.\<close>
  \<^item> \<open>Prelude\<close>: calls, their inversion (\<open>run_iff\<close>), their frames (\<open>frame\<close>) and checks (\<open>code_checks\<close>).
  \<^item> \<open>GoLib\<close>: errors, times, 64-bit integers, UTF-8, \<^verbatim>\<open>strings.TrimSpace\<close> and the case conversions.
  \<^item> \<open>Mongo\<close>, \<open>MongoMemory\<close>: the interface of a collection (atomic single-document operations with
    unique indexes, lost replies, decoding) and an in-memory collection that injects faults.

  \<^bold>\<open>Accounts and sessions\<close> (\<^verbatim>\<open>domain/user\<close>, \<^verbatim>\<open>domain/session\<close>, \<^verbatim>\<open>application/auth\<close>,
  \<^verbatim>\<open>resources/security\<close>, \<^verbatim>\<open>resources/identifier\<close>).
  \<^item> \<open>DomainUser\<close>, \<open>DomainSession\<close>: the value objects and the session with its checks and mutations.
  \<^item> \<open>SessionStore\<close>, \<open>UserStore\<close>: the repositories, with the contract of their ports and the steps
    that any client can make on the stored sessions (\<open>session_steps\<close>).
  \<^item> \<open>Security\<close>, \<open>Jwt\<close>, \<open>JwtMemory\<close>, \<open>Argon2id\<close>: token digests, identifiers, signing and
    verifying, the encoding of password hashes.
  \<^item> \<open>Authentication\<close>: the use cases; \<open>AuthSafety\<close> proves that each is a sequence of session steps and
    what its success means; \<open>AuthWorld\<close> is a world in which all of it runs; \<open>AuthProperties\<close> states it.

  \<^bold>\<open>Messages\<close> (\<^verbatim>\<open>domain/chat\<close>, \<^verbatim>\<open>domain/timeline\<close>, \<^verbatim>\<open>domain/image\<close>, \<^verbatim>\<open>application/messages\<close>,
  \<^verbatim>\<open>application/images\<close> and the repositories of \<^verbatim>\<open>resources/mongodb\<close>).
  \<^item> \<open>DomainChat\<close>, \<open>DomainTimeline\<close>, \<open>TimelineDocs\<close>: entities and documents.
  \<^item> \<open>ChatStore\<close>, \<open>ImageStore\<close>, \<open>OutboxStore\<close>: repositories with their state machines
    (\<open>image_step\<close>, \<open>outbox_step\<close>) and contracts.
  \<^item> \<open>MessageStore\<close>, \<open>MessageSafety\<close>: the transaction that posts a message with its outbox event;
    \<open>MessageHistory\<close>: the invariant \<open>store_ok\<close> of every history of the stored data.
  \<^item> \<open>Messages\<close>, \<open>Images\<close>: the use cases; \<open>MessageWorld\<close> and \<open>MessageProperties\<close> run and state them.

  \<^bold>\<open>Delivery\<close> (\<^verbatim>\<open>application/outbox\<close>, \<^verbatim>\<open>application/delivery\<close>, \<^verbatim>\<open>drivers/worker\<close>, \<^verbatim>\<open>resources/nats\<close>).
  \<^item> \<open>OutboxWorker\<close>: leasing, publishing and retrying events; \<open>Delivery\<close>, \<open>DeliveryRunner\<close>: the
    publisher, the dispatcher and the consumer of the stream; \<open>DeliverySafety\<close>, \<open>DeliveryWorld\<close> and
    \<open>DeliveryProperties\<close> prove, run and state what they guarantee.

  \<^bold>\<open>Reading\<close> (\<^verbatim>\<open>application/chats\<close>, \<^verbatim>\<open>application/users\<close>, \<^verbatim>\<open>application/timeline\<close>,
  \<^verbatim>\<open>resources/mongodb/timeline_repository\<close>).
  \<^item> \<open>TimelineStore\<close>: listing by time and by sequence, and the audit before the start of the service;
    \<open>TimelineSync\<close>: a page by sequence is an interval of the numbering, the audit establishes it.
  \<^item> \<open>Conversations\<close>: opening a chat and the three listings; \<open>TimelineWorld\<close>: their interpretation.

  \<^bold>\<open>Limits and live connections\<close> (\<^verbatim>\<open>resources/mongodb/message_rate_limiter\<close>, \<^verbatim>\<open>drivers/websocket\<close>).
  \<^item> \<open>RateLimiter\<close>: the pipeline stage by stage, against a log of accepted messages.
  \<^item> \<open>Hub\<close>: the gateway as atomic steps on stores of connections and user states (\<open>gateway_step\<close>);
    \<open>HubSafety\<close>: its registers and queues; \<open>HubSubscriptions\<close>: its subscriptions and wait group, and the
    invariant of every reachable gateway; \<open>HubDelivery\<close>: broadcasts and the shutdown.
  \<^item> \<open>ServiceProperties\<close> states the properties of these parts.

  \<^bold>\<open>Over HTTP\<close> (\<^verbatim>\<open>drivers/http\<close>, \<^verbatim>\<open>drivers/websocket/handler.go\<close>, \<^verbatim>\<open>resources/config\<close> and
  \<^verbatim>\<open>cmd/api\<close>).
  \<^item> \<open>GoText\<close>, \<open>Http\<close>: the string functions and base64 of the standard library, requests, responses and
    the JSON values that are written and decoded, and the recovery of panics.
  \<^item> \<open>AuthCookie\<close>, \<open>HttpAuth\<close>, \<open>BrowserSecurity\<close>: the cookies of a session, the authentication
    middleware with the account handlers, and the CORS and CSRF decisions.
  \<^item> \<open>HttpChats\<close>, \<open>HttpListing\<close>, \<open>HttpImages\<close>, \<open>RealtimeHandler\<close>: the other handlers and the handshake of
    the gateway.
  \<^item> \<open>ServeMux\<close>, \<open>Router\<close>: the patterns of the router and its routes; \<open>Config\<close>: the environment;
    \<open>ApiService\<close>: the service put together as in \<^verbatim>\<open>run\<close>; \<open>HttpSafety\<close>: what guards its routes.

  \<^bold>\<open>Bounds and fuel.\<close>
  The loops of the outbox runner, of the delivery consumer and of the image clean-up run until their
  context ends; they are recursions on a fuel, one unit per round, and what is proved of them holds
  for every fuel.  \<open>TrimSpace\<close> and the UTF-8 decoder terminate by the length of their input.  Retries are
  bounded by the source itself.

  \<^bold>\<open>Not modelled.\<close>
  The nil checks of constructors (a nil dependency cannot be expressed), logging and metrics, the
  cancellation and timeouts of contexts beyond the answer of \<^verbatim>\<open>ctx.Err\<close>, closing cursors and ending
  driver sessions, and indexes that are not unique.  Goroutines, timers and the reads and pings of
  sockets appear only as the steps they cause.  The life cycle of the HTTP server, the clients of
  MongoDB, NATS and the object storage, and the parts of \<^verbatim>\<open>cmd/\<close> that only connect and start things are
  not part of the model; the load generator in \<^verbatim>\<open>scripts/\<close> is a test tool.
\<close>

end
